(* ===== verification/Prelude.thy ===== *)
theory Prelude
  imports Main "HOL-Library.Sublist" "HOL-Library.Char_ord" "HOL-Library.List_Lexorder"
    "HOL-Library.Option_ord" "HOL-Library.Product_Lexorder"
begin

text \<open>
  What every component theory shares: the Python exceptions the program raises, the reading of
  SQL \<open>UPDATE ... WHERE\<close>, \<open>SELECT\<close> and unique indexes on lists of rows, the string
  operations of the standard library the program calls, and the lemma collections of the
  development. A Python \<open>str\<close> is a HOL \<open>string\<close> whose characters are code points below
  256; a \<open>datetime\<close> is an integer number of microseconds.
\<close>

section \<open>Lemma collections\<close>

named_theorems op_defs
  \<open>definitions of the operations of the control plane\<close>
named_theorems row_simps
  \<open>what an operation leaves of a row: keys, counters, status\<close>

section \<open>Exceptions\<close>

datatype exn =
    ValueError string
  | TypeError string
  | RuntimeError string
  | LostLeaseError string
  | QueueFullError string
  | ApprovalConflict string
  | StructuredOutputError string
  | IntegrityError string
  | TimeoutError string
  | ConnectionError string
  | PermissionError string
  | FileNotFoundError string
  | HTTPException int string
  | HTTPStatusError int string
  | HttpxTimeoutException string
  | HttpxNetworkError string
  | OtherError string

text \<open>\<open>str(exc)\<close>, as the program stores it in an error column.\<close>

fun message :: "exn \<Rightarrow> string" where
  "message (ValueError m) = m"
| "message (TypeError m) = m"
| "message (RuntimeError m) = m"
| "message (LostLeaseError m) = m"
| "message (QueueFullError m) = m"
| "message (ApprovalConflict m) = m"
| "message (StructuredOutputError m) = m"
| "message (IntegrityError m) = m"
| "message (TimeoutError m) = m"
| "message (ConnectionError m) = m"
| "message (PermissionError m) = m"
| "message (FileNotFoundError m) = m"
| "message (HTTPException c m) = m"
| "message (HTTPStatusError c m) = m"
| "message (HttpxTimeoutException m) = m"
| "message (HttpxNetworkError m) = m"
| "message (OtherError m) = m"

fun is_ValueError :: "exn \<Rightarrow> bool" where
  "is_ValueError (ValueError m) = True"
| "is_ValueError _ = False"

fun is_TypeError :: "exn \<Rightarrow> bool" where
  "is_TypeError (TypeError m) = True"
| "is_TypeError _ = False"

section \<open>Time\<close>

type_synonym time = int

definition seconds :: "int \<Rightarrow> time" where
  "seconds n = n * 1000000"

lemma seconds_pos [simp]: "0 < seconds n \<longleftrightarrow> 0 < n"
  by (simp add: seconds_def)

section \<open>Rows of a table\<close>

text \<open>
  A table is the list of its rows in insertion order. \<open>UPDATE t SET ... WHERE p\<close> maps the
  matching rows and reports their number; \<open>SELECT ... WHERE p\<close> with \<open>scalar_one_or_none\<close> is
  the first match.
\<close>

definition sql_update :: "('r \<Rightarrow> bool) \<Rightarrow> ('r \<Rightarrow> 'r) \<Rightarrow> 'r list \<Rightarrow> 'r list" where
  "sql_update p f rows = map (\<lambda>r. if p r then f r else r) rows"

definition rowcount :: "('r \<Rightarrow> bool) \<Rightarrow> 'r list \<Rightarrow> nat" where
  "rowcount p rows = length (filter p rows)"

definition sql_first :: "('r \<Rightarrow> bool) \<Rightarrow> 'r list \<Rightarrow> 'r option" where
  "sql_first p rows = find p rows"

text \<open>An insertion checked against a unique index on \<open>key\<close>.\<close>

definition unique_violation :: "('r \<Rightarrow> 'k) \<Rightarrow> 'r \<Rightarrow> 'r list \<Rightarrow> bool" where
  "unique_violation key r rows \<longleftrightarrow> key r \<in> set (map key rows)"

text \<open>SQL comparisons with a nullable column: \<open>NULL\<close> never satisfies them.\<close>

fun col_le :: "time option \<Rightarrow> time \<Rightarrow> bool" where
  "col_le None t = False"
| "col_le (Some c) t = (c \<le> t)"

fun col_gt :: "time option \<Rightarrow> time \<Rightarrow> bool" where
  "col_gt None t = False"
| "col_gt (Some c) t = (t < c)"

lemma col_gt_not_le: "col_gt c t \<Longrightarrow> \<not> col_le c t"
  by (cases c) auto

lemma length_sql_update [simp]: "length (sql_update p f rows) = length rows"
  by (simp add: sql_update_def)

lemma rowcount_zero [simp]: "rowcount p rows = 0 \<longleftrightarrow> (\<forall>r \<in> set rows. \<not> p r)"
  by (simp add: rowcount_def filter_empty_conv)

lemma sql_update_none: "(\<And>r. r \<in> set rows \<Longrightarrow> \<not> p r) \<Longrightarrow> sql_update p f rows = rows"
  by (induction rows) (auto simp: sql_update_def)

lemma in_sql_update:
  "x \<in> set (sql_update p f rows) \<longleftrightarrow> (\<exists>r \<in> set rows. x = (if p r then f r else r))"
  by (auto simp: sql_update_def)

lemma sql_first_Some: "sql_first p rows = Some r \<Longrightarrow> r \<in> set rows \<and> p r"
  by (auto simp: sql_first_def find_Some_iff)

lemma sql_first_None: "sql_first p rows = None \<longleftrightarrow> (\<forall>r \<in> set rows. \<not> p r)"
  by (auto simp: sql_first_def find_None_iff)

lemma sql_first_append: "sql_first p (xs @ ys) = (case sql_first p xs of None \<Rightarrow> sql_first p ys | Some x \<Rightarrow> Some x)"
  by (induction xs) (auto simp: sql_first_def)

text \<open>With a unique key, at most one row matches a condition that fixes the key.\<close>

lemma distinct_key_eq:
  "distinct (map key rows) \<Longrightarrow> r \<in> set rows \<Longrightarrow> r' \<in> set rows \<Longrightarrow> key r = key r' \<Longrightarrow> r = r'"
  by (auto simp: distinct_map inj_on_def)

lemma sql_first_unique:
  assumes "distinct (map key rows)" and "r \<in> set rows" and "p r"
    and "\<And>x. x \<in> set rows \<Longrightarrow> p x \<Longrightarrow> key x = key r"
  shows "sql_first p rows = Some r"
proof -
  from assms(2,3) have "sql_first p rows \<noteq> None" by (auto simp: sql_first_None)
  then obtain x where x: "sql_first p rows = Some x" by blast
  then have "x \<in> set rows" "p x" by (auto dest: sql_first_Some)
  with assms have "x = r" by (metis distinct_key_eq)
  with x show ?thesis by simp
qed

lemma rowcount_unique:
  assumes "distinct (map key rows)"
    and "\<And>x y. x \<in> set rows \<Longrightarrow> y \<in> set rows \<Longrightarrow> p x \<Longrightarrow> p y \<Longrightarrow> key x = key y"
  shows "rowcount p rows \<le> 1"
proof (cases "filter p rows")
  case Nil
  then show ?thesis by (simp add: rowcount_def)
next
  case (Cons x xs)
  have d: "distinct (map key (x # xs))"
    using assms(1) by (simp add: Cons [symmetric] distinct_map_filter)
  have "xs = []"
  proof (rule ccontr)
    assume "xs \<noteq> []"
    then obtain y ys where ys: "xs = y # ys" by (cases xs) auto
    then have "{x, y} \<subseteq> set (filter p rows)" by (simp add: Cons)
    then have "key x = key y" using assms(2) by auto
    with d ys show False by simp
  qed
  then show ?thesis by (simp add: rowcount_def Cons)
qed

lemma rowcount_key:
  assumes "distinct (map key rows)" and "\<And>x. x \<in> set rows \<Longrightarrow> p x \<Longrightarrow> key x = k"
  shows "rowcount p rows = (case sql_first (\<lambda>x. key x = k) rows of
      None \<Rightarrow> 0 | Some r \<Rightarrow> if p r then 1 else 0)"
proof -
  have le: "rowcount p rows \<le> 1"
    using assms by (intro rowcount_unique [where key = key]) auto
  have *: "rowcount p rows = 0 \<longleftrightarrow> \<not> (\<exists>r. sql_first (\<lambda>x. key x = k) rows = Some r \<and> p r)"
  proof -
    have "(\<exists>r \<in> set rows. p r) \<longleftrightarrow> (\<exists>r. sql_first (\<lambda>x. key x = k) rows = Some r \<and> p r)"
      using assms sql_first_unique [OF assms(1), where p = "\<lambda>x. key x = k"]
      by (auto dest: sql_first_Some)
    then show ?thesis unfolding rowcount_zero by blast
  qed
  show ?thesis
  proof (cases "rowcount p rows = 0")
    case True
    then show ?thesis using * by (auto simp del: rowcount_zero split: option.splits)
  next
    case False
    moreover from False le have "rowcount p rows = 1" by linarith
    ultimately show ?thesis using * by (auto simp del: rowcount_zero split: option.splits)
  qed
qed

section \<open>An update that keeps the key of its rows\<close>

text \<open>
  The contract between a table and every statement of the program that updates it: the statement
  may write any column but the key. What the clients of a table need follows from it once.
\<close>

locale keyed_update =
  fixes key :: "'r \<Rightarrow> 'k"
    and upd :: "'r \<Rightarrow> 'r"
  assumes key_kept: "key (upd r) = key r"
begin

lemma keys_kept: "map key (sql_update p upd rows) = map key rows"
  by (simp add: sql_update_def key_kept)

lemma distinct_kept: "distinct (map key rows) \<Longrightarrow> distinct (map key (sql_update p upd rows))"
  by (simp only: keys_kept)

lemma lookup_after:
  "sql_first (\<lambda>r. key r = k) (sql_update p upd rows) =
     map_option (\<lambda>r. if p r then upd r else r) (sql_first (\<lambda>r. key r = k) rows)"
  by (induction rows) (auto simp: sql_update_def sql_first_def key_kept)

lemma other_key_unchanged:
  assumes "\<And>r. r \<in> set rows \<Longrightarrow> p r \<Longrightarrow> key r \<noteq> k"
  shows "sql_first (\<lambda>r. key r = k) (sql_update p upd rows) = sql_first (\<lambda>r. key r = k) rows"
  using assms by (induction rows) (auto simp: sql_update_def sql_first_def key_kept)

end

section \<open>Strings\<close>

definition lower_char :: "char \<Rightarrow> char" where
  "lower_char c = (let n = of_char c :: nat in
     if 65 \<le> n \<and> n \<le> 90 \<or> 192 \<le> n \<and> n \<le> 222 \<and> n \<noteq> 215 then char_of (n + 32) else c)"

definition py_lower :: "string \<Rightarrow> string" where
  "py_lower s = map lower_char s"

text \<open>\<open>s.split(c)\<close> for a single character: always at least one part.\<close>

fun py_split :: "char \<Rightarrow> string \<Rightarrow> string list" where
  "py_split c [] = [[]]"
| "py_split c (x # xs) =
     (if x = c then [] # py_split c xs
      else (case py_split c xs of [] \<Rightarrow> [[x]] | p # ps \<Rightarrow> (x # p) # ps))"

definition replace_char :: "char \<Rightarrow> char \<Rightarrow> string \<Rightarrow> string" where
  "replace_char a b s = map (\<lambda>c. if c = a then b else c) s"

lemma py_split_nonempty [simp]: "py_split c s \<noteq> []"
  by (induction s) (auto split: list.splits)

text \<open>Python's \<open>x or y\<close> on optional strings: the empty string is false.\<close>

fun str_or :: "string option \<Rightarrow> string option \<Rightarrow> string option" where
  "str_or (Some (c # cs)) y = Some (c # cs)"
| "str_or _ y = y"

end
