(* ===== verification/PyJson.thy ===== *)
theory PyJson
  imports Prelude
begin

text \<open>
  The JSON values the program moves around: tool payloads and outputs, the \<open>JSON\<close> columns, the
  \<open>result\<close> dictionary of a run. A Python \<open>dict\<close> is an association list in insertion order
  without repeated keys. A float is carried by the digits of its \<open>repr\<close>: \<open>JFloat m k\<close> is
  \<open>m / 10 ^ k\<close>; floats whose \<open>repr\<close> uses an exponent, \<open>nan\<close> and \<open>inf\<close> have no
  representation. \<open>json.dumps\<close> is written out, because lengths of its result are compared with
  limits.
\<close>

datatype json =
    JNull
  | JBool bool
  | JInt int
  | JFloat int nat
  | JStr string
  | JList "json list"
  | JObj "(string \<times> json) list"

section \<open>Truth and type tests\<close>

fun truthy :: "json \<Rightarrow> bool" where
  "truthy JNull = False"
| "truthy (JBool b) = b"
| "truthy (JInt i) = (i \<noteq> 0)"
| "truthy (JFloat m k) = (m \<noteq> 0)"
| "truthy (JStr s) = (s \<noteq> [])"
| "truthy (JList xs) = (xs \<noteq> [])"
| "truthy (JObj kvs) = (kvs \<noteq> [])"

fun is_dict :: "json \<Rightarrow> bool" where
  "is_dict (JObj _) = True"
| "is_dict _ = False"

fun dict_items :: "json \<Rightarrow> (string \<times> json) list" where
  "dict_items (JObj kvs) = kvs"
| "dict_items _ = []"

section \<open>Dictionaries\<close>

text \<open>\<open>d.get(k)\<close> is \<open>map_of d k\<close>. \<open>d[k] = v\<close> keeps the position of a present key.\<close>

fun dict_set :: "string \<Rightarrow> 'v \<Rightarrow> (string \<times> 'v) list \<Rightarrow> (string \<times> 'v) list" where
  "dict_set k v [] = [(k, v)]"
| "dict_set k v ((k', v') # kvs) = (if k' = k then (k', v) # kvs else (k', v') # dict_set k v kvs)"

text \<open>\<open>{**a, **b}\<close>: the entries of \<open>b\<close> set one after the other on top of \<open>a\<close>.\<close>

fun dict_merge :: "(string \<times> 'v) list \<Rightarrow> (string \<times> 'v) list \<Rightarrow> (string \<times> 'v) list" where
  "dict_merge a [] = a"
| "dict_merge a ((k, v) # b) = dict_merge (dict_set k v a) b"

definition get_truthy :: "string \<Rightarrow> (string \<times> json) list \<Rightarrow> bool" where
  "get_truthy k d = (case map_of d k of None \<Rightarrow> False | Some v \<Rightarrow> truthy v)"

lemma map_of_dict_set [simp]: "map_of (dict_set k v d) = (map_of d)(k \<mapsto> v)"
  by (induction d) (auto simp: fun_eq_iff)

lemma dict_set_keys: "fst ` set (dict_set k v d) = insert k (fst ` set d)"
proof (induction k v d rule: dict_set.induct)
  case (2 k v k' v' kvs)
  then show ?case by (cases "k' = k") (simp_all add: insert_commute)
qed simp

lemma map_of_dict_merge: "map_of (dict_merge a b) k =
    (case map_of (rev b) k of None \<Rightarrow> map_of a k | Some v \<Rightarrow> Some v)"
proof (induction b arbitrary: a)
  case Nil
  then show ?case by simp
next
  case (Cons kv b)
  then show ?case by (cases kv) (auto split: option.splits simp: map_of_append map_add_def)
qed

lemma distinct_dict_set: "distinct (map fst d) \<Longrightarrow> distinct (map fst (dict_set k v d))"
proof (induction d)
  case Nil
  then show ?case by simp
next
  case (Cons kv d)
  obtain k' v' where kv: "kv = (k', v')" by (cases kv)
  have "set (map fst (dict_set k v d)) = insert k (set (map fst d))"
    using dict_set_keys [of k v d] by simp
  with Cons show ?case by (auto simp: kv)
qed

section \<open>json.dumps\<close>

definition hex_digit :: "nat \<Rightarrow> char" where
  "hex_digit n = ''0123456789abcdef'' ! n"

text \<open>\<open>ensure_ascii\<close>: everything outside printable ASCII is escaped.\<close>

definition escape_char :: "char \<Rightarrow> string" where
  "escape_char c = (let n = of_char c :: nat in
     if n = 34 then [char_of (92::nat), char_of (34::nat)]
     else if n = 92 then [char_of (92::nat), char_of (92::nat)]
     else if n = 10 then [char_of (92::nat), CHR ''n'']
     else if n = 13 then [char_of (92::nat), CHR ''r'']
     else if n = 9 then [char_of (92::nat), CHR ''t'']
     else if n = 12 then [char_of (92::nat), CHR ''f'']
     else if n = 8 then [char_of (92::nat), CHR ''b'']
     else if 32 \<le> n \<and> n \<le> 126 then [c]
     else [char_of (92::nat)] @ ''u00'' @ [hex_digit (n div 16), hex_digit (n mod 16)])"

definition dumps_str :: "string \<Rightarrow> string" where
  "dumps_str s = [char_of (34::nat)] @ concat (map escape_char s) @ [char_of (34::nat)]"

fun show_nat :: "nat \<Rightarrow> string" where
  "show_nat n = (if n < 10 then [char_of (48 + n)] else show_nat (n div 10) @ [char_of (48 + n mod 10)])"

declare show_nat.simps [simp del]

definition show_int :: "int \<Rightarrow> string" where
  "show_int i = (if i < 0 then ''-'' @ show_nat (nat (- i)) else show_nat (nat i))"

definition pad_zeros :: "nat \<Rightarrow> string \<Rightarrow> string" where
  "pad_zeros n s = replicate (n - length s) (CHR ''0'') @ s"

definition show_float :: "int \<Rightarrow> nat \<Rightarrow> string" where
  "show_float m k =
     (let a = nat \<bar>m\<bar>; w = show_nat (a div 10 ^ k); f = show_nat (a mod 10 ^ k)
      in (if m < 0 then ''-'' else []) @ w @ ''.'' @ (if k = 0 then ''0'' else pad_zeros k f))"

fun join :: "string \<Rightarrow> string list \<Rightarrow> string" where
  "join sep [] = []"
| "join sep [x] = x"
| "join sep (x # y # ys) = x @ sep @ join sep (y # ys)"

fun dumps :: "json \<Rightarrow> string" where
  "dumps JNull = ''null''"
| "dumps (JBool b) = (if b then ''true'' else ''false'')"
| "dumps (JInt i) = show_int i"
| "dumps (JFloat m k) = show_float m k"
| "dumps (JStr s) = dumps_str s"
| "dumps (JList xs) = ''['' @ join '', '' (map dumps xs) @ '']''"
| "dumps (JObj kvs) =
     ''{'' @ join '', '' (map (\<lambda>kv. dumps_str (fst kv) @ '': '' @ dumps (snd kv)) kvs) @ ''}''"

text \<open>\<open>sort_keys=True\<close>: every dictionary in the order of its keys.\<close>

fun sort_keys :: "json \<Rightarrow> json" where
  "sort_keys (JList xs) = JList (map sort_keys xs)"
| "sort_keys (JObj kvs) =
     JObj (sort_key fst (map (\<lambda>kv. (fst kv, sort_keys (snd kv))) kvs))"
| "sort_keys v = v"

definition dumps_sorted :: "json \<Rightarrow> string" where
  "dumps_sorted v = dumps (sort_keys v)"

section \<open>Lengths of dumps\<close>

definition printable :: "char \<Rightarrow> bool" where
  "printable c \<longleftrightarrow> (let n = of_char c :: nat in 32 \<le> n \<and> n \<le> 126)"

lemma length_escape_printable: "printable c \<Longrightarrow> length (escape_char c) \<le> 2"
  by (auto simp: escape_char_def printable_def Let_def)

lemma length_concat_le:
  assumes "\<And>x. x \<in> set xs \<Longrightarrow> length (f x) \<le> b"
  shows "length (concat (map f xs)) \<le> b * length xs"
  using assms by (induction xs) (fastforce simp: algebra_simps)+

lemma length_dumps_str_printable:
  "list_all printable s \<Longrightarrow> length (dumps_str s) \<le> 2 * length s + 2"
  using length_concat_le [of s escape_char 2]
  by (auto simp: dumps_str_def list_all_iff length_escape_printable)

end
