(* ===== verification/GitHubMock.thy ===== *)
theory GitHubMock
  imports PyJson
begin

text \<open>
  \<open>github/integration.py\<close>: the integration object and its synchronous path, which every run
  takes while the real API is not enabled. The dictionary \<open>_results_by_key\<close> is an association
  list; the call is keyed by the caller's idempotency key.
\<close>

record PullRequestResult =
  pr_ok :: bool
  pr_mode :: string
  pr_url :: string
  pr_number :: "int option"
  pr_branch :: string
  pr_error :: "string option"
  pr_details :: "(string \<times> json) list"

text \<open>The keyword arguments of \<open>acreate_pull_request\<close> but for \<open>authorize\<close>.\<close>

record pr_request =
  rq_run_id :: string
  rq_title :: string
  rq_body :: string
  rq_patch_diff :: string
  rq_base_commit_sha :: string
  rq_idempotency_key :: string

record GitHubIntegration =
  gi_token :: string
  gi_repo :: string
  gi_requested_enabled :: bool
  gi_enabled :: bool
  gi_created :: "PullRequestResult list"
  gi_creation_call_count :: nat
  gi_results_by_key :: "(string \<times> PullRequestResult) list"

definition new_integration :: "string \<Rightarrow> string \<Rightarrow> bool \<Rightarrow> GitHubIntegration" where
  "new_integration token repo enabled = \<lparr>gi_token = token, gi_repo = repo,
     gi_requested_enabled = enabled,
     gi_enabled = (enabled \<and> token \<noteq> [] \<and> repo \<noteq> []),
     gi_created = [], gi_creation_call_count = 0, gi_results_by_key = []\<rparr>"

definition mock_result :: "pr_request \<Rightarrow> GitHubIntegration \<Rightarrow> PullRequestResult" where
  "mock_result rq g = \<lparr>pr_ok = True, pr_mode = ''mock'',
     pr_url = ''https://example.invalid/mock-repo/pull/'' @ show_nat (length (gi_created g) + 1),
     pr_number = Some (int (length (gi_created g)) + 1),
     pr_branch = ''incidentpilot/'' @ rq_run_id rq, pr_error = None,
     pr_details = [(''note'', JStr ''dry-run; no external GitHub mutation''),
                   (''base_commit_sha'', JStr (rq_base_commit_sha rq))]\<rparr>"

definition refused_result :: PullRequestResult where
  "refused_result = \<lparr>pr_ok = False, pr_mode = ''real'', pr_url = [], pr_number = None, pr_branch = [],
     pr_error = Some ''enabled GitHub integration requires token and repo'', pr_details = []\<rparr>"

text \<open>
  \<open>create_pull_request\<close> of an integration that is not enabled; \<open>acreate_pull_request\<close> calls it
  first thing in that case.
\<close>

definition create_pull_request ::
  "pr_request \<Rightarrow> GitHubIntegration \<Rightarrow> GitHubIntegration \<times> PullRequestResult" where
  "create_pull_request rq g =
     (case map_of (gi_results_by_key g) (rq_idempotency_key rq) of
        Some r \<Rightarrow> (g, r)
      | None \<Rightarrow>
          if gi_requested_enabled g then (g, refused_result)
          else
            let r = mock_result rq g;
                g' = g\<lparr>gi_created := gi_created g @ [r],
                       gi_creation_call_count := gi_creation_call_count g + 1\<rparr>
            in (if rq_idempotency_key rq \<noteq> []
                then g'\<lparr>gi_results_by_key := dict_set (rq_idempotency_key rq) r (gi_results_by_key g)\<rparr>
                else g', r))"

section \<open>Providers of pull requests\<close>

text \<open>
  What the resume of an approved run asks of its GitHub client: \<open>known g k\<close> is the result stored
  under the key \<open>k\<close>, \<open>made g\<close> the number of pull requests made. A known key is answered from
  the store; an unknown one makes at most one pull request, and a successful one is stored.
\<close>

locale pr_provider =
  fixes create :: "pr_request \<Rightarrow> 'a \<Rightarrow> 'g \<Rightarrow> 'g \<times> PullRequestResult"
    and known :: "'g \<Rightarrow> string \<Rightarrow> PullRequestResult option"
    and made :: "'g \<Rightarrow> nat"
  assumes create_known:
      "known g (rq_idempotency_key rq) = Some r \<Longrightarrow> create rq auth g = (g, r)"
    and create_ok:
      "known g (rq_idempotency_key rq) = None \<Longrightarrow> rq_idempotency_key rq \<noteq> [] \<Longrightarrow>
       create rq auth g = (g', r) \<Longrightarrow> pr_ok r \<Longrightarrow>
       made g' = made g + 1 \<and> known g' = (known g)(rq_idempotency_key rq \<mapsto> r)"
    and create_not_ok:
      "known g (rq_idempotency_key rq) = None \<Longrightarrow> create rq auth g = (g', r) \<Longrightarrow> \<not> pr_ok r \<Longrightarrow>
       g' = g"
begin

lemma create_at_most_one:
  assumes "create rq auth g = (g', r)" and "rq_idempotency_key rq = k" and "k \<noteq> []"
  shows "g' = g \<or> made g' = made g + 1 \<and> known g k = None \<and> known g' k = Some r"
  using assms create_known [of g rq _ auth] create_ok [of g rq auth g' r]
    create_not_ok [of g rq auth g' r]
  by (cases "known g k"; cases "pr_ok r") auto

text \<open>Calls one after the other under one key make at most one pull request.\<close>

fun calls :: "(pr_request \<times> 'a) list \<Rightarrow> 'g \<Rightarrow> 'g" where
  "calls [] g = g"
| "calls (x # xs) g = calls xs (fst (create (fst x) (snd x) g))"

lemma calls_known:
  assumes "known g k = Some r" and "\<And>x. x \<in> set xs \<Longrightarrow> rq_idempotency_key (fst x) = k"
  shows "calls xs g = g"
  using assms by (induction xs) (auto simp: create_known)

lemma calls_at_most_one:
  assumes "\<And>x. x \<in> set xs \<Longrightarrow> rq_idempotency_key (fst x) = k" and "k \<noteq> []"
  shows "made (calls xs g) \<le> made g + 1"
  using assms
proof (induction xs arbitrary: g)
  case Nil
  then show ?case by simp
next
  case (Cons x xs)
  obtain g' r where c: "create (fst x) (snd x) g = (g', r)" by fastforce
  then have "g' = g \<or> made g' = made g + 1 \<and> known g' k = Some r"
    using create_at_most_one [OF c] Cons.prems by auto
  then show ?case
    using Cons c calls_known [of g' k r xs] by auto
qed

end

definition mock_create ::
  "pr_request \<Rightarrow> 'a \<Rightarrow> GitHubIntegration \<Rightarrow> GitHubIntegration \<times> PullRequestResult" where
  "mock_create rq auth g = create_pull_request rq g"

interpretation mock_provider: pr_provider mock_create
  "\<lambda>g k. map_of (gi_results_by_key g) k" gi_creation_call_count
  by unfold_locales
    (auto simp: mock_create_def create_pull_request_def Let_def mock_result_def refused_result_def
      split: if_splits option.splits)

end
