(* ===== verification/ToolData.thy ===== *)
theory ToolData
  imports PyJson
begin

text \<open>
  \<open>tools/data.py\<close>: redaction of credentials and the bounded envelope around untrusted data. The two
  regular expressions are matched by hand: \<open>SECRET_FIELD\<close> is a search for one of nine words in
  the lower-cased key; \<open>INLINE_SECRET\<close> has three alternatives whose character classes leave no
  room for backtracking, so each is a run of \<open>takeWhile\<close>s. Python's \<open>str\<close> is Latin-1 here, and so
  are the classes \<open>\\s\<close> and \<open>\\w\<close>.
\<close>

section \<open>Character classes\<close>

definition is_space :: "char \<Rightarrow> bool" where
  "is_space c = (let n = of_char c :: nat in
     9 \<le> n \<and> n \<le> 13 \<or> 28 \<le> n \<and> n \<le> 32 \<or> n = 133 \<or> n = 160)"

text \<open>\<open>str.strip\<close>.\<close>

definition py_strip :: "string \<Rightarrow> string" where
  "py_strip s = rev (dropWhile is_space (rev (dropWhile is_space s)))"

definition is_letter :: "char \<Rightarrow> bool" where
  "is_letter c = (let n = of_char c :: nat in 65 \<le> n \<and> n \<le> 90 \<or> 97 \<le> n \<and> n \<le> 122)"

definition is_digit :: "char \<Rightarrow> bool" where
  "is_digit c = (let n = of_char c :: nat in 48 \<le> n \<and> n \<le> 57)"

definition is_word :: "char \<Rightarrow> bool" where
  "is_word c = (let n = of_char c :: nat in
     is_letter c \<or> is_digit c \<or> n = 95 \<or> n \<in> {170, 178, 179, 181, 185, 186, 188, 189, 190}
     \<or> 192 \<le> n \<and> n \<noteq> 215 \<and> n \<noteq> 247)"

fun contains :: "string \<Rightarrow> string \<Rightarrow> bool" where
  "contains p [] = (p = [])"
| "contains p (c # cs) = (prefix p (c # cs) \<or> contains p cs)"

section \<open>Secret fields\<close>

definition SECRET_FIELD :: "string list" where
  "SECRET_FIELD = [''password'', ''passwd'', ''secret'', ''token'', ''authorization'',
     ''apikey'', ''api_key'', ''api-key'', ''credential'']"

definition USAGE_FIELDS :: "string list" where
  "USAGE_FIELDS = [''token_usage'', ''prompt_tokens'', ''completion_tokens'', ''total_tokens'']"

definition secret_field :: "string \<Rightarrow> bool" where
  "secret_field k \<longleftrightarrow> list_ex (\<lambda>w. contains w (py_lower k)) SECRET_FIELD \<and> k \<notin> set USAGE_FIELDS"

section \<open>Secrets inside text\<close>

text \<open>
  Each matcher reads from the front of the text and returns what the replacement keeps and the rest
  after the match.
\<close>

definition skip_word :: "string \<Rightarrow> string \<Rightarrow> string option" where
  "skip_word w s = (if prefix w (py_lower s) then Some (drop (length w) s) else None)"

definition bearer_match :: "string \<Rightarrow> (string \<times> string) option" where
  "bearer_match s = (case skip_word ''bearer'' s of None \<Rightarrow> None | Some r \<Rightarrow>
     (let r1 = dropWhile is_space r;
          r2 = dropWhile (\<lambda>c. is_word c \<or> c = CHR ''.'' \<or> c = CHR ''-'') r1
      in if r1 = r \<or> r2 = r1 then None else Some (take (length s - length r1) s, r2)))"

definition SECRET_WORDS :: "string list" where
  "SECRET_WORDS = [''password'', ''apikey'', ''api_key'', ''api-key'', ''token'', ''secret'']"

definition value_char :: "char \<Rightarrow> bool" where
  "value_char c \<longleftrightarrow> \<not> is_space c \<and> c \<notin> {char_of (34::nat), char_of (39::nat), CHR '','', CHR '';'', CHR ''}''}"

definition keyword_rest :: "string \<Rightarrow> string option" where
  "keyword_rest s = (case List.find (\<lambda>w. skip_word w s \<noteq> None) SECRET_WORDS of
      None \<Rightarrow> None | Some w \<Rightarrow> skip_word w s)"

definition skip_quote :: "string \<Rightarrow> string" where
  "skip_quote s = (case s of [] \<Rightarrow> [] | q # qs \<Rightarrow>
     if q = char_of (34::nat) \<or> q = char_of (39::nat) then qs else s)"

definition assignment_match :: "string \<Rightarrow> (string \<times> string) option" where
  "assignment_match s = (case keyword_rest s of None \<Rightarrow> None | Some r \<Rightarrow>
     (case dropWhile is_space r of
        [] \<Rightarrow> None
      | c # r1 \<Rightarrow>
          if c \<noteq> CHR '':'' \<and> c \<noteq> CHR ''='' then None
          else
            let r3 = skip_quote (dropWhile is_space r1);
                r4 = dropWhile value_char r3
            in if r4 = r3 then None else Some (take (length s - length r3) s, r4)))"

definition url_match :: "string \<Rightarrow> (string \<times> string) option" where
  "url_match s =
     (let r = dropWhile is_letter s in
      if r = s \<or> \<not> prefix ''://'' r then None
      else
        let r1 = drop 3 r;
            r2 = dropWhile (\<lambda>c. c \<noteq> CHR '':'' \<and> c \<noteq> CHR ''/'' \<and> \<not> is_space c) r1
        in if r2 = r1 \<or> \<not> prefix '':'' r2 then None
           else
             let r3 = drop 1 r2;
                 r4 = dropWhile (\<lambda>c. c \<noteq> CHR ''@'' \<and> \<not> is_space c) r3
             in if r4 = r3 \<or> \<not> prefix ''@'' r4 then None
                else Some (take (length s - length r3) s, r4))"

definition REDACTED :: string where
  "REDACTED = ''[REDACTED]''"

text \<open>
  What the match is replaced by, and the text after the match. The trailing \<open>@\<close> of a URL is part of
  its match and is written back.
\<close>

definition inline_match :: "string \<Rightarrow> (string \<times> string) option" where
  "inline_match s =
     (case bearer_match s of
        Some (keep, rest) \<Rightarrow> Some (keep @ REDACTED, rest)
      | None \<Rightarrow>
          (case assignment_match s of
             Some (keep, rest) \<Rightarrow> Some (keep @ REDACTED, rest)
           | None \<Rightarrow>
               (case url_match s of
                  Some (keep, rest) \<Rightarrow> Some (keep @ REDACTED @ ''@'', drop 1 rest)
                | None \<Rightarrow> None)))"

lemma dropWhile_shorter: "dropWhile P s \<noteq> s \<Longrightarrow> length (dropWhile P s) < length s"
  by (cases s) (auto simp: less_Suc_eq_le length_dropWhile_le split: if_splits)

lemma skip_word_length: "skip_word w s = Some r \<Longrightarrow> length r \<le> length s"
  by (auto simp: skip_word_def split: if_splits)

lemma bearer_match_shorter:
  assumes "bearer_match s = Some (keep, rest)"
  shows "length rest < length s"
proof -
  obtain r where r: "skip_word ''bearer'' s = Some r" "dropWhile is_space r \<noteq> r"
      and rest: "rest = dropWhile (\<lambda>c. is_word c \<or> c = CHR ''.'' \<or> c = CHR ''-'') (dropWhile is_space r)"
    using assms by (auto simp: bearer_match_def Let_def split: option.splits if_splits)
  have "length rest \<le> length (dropWhile is_space r)" unfolding rest by (rule length_dropWhile_le)
  also have "\<dots> < length r" using r(2) by (rule dropWhile_shorter)
  also have "\<dots> \<le> length s" using r(1) by (rule skip_word_length)
  finally show ?thesis .
qed

lemma keyword_rest_length: "keyword_rest s = Some r \<Longrightarrow> length r \<le> length s"
  by (auto simp: keyword_rest_def dest: skip_word_length split: option.splits)

lemma assignment_match_shorter: "assignment_match s = Some (keep, rest) \<Longrightarrow> length rest < length s"
proof -
  assume a: "assignment_match s = Some (keep, rest)"
  then obtain r c r1 where r: "keyword_rest s = Some r" "dropWhile is_space r = c # r1"
    by (auto simp: assignment_match_def split: option.splits list.splits)
  let ?r3 = "skip_quote (dropWhile is_space r1)"
  have rest: "rest = dropWhile value_char ?r3" "rest \<noteq> ?r3"
    using a by (simp_all add: assignment_match_def r Let_def split: if_splits)
  have "length rest < length ?r3" using rest dropWhile_shorter by metis
  also have "length ?r3 \<le> length (dropWhile is_space r1)" by (simp add: skip_quote_def split: list.split)
  also have "\<dots> \<le> length r1" by (rule length_dropWhile_le)
  also have "\<dots> \<le> length r" using length_dropWhile_le [of is_space r] r(2) by simp
  also have "\<dots> \<le> length s" using r(1) by (rule keyword_rest_length)
  finally show ?thesis .
qed

lemma url_match_shorter: "url_match s = Some (keep, rest) \<Longrightarrow> length rest < length s"
proof -
  assume a: "url_match s = Some (keep, rest)"
  let ?r = "dropWhile is_letter s"
  let ?r2 = "dropWhile (\<lambda>c. c \<noteq> CHR '':'' \<and> c \<noteq> CHR ''/'' \<and> \<not> is_space c) (drop 3 ?r)"
  have "?r \<noteq> s" and rest: "rest = dropWhile (\<lambda>c. c \<noteq> CHR ''@'' \<and> \<not> is_space c) (drop 1 ?r2)"
    using a by (auto simp: url_match_def Let_def split: if_splits)
  have "length rest \<le> length (drop 1 ?r2)" unfolding rest by (rule length_dropWhile_le)
  also have "\<dots> \<le> length ?r2" by simp
  also have "\<dots> \<le> length (drop 3 ?r)" by (rule length_dropWhile_le)
  also have "\<dots> \<le> length ?r" by simp
  also have "\<dots> < length s" using \<open>?r \<noteq> s\<close> by (rule dropWhile_shorter)
  finally show ?thesis .
qed

lemma inline_match_shorter: "inline_match s = Some (rep, rest) \<Longrightarrow> length rest < length s"
  by (auto simp: inline_match_def split: option.splits
      dest!: bearer_match_shorter assignment_match_shorter url_match_shorter)

text \<open>\<open>INLINE_SECRET.sub\<close>: leftmost matches, from left to right.\<close>

function redact_str :: "string \<Rightarrow> string" where
  "redact_str [] = []"
| "redact_str (c # cs) =
     (case inline_match (c # cs) of
        None \<Rightarrow> c # redact_str cs
      | Some (rep, rest) \<Rightarrow> rep @ redact_str rest)"
  by pat_completeness auto
termination
  by (relation "measure length") (auto dest: inline_match_shorter)

section \<open>redact\<close>

fun redact :: "nat \<Rightarrow> json \<Rightarrow> json" where
  "redact depth (JObj kvs) =
     (if 12 < depth then JStr ''[depth limit]''
      else JObj (take 200 (map (\<lambda>kv. (fst kv,
             if secret_field (fst kv) then JStr REDACTED else redact (depth + 1) (snd kv))) kvs)))"
| "redact depth (JList xs) =
     (if 12 < depth then JStr ''[depth limit]'' else JList (take 200 (map (redact (depth + 1)) xs)))"
| "redact depth (JStr s) = (if 12 < depth then JStr ''[depth limit]'' else JStr (redact_str s))"
| "redact depth v = (if 12 < depth then JStr ''[depth limit]'' else v)"

abbreviation redact0 :: "json \<Rightarrow> json" where
  "redact0 v \<equiv> redact 0 v"

definition redact_dict :: "(string \<times> json) list \<Rightarrow> (string \<times> json) list" where
  "redact_dict d = dict_items (redact 0 (JObj d))"

section \<open>untrusted_context\<close>

definition last_n :: "nat \<Rightarrow> 'a list \<Rightarrow> 'a list" where
  "last_n n xs = drop (length xs - n) xs"

fun bounded :: "nat \<Rightarrow> json \<Rightarrow> json" where
  "bounded depth (JStr s) = (if 10 < depth then JStr ''[depth limit]'' else JStr (take 4000 s))"
| "bounded depth (JObj kvs) =
     (if 10 < depth then JStr ''[depth limit]''
      else JObj (take 40 (map (\<lambda>kv. (fst kv, bounded (depth + 1) (snd kv))) kvs)))"
| "bounded depth (JList xs) =
     (if 10 < depth then JStr ''[depth limit]'' else JList (last_n 20 (map (bounded (depth + 1)) xs)))"
| "bounded depth v = (if 10 < depth then JStr ''[depth limit]'' else v)"

text \<open>
  \<open>[(len(v), key) for key, v in bounded_value.items() if isinstance(v, list) and v]\<close> and its
  maximum: the longest list, the greatest key among equals.
\<close>

definition list_length :: "json \<Rightarrow> nat" where
  "list_length v = (case v of JList xs \<Rightarrow> length xs | _ \<Rightarrow> 0)"

definition list_sizes :: "(string \<times> json) list \<Rightarrow> (nat \<times> string) list" where
  "list_sizes d = List.map_filter (\<lambda>k. case map_of d k of
      Some v \<Rightarrow> if list_length v = 0 then None else Some (list_length v, k) | None \<Rightarrow> None) (map fst d)"

definition tail_list :: "json \<Rightarrow> json" where
  "tail_list v = (case v of JList xs \<Rightarrow> JList (tl xs) | w \<Rightarrow> w)"

definition drop_oldest :: "string \<Rightarrow> nat \<Rightarrow> (string \<times> json) list \<Rightarrow> (string \<times> json) list" where
  "drop_oldest key omitted d = dict_set ''omitted_items'' (JInt (int omitted))
     (dict_set key (case map_of d key of None \<Rightarrow> JNull | Some v \<Rightarrow> tail_list v) d)"

definition list_total :: "(string \<times> json) list \<Rightarrow> nat" where
  "list_total d = sum_list (map (\<lambda>kv. list_length (snd kv)) d)"

lemma list_total_dict_set:
  "list_total (dict_set k v d) + (case map_of d k of None \<Rightarrow> 0 | Some w \<Rightarrow> list_length w)
     = list_total d + list_length v"
  by (induction d) (auto simp: list_total_def)

lemma in_list_sizes:
  "(n, k) \<in> set (list_sizes d) \<Longrightarrow> \<exists>v. map_of d k = Some v \<and> list_length v = n \<and> 0 < n"
  by (auto simp: list_sizes_def List.map_filter_def split: option.splits if_splits)

lemma drop_oldest_less:
  assumes "(n, k) \<in> set (list_sizes d)"
  shows "list_total (drop_oldest k m d) < list_total d"
proof -
  obtain v where v: "map_of d k = Some v" "0 < list_length v"
    using in_list_sizes [OF assms] by auto
  let ?d = "dict_set k (tail_list v) d"
  have "list_length (tail_list v) < list_length v"
    using v(2) by (auto simp: tail_list_def list_length_def split: json.splits)
  then have "list_total ?d < list_total d"
    using list_total_dict_set [of k "tail_list v" d] v(1) by simp
  moreover have "list_total (dict_set ''omitted_items'' (JInt (int m)) ?d) \<le> list_total ?d"
    using list_total_dict_set [of "''omitted_items''" "JInt (int m)" ?d] by (simp add: list_length_def)
  ultimately show ?thesis using v(1) by (simp add: drop_oldest_def)
qed

lemma fold_max_mem: "fold max xs (x :: 'a::linorder) \<in> set (x # xs)"
proof (induction xs arbitrary: x)
  case (Cons a xs)
  have "max a x = a \<or> max a x = x" by (simp add: max_def)
  with Cons [of "max a x"] show ?case by auto
qed simp

text \<open>The loop that drops the oldest entries of the longest list until the data fits.\<close>

function shrink :: "nat \<Rightarrow> nat \<Rightarrow> (string \<times> json) list \<Rightarrow> (string \<times> json) list" where
  "shrink limit omitted d =
     (if length (dumps (JObj d)) \<le> limit then d
      else (case list_sizes d of
              [] \<Rightarrow> d
            | x # xs \<Rightarrow> shrink limit (omitted + 1) (drop_oldest (snd (fold max xs x)) (omitted + 1) d)))"
  by pat_completeness auto
termination
proof (relation "measure (\<lambda>(limit, omitted, d). list_total d)", simp)
  fix limit omitted d and x :: "nat \<times> string" and xs
  assume "list_sizes d = x # xs"
  then have "(fst (fold max xs x), snd (fold max xs x)) \<in> set (list_sizes d)"
    using fold_max_mem [of xs x] by simp
  then have "list_total (drop_oldest (snd (fold max xs x)) (omitted + 1) d) < list_total d"
    by (rule drop_oldest_less)
  then show "((limit, omitted + 1, drop_oldest (snd (fold max xs x)) (omitted + 1) d), limit, omitted, d)
      \<in> measure (\<lambda>(limit, omitted, d). list_total d)"
    by simp
qed

declare shrink.simps [simp del]

definition context_data :: "nat \<Rightarrow> json \<Rightarrow> string" where
  "context_data limit v =
     (let bounded_value = (case bounded 0 (redact 0 v) of JObj d \<Rightarrow> JObj (shrink limit 0 d) | w \<Rightarrow> w);
          data = dumps bounded_value
      in if limit < length data
         then dumps (JObj [(''truncated'', JBool True), (''data_excerpt'', JStr (take (limit div 2) data))])
         else data)"

definition untrusted_context :: "json \<Rightarrow> nat \<Rightarrow> string" where
  "untrusted_context v limit =
     ''UNTRUSTED_DATA_JSON'' @ [char_of (10::nat)] @ context_data limit v
       @ [char_of (10::nat)] @ ''END_UNTRUSTED_DATA_JSON''"

section \<open>What redaction guarantees\<close>

fun hides :: "json \<Rightarrow> bool" where
  "hides (JObj kvs) = list_all (\<lambda>kv. (secret_field (fst kv) \<longrightarrow> snd kv = JStr REDACTED) \<and> hides (snd kv)) kvs"
| "hides (JList xs) = list_all hides xs"
| "hides _ = True"

text \<open>Containers nested at most \<open>n\<close> deep, with at most 200 entries each.\<close>

fun shape :: "nat \<Rightarrow> json \<Rightarrow> bool" where
  "shape n (JObj kvs) = (0 < n \<and> length kvs \<le> 200 \<and> list_all (\<lambda>kv. shape (n - 1) (snd kv)) kvs)"
| "shape n (JList xs) = (0 < n \<and> length xs \<le> 200 \<and> list_all (shape (n - 1)) xs)"
| "shape n _ = True"

lemma redact_hides: "hides (redact d v)"
proof (induction d v rule: redact.induct)
  case (1 d kvs)
  then show ?case by (auto simp: list_all_iff dest!: in_set_takeD)
next
  case (2 d xs)
  then show ?case by (auto simp: list_all_iff dest!: in_set_takeD)
qed auto

lemma redact_shape: "shape (13 - d) (redact d v)"
proof (induction d v rule: redact.induct)
  case (1 d kvs)
  then show ?case by (auto simp: list_all_iff dest!: in_set_takeD)
next
  case (2 d xs)
  then show ?case by (auto simp: list_all_iff dest!: in_set_takeD)
qed auto

declare redact.simps [simp del]

lemma redact_dict_obj: "JObj (redact_dict d) = redact 0 (JObj d)"
  by (simp add: redact_dict_def redact.simps)

text \<open>
  C37. Redaction. Whatever a tool returns, in the redacted value every dictionary entry at any depth
  whose key names a secret holds the redaction mark and nothing else, and the value is nested at
  most 13 deep with at most 200 entries in each container.
\<close>

theorem redact_hides_and_bounds: "hides (redact 0 v) \<and> shape 13 (redact 0 v)"
  using redact_hides [of 0 v] redact_shape [of 0 v] by simp

section \<open>The size of the envelope\<close>

lemma printable_escape: "list_all printable (escape_char c)"
proof -
  have "\<forall>n \<in> set [0..<16]. printable (hex_digit n)" by code_simp
  then have h: "printable (hex_digit n)" if "n < 16" for n
    using that by simp
  have "of_char c < (256::nat)" by simp
  then have "of_char c div 16 < (16::nat)" by (intro less_mult_imp_div_less) simp
  with h show ?thesis
    by (auto simp: escape_char_def Let_def printable_def)
qed

lemma printable_chars [simp]:
  "printable (char_of (34::nat))" "printable (CHR ''-'')" "printable (CHR ''.'')" "printable (CHR ''0'')"
  "printable (CHR ''['')" "printable (CHR '']'')" "printable (CHR ''{'')" "printable (CHR ''}'')"
  "printable (CHR '','')" "printable (CHR '':'')" "printable (CHR '' '')"
  by (simp_all add: printable_def)

lemma printable_nat: "list_all printable (show_nat n)"
proof (induction n rule: show_nat.induct)
  case (1 n)
  have "printable (char_of (48 + k))" if "k < 10" for k :: nat
    using that by (simp add: printable_def)
  with 1 show ?case by (subst show_nat.simps) auto
qed

lemma printable_join: "list_all printable sep \<Longrightarrow> list_all (list_all printable) xs \<Longrightarrow> list_all printable (join sep xs)"
  by (induction sep xs rule: join.induct) auto

lemma printable_dumps_str: "list_all printable (dumps_str s)"
  using printable_escape by (auto simp: dumps_str_def list_all_iff printable_def)

lemma printable_dumps: "list_all printable (dumps v)"
proof (induction v rule: dumps.induct)
  case (3 i)
  then show ?case by (simp add: show_int_def printable_nat)
next
  case (4 m k)
  have "list_all printable (pad_zeros n s)" if "list_all printable s" for n s
    using that by (auto simp: pad_zeros_def list_all_iff)
  then show ?case by (simp add: show_float_def Let_def printable_nat)
next
  case (6 xs)
  have "list_all (list_all printable) (map dumps xs)" using 6 by (simp add: list_all_iff)
  then show ?case by (simp add: printable_join)
next
  case (7 kvs)
  have "list_all (list_all printable) (map (\<lambda>kv. dumps_str (fst kv) @ '': '' @ dumps (snd kv)) kvs)"
    using 7 printable_dumps_str by (fastforce simp: list_all_iff)
  then show ?case by (simp add: printable_join)
qed (simp add: printable_dumps_str | simp add: printable_def)+

lemma context_data_bounded: "length (context_data limit v) \<le> limit + 39"
proof -
  have "length (dumps (JObj [(''truncated'', JBool True), (''data_excerpt'', JStr (take (limit div 2) (dumps w)))]))
      \<le> limit + 39" for w
  proof -
    have "list_all printable (take (limit div 2) (dumps w))"
      using printable_dumps [of w] by (auto simp: list_all_iff dest: in_set_takeD)
    from length_dumps_str_printable [OF this]
    have "length (dumps_str (take (limit div 2) (dumps w))) \<le> limit + 2" by auto
    then show ?thesis by (simp add: dumps_str_def escape_char_def)
  qed
  then show ?thesis by (simp add: context_data_def Let_def)
qed

text \<open>
  The size of the envelope. The text put before a model is the data between its two markers, and
  its length is within the limit plus a constant of 83 characters, whatever the data.
\<close>

theorem untrusted_context_bounded: "length (untrusted_context v limit) \<le> limit + 83"
  using context_data_bounded [of limit v] by (simp add: untrusted_context_def)

text \<open>
  The limit itself is not kept: there is data whose rendering between the markers is longer than
  the limit, because the excerpt that replaces oversized data is escaped a second time.
\<close>

theorem untrusted_context_over_budget: "\<exists>limit v. limit < length (context_data limit v)"
proof (intro exI)
  show "40 < length (context_data 40 (JObj [(''k'', JStr (replicate 30 (char_of (34::nat))))]))"
    by code_simp
qed

end
