(* ===== verification/Enums.thy ===== *)
theory Enums
  imports Prelude
begin

text \<open>
  The enumerations of \<open>models/enums.py\<close> that the modelled code reads, and the status machine
  of a run: \<open>RUN_TRANSITIONS\<close> and \<open>TERMINAL_RUN_STATUSES\<close>. A \<open>StrEnum\<close> member is a
  constructor; where the same member name occurs in several enumerations the constructor
  carries the enumeration's initials.
\<close>

datatype Severity = SEV1 | SEV2 | SEV3 | SEV4

datatype IncidentStatus =
    I_RECEIVED | I_INVESTIGATING | I_WAITING_APPROVAL | I_RESOLVED
  | I_INSUFFICIENT_EVIDENCE | I_NEEDS_HUMAN_INTERVENTION | I_FAILED

datatype WorkflowState =
    W_INCIDENT_RECEIVED | W_PLAN | W_COLLECT_EVIDENCE | W_FORM_HYPOTHESIS | W_VERIFY_HYPOTHESIS
  | W_ROOT_CAUSE_FOUND | W_INSUFFICIENT_EVIDENCE | W_CREATE_SANDBOX | W_GENERATE_PATCH
  | W_RUN_TESTS | W_REFLECT | W_EXPORT_PATCH_ARTIFACT | W_DESTROY_SANDBOX | W_WAIT_FOR_APPROVAL
  | W_CREATE_PULL_REQUEST | W_RESOLVED | W_NEEDS_HUMAN_INTERVENTION | W_FAILED

datatype ToolCallStatus = T_PENDING | T_SUCCEEDED | T_FAILED | T_TIMEOUT | T_DENIED

datatype PatchAttemptStatus =
    P_CREATED | P_TESTS_PASSED | P_TESTS_FAILED | P_EXPORTED | P_DISCARDED

datatype TestRunStatus = X_PENDING | X_PASSED | X_FAILED | X_ERROR | X_TIMEOUT

datatype ApprovalDecision = APPROVE | REJECT

datatype AgentRunStatus =
    PENDING | RUNNING | INVESTIGATION_COMPLETE | WAITING_APPROVAL | RESOLVED
  | INSUFFICIENT_EVIDENCE | NEEDS_HUMAN_INTERVENTION | FAILED

section \<open>Member values\<close>

fun run_status_value :: "AgentRunStatus \<Rightarrow> string" where
  "run_status_value PENDING = ''PENDING''"
| "run_status_value RUNNING = ''RUNNING''"
| "run_status_value INVESTIGATION_COMPLETE = ''INVESTIGATION_COMPLETE''"
| "run_status_value WAITING_APPROVAL = ''WAITING_APPROVAL''"
| "run_status_value RESOLVED = ''RESOLVED''"
| "run_status_value INSUFFICIENT_EVIDENCE = ''INSUFFICIENT_EVIDENCE''"
| "run_status_value NEEDS_HUMAN_INTERVENTION = ''NEEDS_HUMAN_INTERVENTION''"
| "run_status_value FAILED = ''FAILED''"

fun decision_value :: "ApprovalDecision \<Rightarrow> string" where
  "decision_value APPROVE = ''APPROVE''"
| "decision_value REJECT = ''REJECT''"

section \<open>All statuses, for decision by enumeration\<close>

instantiation AgentRunStatus :: enum
begin

definition
  "enum_AgentRunStatus = [PENDING, RUNNING, INVESTIGATION_COMPLETE, WAITING_APPROVAL, RESOLVED,
     INSUFFICIENT_EVIDENCE, NEEDS_HUMAN_INTERVENTION, FAILED]"

definition
  "enum_all_AgentRunStatus (P :: AgentRunStatus \<Rightarrow> bool) \<longleftrightarrow> list_all P enum_class.enum"

definition
  "enum_ex_AgentRunStatus (P :: AgentRunStatus \<Rightarrow> bool) \<longleftrightarrow> list_ex P enum_class.enum"

instance
proof
  show univ: "(UNIV :: AgentRunStatus set) = set enum_class.enum"
    by (auto simp: enum_AgentRunStatus_def) (metis AgentRunStatus.exhaust)
  show "distinct (enum_class.enum :: AgentRunStatus list)"
    by (simp add: enum_AgentRunStatus_def)
  show "enum_class.enum_all P \<longleftrightarrow> Ball UNIV P" for P :: "AgentRunStatus \<Rightarrow> bool"
    by (simp only: enum_all_AgentRunStatus_def univ list_all_iff)
  show "enum_class.enum_ex P \<longleftrightarrow> Bex UNIV P" for P :: "AgentRunStatus \<Rightarrow> bool"
    by (simp only: enum_ex_AgentRunStatus_def univ list_ex_iff)
qed

end

text \<open>The constructor call \<open>AgentRunStatus(s)\<close>: a string that is no member's value raises.\<close>

definition run_status_of :: "string \<Rightarrow> exn + AgentRunStatus" where
  "run_status_of v = (case find (\<lambda>m. run_status_value m = v) (enum_class.enum :: AgentRunStatus list) of
      None \<Rightarrow> Inl (ValueError (v @ '' is not a valid AgentRunStatus''))
    | Some m \<Rightarrow> Inr m)"

lemma run_status_roundtrip: "run_status_of (run_status_value m) = Inr m"
  by (cases m) (simp_all add: run_status_of_def enum_AgentRunStatus_def)

section \<open>The status machine of a run\<close>

definition TERMINAL_RUN_STATUSES :: "AgentRunStatus set" where
  "TERMINAL_RUN_STATUSES = {INVESTIGATION_COMPLETE, RESOLVED, INSUFFICIENT_EVIDENCE,
     NEEDS_HUMAN_INTERVENTION, FAILED}"

fun RUN_TRANSITIONS :: "AgentRunStatus \<Rightarrow> AgentRunStatus set" where
  "RUN_TRANSITIONS PENDING = {RUNNING, FAILED}"
| "RUN_TRANSITIONS RUNNING = {RUNNING, PENDING, WAITING_APPROVAL} \<union> TERMINAL_RUN_STATUSES"
| "RUN_TRANSITIONS WAITING_APPROVAL = {PENDING, RUNNING, NEEDS_HUMAN_INTERVENTION}"
| "RUN_TRANSITIONS INVESTIGATION_COMPLETE = {INVESTIGATION_COMPLETE}"
| "RUN_TRANSITIONS RESOLVED = {RESOLVED}"
| "RUN_TRANSITIONS INSUFFICIENT_EVIDENCE = {INSUFFICIENT_EVIDENCE}"
| "RUN_TRANSITIONS NEEDS_HUMAN_INTERVENTION = {NEEDS_HUMAN_INTERVENTION}"
| "RUN_TRANSITIONS FAILED = {FAILED}"

lemmas terminal_simps = TERMINAL_RUN_STATUSES_def

section \<open>Machines whose terminal statuses absorb\<close>

text \<open>
  The contract a status machine gives its clients: a terminal status leads only to itself, and
  every status is terminal or has a way out. A history is a list of statuses whose neighbours
  are equal (an operation that leaves the status alone) or related by the machine.
\<close>

fun status_history :: "('s \<Rightarrow> 's set) \<Rightarrow> 's list \<Rightarrow> bool" where
  "status_history nxt [] = True"
| "status_history nxt [x] = True"
| "status_history nxt (x # y # ys) = ((y = x \<or> y \<in> nxt x) \<and> status_history nxt (y # ys))"

locale status_machine =
  fixes nxt :: "'s \<Rightarrow> 's set"
    and terminal :: "'s set"
  assumes absorbing: "t \<in> terminal \<Longrightarrow> nxt t = {t}"
    and live: "s \<notin> terminal \<Longrightarrow> \<exists>s' \<in> nxt s. s' \<noteq> s"
begin

lemma terminal_step: "t \<in> terminal \<Longrightarrow> u = t \<or> u \<in> nxt t \<Longrightarrow> u = t"
  by (auto simp: absorbing)

lemma terminal_forever: "status_history nxt (t # hs) \<Longrightarrow> t \<in> terminal \<Longrightarrow> u \<in> set hs \<Longrightarrow> u = t"
proof (induction hs arbitrary: t)
  case Nil
  then show ?case by simp
next
  case (Cons h hs)
  then have "h = t" by (auto dest: terminal_step)
  with Cons show ?case by auto
qed

lemma stuck_iff_terminal: "nxt s \<subseteq> {s} \<longleftrightarrow> s \<in> terminal"
  using live absorbing by blast

end

interpretation run_machine: status_machine RUN_TRANSITIONS TERMINAL_RUN_STATUSES
proof unfold_locales
  fix t :: AgentRunStatus assume "t \<in> TERMINAL_RUN_STATUSES"
  then show "RUN_TRANSITIONS t = {t}" by (cases t) (auto simp: terminal_simps)
next
  fix s :: AgentRunStatus assume "s \<notin> TERMINAL_RUN_STATUSES"
  then show "\<exists>s' \<in> RUN_TRANSITIONS s. s' \<noteq> s" by (cases s) (auto simp: terminal_simps)
qed

end
