(* ===== verification/Models.thy ===== *)
theory Models
  imports Enums PyJson
begin

text \<open>
  The tables of \<open>models/db.py\<close>. A row is a record whose fields carry the initials of the table;
  a nullable column is an option; a \<open>JSON\<close> column is a dictionary or a JSON value. The status
  columns hold member values of the enumerations of \<open>Enums\<close> and are typed so. The columns
  \<open>created_at\<close> and \<open>updated_at\<close>, which no modelled code reads, are left out.
\<close>

section \<open>Rows\<close>

record Incident =
  inc_id :: string
  inc_incident_id :: string
  inc_owner_id :: "string option"
  inc_title :: string
  inc_service :: string
  inc_severity :: Severity
  inc_symptom :: string
  inc_start_time :: time
  inc_repository :: string
  inc_environment :: string
  inc_status :: IncidentStatus
  inc_payload :: "(string \<times> json) list"

record AgentRun =
  ar_id :: string
  ar_run_id :: string
  ar_incident_pk :: string
  ar_status :: AgentRunStatus
  ar_workflow_state :: WorkflowState
  ar_plan :: "string list"
  ar_root_cause :: "json option"
  ar_tool_call_count :: nat
  ar_patch_attempt_count :: nat
  ar_trace_id :: string
  ar_error :: "string option"
  ar_result :: "(string \<times> json) list"
  ar_worker_id :: "string option"
  ar_lease_expires_at :: "time option"
  ar_attempt_count :: nat
  ar_next_attempt_at :: "time option"
  ar_last_heartbeat_at :: "time option"
  ar_failure_category :: "string option"
  ar_started_at :: time
  ar_finished_at :: "time option"

record PatchArtifact =
  pa_id :: string
  pa_patch_artifact_id :: string
  pa_run_pk :: string
  pa_base_commit_sha :: string
  pa_patch_diff :: string
  pa_patch_hash :: string
  pa_test_run_id :: "string option"
  pa_immutable :: bool

record TestRun =
  tr_id :: string
  tr_test_run_id :: string
  tr_run_pk :: string
  tr_status :: TestRunStatus
  tr_exit_code :: "int option"
  tr_patch_hash :: string
  tr_base_commit_sha :: string
  tr_mode :: string

record Approval =
  ap_id :: string
  ap_run_pk :: string
  ap_patch_artifact_id :: "string option"
  ap_decision :: "ApprovalDecision option"
  ap_actor :: string
  ap_reason :: string
  ap_payload :: json
  ap_decided_at :: "time option"

datatype effect_status = E_PENDING | E_IN_PROGRESS | E_COMPLETED | E_FAILED

record ExternalSideEffect =
  se_id :: string
  se_run_pk :: string
  se_effect_type :: string
  se_idempotency_key :: string
  se_status :: effect_status
  se_attempt_count :: nat
  se_result :: "(string \<times> json) list"
  se_error :: "string option"

section \<open>The database\<close>

record db =
  db_incidents :: "Incident list"
  db_runs :: "AgentRun list"
  db_artifacts :: "PatchArtifact list"
  db_test_runs :: "TestRun list"
  db_approvals :: "Approval list"
  db_effects :: "ExternalSideEffect list"

definition empty_db :: db where
  "empty_db = \<lparr>db_incidents = [], db_runs = [], db_artifacts = [], db_test_runs = [],
     db_approvals = [], db_effects = []\<rparr>"

text \<open>\<open>select(AgentRun).where(AgentRun.run_id == run_id)\<close>, \<open>scalar_one_or_none\<close>.\<close>

definition get_run_by_run_id :: "string \<Rightarrow> db \<Rightarrow> AgentRun option" where
  "get_run_by_run_id rid d = sql_first (\<lambda>r. ar_run_id r = rid) (db_runs d)"

definition get_run :: "string \<Rightarrow> db \<Rightarrow> AgentRun option" where
  "get_run pk d = sql_first (\<lambda>r. ar_id r = pk) (db_runs d)"

definition get_incident :: "string \<Rightarrow> db \<Rightarrow> Incident option" where
  "get_incident pk d = sql_first (\<lambda>i. inc_id i = pk) (db_incidents d)"

definition get_incident_by_incident_id :: "string \<Rightarrow> db \<Rightarrow> Incident option" where
  "get_incident_by_incident_id iid d = sql_first (\<lambda>i. inc_incident_id i = iid) (db_incidents d)"

section \<open>The constraints of the schema\<close>

text \<open>
  Primary keys, the unique columns, the unique index of \<open>approvals.run_pk\<close> and the two unique
  constraints of \<open>external_side_effects\<close>; and the foreign keys of the rows that hang on a run.
\<close>

definition schema_ok :: "db \<Rightarrow> bool" where
  "schema_ok d \<longleftrightarrow>
     distinct (map inc_id (db_incidents d)) \<and> distinct (map inc_incident_id (db_incidents d)) \<and>
     distinct (map ar_id (db_runs d)) \<and> distinct (map ar_run_id (db_runs d)) \<and>
     distinct (map pa_id (db_artifacts d)) \<and> distinct (map pa_patch_artifact_id (db_artifacts d)) \<and>
     distinct (map tr_test_run_id (db_test_runs d)) \<and>
     distinct (map ap_run_pk (db_approvals d)) \<and>
     distinct (map se_idempotency_key (db_effects d)) \<and>
     distinct (map (\<lambda>e. (se_run_pk e, se_effect_type e)) (db_effects d))"

lemma schema_ok_empty [simp]: "schema_ok empty_db"
  by (simp add: schema_ok_def empty_db_def)

lemma schema_runs:
  assumes "schema_ok d"
  shows "distinct (map ar_id (db_runs d))" and "distinct (map ar_run_id (db_runs d))"
  using assms by (simp_all add: schema_ok_def)

lemma get_run_by_run_id_iff:
  "schema_ok d \<Longrightarrow> get_run_by_run_id rid d = Some r \<longleftrightarrow> r \<in> set (db_runs d) \<and> ar_run_id r = rid"
  unfolding get_run_by_run_id_def
  by (auto dest: sql_first_Some intro: sql_first_unique [where key = ar_run_id] schema_runs(2))

lemma get_run_iff:
  "schema_ok d \<Longrightarrow> get_run pk d = Some r \<longleftrightarrow> r \<in> set (db_runs d) \<and> ar_id r = pk"
  unfolding get_run_def
  by (auto dest: sql_first_Some intro: sql_first_unique [where key = ar_id] schema_runs(1))

lemma get_run_by_run_idD:
  "get_run_by_run_id rid d = Some r \<Longrightarrow> r \<in> set (db_runs d) \<and> ar_run_id r = rid"
  by (auto simp: get_run_by_run_id_def dest: sql_first_Some)

end
