(* ===== verification/Jobs.thy ===== *)
theory Jobs
  imports Models
begin

text \<open>
  \<open>persistence/jobs.py\<close>: admission, leasing and recovery of runs. Every operation is one
  transaction on the database. Its clock readings are arguments: \<open>current\<close> is
  \<open>database_now(session)\<close>, \<open>wall\<close> is \<open>utcnow()\<close> of the calling process. \<open>locked\<close> is the set of
  rows another open transaction holds, which \<open>FOR UPDATE SKIP LOCKED\<close> passes over.
\<close>

record ClaimedRun =
  cl_incident_pk :: string
  cl_run_id :: string
  cl_worker_id :: string
  cl_attempt_count :: nat
  cl_recover :: bool

section \<open>Admission\<close>

record IncidentData =
  d_incident_id :: "string option"
  d_title :: string
  d_service :: string
  d_severity :: "Severity option"
  d_symptom :: string
  d_start_time :: "time option"
  d_repository :: "string option"
  d_environment :: "string option"
  d_payload :: "(string \<times> json) list"
  d_owner_id :: "string option"

text \<open>The identifiers a call draws: two primary keys and three \<open>repo.new_id\<close>.\<close>

record fresh_ids =
  f_incident_pk :: string
  f_incident_id :: string
  f_run_pk :: string
  f_run_id :: string
  f_trace_id :: string

definition new_incident :: "fresh_ids \<Rightarrow> time \<Rightarrow> IncidentData \<Rightarrow> Incident" where
  "new_incident ids wall data = \<lparr>
     inc_id = f_incident_pk ids,
     inc_incident_id = the (str_or (d_incident_id data) (Some (f_incident_id ids))),
     inc_owner_id = d_owner_id data,
     inc_title = d_title data,
     inc_service = d_service data,
     inc_severity = (case d_severity data of None \<Rightarrow> SEV3 | Some s \<Rightarrow> s),
     inc_symptom = d_symptom data,
     inc_start_time = (case d_start_time data of None \<Rightarrow> wall | Some t \<Rightarrow> t),
     inc_repository = (case d_repository data of None \<Rightarrow> [] | Some s \<Rightarrow> s),
     inc_environment = (case d_environment data of None \<Rightarrow> ''reference-production'' | Some s \<Rightarrow> s),
     inc_status = I_RECEIVED,
     inc_payload = d_payload data\<rparr>"

definition new_run :: "string \<Rightarrow> string \<Rightarrow> string \<Rightarrow> string \<Rightarrow> time \<Rightarrow> AgentRun" where
  "new_run pk rid incident_pk trace_id wall = \<lparr>
     ar_id = pk, ar_run_id = rid, ar_incident_pk = incident_pk,
     ar_status = PENDING, ar_workflow_state = W_INCIDENT_RECEIVED,
     ar_plan = [], ar_root_cause = None, ar_tool_call_count = 0, ar_patch_attempt_count = 0,
     ar_trace_id = trace_id, ar_error = None, ar_result = [],
     ar_worker_id = None, ar_lease_expires_at = None, ar_attempt_count = 0,
     ar_next_attempt_at = None, ar_last_heartbeat_at = None, ar_failure_category = None,
     ar_started_at = wall, ar_finished_at = None\<rparr>"

definition queued_runs :: "db \<Rightarrow> nat" where
  "queued_runs d = rowcount (\<lambda>r. ar_status r = PENDING) (db_runs d)"

definition create_incident_and_run ::
  "fresh_ids \<Rightarrow> time \<Rightarrow> IncidentData \<Rightarrow> nat \<Rightarrow> db \<Rightarrow> db \<times> (exn + Incident \<times> AgentRun)" where
  "create_incident_and_run ids wall data max_queued_runs d =
     (if queued_runs d \<ge> max_queued_runs
      then (d, Inl (QueueFullError ''incident run queue is full''))
      else
        let incident = new_incident ids wall data;
            run = new_run (f_run_pk ids) (f_run_id ids) (inc_id incident) (f_trace_id ids) wall
        in if unique_violation inc_id incident (db_incidents d)
              \<or> unique_violation inc_incident_id incident (db_incidents d)
              \<or> unique_violation ar_id run (db_runs d)
              \<or> unique_violation ar_run_id run (db_runs d)
           then (d, Inl (IntegrityError ''unique constraint''))
           else (d\<lparr>db_incidents := db_incidents d @ [incident], db_runs := db_runs d @ [run]\<rparr>,
                 Inr (incident, run)))"

section \<open>Leasing\<close>

definition claim_eligible :: "time \<Rightarrow> AgentRun \<Rightarrow> bool" where
  "claim_eligible current r \<longleftrightarrow>
     ar_status r = PENDING \<and> (ar_next_attempt_at r = None \<or> col_le (ar_next_attempt_at r) current)
     \<or> ar_status r = RUNNING \<and> ar_lease_expires_at r \<noteq> None \<and> col_le (ar_lease_expires_at r) current"

definition claim_values :: "string \<Rightarrow> int \<Rightarrow> time \<Rightarrow> AgentRun \<Rightarrow> AgentRun" where
  "claim_values worker_id lease_seconds current r = r\<lparr>
     ar_status := RUNNING,
     ar_worker_id := Some worker_id,
     ar_attempt_count := ar_attempt_count r + 1,
     ar_last_heartbeat_at := Some current,
     ar_lease_expires_at := Some (current + seconds lease_seconds),
     ar_next_attempt_at := None\<rparr>"

text \<open>
  \<open>ORDER BY next_attempt_at ASC NULLS FIRST, started_at ASC LIMIT 1\<close>; rows that tie stay in
  table order.
\<close>

definition claim_candidates ::
  "string set \<Rightarrow> nat \<Rightarrow> time \<Rightarrow> string option \<Rightarrow> db \<Rightarrow> AgentRun list" where
  "claim_candidates locked max_attempts current run_id d =
     sort_key (\<lambda>r. (ar_next_attempt_at r, ar_started_at r))
       (filter (\<lambda>r. claim_eligible current r \<and> ar_attempt_count r < max_attempts
                  \<and> (case run_id of None \<Rightarrow> True | Some rid \<Rightarrow> ar_run_id r = rid)
                  \<and> ar_id r \<notin> locked)
         (db_runs d))"

definition claim_next_run ::
  "string set \<Rightarrow> string \<Rightarrow> int \<Rightarrow> nat \<Rightarrow> time \<Rightarrow> string option \<Rightarrow> db \<Rightarrow> db \<times> ClaimedRun option" where
  "claim_next_run locked worker_id lease_seconds max_attempts current run_id d =
     (case claim_candidates locked max_attempts current run_id d of
        [] \<Rightarrow> (d, None)
      | r # _ \<Rightarrow>
          (d\<lparr>db_runs := sql_update (\<lambda>x. ar_id x = ar_id r)
                         (claim_values worker_id lease_seconds current) (db_runs d)\<rparr>,
           Some \<lparr>cl_incident_pk = ar_incident_pk r, cl_run_id = ar_run_id r,
                 cl_worker_id = worker_id, cl_attempt_count = ar_attempt_count r + 1,
                 cl_recover = (ar_status r = RUNNING)\<rparr>))"

text \<open>The optional \<open>attempt_count\<close> predicate of the lease operations.\<close>

definition attempt_matches :: "nat option \<Rightarrow> AgentRun \<Rightarrow> bool" where
  "attempt_matches ac r \<longleftrightarrow> (case ac of None \<Rightarrow> True | Some n \<Rightarrow> ar_attempt_count r = n)"

definition renew_values :: "int \<Rightarrow> time \<Rightarrow> AgentRun \<Rightarrow> AgentRun" where
  "renew_values lease_seconds current r = r\<lparr>
     ar_last_heartbeat_at := Some current,
     ar_lease_expires_at := Some (current + seconds lease_seconds)\<rparr>"

definition renew_matches :: "string \<Rightarrow> string \<Rightarrow> time \<Rightarrow> nat option \<Rightarrow> AgentRun \<Rightarrow> bool" where
  "renew_matches run_id worker_id current ac r \<longleftrightarrow>
     ar_run_id r = run_id \<and> ar_status r = RUNNING \<and> ar_worker_id r = Some worker_id
     \<and> col_gt (ar_lease_expires_at r) current \<and> attempt_matches ac r"

definition renew_lease ::
  "string \<Rightarrow> string \<Rightarrow> int \<Rightarrow> time \<Rightarrow> nat option \<Rightarrow> db \<Rightarrow> db \<times> bool" where
  "renew_lease run_id worker_id lease_seconds current ac d =
     (d\<lparr>db_runs := sql_update (renew_matches run_id worker_id current ac)
                    (renew_values lease_seconds current) (db_runs d)\<rparr>,
      rowcount (renew_matches run_id worker_id current ac) (db_runs d) \<noteq> 0)"

definition clear_lease :: "AgentRun \<Rightarrow> AgentRun" where
  "clear_lease r = r\<lparr>ar_worker_id := None, ar_lease_expires_at := None, ar_last_heartbeat_at := None\<rparr>"

definition release_matches :: "string \<Rightarrow> string \<Rightarrow> nat option \<Rightarrow> AgentRun \<Rightarrow> bool" where
  "release_matches run_id worker_id ac r \<longleftrightarrow>
     ar_run_id r = run_id \<and> ar_worker_id r = Some worker_id \<and> attempt_matches ac r"

definition release_claim :: "string \<Rightarrow> string \<Rightarrow> nat option \<Rightarrow> db \<Rightarrow> db \<times> bool" where
  "release_claim run_id worker_id ac d =
     (d\<lparr>db_runs := sql_update (release_matches run_id worker_id ac) clear_lease (db_runs d)\<rparr>,
      rowcount (release_matches run_id worker_id ac) (db_runs d) \<noteq> 0)"

section \<open>Retry and expiry\<close>

datatype retry_result = LOST_LEASE | Status AgentRunStatus

definition retry_values ::
  "nat \<Rightarrow> string \<Rightarrow> time \<Rightarrow> time \<Rightarrow> AgentRun \<Rightarrow> AgentRun" where
  "retry_values max_attempts failure_category delay wall r =
     (let r' = clear_lease r\<lparr>ar_failure_category := Some failure_category\<rparr>
      in if ar_attempt_count r \<ge> max_attempts
         then r'\<lparr>ar_status := NEEDS_HUMAN_INTERVENTION,
                 ar_workflow_state := W_NEEDS_HUMAN_INTERVENTION,
                 ar_error := Some (''job attempts exhausted: '' @ failure_category),
                 ar_finished_at := Some wall\<rparr>
         else r'\<lparr>ar_status := PENDING,
                 ar_next_attempt_at := Some (wall + delay),
                 ar_error := Some (''retry scheduled: '' @ failure_category)\<rparr>)"

definition retry_claim ::
  "string \<Rightarrow> string \<Rightarrow> nat \<Rightarrow> string \<Rightarrow> time \<Rightarrow> nat option \<Rightarrow> time \<Rightarrow> db \<Rightarrow> db \<times> retry_result" where
  "retry_claim run_id worker_id max_attempts failure_category delay ac wall d =
     (case sql_first (release_matches run_id worker_id ac) (db_runs d) of
        None \<Rightarrow> (d, LOST_LEASE)
      | Some r \<Rightarrow>
          if ar_status r \<noteq> RUNNING then (d, Status (ar_status r))
          else if ar_lease_expires_at r = None \<or> col_le (ar_lease_expires_at r) wall
          then (d, LOST_LEASE)
          else (d\<lparr>db_runs := sql_update (\<lambda>x. ar_id x = ar_id r)
                     (retry_values max_attempts failure_category delay wall) (db_runs d)\<rparr>,
                Status (if ar_attempt_count r \<ge> max_attempts
                        then NEEDS_HUMAN_INTERVENTION else PENDING)))"

definition expire_matches :: "nat \<Rightarrow> time \<Rightarrow> AgentRun \<Rightarrow> bool" where
  "expire_matches max_attempts current r \<longleftrightarrow>
     ar_status r = RUNNING \<and> col_le (ar_lease_expires_at r) current
     \<and> ar_attempt_count r \<ge> max_attempts"

definition expire_values :: "time \<Rightarrow> AgentRun \<Rightarrow> AgentRun" where
  "expire_values current r = clear_lease r\<lparr>
     ar_status := NEEDS_HUMAN_INTERVENTION,
     ar_workflow_state := W_NEEDS_HUMAN_INTERVENTION,
     ar_failure_category := Some ''lease_expired'',
     ar_error := Some ''job attempts exhausted after lease expiration'',
     ar_finished_at := Some current\<rparr>"

definition expire_exhausted_runs :: "nat \<Rightarrow> time \<Rightarrow> db \<Rightarrow> db \<times> nat" where
  "expire_exhausted_runs max_attempts current d =
     (d\<lparr>db_runs := sql_update (expire_matches max_attempts current) (expire_values current) (db_runs d)\<rparr>,
      rowcount (expire_matches max_attempts current) (db_runs d))"

end
