(* ===== verification/Ownership.thy ===== *)
theory Ownership
  imports Jobs
begin

text \<open>
  \<open>persistence/ownership.py\<close>: the fence every write of a leased run passes. The context variable
  \<open>current_claim\<close> is an argument; \<open>None\<close> is a caller outside a worker. The fence's conditional
  \<open>UPDATE\<close> writes the value it tested, so it leaves the rows as they are; it locks the row until
  the commit, which makes a fence and the writes of its transaction one step.
\<close>

definition fence_matches :: "ClaimedRun \<Rightarrow> string \<Rightarrow> time \<Rightarrow> AgentRun \<Rightarrow> bool" where
  "fence_matches claim run_id current r \<longleftrightarrow>
     ar_run_id r = run_id \<and> ar_worker_id r = Some (cl_worker_id claim)
     \<and> ar_attempt_count r = cl_attempt_count claim
     \<and> col_gt (ar_lease_expires_at r) current \<and> ar_status r = RUNNING"

definition fence :: "ClaimedRun option \<Rightarrow> time \<Rightarrow> string \<Rightarrow> db \<Rightarrow> exn + unit" where
  "fence current_claim current run_id d =
     (case current_claim of
        None \<Rightarrow>
          (case get_run_by_run_id run_id d of
             None \<Rightarrow> Inr ()
           | Some r \<Rightarrow>
               (if ar_worker_id r \<noteq> None
                then Inl (LostLeaseError ''leased run requires worker context'')
                else Inr ()))
      | Some claim \<Rightarrow>
          if cl_run_id claim \<noteq> run_id
          then Inl (LostLeaseError ''claim belongs to another run'')
          else if rowcount (fence_matches claim run_id current) (db_runs d) \<noteq> 1
          then Inl (LostLeaseError ''lease expired or superseded'')
          else Inr ())"

section \<open>What passing the fence means\<close>

lemma fence_claim_iff:
  assumes "schema_ok d"
  shows "fence (Some c) now rid d = Inr () \<longleftrightarrow>
    cl_run_id c = rid \<and> (\<exists>r. get_run_by_run_id rid d = Some r \<and> fence_matches c rid now r)"
proof -
  have le: "rowcount (fence_matches c rid now) (db_runs d) \<le> 1"
    by (rule rowcount_unique [where key = ar_run_id])
      (auto simp: fence_matches_def schema_runs(2) [OF assms])
  have "rowcount (fence_matches c rid now) (db_runs d) = 1 \<longleftrightarrow>
      (\<exists>r \<in> set (db_runs d). fence_matches c rid now r)"
    using le rowcount_zero [of "fence_matches c rid now" "db_runs d"]
    by (metis le_antisym less_one linorder_not_less)
  moreover have "(\<exists>r \<in> set (db_runs d). fence_matches c rid now r) \<longleftrightarrow>
      (\<exists>r. get_run_by_run_id rid d = Some r \<and> fence_matches c rid now r)"
    by (auto simp: get_run_by_run_id_iff [OF assms] fence_matches_def)
  ultimately show ?thesis by (auto simp: fence_def split: if_splits)
qed

lemma fence_None_iff:
  "fence None now rid d = Inr () \<longleftrightarrow>
     (\<forall>r. get_run_by_run_id rid d = Some r \<longrightarrow> ar_worker_id r = None)"
  by (auto simp: fence_def split: option.splits)

lemma fence_error: "fence cc now rid d = Inl e \<Longrightarrow> \<exists>m. e = LostLeaseError m"
  by (auto simp: fence_def split: option.splits if_splits)

end
