(* ===== verification/Artifacts.thy ===== *)
theory Artifacts
  imports Ownership
begin

text \<open>
  \<open>services/artifacts.py\<close>: an artifact is accepted only with its own hash and the record of the
  test run that passed on exactly that patch and base. \<open>sha\<close> is \<open>hashlib.sha256(...).hexdigest()\<close>
  on the UTF-8 bytes of a string.
\<close>

definition hash_patch :: "(string \<Rightarrow> string) \<Rightarrow> string \<Rightarrow> string" where
  "hash_patch sha diff = sha diff"

text \<open>\<open>artifact_id or (run.result or {}).get("patch_artifact_id")\<close>\<close>

definition chosen_artifact_id :: "AgentRun \<Rightarrow> string option \<Rightarrow> string option" where
  "chosen_artifact_id run artifact_id = str_or artifact_id
     (case map_of (ar_result run) ''patch_artifact_id'' of Some (JStr s) \<Rightarrow> Some s | _ \<Rightarrow> None)"

definition test_confirms :: "PatchArtifact \<Rightarrow> TestRun \<Rightarrow> bool" where
  "test_confirms a t \<longleftrightarrow> tr_status t = X_PASSED \<and> tr_exit_code t = Some 0
     \<and> tr_patch_hash t = pa_patch_hash a \<and> tr_base_commit_sha t = pa_base_commit_sha a"

definition validated_artifact ::
  "(string \<Rightarrow> string) \<Rightarrow> AgentRun \<Rightarrow> string option \<Rightarrow> db \<Rightarrow> exn + PatchArtifact" where
  "validated_artifact sha run artifact_id d =
     (case sql_first (\<lambda>a. pa_run_pk a = ar_id run
                \<and> Some (pa_patch_artifact_id a) = chosen_artifact_id run artifact_id)
             (db_artifacts d) of
        None \<Rightarrow> Inl (ValueError ''immutable artifact missing or belongs to another run'')
      | Some a \<Rightarrow>
          if \<not> pa_immutable a
          then Inl (ValueError ''immutable artifact missing or belongs to another run'')
          else if hash_patch sha (pa_patch_diff a) \<noteq> pa_patch_hash a
          then Inl (ValueError ''artifact patch hash mismatch'')
          else
            (case sql_first (\<lambda>t. tr_run_pk t = ar_id run \<and> Some (tr_test_run_id t) = pa_test_run_id a)
                    (db_test_runs d) of
               None \<Rightarrow> Inl (ValueError ''artifact has no matching successful test'')
             | Some t \<Rightarrow>
                 if test_confirms a t then Inr a
                 else Inl (ValueError ''artifact has no matching successful test'')))"

definition binding :: "PatchArtifact \<Rightarrow> json" where
  "binding a = JObj [(''patch_artifact_id'', JStr (pa_patch_artifact_id a)),
     (''patch_hash'', JStr (pa_patch_hash a)),
     (''base_commit_sha'', JStr (pa_base_commit_sha a)),
     (''test_run_id'', (case pa_test_run_id a of None \<Rightarrow> JNull | Some s \<Rightarrow> JStr s))]"

section \<open>What a validated artifact is\<close>

definition proven_artifact :: "(string \<Rightarrow> string) \<Rightarrow> AgentRun \<Rightarrow> db \<Rightarrow> PatchArtifact \<Rightarrow> bool" where
  "proven_artifact sha run d a \<longleftrightarrow>
     a \<in> set (db_artifacts d) \<and> pa_run_pk a = ar_id run \<and> pa_immutable a
     \<and> pa_patch_hash a = hash_patch sha (pa_patch_diff a)
     \<and> (\<exists>t \<in> set (db_test_runs d). tr_run_pk t = ar_id run \<and> Some (tr_test_run_id t) = pa_test_run_id a
          \<and> test_confirms a t)"

lemma validated_artifact_proven:
  "validated_artifact sha run i d = Inr a \<Longrightarrow> proven_artifact sha run d a"
  by (auto simp: validated_artifact_def proven_artifact_def split: option.splits if_splits
      dest!: sql_first_Some)

lemma validated_artifact_id:
  "validated_artifact sha run i d = Inr a \<Longrightarrow> Some (pa_patch_artifact_id a) = chosen_artifact_id run i"
  by (auto simp: validated_artifact_def split: option.splits if_splits dest!: sql_first_Some)

lemma validated_artifact_error:
  "validated_artifact sha run i d = Inl e \<Longrightarrow> is_ValueError e"
  by (auto simp: validated_artifact_def split: option.splits if_splits)

lemma binding_inj:
  "binding a = binding b \<longleftrightarrow>
     pa_patch_artifact_id a = pa_patch_artifact_id b \<and> pa_patch_hash a = pa_patch_hash b
     \<and> pa_base_commit_sha a = pa_base_commit_sha b \<and> pa_test_run_id a = pa_test_run_id b"
  by (auto simp: binding_def split: option.splits)

end
