(* ===== verification/RunService.thy ===== *)
theory RunService
  imports Ownership
begin

text \<open>
  The class \<open>RunService\<close> of \<open>services/incidents.py\<close>: the two operations that write the status
  of a run. A call carries the in-memory row it read before (\<open>run\<close>) and compares it with the
  stored row in its \<open>UPDATE\<close>, so a concurrent transition makes it fail.
\<close>

text \<open>\<open>session.refresh\<close> after the commit.\<close>

definition refreshed :: "AgentRun \<Rightarrow> db \<Rightarrow> exn + AgentRun" where
  "refreshed run d = (case get_run (ar_id run) d of
      None \<Rightarrow> Inl (OtherError ''could not refresh instance'') | Some r \<Rightarrow> Inr r)"

definition mark_running ::
  "ClaimedRun option \<Rightarrow> time \<Rightarrow> AgentRun \<Rightarrow> db \<Rightarrow> db \<times> (exn + AgentRun)" where
  "mark_running current_claim current run d =
     (case fence current_claim current (ar_run_id run) d of
        Inl e \<Rightarrow> (d, Inl e)
      | Inr _ \<Rightarrow>
          let p = (\<lambda>r. ar_id r = ar_id run \<and> ar_status r \<in> {PENDING, RUNNING});
              d' = d\<lparr>db_runs := sql_update p (\<lambda>r. r\<lparr>ar_status := RUNNING\<rparr>) (db_runs d)\<rparr>
          in if rowcount p (db_runs d) = 0
             then (d, Inl (RuntimeError (''terminal run cannot return to RUNNING: '' @ ar_run_id run)))
             else (d', refreshed run d'))"

text \<open>The keyword arguments of \<open>mark_status\<close>.\<close>

record status_update =
  u_workflow_state :: "WorkflowState option"
  u_error :: "string option"
  u_result :: "(string \<times> json) list option"
  u_root_cause :: "json option"
  u_finished :: bool

definition no_update :: status_update where
  "no_update = \<lparr>u_workflow_state = None, u_error = None, u_result = None, u_root_cause = None,
     u_finished = False\<rparr>"

definition status_values :: "AgentRunStatus \<Rightarrow> status_update \<Rightarrow> time \<Rightarrow> AgentRun \<Rightarrow> AgentRun" where
  "status_values status u wall r =
     (let r1 = r\<lparr>ar_status := status\<rparr>;
          r2 = (case u_workflow_state u of None \<Rightarrow> r1 | Some w \<Rightarrow> r1\<lparr>ar_workflow_state := w\<rparr>);
          r3 = (case u_error u of None \<Rightarrow> r2 | Some e \<Rightarrow> r2\<lparr>ar_error := Some e\<rparr>);
          r4 = (case u_result u of None \<Rightarrow> r3 | Some x \<Rightarrow> r3\<lparr>ar_result := x\<rparr>);
          r5 = (case u_root_cause u of None \<Rightarrow> r4 | Some x \<Rightarrow> r4\<lparr>ar_root_cause := Some x\<rparr>)
      in if u_finished u then clear_lease r5\<lparr>ar_finished_at := Some wall\<rparr> else r5)"

definition mark_status ::
  "ClaimedRun option \<Rightarrow> time \<Rightarrow> AgentRun \<Rightarrow> AgentRunStatus \<Rightarrow> status_update \<Rightarrow> db
     \<Rightarrow> db \<times> (exn + AgentRun)" where
  "mark_status current_claim current run status u d =
     (case fence current_claim current (ar_run_id run) d of
        Inl e \<Rightarrow> (d, Inl e)
      | Inr _ \<Rightarrow>
          if status \<notin> RUN_TRANSITIONS (ar_status run)
          then (d, Inl (RuntimeError (''terminal run transition denied: ''
                  @ run_status_value (ar_status run) @ '' -> '' @ run_status_value status)))
          else
            let p = (\<lambda>r. ar_id r = ar_id run \<and> ar_status r = ar_status run);
                d' = d\<lparr>db_runs := sql_update p (status_values status u current) (db_runs d)\<rparr>
            in if rowcount p (db_runs d) \<noteq> 1
               then (d, Inl (RuntimeError ''concurrent run status transition''))
               else (d', refreshed run d'))"

section \<open>Row contracts\<close>

lemma status_values_simps [row_simps]:
  "ar_id (status_values s u w r) = ar_id r"
  "ar_run_id (status_values s u w r) = ar_run_id r"
  "ar_status (status_values s u w r) = s"
  "ar_attempt_count (status_values s u w r) = ar_attempt_count r"
  "ar_worker_id (status_values s u w r) = (if u_finished u then None else ar_worker_id r)"
  by (simp_all add: status_values_def clear_lease_def Let_def split: option.splits)

lemma clear_lease_simps [row_simps]:
  "ar_id (clear_lease r) = ar_id r"
  "ar_run_id (clear_lease r) = ar_run_id r"
  "ar_status (clear_lease r) = ar_status r"
  "ar_attempt_count (clear_lease r) = ar_attempt_count r"
  "ar_worker_id (clear_lease r) = None"
  by (simp_all add: clear_lease_def)

lemma claim_values_simps [row_simps]:
  "ar_id (claim_values w l t r) = ar_id r"
  "ar_run_id (claim_values w l t r) = ar_run_id r"
  "ar_status (claim_values w l t r) = RUNNING"
  "ar_attempt_count (claim_values w l t r) = ar_attempt_count r + 1"
  "ar_worker_id (claim_values w l t r) = Some w"
  by (simp_all add: claim_values_def)

lemma renew_values_simps [row_simps]:
  "ar_id (renew_values l t r) = ar_id r"
  "ar_run_id (renew_values l t r) = ar_run_id r"
  "ar_status (renew_values l t r) = ar_status r"
  "ar_attempt_count (renew_values l t r) = ar_attempt_count r"
  "ar_worker_id (renew_values l t r) = ar_worker_id r"
  by (simp_all add: renew_values_def)

lemma retry_values_simps [row_simps]:
  "ar_id (retry_values m c dl w r) = ar_id r"
  "ar_run_id (retry_values m c dl w r) = ar_run_id r"
  "ar_status (retry_values m c dl w r)
     = (if ar_attempt_count r \<ge> m then NEEDS_HUMAN_INTERVENTION else PENDING)"
  "ar_attempt_count (retry_values m c dl w r) = ar_attempt_count r"
  "ar_worker_id (retry_values m c dl w r) = None"
  by (simp_all add: retry_values_def clear_lease_def Let_def)

lemma expire_values_simps [row_simps]:
  "ar_id (expire_values t r) = ar_id r"
  "ar_run_id (expire_values t r) = ar_run_id r"
  "ar_status (expire_values t r) = NEEDS_HUMAN_INTERVENTION"
  "ar_attempt_count (expire_values t r) = ar_attempt_count r"
  "ar_worker_id (expire_values t r) = None"
  by (simp_all add: expire_values_def clear_lease_def)

end
