(* ===== verification/GraphStore.thy ===== *)
theory GraphStore
  imports RunService Artifacts
begin

text \<open>
  The transactions of \<open>agent/graph.py\<close> on the database: a node records its progress, the export
  node stores the tested patch once, and the end of the workflow stores the test runs and the
  counters. Each begins with the fence of \<open>Ownership\<close>. A patch attempt of the graph state is a
  record whose optional fields are the keys that may be missing from the code's dictionary; of
  the tables the workflow also fills (tool calls, evidence, hypotheses, patch attempts, audit),
  which no modelled code reads, nothing is kept.
\<close>

record PatchAttempt =
  at_attempt :: nat
  at_summary :: string
  at_patch_diff :: "string option"
  at_status :: "string option"
  at_generator :: "string option"
  at_error :: "string option"
  at_base_commit_sha :: "string option"
  at_test_run_id :: "string option"
  at_test_ok :: bool
  at_test_exit_code :: "int option"
  at_test_mode :: "string option"
  at_test_stdout :: string
  at_test_stderr :: string
  at_reflection :: "string option"

text \<open>The artifact the sandbox exports, \<open>sandbox/manager.py\<close>.\<close>

record PatchArtifactData =
  xa_patch_artifact_id :: string
  xa_base_commit_sha :: string
  xa_patch_diff :: string
  xa_patch_hash :: string
  xa_test_run_id :: string

section \<open>The patch artifact, once\<close>

definition stored_artifact :: "string \<Rightarrow> AgentRun \<Rightarrow> PatchArtifactData \<Rightarrow> PatchArtifact" where
  "stored_artifact pk run x = \<lparr>pa_id = pk, pa_patch_artifact_id = xa_patch_artifact_id x,
     pa_run_pk = ar_id run, pa_base_commit_sha = xa_base_commit_sha x,
     pa_patch_diff = xa_patch_diff x, pa_patch_hash = xa_patch_hash x,
     pa_test_run_id = Some (xa_test_run_id x), pa_immutable = True\<rparr>"

definition persist_patch_artifact_once ::
  "ClaimedRun option \<Rightarrow> time \<Rightarrow> string \<Rightarrow> string \<Rightarrow> PatchArtifactData \<Rightarrow> db \<Rightarrow> db \<times> (exn + string)" where
  "persist_patch_artifact_once cc now pk run_id x d =
     (case get_run_by_run_id run_id d of
        None \<Rightarrow> (d, Inr (xa_patch_artifact_id x))
      | Some run \<Rightarrow>
          (case fence cc now run_id d of
             Inl e \<Rightarrow> (d, Inl e)
           | Inr _ \<Rightarrow>
               (case sql_first (\<lambda>a. pa_run_pk a = ar_id run \<and> pa_patch_hash a = xa_patch_hash x
                          \<and> pa_test_run_id a = Some (xa_test_run_id x)) (db_artifacts d) of
                  Some a \<Rightarrow> (d, Inr (pa_patch_artifact_id a))
                | None \<Rightarrow>
                    let a = stored_artifact pk run x in
                    if unique_violation pa_id a (db_artifacts d)
                       \<or> unique_violation pa_patch_artifact_id a (db_artifacts d)
                    then (d, Inl (IntegrityError ''patch_artifacts''))
                    else (d\<lparr>db_artifacts := db_artifacts d @ [a]\<rparr>, Inr (xa_patch_artifact_id x)))))"

section \<open>Progress of a node\<close>

definition record_progress ::
  "ClaimedRun option \<Rightarrow> time \<Rightarrow> string \<Rightarrow> WorkflowState \<Rightarrow> string list \<Rightarrow> nat \<Rightarrow> db \<Rightarrow> db \<times> (exn + unit)" where
  "record_progress cc now run_id ws plan n d =
     (case fence cc now run_id d of
        Inl e \<Rightarrow> (d, Inl e)
      | Inr _ \<Rightarrow>
          (d\<lparr>db_runs := sql_update (\<lambda>r. ar_run_id r = run_id)
               (\<lambda>r. r\<lparr>ar_workflow_state := ws, ar_plan := plan, ar_tool_call_count := n\<rparr>) (db_runs d)\<rparr>,
           Inr ()))"

section \<open>The outcome of the workflow\<close>

text \<open>\<open>if item.get("test_run_id") and item["test_run_id"] not in existing_test_ids\<close>\<close>

definition new_test_run ::
  "(string \<Rightarrow> string) \<Rightarrow> AgentRun \<Rightarrow> (PatchAttempt \<Rightarrow> string) \<Rightarrow> PatchAttempt \<Rightarrow> TestRun" where
  "new_test_run sha run pk at = \<lparr>tr_id = pk at,
     tr_test_run_id = (case at_test_run_id at of None \<Rightarrow> [] | Some i \<Rightarrow> i), tr_run_pk = ar_id run,
     tr_status = (if at_test_ok at then X_PASSED else X_FAILED),
     tr_exit_code = at_test_exit_code at,
     tr_patch_hash = hash_patch sha (case at_patch_diff at of None \<Rightarrow> [] | Some p \<Rightarrow> p),
     tr_base_commit_sha = (case at_base_commit_sha at of None \<Rightarrow> [] | Some b \<Rightarrow> b),
     tr_mode = (case at_test_mode at of None \<Rightarrow> ''unknown'' | Some m \<Rightarrow> m)\<rparr>"

definition new_test_runs ::
  "(string \<Rightarrow> string) \<Rightarrow> AgentRun \<Rightarrow> (PatchAttempt \<Rightarrow> string) \<Rightarrow> PatchAttempt list \<Rightarrow> db \<Rightarrow> TestRun list" where
  "new_test_runs sha run pk ats d =
     map (new_test_run sha run pk)
       (filter (\<lambda>at. str_or (at_test_run_id at) None \<noteq> None
           \<and> the (at_test_run_id at) \<notin>
               tr_test_run_id ` set (filter (\<lambda>t. tr_run_pk t = ar_id run) (db_test_runs d)))
         ats)"

definition persist_outcome ::
  "(string \<Rightarrow> string) \<Rightarrow> ClaimedRun option \<Rightarrow> time \<Rightarrow> (PatchAttempt \<Rightarrow> string) \<Rightarrow> AgentRun \<Rightarrow> string list
     \<Rightarrow> nat \<Rightarrow> PatchAttempt list \<Rightarrow> db \<Rightarrow> db \<times> (exn + unit)" where
  "persist_outcome sha cc now pk run plan tool_calls ats d =
     (case fence cc now (ar_run_id run) d of
        Inl e \<Rightarrow> (d, Inl e)
      | Inr _ \<Rightarrow>
          let ts = new_test_runs sha run pk ats d in
          if \<not> distinct (map tr_test_run_id (db_test_runs d @ ts))
          then (d, Inl (IntegrityError ''test_runs.test_run_id''))
          else (d\<lparr>db_test_runs := db_test_runs d @ ts,
                  db_runs := sql_update (\<lambda>r. ar_id r = ar_id run)
                    (\<lambda>r. r\<lparr>ar_plan := plan, ar_tool_call_count := tool_calls,
                          ar_patch_attempt_count := length ats\<rparr>) (db_runs d)\<rparr>,
                Inr ()))"

end
