(* ===== verification/Loads.thy ===== *)
theory Loads
  imports ToolData
begin

text \<open>
  \<open>json.loads\<close>, and \<open>json.dumps\<close> with an indent: patches and tool results travel as JSON text. The parser
  follows the grammar of Python's scanner: whitespace between tokens, no trailing commas, no control
  characters in strings, the last value of a repeated key. \<open>None\<close> is a \<open>JSONDecodeError\<close>; the tokens
  \<open>NaN\<close> and \<open>Infinity\<close> and characters beyond Latin-1 have no value in the model and are \<open>None\<close> too. The
  value of a float literal is exact, which Python's is up to 15 digits.
\<close>

section \<open>Scanning\<close>

definition json_space :: "char \<Rightarrow> bool" where
  "json_space c \<longleftrightarrow> c \<in> {CHR '' '', CHR 0x09, CHR 0x0A, CHR 0x0D}"

definition skip_space :: "string \<Rightarrow> string" where
  "skip_space s = dropWhile json_space s"

definition digits_value :: "string \<Rightarrow> nat" where
  "digits_value ds = fold (\<lambda>c n. 10 * n + (of_char c - 48)) ds 0"

text \<open>The value of a float with \<open>k\<close> decimal places, in the form of its \<open>repr\<close>.\<close>

fun norm_float :: "int \<Rightarrow> nat \<Rightarrow> json" where
  "norm_float m 0 = JFloat (10 * m) 1"
| "norm_float m (Suc 0) = JFloat m 1"
| "norm_float m (Suc (Suc k)) = (if 10 dvd m then norm_float (m div 10) (Suc k) else JFloat m (Suc (Suc k)))"

definition scaled_float :: "int \<Rightarrow> int \<Rightarrow> json" where
  "scaled_float m k = (if k \<le> 0 then norm_float (m * 10 ^ nat (- k)) 0 else norm_float m (nat k))"

text \<open>The parts of a number: whole digits, decimal places, exponent.\<close>

definition whole_part :: "string \<Rightarrow> string \<times> string" where
  "whole_part s = (if prefix ''0'' s then (''0'', tl s) else (takeWhile is_digit s, dropWhile is_digit s))"

definition decimal_part :: "string \<Rightarrow> string \<times> string" where
  "decimal_part s =
     (if prefix ''.'' s \<and> takeWhile is_digit (tl s) \<noteq> [] then (takeWhile is_digit (tl s), dropWhile is_digit (tl s))
      else ([], s))"

definition exponent_sign :: "string \<Rightarrow> int \<times> string" where
  "exponent_sign s = (if prefix ''-'' s then (-1, tl s) else if prefix ''+'' s then (1, tl s) else (1, s))"

definition exponent_part :: "string \<Rightarrow> int option \<times> string" where
  "exponent_part s =
     (let (sign, u) = exponent_sign (tl s) in
      if (prefix ''e'' s \<or> prefix ''E'' s) \<and> takeWhile is_digit u \<noteq> []
      then (Some (sign * int (digits_value (takeWhile is_digit u))), dropWhile is_digit u)
      else (None, s))"

definition parse_number :: "string \<Rightarrow> (json \<times> string) option" where
  "parse_number s =
     (let (sign, s1) = (if prefix ''-'' s then (-1 :: int, tl s) else (1, s));
          (w, s2) = whole_part s1; (f, s3) = decimal_part s2; (e, s4) = exponent_part s3
      in if w = [] then None
         else if f = [] \<and> e = None then Some (JInt (sign * int (digits_value w)), s4)
         else Some (scaled_float (sign * int (digits_value (w @ f)))
                      (int (length f) - (case e of None \<Rightarrow> 0 | Some x \<Rightarrow> x)), s4))"

definition hex_value :: "char \<Rightarrow> nat option" where
  "hex_value c = (let n = of_char c :: nat in
     if is_digit c then Some (n - 48)
     else if 97 \<le> n \<and> n \<le> 102 then Some (n - 87)
     else if 65 \<le> n \<and> n \<le> 70 then Some (n - 55)
     else None)"

fun hex4 :: "char \<Rightarrow> char \<Rightarrow> char \<Rightarrow> char \<Rightarrow> char option" where
  "hex4 a b c d = (case (hex_value a, hex_value b, hex_value c, hex_value d) of
     (Some 0, Some 0, Some x, Some y) \<Rightarrow> Some (char_of (16 * x + y)) | _ \<Rightarrow> None)"

definition simple_escape :: "char \<Rightarrow> char option" where
  "simple_escape c = map_of [(char_of (34::nat), char_of (34::nat)), (char_of (92::nat), char_of (92::nat)),
     (CHR ''/'', CHR ''/''), (CHR ''b'', CHR 0x08), (CHR ''f'', CHR 0x0C), (CHR ''n'', CHR 0x0A),
     (CHR ''r'', CHR 0x0D), (CHR ''t'', CHR 0x09)] c"

definition cons_fst :: "char \<Rightarrow> (string \<times> string) option \<Rightarrow> (string \<times> string) option" where
  "cons_fst c r = map_option (apfst (Cons c)) r"

text \<open>The rest of a string after its opening quote.\<close>

fun parse_str :: "string \<Rightarrow> (string \<times> string) option" where
  "parse_str [] = None"
| "parse_str (c # s) =
     (if c = char_of (34::nat) then Some ([], s)
      else if c = char_of (92::nat) then
        (case s of
           [] \<Rightarrow> None
         | d # t \<Rightarrow>
             if d = CHR ''u'' then
               (case t of
                  h1 # h2 # h3 # h4 # r \<Rightarrow>
                    (case hex4 h1 h2 h3 h4 of None \<Rightarrow> None | Some x \<Rightarrow> cons_fst x (parse_str r))
                | _ \<Rightarrow> None)
             else (case simple_escape d of None \<Rightarrow> None | Some x \<Rightarrow> cons_fst x (parse_str t)))
      else if (of_char c :: nat) < 32 then None
      else cons_fst c (parse_str s))"

definition literals :: "(string \<times> json) list" where
  "literals = [(''null'', JNull), (''true'', JBool True), (''false'', JBool False)]"

definition parse_atom :: "string \<Rightarrow> (json \<times> string) option" where
  "parse_atom s = (case filter (\<lambda>l. prefix (fst l) s) literals of
     (l, v) # _ \<Rightarrow> Some (v, drop (length l) s)
   | [] \<Rightarrow> parse_number s)"

section \<open>json.loads\<close>

text \<open>Values, the elements of a list and the members of a dictionary; the fuel bounds the nesting.\<close>

fun parse_value :: "nat \<Rightarrow> string \<Rightarrow> (json \<times> string) option"
  and parse_elements :: "nat \<Rightarrow> json list \<Rightarrow> string \<Rightarrow> (json \<times> string) option"
  and parse_members :: "nat \<Rightarrow> (string \<times> json) list \<Rightarrow> string \<Rightarrow> (json \<times> string) option" where
  "parse_value 0 s = None"
| "parse_value (Suc n) s =
     (case s of
        [] \<Rightarrow> None
      | c # t \<Rightarrow>
          if c = char_of (34::nat) then map_option (apfst JStr) (parse_str t)
          else if c = CHR ''['' then
            (case skip_space t of
               [] \<Rightarrow> None
             | d # u \<Rightarrow> if d = CHR '']'' then Some (JList [], u) else parse_elements n [] (d # u))
          else if c = CHR ''{'' then
            (case skip_space t of
               [] \<Rightarrow> None
             | d # u \<Rightarrow> if d = CHR ''}'' then Some (JObj [], u) else parse_members n [] (d # u))
          else parse_atom s)"
| "parse_elements 0 acc s = None"
| "parse_elements (Suc n) acc s =
     (case parse_value n s of
        None \<Rightarrow> None
      | Some (v, t) \<Rightarrow>
          (case skip_space t of
             [] \<Rightarrow> None
           | d # u \<Rightarrow>
               if d = CHR '']'' then Some (JList (acc @ [v]), u)
               else if d = CHR '','' then parse_elements n (acc @ [v]) (skip_space u)
               else None))"
| "parse_members 0 acc s = None"
| "parse_members (Suc n) acc s =
     (case s of
        [] \<Rightarrow> None
      | q # s1 \<Rightarrow>
          if q \<noteq> char_of (34::nat) then None
          else (case parse_str s1 of
             None \<Rightarrow> None
           | Some (k, s2) \<Rightarrow>
               (case skip_space s2 of
                  [] \<Rightarrow> None
                | d # s3 \<Rightarrow>
                    if d \<noteq> CHR '':'' then None
                    else (case parse_value n (skip_space s3) of
                       None \<Rightarrow> None
                     | Some (v, t) \<Rightarrow>
                         (case skip_space t of
                            [] \<Rightarrow> None
                          | e # u \<Rightarrow>
                              if e = CHR ''}'' then Some (JObj (dict_set k v acc), u)
                              else if e = CHR '','' then parse_members n (dict_set k v acc) (skip_space u)
                              else None)))))"

definition loads :: "string \<Rightarrow> json option" where
  "loads s = (case parse_value (2 * length s + 2) (skip_space s) of
     None \<Rightarrow> None
   | Some (v, t) \<Rightarrow> if skip_space t = [] then Some v else None)"

section \<open>json.dumps with an indent\<close>

text \<open>
  The two layouts of \<open>json.dumps\<close>: \<open>brk l\<close> follows an opening and precedes a closing bracket, \<open>gap l\<close>
  follows a comma, at nesting level \<open>l\<close>.
\<close>

fun render :: "(nat \<Rightarrow> string) \<Rightarrow> (nat \<Rightarrow> string) \<Rightarrow> nat \<Rightarrow> json \<Rightarrow> string" where
  "render brk gap l (JList xs) =
     (if xs = [] then ''[]''
      else ''['' @ brk (Suc l) @ join ('','' @ gap (Suc l)) (map (render brk gap (Suc l)) xs) @ brk l @ '']'')"
| "render brk gap l (JObj kvs) =
     (if kvs = [] then ''{}''
      else ''{'' @ brk (Suc l)
        @ join ('','' @ gap (Suc l)) (map (\<lambda>kv. dumps_str (fst kv) @ '': '' @ render brk gap (Suc l) (snd kv)) kvs)
        @ brk l @ ''}'')"
| "render brk gap l v = dumps v"

definition line_break :: "nat \<Rightarrow> nat \<Rightarrow> string" where
  "line_break indent l = CHR 0x0A # replicate (indent * l) (CHR '' '')"

definition dumps_indent :: "nat \<Rightarrow> json \<Rightarrow> string" where
  "dumps_indent indent v = render (line_break indent) (line_break indent) 0 v"

lemma dumps_render: "dumps v = render (\<lambda>_. []) (\<lambda>_. '' '') l v"
proof (induction v arbitrary: l rule: dumps.induct)
  case (6 xs)
  then show ?case by (simp cong: map_cong)
next
  case (7 kvs)
  then show ?case by (simp cong: map_cong)
qed simp_all

end
