(* ===== verification/Sandbox.thy ===== *)
theory Sandbox
  imports ToolData Artifacts GraphStore Loads
begin

text \<open>
  \<open>sandbox/manager.py\<close>: the workspace a patch is applied to and tested in. A directory tree is the
  list of its regular files (POSIX path and text) with the list of its symbolic links and
  junctions. Programs the manager runs are parameters: \<open>git\<close> (\<open>numstat\<close> is the output of
  \<open>git apply --numstat -z\<close> when it succeeds, \<open>applied\<close> the tree after \<open>git apply\<close>), and
  the test process. A digest of a file in a snapshot is represented by the file's text.
\<close>

section \<open>Strings the manager takes apart\<close>

definition ends_with :: "string \<Rightarrow> string \<Rightarrow> bool" where
  "ends_with suf s \<longleftrightarrow> suffix suf s"

definition py_upper_ascii :: "string \<Rightarrow> string" where
  "py_upper_ascii s = map (\<lambda>c. let n = of_char c :: nat in if 97 \<le> n \<and> n \<le> 122 then char_of (n - 32) else c) s"

definition is_line_break :: "char \<Rightarrow> bool" where
  "is_line_break c = (let n = of_char c :: nat in 10 \<le> n \<and> n \<le> 13 \<or> 28 \<le> n \<and> n \<le> 30 \<or> n = 133)"

text \<open>\<open>str.splitlines\<close>: \<open>\\r\\n\<close> is one break, and no empty line follows the last break.\<close>

fun split_lines :: "string \<Rightarrow> string list" where
  "split_lines [] = []"
| "split_lines (c # cs) =
     (if is_line_break c
      then [] # split_lines (if c = CHR 0x0D \<and> prefix [CHR 0x0A] cs then tl cs else cs)
      else (case split_lines cs of
              [] \<Rightarrow> [[c]]
            | l # ls \<Rightarrow> if cs \<noteq> [] then (c # l) # ls else [[c]]))"

text \<open>\<open>str.split()\<close>: the words between runs of white space.\<close>

fun py_words :: "string \<Rightarrow> string list" where
  "py_words [] = []"
| "py_words (c # cs) =
     (if is_space c then py_words cs
      else (case cs of
              [] \<Rightarrow> [[c]]
            | d # ds \<Rightarrow> if is_space d then [c] # py_words cs
                       else (case py_words cs of [] \<Rightarrow> [[c]] | w # ws \<Rightarrow> (c # w) # ws)))"

definition rstrip_chars :: "char set \<Rightarrow> string \<Rightarrow> string" where
  "rstrip_chars cs s = rev (dropWhile (\<lambda>c. c \<in> cs) (rev s))"

section \<open>Paths\<close>

definition FORBIDDEN_PATCH_PARTS :: "string list" where
  "FORBIDDEN_PATCH_PARTS = [''.git'', ''.env'', ''credentials'', ''credential'', ''secrets'', ''secret'',
     ''docker.sock'', ''conftest.py'', ''.gitattributes'']"

definition FORBIDDEN_DIRECTORIES :: "string list" where
  "FORBIDDEN_DIRECTORIES = [''.ssh'', ''.aws'', ''.azure'', ''.config'', ''.github'', ''.venv'', ''venv'', ''node_modules'']"

definition FORBIDDEN_NAMES :: "string list" where
  "FORBIDDEN_NAMES = [''id_rsa'', ''id_ed25519'', ''config.local'', ''private'', ''.netrc'', ''.npmrc'', ''.pypirc'']"

definition sensitive_part :: "string \<Rightarrow> bool" where
  "sensitive_part part \<longleftrightarrow> part \<in> set FORBIDDEN_PATCH_PARTS \<or> part \<in> set FORBIDDEN_DIRECTORIES
     \<or> prefix ''.env'' part \<or> contains ''credential'' part \<or> contains ''secret'' part
     \<or> contains ''token'' part
     \<or> ends_with ''.pem'' part \<or> ends_with ''.key'' part \<or> ends_with ''.p12'' part \<or> ends_with ''.pfx'' part
     \<or> part \<in> set FORBIDDEN_NAMES"

definition normalize_slashes :: "string \<Rightarrow> string" where
  "normalize_slashes p = replace_char (char_of (92::nat)) (CHR ''/'') p"

definition path_parts :: "string \<Rightarrow> string list" where
  "path_parts p = py_split (CHR ''/'') p"

definition sensitive_path :: "string \<Rightarrow> bool" where
  "sensitive_path p \<longleftrightarrow> list_ex sensitive_part (path_parts (py_lower (normalize_slashes p)))"

definition DEVICE_NAMES :: "string list" where
  "DEVICE_NAMES = [''CON'', ''PRN'', ''AUX'', ''NUL'', ''CLOCK$'']
     @ map (\<lambda>i. ''COM'' @ show_nat i) [1..<10] @ map (\<lambda>i. ''LPT'' @ show_nat i) [1..<10]"

record Repo =
  rp_files :: "(string \<times> string) list"
  rp_links :: "string list"

text \<open>The joined prefixes of a path, which the loop over its parts visits.\<close>

definition path_prefixes :: "string list \<Rightarrow> string list" where
  "path_prefixes parts = map (\<lambda>n. join ''/'' (take n parts)) [1..<length parts + 1]"

definition unsafe_path :: "string \<Rightarrow> bool" where
  "unsafe_path p \<longleftrightarrow> p = [] \<or> prefix ''/'' p \<or> prefix ''~'' p \<or> CHR '':'' \<in> set p
     \<or> list_ex (\<lambda>part. part = [] \<or> part = ''.'' \<or> part = ''..'') (path_parts p)
     \<or> list_ex (\<lambda>c. (of_char c :: nat) < 32) p \<or> char_of (34::nat) \<in> set p"

fun check_parts :: "Repo \<Rightarrow> (string \<times> string) list \<Rightarrow> exn + unit" where
  "check_parts repo [] = Inr ()"
| "check_parts repo ((part, candidate) # rest) =
     (if rstrip_chars {CHR '' '', CHR ''.''} part \<noteq> part then Inl (ValueError ''unsafe Windows path alias'')
      else if py_upper_ascii (hd (py_split (CHR ''.'') part)) \<in> set DEVICE_NAMES
      then Inl (ValueError ''unsafe Windows device path'')
      else if candidate \<in> set (rp_links repo) then Inl (ValueError ''symlink patch path forbidden'')
      else check_parts repo rest)"

text \<open>
  The path is returned relative to the repository. With no dot component and no link on the way,
  \<open>resolve\<close> stays inside the repository, so the code's last check cannot fail here.
\<close>

definition validate_patch_path :: "Repo \<Rightarrow> string \<Rightarrow> exn + string" where
  "validate_patch_path repo raw =
     (let p = normalize_slashes raw in
      if unsafe_path p then Inl (ValueError (''unsafe patch path: '' @ raw))
      else if sensitive_path p then Inl (ValueError (''forbidden patch path: '' @ raw))
      else (case check_parts repo (zip (path_parts p) (path_prefixes (path_parts p))) of
              Inl e \<Rightarrow> Inl e | Inr _ \<Rightarrow> Inr p))"

section \<open>The paths of a patch\<close>

record Edit =
  ed_path :: string
  ed_find :: string
  ed_replace :: string

text \<open>
  \<open>set(item) == {"path", "find", "replace"}\<close>, all values strings, a non-empty \<open>find\<close>.
\<close>

definition edit_of :: "json \<Rightarrow> Edit option" where
  "edit_of v = (case v of
     JObj d \<Rightarrow>
       if set (map fst d) = {''path'', ''find'', ''replace''} then
         (case (map_of d ''path'', map_of d ''find'', map_of d ''replace'') of
            (Some (JStr p), Some (JStr f), Some (JStr r)) \<Rightarrow>
              if f = [] then None else Some \<lparr>ed_path = p, ed_find = f, ed_replace = r\<rparr>
          | _ \<Rightarrow> None)
       else None
   | _ \<Rightarrow> None)"

fun edit_paths :: "Repo \<Rightarrow> json list \<Rightarrow> exn + string list" where
  "edit_paths repo [] = Inr []"
| "edit_paths repo (v # vs) =
     (case edit_of v of
        None \<Rightarrow> Inl (ValueError ''invalid simple patch edit'')
      | Some e \<Rightarrow>
          (case validate_patch_path repo (ed_path e) of
             Inl x \<Rightarrow> Inl x
           | Inr _ \<Rightarrow> (case edit_paths repo vs of Inl x \<Rightarrow> Inl x | Inr ps \<Rightarrow> Inr (ed_path e # ps))))"

definition UNSUPPORTED_METADATA :: "string list" where
  "UNSUPPORTED_METADATA = [''rename '', ''copy '', ''similarity '', ''dissimilarity '', ''old mode '',
     ''new mode '', ''GIT binary patch'', ''Binary files '']"

definition line_error :: "string \<Rightarrow> string option" where
  "line_error line =
     (if list_ex (\<lambda>w. prefix w line) UNSUPPORTED_METADATA then Some ''unsupported patch metadata''
      else if (prefix ''new file mode '' line \<or> prefix ''deleted file mode '' line) \<and> \<not> ends_with ''100644'' line
      then Some ''unsupported file mode''
      else if prefix ''index '' line \<and> 2 < length (py_words line) \<and> last (py_words line) \<noteq> ''100644''
      then Some ''unsupported index mode''
      else None)"

definition first_line_error :: "string list \<Rightarrow> string option" where
  "first_line_error ls = (case find (\<lambda>l. line_error l \<noteq> None) ls of None \<Rightarrow> None | Some l \<Rightarrow> line_error l)"

text \<open>\<open>record.split("\\t", 2)\<close> unpacked into three.\<close>

definition numstat_fields :: "string \<Rightarrow> (string \<times> string \<times> string) option" where
  "numstat_fields rec = (case py_split (CHR 0x09) rec of
     a # b # p # ps \<Rightarrow> Some (a, b, join [CHR 0x09] (p # ps)) | _ \<Rightarrow> None)"

definition all_digits :: "string \<Rightarrow> bool" where
  "all_digits s \<longleftrightarrow> s \<noteq> [] \<and> list_all (\<lambda>c. is_digit c \<or> (of_char c :: nat) \<in> {178, 179, 185}) s"

fun numstat_paths :: "Repo \<Rightarrow> string list \<Rightarrow> exn + string list" where
  "numstat_paths repo [] = Inr []"
| "numstat_paths repo (rec # rest) =
     (case numstat_fields rec of
        None \<Rightarrow> Inl (ValueError ''not enough values to unpack'')
      | Some (a, b, p) \<Rightarrow>
          if \<not> all_digits a \<or> \<not> all_digits b then Inl (ValueError ''unsupported binary patch'')
          else (case validate_patch_path repo p of
                  Inl x \<Rightarrow> Inl x
                | Inr _ \<Rightarrow> (case numstat_paths repo rest of Inl x \<Rightarrow> Inl x | Inr ps \<Rightarrow> Inr (p # ps))))"

text \<open>The edits of a patch of the kind \<open>simple_replace\<close>.\<close>

definition simple_replace :: "string \<Rightarrow> json option" where
  "simple_replace patch = (case loads patch of
     Some (JObj d) \<Rightarrow>
       if map_of d ''type'' = Some (JStr ''simple_replace'')
       then Some (case map_of d ''edits'' of None \<Rightarrow> JNull | Some v \<Rightarrow> v) else None
   | _ \<Rightarrow> None)"

definition patch_paths ::
  "(Repo \<Rightarrow> string \<Rightarrow> string option) \<Rightarrow> Repo \<Rightarrow> string \<Rightarrow> exn + string set" where
  "patch_paths numstat repo patch =
     (if 1000000 < length (concat (map (\<lambda>c. if (of_char c :: nat) < 128 then [c] else [c, c]) patch))
         \<or> CHR 0x00 \<in> set patch
      then Inl (ValueError ''invalid or oversized patch'')
      else case simple_replace patch of
        Some edits \<Rightarrow>
          (case edits of
             JList (v # vs) \<Rightarrow> (case edit_paths repo (v # vs) of Inl e \<Rightarrow> Inl e | Inr ps \<Rightarrow> Inr (set ps))
           | _ \<Rightarrow> Inl (ValueError ''patch must contain at least one edit''))
      | None \<Rightarrow>
          (case first_line_error (split_lines patch) of
             Some m \<Rightarrow> Inl (ValueError m)
           | None \<Rightarrow>
               (case numstat repo patch of
                  None \<Rightarrow> Inl (ValueError ''invalid or empty unified diff'')
                | Some out \<Rightarrow>
                    if out = [] then Inl (ValueError ''invalid or empty unified diff'')
                    else (case numstat_paths repo (py_split (CHR 0x00) (rstrip_chars {CHR 0x00} out)) of
                            Inl e \<Rightarrow> Inl e | Inr ps \<Rightarrow> Inr (set ps)))))"

text \<open>The same with the bound as an integer, which the simplifier evaluates.\<close>

lemma patch_paths_code [code]: "patch_paths numstat repo patch =
    (if (1000000 :: int) < int (length (concat (map (\<lambda>c. if (of_char c :: nat) < 128 then [c] else [c, c]) patch)))
         \<or> CHR 0x00 \<in> set patch
      then Inl (ValueError ''invalid or oversized patch'')
      else case simple_replace patch of
        Some edits \<Rightarrow>
          (case edits of
             JList (v # vs) \<Rightarrow> (case edit_paths repo (v # vs) of Inl e \<Rightarrow> Inl e | Inr ps \<Rightarrow> Inr (set ps))
           | _ \<Rightarrow> Inl (ValueError ''patch must contain at least one edit''))
      | None \<Rightarrow>
          (case first_line_error (split_lines patch) of
             Some m \<Rightarrow> Inl (ValueError m)
           | None \<Rightarrow>
               (case numstat repo patch of
                  None \<Rightarrow> Inl (ValueError ''invalid or empty unified diff'')
                | Some out \<Rightarrow>
                    if out = [] then Inl (ValueError ''invalid or empty unified diff'')
                    else (case numstat_paths repo (py_split (CHR 0x00) (rstrip_chars {CHR 0x00} out)) of
                            Inl e \<Rightarrow> Inl e | Inr ps \<Rightarrow> Inr (set ps)))))"
  by (simp add: patch_paths_def)

section \<open>Applying a patch\<close>

text \<open>Universal newlines of \<open>read_text\<close>, and \<open>str.replace(find, new, 1)\<close>.\<close>

fun universal_newlines :: "string \<Rightarrow> string" where
  "universal_newlines [] = []"
| "universal_newlines (c # cs) =
     (if c = CHR 0x0D then CHR 0x0A # universal_newlines (if prefix [CHR 0x0A] cs then tl cs else cs)
      else c # universal_newlines cs)"

fun replace_first :: "string \<Rightarrow> string \<Rightarrow> string \<Rightarrow> string" where
  "replace_first f r [] = (if f = [] then r else [])"
| "replace_first f r (c # cs) =
     (if prefix f (c # cs) then r @ drop (length f) (c # cs) else c # replace_first f r cs)"

definition write_file :: "string \<Rightarrow> string \<Rightarrow> Repo \<Rightarrow> Repo" where
  "write_file p text repo = repo\<lparr>rp_files := dict_set p text (rp_files repo)\<rparr>"

definition apply_edit :: "Edit \<Rightarrow> Repo \<Rightarrow> Repo \<times> (exn + unit)" where
  "apply_edit e repo =
     (case validate_patch_path repo (ed_path e) of
        Inl x \<Rightarrow> (repo, Inl x)
      | Inr p \<Rightarrow>
          (case map_of (rp_files repo) p of
             None \<Rightarrow> (repo, Inl (FileNotFoundError p))
           | Some raw \<Rightarrow>
               (let text = universal_newlines raw in
                if \<not> contains (ed_find e) text
                then (repo, Inl (ValueError (''find string not present in '' @ ed_path e)))
                else (write_file p (replace_first (ed_find e) (ed_replace e) text) repo, Inr ()))))"

text \<open>
  An item that is no edit cannot pass \<open>patch_paths\<close>; reading its keys would raise.
\<close>

fun apply_edits :: "json list \<Rightarrow> Repo \<Rightarrow> Repo \<times> (exn + unit)" where
  "apply_edits [] repo = (repo, Inr ())"
| "apply_edits (v # vs) repo =
     (case edit_of v of
        None \<Rightarrow> (repo, Inl (OtherError ''edit''))
      | Some e \<Rightarrow>
          (case apply_edit e repo of
             (repo', Inl x) \<Rightarrow> (repo', Inl x)
           | (repo', Inr _) \<Rightarrow> apply_edits vs repo'))"

definition workspace_snapshot :: "Repo \<Rightarrow> exn + (string \<times> string) list" where
  "workspace_snapshot repo =
     (if rp_links repo \<noteq> [] then Inl (ValueError ''workspace contains a symlink'') else Inr (rp_files repo))"

definition changed_paths :: "(string \<times> string) list \<Rightarrow> (string \<times> string) list \<Rightarrow> string set" where
  "changed_paths before after =
     {p \<in> fst ` set before \<union> fst ` set after. map_of before p \<noteq> map_of after p}"

definition write_patch ::
  "(Repo \<Rightarrow> string \<Rightarrow> Repo option) \<Rightarrow> string \<Rightarrow> Repo \<Rightarrow> Repo \<times> (exn + unit)" where
  "write_patch applied patch repo =
     (if prefix ''{'' (dropWhile is_space patch) then
        (case loads patch of
           None \<Rightarrow> (repo, Inl (ValueError ''JSONDecodeError''))
         | Some (JObj d) \<Rightarrow>
             (case map_of d ''edits'' of
                Some (JList vs) \<Rightarrow> apply_edits vs repo
              | _ \<Rightarrow> (repo, Inl (OtherError ''edits'')))
         | _ \<Rightarrow> (repo, Inl (OtherError ''edits'')))
      else
        (case applied repo patch of
           None \<Rightarrow> (repo, Inl (OtherError ''CalledProcessError''))
         | Some repo' \<Rightarrow> (repo', Inr ())))"

definition apply_patch ::
  "(Repo \<Rightarrow> string \<Rightarrow> string option) \<Rightarrow> (Repo \<Rightarrow> string \<Rightarrow> Repo option)
     \<Rightarrow> string \<Rightarrow> Repo \<Rightarrow> Repo \<times> (exn + unit)" where
  "apply_patch numstat applied patch repo =
     (case patch_paths numstat repo patch of
        Inl e \<Rightarrow> (repo, Inl e)
      | Inr paths \<Rightarrow>
          (case workspace_snapshot repo of
             Inl e \<Rightarrow> (repo, Inl e)
           | Inr before \<Rightarrow>
               (case write_patch applied patch repo of
                  (repo', Inl e) \<Rightarrow> (repo', Inl e)
                | (repo', Inr _) \<Rightarrow>
                    (case workspace_snapshot repo' of
                       Inl e \<Rightarrow> (repo', Inl e)
                     | Inr after \<Rightarrow>
                         if changed_paths before after \<noteq> paths
                         then (repo', Inl (ValueError ''actual patch changes differ from declared paths''))
                         else (repo', Inr ())))))"

section \<open>Workspaces\<close>

record Workspace =
  ws_repo :: Repo
  ws_fault_check :: bool

record SandboxManager =
  sm_workspaces :: "(string \<times> Workspace) list"
  sm_base_commits :: "(string \<times> string) list"

record SandboxSettings =
  ss_environment :: string
  ss_sandbox_enabled :: bool
  ss_sandbox_network :: string
  ss_sandbox_image :: string
  ss_sandbox_fault_type :: string

definition new_manager :: SandboxManager where
  "new_manager = \<lparr>sm_workspaces = [], sm_base_commits = []\<rparr>"

datatype source = NoSource | SourceDir Repo | SourceFile string string bool

text \<open>What \<open>git rev-parse HEAD\<close> and \<open>git status --porcelain\<close> say about the source.\<close>

record git_state =
  gs_head :: "string option"
  gs_dirty :: bool

definition excluded_name :: "string \<Rightarrow> bool" where
  "excluded_name n \<longleftrightarrow> sensitive_path n \<or> n \<in> {''__pycache__'', ''var'', ''.pytest_cache''}
     \<or> ends_with ''.db'' n \<or> ends_with ''.log'' n"

text \<open>\<open>shutil.copytree\<close> prunes an excluded or linked entry with everything below it.\<close>

definition copied :: "Repo \<Rightarrow> string \<Rightarrow> bool" where
  "copied src p \<longleftrightarrow> \<not> list_ex excluded_name (path_parts p)
     \<and> \<not> list_ex (\<lambda>q. q \<in> set (rp_links src)) (path_prefixes (path_parts p))"

definition copy_tree :: "Repo \<Rightarrow> Repo" where
  "copy_tree src = \<lparr>rp_files = filter (\<lambda>(p, c). copied src p) (rp_files src), rp_links = []\<rparr>"

definition del_key :: "string \<Rightarrow> (string \<times> 'v) list \<Rightarrow> (string \<times> 'v) list" where
  "del_key k d = filter (\<lambda>kv. fst kv \<noteq> k) d"

definition destroy_workspace :: "string \<Rightarrow> SandboxManager \<Rightarrow> SandboxManager" where
  "destroy_workspace run_id m = m\<lparr>sm_workspaces := del_key run_id (sm_workspaces m),
     sm_base_commits := del_key run_id (sm_base_commits m)\<rparr>"

definition base_commit_sha :: "string \<Rightarrow> SandboxManager \<Rightarrow> string" where
  "base_commit_sha run_id m =
     (case map_of (sm_base_commits m) run_id of None \<Rightarrow> ''UNVERSIONED'' | Some s \<Rightarrow> s)"

definition put_workspace :: "string \<Rightarrow> Workspace \<Rightarrow> SandboxManager \<Rightarrow> SandboxManager" where
  "put_workspace run_id ws m = m\<lparr>sm_workspaces := dict_set run_id ws (sm_workspaces m)\<rparr>"

definition put_base :: "string \<Rightarrow> string \<Rightarrow> SandboxManager \<Rightarrow> SandboxManager" where
  "put_base run_id sha m = m\<lparr>sm_base_commits := dict_set run_id sha (sm_base_commits m)\<rparr>"

definition unprotected :: "SandboxSettings \<Rightarrow> bool" where
  "unprotected st \<longleftrightarrow> ss_environment st \<in> {''development'', ''test''}"

definition REGISTERED_FAULT_TYPES :: "string list" where
  "REGISTERED_FAULT_TYPES = [''slow_database_query'', ''missing_index'', ''n_plus_one_query'',
     ''bad_code_commit'', ''null_exception'', ''dependency_timeout'', ''connection_pool_exhaustion'',
     ''schema_mismatch'', ''cache_failure'', ''incorrect_configuration'', ''bad_query_refactor'',
     ''pagination_off_by_one'', ''duplicate_orders'', ''missing_items'', ''wrong_customer'', ''wrong_total'',
     ''reversed_orders'', ''hidden_orders'', ''invalid_status'', ''inflated_price'']"

text \<open>
  The steps after the copy: the base commit, the check of a protected environment and the fault
  oracle.
\<close>

definition finish_workspace ::
  "SandboxSettings \<Rightarrow> git_state \<Rightarrow> string \<Rightarrow> Repo \<Rightarrow> SandboxManager
     \<Rightarrow> SandboxManager \<times> (exn + unit)" where
  "finish_workspace st git run_id repo m =
     (let m1 = put_base run_id (case gs_head git of None \<Rightarrow> ''UNVERSIONED'' | Some s \<Rightarrow> s)
                 (put_workspace run_id \<lparr>ws_repo = repo, ws_fault_check = False\<rparr> m);
          dirty = (gs_head git \<noteq> None \<and> gs_dirty git);
          m2 = (if dirty then put_base run_id ''UNVERSIONED'' m1 else m1)
      in if dirty \<and> \<not> unprotected st
         then (m2, Inl (ValueError ''protected sandbox source must match a clean Git base''))
         else if ss_sandbox_fault_type st = [] then (m2, Inr ())
         else if ss_sandbox_fault_type st \<notin> set REGISTERED_FAULT_TYPES then (m2, Inl (ValueError ''unknown fault oracle''))
         else (put_workspace run_id \<lparr>ws_repo = repo, ws_fault_check = True\<rparr> m2, Inr ()))"

definition create_workspace ::
  "SandboxSettings \<Rightarrow> git_state \<Rightarrow> source \<Rightarrow> string \<Rightarrow> SandboxManager
     \<Rightarrow> SandboxManager \<times> (exn + unit)" where
  "create_workspace st git src run_id m =
     (case src of
        NoSource \<Rightarrow> (m, Inl (FileNotFoundError ''source path not found''))
      | SourceDir tree \<Rightarrow> finish_workspace st git run_id (copy_tree tree) (destroy_workspace run_id m)
      | SourceFile name text link \<Rightarrow>
          (let empty = \<lparr>rp_files = [], rp_links = []\<rparr>;
               m1 = put_workspace run_id \<lparr>ws_repo = empty, ws_fault_check = False\<rparr> (destroy_workspace run_id m)
           in if link \<or> sensitive_path name then (m1, Inl (ValueError ''sensitive source forbidden''))
              else finish_workspace st git run_id (write_file name text empty) m1))"

definition apply_patch_run ::
  "(Repo \<Rightarrow> string \<Rightarrow> string option) \<Rightarrow> (Repo \<Rightarrow> string \<Rightarrow> Repo option)
     \<Rightarrow> string \<Rightarrow> string \<Rightarrow> SandboxManager \<Rightarrow> SandboxManager \<times> (exn + unit)" where
  "apply_patch_run numstat applied run_id patch m =
     (case map_of (sm_workspaces m) run_id of
        None \<Rightarrow> (m, Inl (RuntimeError ''workspace not created''))
      | Some ws \<Rightarrow>
          (case apply_patch numstat applied patch (ws_repo ws) of
             (repo', r) \<Rightarrow> (put_workspace run_id (ws\<lparr>ws_repo := repo'\<rparr>) m, r)))"

section \<open>Running the tests\<close>

definition ALLOWED_TEST_COMMANDS :: "(string \<times> string list) list" where
  "ALLOWED_TEST_COMMANDS =
     [(''pytest'', [''python'', ''-m'', ''pytest'', ''-q'', ''--tb=short'']),
      (''pytest_fault'', [''python'', ''-m'', ''pytest'', ''-q'', ''--tb=short'', ''-p'', ''no:cacheprovider'',
         ''../checks/test_fault_active.py'']),
      (''pytest_regression'', [''python'', ''-m'', ''pytest'', ''-q'', ''--tb=short'', ''tests/test_regression.py''])]"

record SandboxResult =
  sr_ok :: bool
  sr_exit_code :: int
  sr_stdout :: string
  sr_stderr :: string
  sr_command :: "string list"
  sr_mode :: string

definition docker_command ::
  "SandboxSettings \<Rightarrow> string \<Rightarrow> string \<Rightarrow> string \<Rightarrow> string \<Rightarrow> string list \<Rightarrow> string list" where
  "docker_command st container root run_id profile cmd =
     [''docker'', ''run'', ''--rm'', ''--name'', container, ''--label'', ''incidentpilot.run_id='' @ run_id,
      ''--network'', ''none'', ''--user'', ''65534:65534'', ''--cap-drop'', ''ALL'',
      ''--security-opt'', ''no-new-privileges'', ''--memory'', ''512m'', ''--cpus'', ''1.0'',
      ''--pids-limit'', ''128'', ''--read-only'', ''--tmpfs'', ''/tmp:rw,nosuid,nodev,size=128m'',
      ''-e'', ''PYTHONDONTWRITEBYTECODE=1'', ''-e'', ''PYTEST_ADDOPTS=-p no:cacheprovider'',
      ''-e'', ''PYTHONPATH=/workspace'']
     @ (if profile = ''pytest_fault'' then [''-v'', root @ ''/checks:/checks:ro''] else [])
     @ [''-v'', root @ ''/repo:/workspace:ro'', ''-w'', ''/workspace'', ss_sandbox_image st]
     @ cmd"

text \<open>
  What a process does: \<open>run_process\<close> of \<open>sandbox/process.py\<close> either raises or returns the exit code
  and the two outputs, and leaves the directory it worked on in some state.
\<close>

type_synonym process = "string list \<Rightarrow> Repo \<Rightarrow> Repo \<times> (exn + int \<times> string \<times> string)"

definition test_verdict :: "SandboxSettings \<Rightarrow> string list \<Rightarrow> (string \<times> string) list \<Rightarrow> Repo
     \<Rightarrow> exn + int \<times> string \<times> string \<Rightarrow> exn + SandboxResult" where
  "test_verdict st cmd before repo' r = (case r of
      Inl e \<Rightarrow> Inl e
    | Inr (code, out, err) \<Rightarrow>
        (case workspace_snapshot repo' of
           Inl e \<Rightarrow> Inl e
         | Inr after \<Rightarrow>
             if changed_paths before after \<noteq> {}
             then Inl (ValueError ''test execution changed approved workspace content'')
             else Inr \<lparr>sr_ok = (code = 0), sr_exit_code = code, sr_stdout = out, sr_stderr = err,
                       sr_command = cmd, sr_mode = (if ss_sandbox_enabled st then ''docker'' else ''local'')\<rparr>))"

text \<open>
  \<open>finally\<close>: with a container, \<open>docker rm -f\<close> runs whatever happened, and an exception of it
  replaces the outcome. The result carries the commands that were executed.
\<close>

definition after_tests :: "SandboxSettings \<Rightarrow> string \<Rightarrow> process \<Rightarrow> string list \<Rightarrow> Repo \<Rightarrow> exn + SandboxResult
     \<Rightarrow> Repo \<times> string list list \<times> (exn + SandboxResult)" where
  "after_tests st container proc cmd repo r =
     (if ss_sandbox_enabled st then
        (let rm = [''docker'', ''rm'', ''-f'', container] in
         case proc rm repo of
           (repo', Inl e) \<Rightarrow> (repo', [cmd, rm], Inl e)
         | (repo', Inr _) \<Rightarrow> (repo', [cmd, rm], r))
      else (repo, [cmd], r))"

definition run_command :: "SandboxSettings \<Rightarrow> string \<Rightarrow> string \<Rightarrow> string \<Rightarrow> string \<Rightarrow> string \<Rightarrow> string list
     \<Rightarrow> string list" where
  "run_command st python container root run_id profile cmd =
     (if ss_sandbox_enabled st then docker_command st container root run_id profile cmd
      else python # tl cmd)"

text \<open>
  \<open>python\<close> is \<open>sys.executable\<close>, \<open>root\<close> the path of the temporary directory, \<open>container\<close> the generated
  name. The time limit and the environment variables belong to the process.
\<close>

definition run_tests_async :: "SandboxSettings \<Rightarrow> process \<Rightarrow> string \<Rightarrow> string \<Rightarrow> string \<Rightarrow> string \<Rightarrow> string
     \<Rightarrow> SandboxManager \<Rightarrow> SandboxManager \<times> string list list \<times> (exn + SandboxResult)" where
  "run_tests_async st proc python container root run_id profile m =
     (case map_of ALLOWED_TEST_COMMANDS profile of
        None \<Rightarrow> (m, [], Inl (ValueError (''test profile not allowlisted: '' @ profile)))
      | Some cmd \<Rightarrow>
          (case map_of (sm_workspaces m) run_id of
             None \<Rightarrow> (m, [], Inl (RuntimeError ''workspace not created''))
           | Some ws \<Rightarrow>
               if profile = ''pytest_fault'' \<and> \<not> ws_fault_check ws
               then (m, [], Inl (ValueError ''fault-active test oracle is missing''))
               else if \<not> unprotected st \<and> \<not> ss_sandbox_enabled st
               then (m, [], Inl (RuntimeError ''protected environment requires Docker sandbox''))
               else if ss_sandbox_enabled st \<and> ss_sandbox_network st \<noteq> ''none''
               then (m, [], Inl (ValueError ''sandbox network must be none''))
               else
                 (case workspace_snapshot (ws_repo ws) of
                    Inl e \<Rightarrow> (m, [], Inl e)
                  | Inr before \<Rightarrow>
                      (let full = run_command st python container root run_id profile cmd in
                       case proc full (ws_repo ws) of
                         (repo1, r) \<Rightarrow>
                           (case after_tests st container proc full repo1 (test_verdict st full before repo1 r) of
                              (repo2, cmds, res) \<Rightarrow>
                                (put_workspace run_id (ws\<lparr>ws_repo := repo2\<rparr>) m, cmds, res))))))"

definition export_patch_artifact ::
  "(string \<Rightarrow> string) \<Rightarrow> string \<Rightarrow> string \<Rightarrow> string \<Rightarrow> string \<Rightarrow> PatchArtifactData" where
  "export_patch_artifact sha new_id base patch test_run_id = \<lparr>xa_patch_artifact_id = new_id,
     xa_base_commit_sha = base, xa_patch_diff = patch, xa_patch_hash = hash_patch sha patch,
     xa_test_run_id = test_run_id\<rparr>"

section \<open>The deterministic patch\<close>

text \<open>
  The edits of \<open>generate_deterministic_patch\<close>; its text is their \<open>json.dumps\<close> with an indent of two.
\<close>

definition nl :: string where
  "nl = [CHR 0x0A]"

definition quoted :: "string \<Rightarrow> string" where
  "quoted s = [char_of (34::nat)] @ s @ [char_of (34::nat)]"

definition find_old :: string where
  "find_old = ''            if ftype in {'' @ join '', '' (map quoted [''n_plus_one_query'', ''missing_index'',
       ''bad_query_refactor'', ''cache_failure'']) @ ''}:'' @ nl
     @ ''                time.sleep(float(params.get('' @ quoted ''per_row_delay'' @ '', 0.03)))'' @ nl"

definition replace_new :: string where
  "replace_new = ''            # Fixed: remove per-row delay after batching item loads'' @ nl
     @ ''            # (n_plus_one_query / missing_index / bad_query_refactor / cache_failure)'' @ nl"

definition find_slow :: string where
  "find_slow = ''        if ftype in {'' @ join '', '' (map quoted [''slow_database_query'', ''dependency_timeout'',
       ''connection_pool_exhaustion'']) @ ''}:'' @ nl
     @ ''            time.sleep(float(params.get('' @ quoted ''delay_seconds'' @ '', 0.5)))'' @ nl"

definition replace_slow :: string where
  "replace_slow = ''        # Fixed: remove injected slow dependency delay'' @ nl"

definition edit_json :: "Edit \<Rightarrow> json" where
  "edit_json e = JObj [(''path'', JStr (ed_path e)), (''find'', JStr (ed_find e)), (''replace'', JStr (ed_replace e))]"

definition deterministic_patch :: "string \<Rightarrow> json" where
  "deterministic_patch summary = JObj [(''type'', JStr ''simple_replace''), (''reason'', JStr summary),
     (''edits'', JList [edit_json \<lparr>ed_path = ''app.py'', ed_find = find_old, ed_replace = replace_new\<rparr>,
                        edit_json \<lparr>ed_path = ''app.py'', ed_find = find_slow, ed_replace = replace_slow\<rparr>])]"

definition generate_deterministic_patch :: "string \<Rightarrow> string" where
  "generate_deterministic_patch summary = dumps_indent 2 (deterministic_patch summary)"

end
