(* ===== verification/Gateway.thy ===== *)
theory Gateway
  imports ToolData Enums Complex_Main
begin

text \<open>
  \<open>tools/gateway.py\<close>: the layer every tool call passes. The registry is an association list of tool
  specifications. The handler of a tool is an argument of the model: at its \<open>n\<close>-th execution it
  returns a value or raises. Wall-clock latencies and the telemetry span, which nothing reads back,
  are left out; the delays the gateway sleeps are part of the result of a call, with the source of
  jitter an argument.
\<close>

section \<open>Specifications, results, registry\<close>

text \<open>The parts of the JSON schema of a tool's input the gateway reads; \<open>timeout\<close> as its digits.\<close>

record ToolSpec =
  ts_name :: string
  ts_category :: string
  ts_timeout :: "int \<times> nat"
  ts_max_retries :: nat
  ts_required :: "string list"
  ts_properties :: "(string \<times> string option) list"
  ts_additional :: "bool option"

record ToolResult =
  tl_tool_call_id :: string
  tl_tool_name :: string
  tl_status :: ToolCallStatus
  tl_output :: "(string \<times> json) list"
  tl_error :: "string option"
  tl_input :: json
  tl_attempt_count :: nat
  tl_error_category :: "string option"
  tl_trace_id :: string

type_synonym ToolRegistry = "(string \<times> ToolSpec) list"

definition register :: "ToolSpec \<Rightarrow> ToolRegistry \<Rightarrow> ToolRegistry" where
  "register spec reg = dict_set (ts_name spec) spec reg"

definition registry_get :: "string \<Rightarrow> ToolRegistry \<Rightarrow> ToolSpec option" where
  "registry_get name reg = map_of reg name"

definition registry_names :: "ToolRegistry \<Rightarrow> string list" where
  "registry_names reg = sort (map fst reg)"

section \<open>The budget\<close>

record BudgetTracker =
  max_tool_calls :: int
  max_steps :: int
  tool_call_count :: int
  step_count :: int

definition new_budget :: "int \<Rightarrow> int \<Rightarrow> BudgetTracker" where
  "new_budget calls steps = \<lparr>max_tool_calls = calls, max_steps = steps, tool_call_count = 0, step_count = 0\<rparr>"

definition can_call_tool :: "BudgetTracker \<Rightarrow> bool" where
  "can_call_tool b \<longleftrightarrow> tool_call_count b < max_tool_calls b"

definition can_step :: "BudgetTracker \<Rightarrow> bool" where
  "can_step b \<longleftrightarrow> step_count b < max_steps b"

definition record_tool_call :: "BudgetTracker \<Rightarrow> BudgetTracker" where
  "record_tool_call b = b\<lparr>tool_call_count := tool_call_count b + 1\<rparr>"

definition record_step :: "BudgetTracker \<Rightarrow> BudgetTracker" where
  "record_step b = b\<lparr>step_count := step_count b + 1\<rparr>"

section \<open>Validation of the input\<close>

text \<open>\<open>repr\<close> of a list of strings, as it appears in the error texts.\<close>

definition repr_char :: "char \<Rightarrow> char \<Rightarrow> string" where
  "repr_char q c = (let n = of_char c :: nat in
     if c = q \<or> n = 92 then [char_of (92::nat), c]
     else if n = 10 then [char_of (92::nat), CHR ''n'']
     else if n = 13 then [char_of (92::nat), CHR ''r'']
     else if n = 9 then [char_of (92::nat), CHR ''t'']
     else if 32 \<le> n \<and> n \<le> 126 \<or> 161 \<le> n \<and> n \<noteq> 173 then [c]
     else [char_of (92::nat)] @ ''x'' @ [hex_digit (n div 16), hex_digit (n mod 16)])"

definition repr_str :: "string \<Rightarrow> string" where
  "repr_str s = (let q = (if char_of (39::nat) \<in> set s \<and> char_of (34::nat) \<notin> set s
       then char_of (34::nat) else char_of (39::nat))
     in [q] @ concat (map (repr_char q) s) @ [q])"

definition repr_list :: "string list \<Rightarrow> string" where
  "repr_list xs = ''['' @ join '', '' (map repr_str xs) @ '']''"

text \<open>\<open>isinstance(value, py_type)\<close> for a schema type; a \<open>bool\<close> is an \<open>int\<close> to Python.\<close>

fun is_number :: "json \<Rightarrow> bool" where
  "is_number (JInt _) = True"
| "is_number (JFloat _ _) = True"
| "is_number (JBool _) = True"
| "is_number _ = False"

fun is_integer :: "json \<Rightarrow> bool" where
  "is_integer (JInt _) = True"
| "is_integer (JBool _) = True"
| "is_integer _ = False"

fun is_bool :: "json \<Rightarrow> bool" where
  "is_bool (JBool _) = True"
| "is_bool _ = False"

fun is_string :: "json \<Rightarrow> bool" where
  "is_string (JStr _) = True"
| "is_string _ = False"

definition type_mismatch :: "string \<Rightarrow> json \<Rightarrow> bool" where
  "type_mismatch expected v \<longleftrightarrow>
     expected = ''string'' \<and> \<not> is_string v
     \<or> expected = ''integer'' \<and> \<not> is_integer v
     \<or> expected = ''number'' \<and> \<not> is_number v
     \<or> expected = ''boolean'' \<and> \<not> is_bool v"

text \<open>\<open>1 <= value <= 50\<close>; a value that is no number makes the comparison raise.\<close>

fun in_limits :: "json \<Rightarrow> bool option" where
  "in_limits (JInt i) = Some (1 \<le> i \<and> i \<le> 50)"
| "in_limits (JFloat m k) = Some (10 ^ k \<le> m \<and> m \<le> 50 * 10 ^ k)"
| "in_limits (JBool b) = Some b"
| "in_limits _ = None"

definition validate_field :: "ToolSpec \<Rightarrow> string \<Rightarrow> json \<Rightarrow> exn + unit" where
  "validate_field spec key v =
     (case map_of (ts_properties spec) key of
        None \<Rightarrow> Inr ()
      | Some expected \<Rightarrow>
          if expected \<noteq> None \<and> type_mismatch (the expected) v
          then Inl (ValueError (''invalid type for '' @ ts_name spec @ ''.'' @ key @ '': expected '' @ the expected))
          else if expected \<in> {Some ''integer'', Some ''number''} \<and> is_bool v
          then Inl (ValueError ''boolean is not a numeric tool argument'')
          else if (case v of JStr s \<Rightarrow> (if key = ''query'' then 8192 else 512) < length s | _ \<Rightarrow> False)
          then Inl (ValueError (''tool argument too long: '' @ key))
          else if key = ''limit'' then
            (case in_limits v of
               None \<Rightarrow> Inl (TypeError ''limit is not comparable'')
             | Some True \<Rightarrow> Inr ()
             | Some False \<Rightarrow> Inl (ValueError ''limit must be between 1 and 50''))
          else Inr ())"

fun validate_fields :: "ToolSpec \<Rightarrow> (string \<times> json) list \<Rightarrow> exn + unit" where
  "validate_fields spec [] = Inr ()"
| "validate_fields spec ((k, v) # kvs) =
     (case validate_field spec k v of Inl e \<Rightarrow> Inl e | Inr _ \<Rightarrow> validate_fields spec kvs)"

definition validate_input :: "ToolSpec \<Rightarrow> json \<Rightarrow> exn + (string \<times> json) list" where
  "validate_input spec payload =
     (if \<not> is_dict payload \<or> 16000 < length (dumps payload)
      then Inl (ValueError ''invalid or oversized tool input'')
      else
        let d = dict_items payload;
            missing = filter (\<lambda>k. k \<notin> fst ` set d) (ts_required spec);
            extras = sort (filter (\<lambda>k. k \<notin> fst ` set (ts_properties spec)) (map fst d))
        in if missing \<noteq> []
           then Inl (ValueError (''missing required fields for '' @ ts_name spec @ '': '' @ repr_list missing))
           else if ts_additional spec = Some False \<and> extras \<noteq> []
           then Inl (ValueError (''unexpected fields for '' @ ts_name spec @ '': '' @ repr_list extras))
           else if ts_properties spec = [] then Inr d
           else (case validate_fields spec d of Inl e \<Rightarrow> Inl e | Inr _ \<Rightarrow> Inr d))"

section \<open>Errors\<close>

fun classify_tool_error :: "exn \<Rightarrow> string \<times> bool" where
  "classify_tool_error (TimeoutError _) = (''timeout'', True)"
| "classify_tool_error (HttpxTimeoutException _) = (''timeout'', True)"
| "classify_tool_error (ConnectionError _) = (''connection'', True)"
| "classify_tool_error (HttpxNetworkError _) = (''connection'', True)"
| "classify_tool_error (HTTPStatusError code _) =
     (if code = 429 then (''rate_limit'', True)
      else if code \<in> {500, 502, 503, 504} then (''server'', True)
      else (''http_permanent'', False))"
| "classify_tool_error (PermissionError _) = (''permission'', False)"
| "classify_tool_error (TypeError _) = (''validation'', False)"
| "classify_tool_error (ValueError _) = (''validation'', False)"
| "classify_tool_error (StructuredOutputError _) = (''validation'', False)"
| "classify_tool_error _ = (''permanent'', False)"

definition RETRYABLE :: "string list" where
  "RETRYABLE = [''timeout'', ''connection'', ''rate_limit'', ''server'']"

text \<open>\<open>min(5.0, 0.25 * (2**attempt)) * (0.5 + self.jitter())\<close>\<close>

definition retry_delay :: "nat \<Rightarrow> rat \<Rightarrow> rat" where
  "retry_delay attempt jitter = min 5 (2 ^ attempt / 4) * (1 / 2 + jitter)"

section \<open>The gateway\<close>

record ToolGateway =
  gw_registry :: ToolRegistry
  gw_budget :: BudgetTracker
  gw_audit_log :: "json list"

definition audit :: "(string \<times> json) list \<Rightarrow> ToolGateway \<Rightarrow> ToolGateway" where
  "audit event g = g\<lparr>gw_audit_log := last_n 1000 (gw_audit_log g @ [redact 0 (JObj event)])\<rparr>"

type_synonym handler = "nat \<Rightarrow> (string \<times> json) list \<Rightarrow> exn + json"

text \<open>What the gateway accepts of a handler's return value.\<close>

definition check_output :: "json \<Rightarrow> exn + (string \<times> json) list" where
  "check_output v =
     (if \<not> is_dict v \<or> dict_items v = [] \<or> get_truthy ''error'' (dict_items v)
         \<or> get_truthy ''isError'' (dict_items v) \<or> get_truthy ''partial'' (dict_items v)
         \<or> get_truthy ''truncated'' (dict_items v)
      then Inl (ValueError ''tool returned error, empty, invalid or incomplete result'')
      else if 64000 < length (dumps v) then Inl (ValueError ''tool result exceeds size limit'')
      else Inr (dict_items v))"

definition run_handler :: "handler \<Rightarrow> nat \<Rightarrow> (string \<times> json) list \<Rightarrow> exn + (string \<times> json) list" where
  "run_handler h n args = (case h n args of Inl e \<Rightarrow> Inl e | Inr v \<Rightarrow> check_output v)"

text \<open>
  The state of the retry loop when it is left: the output and the executions so far, or the status,
  the error, its category, the executions and the loop variable.
\<close>

datatype attempts_outcome =
    Succeeded "(string \<times> json) list" nat
  | Gave_up ToolCallStatus string string nat nat

text \<open>How an exception of an execution is recorded.\<close>

definition failure :: "ToolSpec \<Rightarrow> exn \<Rightarrow> ToolCallStatus \<times> string \<times> string" where
  "failure spec e = (case e of
     TimeoutError _ \<Rightarrow> (T_TIMEOUT, ''timeout after '' @ show_float (fst (ts_timeout spec)) (snd (ts_timeout spec)) @ ''s'',
                        ''timeout'')
   | _ \<Rightarrow> (T_FAILED, take 2000 (redact_str (message e)), fst (classify_tool_error e)))"

definition call_event ::
  "string \<Rightarrow> string \<Rightarrow> string \<Rightarrow> string \<Rightarrow> string \<Rightarrow> (string \<times> json) list" where
  "call_event ev tcid name run_id trace_id = [(''event'', JStr ev), (''tool_call_id'', JStr tcid),
     (''tool_name'', JStr name), (''run_id'', JStr run_id), (''trace_id'', JStr trace_id)]"

definition charge_retry :: "nat \<Rightarrow> ToolGateway \<Rightarrow> ToolGateway" where
  "charge_retry attempt g =
     (if 0 < attempt then g\<lparr>gw_budget := record_tool_call (gw_budget g)\<rparr> else g)"

text \<open>
  The loop \<open>for attempt in range(attempts)\<close>, over the attempts that are left: \<open>left\<close> counts them,
  \<open>attempt\<close> is the loop variable, \<open>executed\<close> the executions so far. It returns the gateway, the
  delays slept and the outcome.
\<close>

fun attempt_loop ::
  "ToolSpec \<Rightarrow> handler \<Rightarrow> (nat \<Rightarrow> rat) \<Rightarrow> (string \<Rightarrow> (string \<times> json) list) \<Rightarrow> (string \<times> json) list
     \<Rightarrow> nat \<Rightarrow> nat \<Rightarrow> nat \<Rightarrow> ToolGateway \<Rightarrow> ToolGateway \<times> rat list \<times> attempts_outcome" where
  "attempt_loop spec h jitter ev args 0 attempt executed g =
     (g, [], Gave_up T_FAILED [] [] executed attempt)"
| "attempt_loop spec h jitter ev args (Suc left) attempt executed g =
     (if 0 < attempt \<and> \<not> can_call_tool (gw_budget g)
      then (g, [], Gave_up T_DENIED ''retry budget exhausted'' ''budget'' executed attempt)
      else
        let g1 = charge_retry attempt g in
        case run_handler h executed args of
          Inr out \<Rightarrow>
            (audit (ev ''tool_succeeded'' @ [(''attempt'', JInt (int attempt))]) g1, [],
             Succeeded out (executed + 1))
        | Inl e \<Rightarrow>
            (case failure spec e of (st, err, cat) \<Rightarrow>
               let g2 = audit (ev ''tool_attempt_failed'' @ [(''attempt'', JInt (int attempt + 1)),
                          (''error_category'', JStr cat)]) g1
               in if cat \<notin> set RETRYABLE \<or> left = 0
                  then (g2, [], Gave_up st err cat (executed + 1) attempt)
                  else (case attempt_loop spec h jitter ev args left (attempt + 1) (executed + 1) g2 of
                          (g3, ds, oc) \<Rightarrow> (g3, retry_delay attempt (jitter attempt) # ds, oc))))"

definition tool_result ::
  "string \<Rightarrow> string \<Rightarrow> string \<Rightarrow> ToolCallStatus \<Rightarrow> (string \<times> json) list \<Rightarrow> string option \<Rightarrow> json \<Rightarrow> nat
     \<Rightarrow> string option \<Rightarrow> ToolResult" where
  "tool_result tcid name trace_id st out err inp n cat = \<lparr>tl_tool_call_id = tcid, tl_tool_name = name,
     tl_status = st, tl_output = out, tl_error = err, tl_input = inp, tl_attempt_count = n,
     tl_error_category = cat, tl_trace_id = trace_id\<rparr>"

definition call ::
  "handler \<Rightarrow> (nat \<Rightarrow> rat) \<Rightarrow> string \<Rightarrow> string \<Rightarrow> string \<Rightarrow> string \<Rightarrow> json \<Rightarrow> ToolGateway
     \<Rightarrow> ToolGateway \<times> rat list \<times> (exn + ToolResult)" where
  "call h jitter tcid run_id trace_id name payload g =
     (let ev = (\<lambda>e. call_event e tcid name run_id trace_id);
          res = tool_result tcid name trace_id in
      case registry_get name (gw_registry g) of
        None \<Rightarrow> (audit (ev ''tool_denied'') g, [],
                 Inr (res T_DENIED [] (Some (''tool not registered: '' @ name)) (redact 0 payload) 0
                        (Some ''permission'')))
      | Some spec \<Rightarrow>
          if \<not> can_call_tool (gw_budget g)
          then (audit (butlast (ev ''budget_exhausted'')) g, [],
                Inr (res T_DENIED [] (Some ''tool call budget exhausted'') (redact 0 payload) 0
                       (Some ''budget'')))
          else
            (case validate_input spec payload of
               Inl e \<Rightarrow>
                 (g, [], if is_ValueError e
                         then Inr (res T_FAILED [] (Some (message e)) (redact 0 payload) 0 (Some ''validation''))
                         else Inl e)
             | Inr args \<Rightarrow>
                 (case attempt_loop spec h jitter ev args (ts_max_retries spec + 1) 0 0
                         (g\<lparr>gw_budget := record_tool_call (gw_budget g)\<rparr>) of
                    (g', ds, Succeeded out n) \<Rightarrow>
                      (g', ds, Inr (res T_SUCCEEDED (redact_dict out) None (redact 0 (JObj args)) n None))
                  | (g', ds, Gave_up st err cat n attempt) \<Rightarrow>
                      (audit (ev ''tool_failed'' @ [(''error'', JStr err), (''error_category'', JStr cat),
                                (''attempt'', JInt (int attempt + 1))]) g', ds,
                       Inr (res st [] (Some err) (redact 0 (JObj args)) n (Some cat))))))"

end
