(* ===== verification/Http.thy ===== *)
theory Http
  imports Gateway
begin

text \<open>
  What the components that talk to the outside share: computations that thread a state and may raise,
  the subscripts of decoded JSON, and the responses of \<open>httpx\<close>. The texts of Python's own
  \<open>TypeError\<close> and \<open>AttributeError\<close> are abbreviated to their names; nothing compares them.
\<close>

section \<open>Effects\<close>

type_synonym ('s, 'a) eff = "'s \<Rightarrow> 's \<times> (exn + 'a)"

definition bind_eff :: "('s, 'a) eff \<Rightarrow> ('a \<Rightarrow> ('s, 'b) eff) \<Rightarrow> ('s, 'b) eff" where
  "bind_eff m f s = (case m s of (s', Inl e) \<Rightarrow> (s', Inl e) | (s', Inr x) \<Rightarrow> f x s')"

definition handle :: "('s, 'a) eff \<Rightarrow> (exn \<Rightarrow> ('s, 'a) eff) \<Rightarrow> ('s, 'a) eff" where
  "handle m h s = (case m s of (s', Inl e) \<Rightarrow> h e s' | (s', Inr x) \<Rightarrow> (s', Inr x))"

definition give :: "'a \<Rightarrow> ('s, 'a) eff" where
  "give x s = (s, Inr x)"

definition fail :: "exn \<Rightarrow> ('s, 'a) eff" where
  "fail e s = (s, Inl e)"

definition lift_sum :: "exn + 'a \<Rightarrow> ('s, 'a) eff" where
  "lift_sum r s = (s, r)"

definition ensure :: "bool \<Rightarrow> exn \<Rightarrow> ('s, unit) eff" where
  "ensure b e s = (s, if b then Inr () else Inl e)"

fun map_eff :: "('a \<Rightarrow> ('s, 'b) eff) \<Rightarrow> 'a list \<Rightarrow> ('s, 'b list) eff" where
  "map_eff f [] = give []"
| "map_eff f (x # xs) = bind_eff (f x) (\<lambda>y. bind_eff (map_eff f xs) (\<lambda>ys. give (y # ys)))"

lemma bind_eff_Inr [simp]:
  "bind_eff m f s = (s', Inr y) \<longleftrightarrow> (\<exists>s1 x. m s = (s1, Inr x) \<and> f x s1 = (s', Inr y))"
  by (auto simp: bind_eff_def split: prod.splits sum.splits)

lemma give_iff [simp]: "give x s = (s', r) \<longleftrightarrow> s' = s \<and> r = Inr x"
  by (auto simp: give_def)

lemma fail_iff [simp]: "fail e s = (s', r) \<longleftrightarrow> s' = s \<and> r = Inl e"
  by (auto simp: fail_def)

lemma lift_sum_iff: "lift_sum x s = (s', r) \<longleftrightarrow> s' = s \<and> r = x"
  by (auto simp: lift_sum_def)

lemma ensure_iff: "ensure b e s = (s', r) \<longleftrightarrow> s' = s \<and> r = (if b then Inr () else Inl e)"
  by (auto simp: ensure_def)

lemma lift_sum_Inr [simp]: "lift_sum x s = (s', Inr v) \<longleftrightarrow> s' = s \<and> x = Inr v"
  by (auto simp: lift_sum_def)

lemma ensure_Inr [simp]: "ensure b e s = (s', Inr u) \<longleftrightarrow> s' = s \<and> b"
  by (auto simp: ensure_def)

text \<open>A relation between the states before and after that every part of a computation obeys.\<close>

definition obeys :: "('s \<Rightarrow> 's \<Rightarrow> bool) \<Rightarrow> ('s, 'a) eff \<Rightarrow> bool" where
  "obeys R m \<longleftrightarrow> (\<forall>s. R s (fst (m s)))"

lemma obeysD: "obeys R m \<Longrightarrow> m s = (s', r) \<Longrightarrow> R s s'"
  by (auto simp: obeys_def dest: spec [where x = s])

lemma obeys_bind:
  assumes "transp R" and "obeys R m" and "\<And>x. obeys R (f x)"
  shows "obeys R (bind_eff m f)"
  using assms by (auto simp: obeys_def bind_eff_def transp_def split: prod.splits sum.splits)
    (metis fst_conv)+

lemma obeys_pure:
  assumes "reflp R"
  shows "obeys R (give x)" and "obeys R (fail e)" and "obeys R (lift_sum r)" and "obeys R (ensure b e)"
  using assms by (auto simp: obeys_def reflp_def give_def fail_def lift_sum_def ensure_def)

lemma obeys_map:
  assumes "transp R" and "reflp R" and "\<And>x. obeys R (f x)"
  shows "obeys R (map_eff f xs)"
  by (induction xs) (auto intro!: obeys_bind obeys_pure assms)

section \<open>Decoded JSON\<close>

text \<open>\<open>str(v)\<close> of a decoded value.\<close>

fun py_repr :: "json \<Rightarrow> string" where
  "py_repr JNull = ''None''"
| "py_repr (JBool b) = (if b then ''True'' else ''False'')"
| "py_repr (JInt i) = show_int i"
| "py_repr (JFloat m k) = show_float m k"
| "py_repr (JStr s) = repr_str s"
| "py_repr (JList xs) = ''['' @ join '', '' (map py_repr xs) @ '']''"
| "py_repr (JObj kvs) = ''{'' @ join '', '' (map (\<lambda>(k, v). repr_str k @ '': '' @ py_repr v) kvs) @ ''}''"

fun py_str :: "json \<Rightarrow> string" where
  "py_str (JStr s) = s"
| "py_str v = py_repr v"

text \<open>\<open>v["key"]\<close>, \<open>v.get("key", default)\<close>, \<open>v[0]\<close> and \<open>for x in v\<close>.\<close>

fun subscript :: "string \<Rightarrow> json \<Rightarrow> exn + json" where
  "subscript k (JObj d) = (case map_of d k of None \<Rightarrow> Inl (OtherError (repr_str k)) | Some v \<Rightarrow> Inr v)"
| "subscript k v = Inl (TypeError ''TypeError'')"

fun dict_get :: "string \<Rightarrow> json \<Rightarrow> json \<Rightarrow> exn + json" where
  "dict_get k dflt (JObj d) = Inr (case map_of d k of None \<Rightarrow> dflt | Some v \<Rightarrow> v)"
| "dict_get k dflt v = Inl (OtherError ''AttributeError'')"

fun first_item :: "json \<Rightarrow> exn + json" where
  "first_item (JList (x # xs)) = Inr x"
| "first_item (JList []) = Inl (OtherError ''list index out of range'')"
| "first_item (JStr (c # cs)) = Inr (JStr [c])"
| "first_item (JStr []) = Inl (OtherError ''string index out of range'')"
| "first_item (JObj d) = Inl (OtherError ''0'')"
| "first_item v = Inl (TypeError ''TypeError'')"

fun iterate :: "json \<Rightarrow> exn + json list" where
  "iterate (JList xs) = Inr xs"
| "iterate (JObj d) = Inr (map (\<lambda>kv. JStr (fst kv)) d)"
| "iterate (JStr s) = Inr (map (\<lambda>c. JStr [c]) s)"
| "iterate v = Inl (TypeError ''TypeError'')"

section \<open>Responses\<close>

text \<open>The status and, when the body is JSON, its value.\<close>

type_synonym response = "int \<times> json option"

definition raise_for_status :: "response \<Rightarrow> exn + unit" where
  "raise_for_status r =
     (if 200 \<le> fst r \<and> fst r < 300 then Inr () else Inl (HTTPStatusError (fst r) ''HTTP status''))"

definition response_json :: "response \<Rightarrow> exn + json" where
  "response_json r = (case snd r of None \<Rightarrow> Inl (ValueError ''JSONDecodeError'') | Some v \<Rightarrow> Inr v)"

end
