(* ===== verification/Base64.thy ===== *)
theory Base64
  imports Prelude
begin

text \<open>
  \<open>base64.b64encode\<close> and \<open>base64.b64decode(..., validate=False)\<close>, in which the GitHub API carries the
  contents of files. A byte string is a list of characters. The decoder is the loop of \<open>binascii\<close>: it
  skips characters outside the alphabet (GitHub breaks lines), keeps the bits of the current quad, and
  stops at a complete pad.
\<close>

definition sextet_char :: "nat \<Rightarrow> char" where
  "sextet_char n = (if n < 26 then char_of (n + 65) else if n < 52 then char_of (n + 71)
     else if n < 62 then char_of (n - 4) else if n = 62 then CHR ''+'' else CHR ''/'')"

definition char_sextet :: "char \<Rightarrow> nat option" where
  "char_sextet c = (let n = of_char c :: nat in
     if 65 \<le> n \<and> n \<le> 90 then Some (n - 65) else if 97 \<le> n \<and> n \<le> 122 then Some (n - 71)
     else if 48 \<le> n \<and> n \<le> 57 then Some (n + 4) else if c = CHR ''+'' then Some 62
     else if c = CHR ''/'' then Some 63 else None)"

fun b64encode :: "string \<Rightarrow> string" where
  "b64encode [] = []"
| "b64encode [a] = (let x = of_char a :: nat in
     [sextet_char (x div 4), sextet_char (x mod 4 * 16), CHR ''='', CHR ''=''])"
| "b64encode [a, b] = (let x = of_char a :: nat; y = of_char b in
     [sextet_char (x div 4), sextet_char (x mod 4 * 16 + y div 16), sextet_char (y mod 16 * 4), CHR ''=''])"
| "b64encode (a # b # c # cs) = (let x = of_char a :: nat; y = of_char b; z = of_char c in
     [sextet_char (x div 4), sextet_char (x mod 4 * 16 + y div 16), sextet_char (y mod 16 * 4 + z div 64),
      sextet_char (z mod 64)] @ b64encode cs)"

text \<open>\<open>pos\<close> is the position in the quad, \<open>left\<close> its bits not yet written, \<open>pads\<close> the pads just seen.\<close>

fun a2b_base64 :: "nat \<Rightarrow> nat \<Rightarrow> nat \<Rightarrow> string \<Rightarrow> string option" where
  "a2b_base64 pos left pads [] = (if pos = 0 then Some [] else None)"
| "a2b_base64 pos left pads (c # cs) =
     (if c = CHR ''='' then
        (if 2 \<le> pos \<and> 4 \<le> pos + (pads + 1) then Some []
         else a2b_base64 pos left (if 2 \<le> pos then pads + 1 else pads) cs)
      else (case char_sextet c of
        None \<Rightarrow> a2b_base64 pos left pads cs
      | Some v \<Rightarrow>
          if pos = 0 then a2b_base64 1 v 0 cs
          else if pos = 1 then map_option (Cons (char_of (left * 4 + v div 16))) (a2b_base64 2 (v mod 16) 0 cs)
          else if pos = 2 then map_option (Cons (char_of (left * 16 + v div 4))) (a2b_base64 3 (v mod 4) 0 cs)
          else map_option (Cons (char_of (left * 64 + v))) (a2b_base64 0 0 0 cs)))"

definition b64decode :: "string \<Rightarrow> exn + string" where
  "b64decode s =
     (if list_ex (\<lambda>c. 128 \<le> (of_char c :: nat)) s
      then Inl (ValueError ''string argument should contain only ASCII characters'')
      else case a2b_base64 0 0 0 s of None \<Rightarrow> Inl (ValueError ''Incorrect padding'') | Some t \<Rightarrow> Inr t)"

section \<open>The round trip\<close>

lemma of_sextet_char: "n < 64 \<Longrightarrow> (of_char (sextet_char n) :: nat) =
    (if n < 26 then n + 65 else if n < 52 then n + 71 else if n < 62 then n - 4 else if n = 62 then 43 else 47)"
  by (simp add: sextet_char_def)

lemma char_neq: "(of_char c :: nat) \<noteq> of_char d \<Longrightarrow> c \<noteq> d"
  by auto

lemma sextet_ok:
  assumes "n < 64"
  shows "char_sextet (sextet_char n) = Some n" and "sextet_char n \<noteq> CHR ''=''"
    and "(of_char (sextet_char n) :: nat) < 128"
proof -
  show "sextet_char n \<noteq> CHR ''=''"
    by (rule char_neq) (use assms in \<open>auto simp: of_sextet_char\<close>)
  show "(of_char (sextet_char n) :: nat) < 128"
    using assms by (auto simp: of_sextet_char)
  consider "n < 62" | "n = 62" | "n = 63" using assms by linarith
  then show "char_sextet (sextet_char n) = Some n"
    by cases (auto simp: char_sextet_def Let_def of_sextet_char sextet_char_def)
qed

lemma bits:
  shows "(b::nat) < k \<Longrightarrow> (a * k + b) div k = a" and "b < k \<Longrightarrow> (a * k + b) mod k = b"
    and "(x::nat) < 256 \<Longrightarrow> x div 4 < 64" and "x < 256 \<Longrightarrow> x div 16 < 16" and "x < 256 \<Longrightarrow> x div 64 < 4"
  by auto

lemma byte_bits:
  fixes x y z :: nat
  assumes "x < 256" and "y < 256" and "z < 256"
  shows "x mod 4 * 16 < 64" and "x mod 4 * 16 + y div 16 < 64" and "y mod 16 * 4 < 64"
    and "y mod 16 * 4 + z div 64 < 64" and "z mod 64 < 64"
proof -
  have "x mod 4 < 4" "y mod 16 < 16" "y div 16 < 16" "z div 64 < 4"
    using assms by auto
  then show "x mod 4 * 16 < 64" "x mod 4 * 16 + y div 16 < 64" "y mod 16 * 4 < 64"
    "y mod 16 * 4 + z div 64 < 64" "z mod 64 < 64"
    by linarith+
qed

lemma a2b_sextet:
  assumes "n < 64"
  shows "a2b_base64 0 left pads (sextet_char n # cs) = a2b_base64 1 n 0 cs"
    and "a2b_base64 1 left pads (sextet_char n # cs) =
      map_option (Cons (char_of (left * 4 + n div 16))) (a2b_base64 2 (n mod 16) 0 cs)"
    and "a2b_base64 2 left pads (sextet_char n # cs) =
      map_option (Cons (char_of (left * 16 + n div 4))) (a2b_base64 3 (n mod 4) 0 cs)"
    and "a2b_base64 3 left pads (sextet_char n # cs) =
      map_option (Cons (char_of (left * 64 + n))) (a2b_base64 0 0 0 cs)"
  using sextet_ok [OF assms] by simp_all

text \<open>One quad, whatever follows it.\<close>

lemma a2b_quad:
  fixes x y z :: nat
  assumes "x < 256" and "y < 256" and "z < 256"
  shows "a2b_base64 0 0 p (sextet_char (x div 4) # sextet_char (x mod 4 * 16 + y div 16)
      # sextet_char (y mod 16 * 4 + z div 64) # sextet_char (z mod 64) # cs)
    = map_option (\<lambda>t. char_of x # char_of y # char_of z # t) (a2b_base64 0 0 0 cs)"
  using assms
  by (simp add: a2b_sextet byte_bits bits option.map_comp comp_def del: a2b_base64.simps One_nat_def)

lemma a2b_two:
  fixes x y :: nat
  assumes "x < 256" and "y < 256"
  shows "a2b_base64 0 0 p (sextet_char (x div 4) # sextet_char (x mod 4 * 16 + y div 16)
      # sextet_char (y mod 16 * 4) # CHR ''='' # cs) = Some [char_of x, char_of y]"
proof -
  have "y mod 16 * 4 div 4 = y mod 16" by simp
  then show ?thesis
    using assms by (simp add: a2b_sextet byte_bits bits del: a2b_base64.simps One_nat_def) (simp add: a2b_base64.simps)
qed

lemma a2b_one:
  fixes x :: nat
  assumes "x < 256"
  shows "a2b_base64 0 0 p (sextet_char (x div 4) # sextet_char (x mod 4 * 16) # CHR ''='' # CHR ''='' # cs)
    = Some [char_of x]"
proof -
  have "x mod 4 * 16 < 64" by (rule byte_bits(1) [of x x x]) (use assms in auto)
  then show ?thesis
    using assms by (simp add: a2b_sextet bits del: a2b_base64.simps One_nat_def) (simp add: a2b_base64.simps)
qed

lemma a2b_b64encode: "a2b_base64 0 0 p (b64encode s) = Some s"
proof (induction s arbitrary: p rule: b64encode.induct)
  case 1
  then show ?case by simp
next
  case (2 a)
  then show ?case using a2b_one [of "of_char a" p "[]"] by (simp add: Let_def del: a2b_base64.simps One_nat_def)
next
  case (3 a b)
  then show ?case using a2b_two [of "of_char a" "of_char b" p "[]"] by (simp add: Let_def del: a2b_base64.simps One_nat_def)
next
  case (4 a b c cs)
  then show ?case
    using a2b_quad [of "of_char a" "of_char b" "of_char c" p "b64encode cs"]
    by (simp add: Let_def del: a2b_base64.simps One_nat_def)
qed

lemma b64encode_ascii: "list_all (\<lambda>c. (of_char c :: nat) < 128) (b64encode s)"
proof (induction s rule: b64encode.induct)
  case (2 a)
  then show ?case by (simp add: Let_def sextet_ok bits byte_bits [of "of_char a" 0 0, simplified])
next
  case (3 a b)
  then show ?case by (simp add: Let_def sextet_ok bits byte_bits [of "of_char a" "of_char b" 0, simplified])
next
  case (4 a b c cs)
  then show ?case
    by (simp add: Let_def sextet_ok bits byte_bits [of "of_char a" "of_char b" "of_char c"])
qed simp

theorem b64decode_encode: "b64decode (b64encode s) = Inr s"
  using b64encode_ascii [of s]
  by (simp add: b64decode_def a2b_b64encode list_ex_iff list_all_iff not_le)

end
