(* ===== verification/GitHubReal.thy ===== *)
theory GitHubReal
  imports GitHubMock Sandbox Http Base64
begin

text \<open>
  \<open>github/integration.py\<close>, \<open>acreate_pull_request\<close> of an integration that is enabled. The remote is a
  parameter: it answers a request in its state \<open>'r\<close> with a status and a body, or the request raises.
  Paths are relative to \<open>base_url/repos/repo\<close>; the payload is the query of a GET and the JSON of a
  POST. The state of the computation holds the integration, the remote and a log of what was sent and
  authorized, which the code does not keep and no branch reads. The calls of \<open>authorize\<close> are answered
  by a function of the length of the log, since the lease may be lost between two of them. \<open>git apply\<close>
  is a parameter, as in theory Sandbox, and so is the order in which a set of paths is visited. Values
  of GitHub are compared as they are; its identifiers are strings.
\<close>

section \<open>The client\<close>

datatype http_method = GET | POST

datatype gh_event = Authorize "exn + unit" | Request http_method string json "exn + response"

record 'r hub =
  hb_self :: GitHubIntegration
  hb_remote :: 'r
  hb_log :: "gh_event list"

record 'r gh_env =
  ge_http :: "http_method \<Rightarrow> string \<Rightarrow> json \<Rightarrow> 'r \<Rightarrow> 'r \<times> (exn + response)"
  ge_authorize :: "(nat \<Rightarrow> exn + unit) option"
  ge_sha :: "string \<Rightarrow> string"
  ge_numstat :: "Repo \<Rightarrow> string \<Rightarrow> string option"
  ge_git_apply :: "string list \<Rightarrow> Repo \<Rightarrow> string \<Rightarrow> Repo \<times> (exn + int \<times> string)"
  ge_order :: "string set \<Rightarrow> string list"

definition send :: "'r gh_env \<Rightarrow> http_method \<Rightarrow> string \<Rightarrow> json \<Rightarrow> ('r hub, response) eff" where
  "send env method path payload h =
     (case ge_http env method path payload (hb_remote h) of
        (r, answer) \<Rightarrow> (h\<lparr>hb_remote := r, hb_log := hb_log h @ [Request method path payload answer]\<rparr>, answer))"

definition authorize :: "'r gh_env \<Rightarrow> ('r hub, unit) eff" where
  "authorize env h =
     (case ge_authorize env of
        None \<Rightarrow> (h, Inr ())
      | Some f \<Rightarrow> (let a = f (length (hb_log h)) in (h\<lparr>hb_log := hb_log h @ [Authorize a]\<rparr>, a)))"

definition checked_json :: "response \<Rightarrow> ('r hub, json) eff" where
  "checked_json r = bind_eff (lift_sum (raise_for_status r)) (\<lambda>_. lift_sum (response_json r))"

definition gh_get :: "'r gh_env \<Rightarrow> string \<Rightarrow> json \<Rightarrow> ('r hub, json) eff" where
  "gh_get env path params = bind_eff (send env GET path params) checked_json"

definition gh_post :: "'r gh_env \<Rightarrow> string \<Rightarrow> json \<Rightarrow> ('r hub, json) eff" where
  "gh_post env path payload =
     bind_eff (authorize env) (\<lambda>_. bind_eff (send env POST path payload) checked_json)"

definition sub_eff :: "string \<Rightarrow> json \<Rightarrow> ('r hub, json) eff" where
  "sub_eff k v = lift_sum (subscript k v)"

definition sub2_eff :: "string \<Rightarrow> string \<Rightarrow> json \<Rightarrow> ('r hub, json) eff" where
  "sub2_eff k1 k2 v = bind_eff (sub_eff k1 v) (sub_eff k2)"

section \<open>Reading the base\<close>

definition base_branch :: string where
  "base_branch = ''main''"

definition immutable_sha :: "string \<Rightarrow> bool" where
  "immutable_sha s \<longleftrightarrow> length s = 40 \<and> list_all (\<lambda>c. c \<in> set ''0123456789abcdef'') s"

definition pr_params :: "string \<Rightarrow> string \<Rightarrow> json" where
  "pr_params repo branch = JObj [(''state'', JStr ''all''),
     (''head'', JStr (hd (py_split (CHR ''/'') repo) @ '':'' @ branch))]"

text \<open>\<open>{entry["path"]: entry for entry in ...}\<close>: only a string can be looked up, a list is not hashable.\<close>

fun tree_entries :: "json list \<Rightarrow> exn + (string \<times> json) list" where
  "tree_entries [] = Inr []"
| "tree_entries (e # es) =
     (case subscript ''path'' e of
        Inl x \<Rightarrow> Inl x
      | Inr (JList _) \<Rightarrow> Inl (TypeError ''unhashable'')
      | Inr (JObj _) \<Rightarrow> Inl (TypeError ''unhashable'')
      | Inr p \<Rightarrow>
          (case tree_entries es of
             Inl x \<Rightarrow> Inl x
           | Inr d \<Rightarrow> Inr (case p of JStr s \<Rightarrow> (s, e) # d | _ \<Rightarrow> d)))"

record base_info =
  bi_tree :: json
  bi_entries :: "(string \<times> json) list"

definition read_base :: "'r gh_env \<Rightarrow> string \<Rightarrow> ('r hub, base_info) eff" where
  "read_base env base_sha =
     bind_eff (gh_get env (''/git/ref/heads/'' @ base_branch) JNull) (\<lambda>base.
     bind_eff (sub2_eff ''object'' ''sha'' base) (\<lambda>head.
     bind_eff (ensure (head = JStr base_sha) (ValueError ''approved base commit is stale; revalidation required'')) (\<lambda>_.
     bind_eff (gh_get env (''/git/commits/'' @ base_sha) JNull) (\<lambda>base_commit.
     bind_eff (sub2_eff ''tree'' ''sha'' base_commit) (\<lambda>base_tree.
     bind_eff (gh_get env (''/git/trees/'' @ py_str base_tree) (JObj [(''recursive'', JStr ''1'')])) (\<lambda>base_files.
     bind_eff (lift_sum (dict_get ''truncated'' JNull base_files)) (\<lambda>truncated.
     bind_eff (ensure (\<not> truthy truncated) (ValueError ''base tree is truncated'')) (\<lambda>_.
     bind_eff (sub_eff ''tree'' base_files) (\<lambda>tree.
     bind_eff (lift_sum (iterate tree)) (\<lambda>es.
     bind_eff (lift_sum (tree_entries es)) (\<lambda>entries.
     give \<lparr>bi_tree = base_tree, bi_entries = rev entries\<rparr>)))))))))))"

section \<open>The approved patch on the base\<close>

text \<open>\<open>target.parent.mkdir(parents=True, exist_ok=True)\<close> and \<open>target.write_bytes\<close>.\<close>

definition make_parents :: "string \<Rightarrow> Repo \<Rightarrow> exn + unit" where
  "make_parents p repo =
     (if list_ex (\<lambda>f. prefix (fst f @ ''/'') p) (rp_files repo) then Inl (OtherError ''FileExistsError'')
      else Inr ())"

definition write_bytes :: "string \<Rightarrow> string \<Rightarrow> Repo \<Rightarrow> exn + Repo" where
  "write_bytes p text repo =
     (if list_ex (\<lambda>f. prefix (p @ ''/'') (fst f)) (rp_files repo) then Inl (OtherError ''IsADirectoryError'')
      else Inr (write_file p text repo))"

fun blob_text :: "json \<Rightarrow> exn + string" where
  "blob_text (JStr s) = b64decode s"
| "blob_text v = Inl (TypeError ''TypeError'')"

fun fetch_files ::
  "'r gh_env \<Rightarrow> (string \<times> json) list \<Rightarrow> string list \<Rightarrow> Repo \<Rightarrow> ('r hub, Repo) eff" where
  "fetch_files env entries [] repo = give repo"
| "fetch_files env entries (p # ps) repo =
     (case map_of entries p of
        None \<Rightarrow> fetch_files env entries ps repo
      | Some entry \<Rightarrow>
          bind_eff (sub_eff ''type'' entry) (\<lambda>t.
          bind_eff (if t \<noteq> JStr ''blob'' then give True
                    else bind_eff (sub_eff ''mode'' entry) (\<lambda>mode. give (mode \<noteq> JStr ''100644''))) (\<lambda>unsupported.
          bind_eff (ensure (\<not> unsupported) (ValueError ''unsupported base file type or mode'')) (\<lambda>_.
          bind_eff (sub_eff ''sha'' entry) (\<lambda>sha.
          bind_eff (gh_get env (''/git/blobs/'' @ py_str sha) JNull) (\<lambda>blob.
          bind_eff (lift_sum (validate_patch_path repo p)) (\<lambda>target.
          bind_eff (lift_sum (make_parents target repo)) (\<lambda>_.
          bind_eff (sub_eff ''content'' blob) (\<lambda>content.
          bind_eff (lift_sum (blob_text content)) (\<lambda>text.
          bind_eff (lift_sum (write_bytes target text repo)) (\<lambda>repo'.
          fetch_files env entries ps repo')))))))))))"

fun git_apply_all :: "'r gh_env \<Rightarrow> string list list \<Rightarrow> string \<Rightarrow> Repo \<Rightarrow> exn + Repo" where
  "git_apply_all env [] patch repo = Inr repo"
| "git_apply_all env (args # rest) patch repo =
     (case ge_git_apply env args repo patch of
        (repo', Inl e) \<Rightarrow> Inl e
      | (repo', Inr (code, error)) \<Rightarrow>
          if code \<noteq> 0 then Inl (ValueError (''approved patch does not apply: '' @ take 300 error))
          else git_apply_all env rest patch repo')"

definition patched_workspace ::
  "'r gh_env \<Rightarrow> string \<Rightarrow> string set \<Rightarrow> Repo \<Rightarrow> exn + Repo" where
  "patched_workspace env patch paths repo =
     (case workspace_snapshot repo of
        Inl e \<Rightarrow> Inl e
      | Inr before \<Rightarrow>
          (case git_apply_all env [[''--check''], []] patch repo of
             Inl e \<Rightarrow> Inl e
           | Inr repo' \<Rightarrow>
               (case workspace_snapshot repo' of
                  Inl e \<Rightarrow> Inl e
                | Inr after \<Rightarrow>
                    if changed_paths before after \<noteq> paths
                    then Inl (ValueError ''final change paths differ from approval'') else Inr repo')))"

definition empty_repo :: Repo where
  "empty_repo = \<lparr>rp_files = [], rp_links = []\<rparr>"

text \<open>Everything up to the first write: the patched files and the paths of the patch.\<close>

definition prepare ::
  "'r gh_env \<Rightarrow> string \<Rightarrow> base_info \<Rightarrow> ('r hub, Repo \<times> string set) eff" where
  "prepare env patch info =
     bind_eff (lift_sum (patch_paths (ge_numstat env) empty_repo patch)) (\<lambda>paths.
     bind_eff (ensure (\<not> prefix ''{'' (dropWhile is_space patch)) (ValueError ''real GitHub requires a unified diff'')) (\<lambda>_.
     bind_eff (fetch_files env (bi_entries info) (ge_order env paths) empty_repo) (\<lambda>repo.
     bind_eff (lift_sum (patched_workspace env patch paths repo)) (\<lambda>repo'.
     give (repo', paths)))))"

section \<open>Uploading the result\<close>

definition change_entry :: "string \<Rightarrow> json \<Rightarrow> json" where
  "change_entry p sha = JObj [(''path'', JStr p), (''mode'', JStr ''100644''), (''type'', JStr ''blob''), (''sha'', sha)]"

definition blob_payload :: "string \<Rightarrow> json" where
  "blob_payload text = JObj [(''content'', JStr (b64encode text)), (''encoding'', JStr ''base64'')]"

definition upload_change :: "'r gh_env \<Rightarrow> Repo \<Rightarrow> string \<Rightarrow> ('r hub, json) eff" where
  "upload_change env repo p =
     (case map_of (rp_files repo) p of
        None \<Rightarrow> give (change_entry p JNull)
      | Some text \<Rightarrow>
          bind_eff (gh_post env ''/git/blobs'' (blob_payload text)) (\<lambda>blob.
          bind_eff (sub_eff ''sha'' blob) (\<lambda>sha. give (change_entry p sha))))"

definition tree_payload :: "json \<Rightarrow> json list \<Rightarrow> json" where
  "tree_payload base_tree changes = JObj [(''base_tree'', base_tree), (''tree'', JList changes)]"

definition upload_tree :: "'r gh_env \<Rightarrow> json \<Rightarrow> Repo \<times> string set \<Rightarrow> ('r hub, json) eff" where
  "upload_tree env base_tree work =
     bind_eff (map_eff (upload_change env (fst work)) (sorted_list_of_set (snd work))) (\<lambda>changes.
     gh_post env ''/git/trees'' (tree_payload base_tree changes))"


section \<open>The branch\<close>

definition git_ref :: "string \<Rightarrow> string" where
  "git_ref branch = ''/git/ref/heads/'' @ branch"

definition commit_payload :: "string \<Rightarrow> json \<Rightarrow> string \<Rightarrow> json" where
  "commit_payload title tree_sha base_sha =
     JObj [(''message'', JStr title), (''tree'', tree_sha), (''parents'', JList [JStr base_sha])]"

definition ref_payload :: "string \<Rightarrow> json \<Rightarrow> json" where
  "ref_payload branch commit_sha = JObj [(''ref'', JStr (''refs/heads/'' @ branch)), (''sha'', commit_sha)]"

definition create_branch :: "'r gh_env \<Rightarrow> pr_request \<Rightarrow> string \<Rightarrow> json \<Rightarrow> ('r hub, json) eff" where
  "create_branch env rq branch tree =
     bind_eff (sub_eff ''sha'' tree) (\<lambda>tree_sha.
     bind_eff (gh_post env ''/git/commits'' (commit_payload (rq_title rq) tree_sha (rq_base_commit_sha rq))) (\<lambda>commit.
     bind_eff (authorize env) (\<lambda>_.
     bind_eff (sub_eff ''sha'' commit) (\<lambda>commit_sha.
     bind_eff (send env POST ''/git/refs'' (ref_payload branch commit_sha)) (\<lambda>created.
     bind_eff (if fst created \<in> {200, 201, 422} then give () else lift_sum (raise_for_status created)) (\<lambda>_.
     gh_get env (git_ref branch) JNull))))))"

definition ensure_branch :: "'r gh_env \<Rightarrow> pr_request \<Rightarrow> string \<Rightarrow> json \<Rightarrow> ('r hub, json) eff" where
  "ensure_branch env rq branch tree =
     bind_eff (send env GET (git_ref branch) JNull) (\<lambda>r.
     if fst r = 404 then create_branch env rq branch tree else checked_json r)"

fun all_sub :: "string \<Rightarrow> json list \<Rightarrow> exn + json list" where
  "all_sub k [] = Inr []"
| "all_sub k (v # vs) =
     (case subscript k v of
        Inl e \<Rightarrow> Inl e
      | Inr x \<Rightarrow> (case all_sub k vs of Inl e \<Rightarrow> Inl e | Inr xs \<Rightarrow> Inr (x # xs)))"

definition verify_branch :: "'r gh_env \<Rightarrow> string \<Rightarrow> json \<Rightarrow> json \<Rightarrow> ('r hub, unit) eff" where
  "verify_branch env base_sha tree remote_ref =
     bind_eff (sub2_eff ''object'' ''sha'' remote_ref) (\<lambda>head.
     bind_eff (gh_get env (''/git/commits/'' @ py_str head) JNull) (\<lambda>remote_commit.
     bind_eff (sub2_eff ''tree'' ''sha'' remote_commit) (\<lambda>remote_tree.
     bind_eff (sub_eff ''sha'' tree) (\<lambda>tree_sha.
     bind_eff (if remote_tree \<noteq> tree_sha then give False
               else bind_eff (sub_eff ''parents'' remote_commit) (\<lambda>parents.
                    bind_eff (lift_sum (iterate parents)) (\<lambda>ps.
                    bind_eff (lift_sum (all_sub ''sha'' ps)) (\<lambda>shas. give (shas = [JStr base_sha])))))
       (\<lambda>same. ensure same (ValueError ''remote branch differs from approved artifact''))))))"

section \<open>The pull request\<close>

text \<open>\<open>data.get("head", {}).get("sha") != remote_ref["object"]["sha"]\<close>.\<close>

definition head_matches :: "json \<Rightarrow> json \<Rightarrow> ('r hub, bool) eff" where
  "head_matches data remote_ref =
     bind_eff (lift_sum (dict_get ''head'' (JObj []) data)) (\<lambda>head.
     bind_eff (lift_sum (dict_get ''sha'' JNull head)) (\<lambda>sha.
     bind_eff (sub2_eff ''object'' ''sha'' remote_ref) (\<lambda>expected. give (sha = expected))))"

definition pull_payload :: "pr_request \<Rightarrow> string \<Rightarrow> json" where
  "pull_payload rq branch = JObj [(''title'', JStr (rq_title rq)), (''head'', JStr branch),
     (''base'', JStr base_branch), (''body'', JStr (rq_body rq))]"

definition existing_pull :: "json \<Rightarrow> json \<Rightarrow> ('r hub, json) eff" where
  "existing_pull prs remote_ref =
     bind_eff (lift_sum (first_item prs)) (\<lambda>data.
     bind_eff (head_matches data remote_ref) (\<lambda>same.
     bind_eff (ensure same (ValueError ''existing PR head differs from approved artifact'')) (\<lambda>_. give data)))"

definition reconcile_pull :: "'r gh_env \<Rightarrow> json \<Rightarrow> json \<Rightarrow> ('r hub, json) eff" where
  "reconcile_pull env params remote_ref =
     bind_eff (gh_get env ''/pulls'' params) (\<lambda>matches.
     if \<not> truthy matches then fail (ValueError ''PR conflict could not be reconciled'')
     else bind_eff (lift_sum (first_item matches)) (\<lambda>data.
          bind_eff (head_matches data remote_ref) (\<lambda>same.
          bind_eff (ensure same (ValueError ''PR conflict could not be reconciled'')) (\<lambda>_. give data))))"

definition open_pull :: "'r gh_env \<Rightarrow> pr_request \<Rightarrow> string \<Rightarrow> json \<Rightarrow> json \<Rightarrow> ('r hub, json) eff" where
  "open_pull env rq branch params remote_ref =
     bind_eff (authorize env) (\<lambda>_.
     bind_eff (send env POST ''/pulls'' (pull_payload rq branch)) (\<lambda>r.
     if fst r = 422 then reconcile_pull env params remote_ref else checked_json r))"

definition ensure_pull ::
  "'r gh_env \<Rightarrow> pr_request \<Rightarrow> string \<Rightarrow> json \<Rightarrow> json \<Rightarrow> json \<Rightarrow> ('r hub, json \<times> bool) eff" where
  "ensure_pull env rq branch params existing remote_ref =
     bind_eff (if truthy existing then give existing else gh_get env ''/pulls'' params) (\<lambda>prs.
     bind_eff (if truthy prs then existing_pull prs remote_ref else open_pull env rq branch params remote_ref)
       (\<lambda>data. give (data, truthy prs)))"

section \<open>Publishing\<close>

text \<open>
  The fields of the result have the types the dataclass declares, which are those GitHub documents for
  \<open>html_url\<close> and \<open>number\<close>.
\<close>

definition pull_result :: "string \<Rightarrow> string \<Rightarrow> json \<Rightarrow> json \<Rightarrow> bool \<Rightarrow> json \<Rightarrow> json \<Rightarrow> exn + PullRequestResult" where
  "pull_result branch base_sha tree_sha commit_sha dedup url number =
     (case (url, number) of
        (JStr u, JInt n) \<Rightarrow> Inr \<lparr>pr_ok = True, pr_mode = ''real'', pr_url = u, pr_number = Some n, pr_branch = branch,
           pr_error = None, pr_details = [(''base_sha'', JStr base_sha), (''tree_sha'', tree_sha),
             (''commit_sha'', commit_sha), (''deduplicated'', JBool dedup)]\<rparr>
      | _ \<Rightarrow> Inl (TypeError ''PullRequestResult''))"

definition note_created :: "PullRequestResult \<Rightarrow> bool \<Rightarrow> ('r hub, unit) eff" where
  "note_created result dedup h =
     (let g = hb_self h in
      (h\<lparr>hb_self := g\<lparr>gi_created := gi_created g @ [result],
         gi_creation_call_count := gi_creation_call_count g + (if dedup then 0 else 1)\<rparr>\<rparr>, Inr ()))"

definition record_pull ::
  "string \<Rightarrow> string \<Rightarrow> json \<Rightarrow> json \<Rightarrow> json \<times> bool \<Rightarrow> ('r hub, PullRequestResult) eff" where
  "record_pull branch base_sha tree remote_ref pull =
     bind_eff (sub_eff ''html_url'' (fst pull)) (\<lambda>url.
     bind_eff (sub_eff ''number'' (fst pull)) (\<lambda>number.
     bind_eff (sub_eff ''sha'' tree) (\<lambda>tree_sha.
     bind_eff (sub2_eff ''object'' ''sha'' remote_ref) (\<lambda>commit_sha.
     bind_eff (lift_sum (pull_result branch base_sha tree_sha commit_sha (snd pull) url number)) (\<lambda>result.
     bind_eff (note_created result (snd pull)) (\<lambda>_. give result))))))"

definition branch_name :: "'r gh_env \<Rightarrow> pr_request \<Rightarrow> string" where
  "branch_name env rq = ''incidentpilot/'' @ rq_run_id rq @ ''-'' @ take 12 (hash_patch (ge_sha env) (rq_patch_diff rq))"

text \<open>The two halves: what only reads, up to the patched workspace, and what writes.\<close>

definition gather ::
  "'r gh_env \<Rightarrow> pr_request \<Rightarrow> json \<Rightarrow> ('r hub, json \<times> base_info \<times> Repo \<times> string set) eff" where
  "gather env rq params =
     bind_eff (ensure (immutable_sha (rq_base_commit_sha rq)) (ValueError ''approved artifact has no immutable git base commit'')) (\<lambda>_.
     bind_eff (gh_get env ''/pulls'' params) (\<lambda>existing.
     bind_eff (read_base env (rq_base_commit_sha rq)) (\<lambda>info.
     bind_eff (prepare env (rq_patch_diff rq) info) (\<lambda>work. give (existing, info, work)))))"

definition publish ::
  "'r gh_env \<Rightarrow> pr_request \<Rightarrow> string \<Rightarrow> json \<Rightarrow> json \<times> base_info \<times> Repo \<times> string set
     \<Rightarrow> ('r hub, PullRequestResult) eff" where
  "publish env rq branch params found =
     (case found of (existing, info, work) \<Rightarrow>
     bind_eff (upload_tree env (bi_tree info) work) (\<lambda>tree.
     bind_eff (ensure_branch env rq branch tree) (\<lambda>remote_ref.
     bind_eff (verify_branch env (rq_base_commit_sha rq) tree remote_ref) (\<lambda>_.
     bind_eff (ensure_pull env rq branch params existing remote_ref) (\<lambda>pull.
     record_pull branch (rq_base_commit_sha rq) tree remote_ref pull)))))"

fun retryable :: "exn \<Rightarrow> bool" where
  "retryable (HttpxTimeoutException m) = True"
| "retryable (HttpxNetworkError m) = True"
| "retryable (HTTPStatusError c m) = (c = 429 \<or> 500 \<le> c)"
| "retryable _ = False"

fun persisted_error :: "exn \<Rightarrow> string" where
  "persisted_error (HTTPStatusError c m) = ''GitHub HTTP '' @ show_int c"
| "persisted_error e = message e"

definition failed_result :: "string \<Rightarrow> exn \<Rightarrow> PullRequestResult" where
  "failed_result branch e = \<lparr>pr_ok = False, pr_mode = ''real'', pr_url = [], pr_number = None, pr_branch = branch,
     pr_error = Some (persisted_error e), pr_details = [(''retryable'', JBool (retryable e))]\<rparr>"

definition acreate_pull_request ::
  "'r gh_env \<Rightarrow> pr_request \<Rightarrow> 'r hub \<Rightarrow> 'r hub \<times> PullRequestResult" where
  "acreate_pull_request env rq h =
     (if \<not> gi_enabled (hb_self h) then
        (case create_pull_request rq (hb_self h) of (g, r) \<Rightarrow> (h\<lparr>hb_self := g\<rparr>, r))
      else
        (let branch = branch_name env rq; params = pr_params (gi_repo (hb_self h)) branch in
         case bind_eff (gather env rq params) (publish env rq branch params) h of
           (h', Inl e) \<Rightarrow> (h', failed_result branch e)
         | (h', Inr r) \<Rightarrow> (h', r)))"

end
