(* ===== verification/Approvals.thy ===== *)
theory Approvals
  imports RunService Artifacts
begin

text \<open>
  The class \<open>ApprovalService\<close> of \<open>services/incidents.py\<close>: the human decision on a patch. One
  transaction validates the artifact, takes the run out of \<open>WAITING_APPROVAL\<close> by compare-and-set
  and inserts the approval row; every failure rolls it back and raises \<open>ApprovalConflict\<close>.
\<close>

definition decision_target :: "ApprovalDecision \<Rightarrow> AgentRunStatus" where
  "decision_target dec = (if dec = REJECT then NEEDS_HUMAN_INTERVENTION else PENDING)"

definition decide_values :: "ApprovalDecision \<Rightarrow> time \<Rightarrow> AgentRun \<Rightarrow> AgentRun" where
  "decide_values dec wall r = r\<lparr>
     ar_status := decision_target dec,
     ar_workflow_state := (if dec = REJECT then W_NEEDS_HUMAN_INTERVENTION else W_CREATE_PULL_REQUEST),
     ar_worker_id := None,
     ar_last_heartbeat_at := None,
     ar_lease_expires_at := None,
     ar_next_attempt_at := (if dec = REJECT then None else Some wall)\<rparr>"

definition new_approval ::
  "string \<Rightarrow> AgentRun \<Rightarrow> PatchArtifact \<Rightarrow> ApprovalDecision \<Rightarrow> string \<Rightarrow> string \<Rightarrow> time \<Rightarrow> Approval" where
  "new_approval pk run a dec actor reason wall = \<lparr>
     ap_id = pk, ap_run_pk = ar_id run, ap_patch_artifact_id = Some (pa_patch_artifact_id a),
     ap_decision = Some dec, ap_actor = actor, ap_reason = reason, ap_payload = binding a,
     ap_decided_at = Some wall\<rparr>"

definition waiting_matches :: "AgentRun \<Rightarrow> AgentRun \<Rightarrow> bool" where
  "waiting_matches run r \<longleftrightarrow> ar_id r = ar_id run \<and> ar_status r = WAITING_APPROVAL"

definition decide ::
  "(string \<Rightarrow> string) \<Rightarrow> string \<Rightarrow> time \<Rightarrow> AgentRun \<Rightarrow> ApprovalDecision \<Rightarrow> string \<Rightarrow> string
     \<Rightarrow> string option \<Rightarrow> string option \<Rightarrow> db \<Rightarrow> db \<times> (exn + Approval \<times> AgentRun)" where
  "decide sha pk wall run dec actor reason patch_artifact_id patch_hash d =
     (case validated_artifact sha run patch_artifact_id d of
        Inl e \<Rightarrow> (d, Inl (if is_ValueError e then ApprovalConflict (message e) else e))
      | Inr a \<Rightarrow>
          if patch_hash \<noteq> None \<and> patch_hash \<noteq> Some (pa_patch_hash a)
          then (d, Inl (ApprovalConflict ''approval patch hash mismatch''))
          else if rowcount (waiting_matches run) (db_runs d) = 0
          then (d, Inl (ApprovalConflict ''approval was already decided''))
          else
            let ap = new_approval pk run a dec actor reason wall;
                d' = d\<lparr>db_runs := sql_update (waiting_matches run) (decide_values dec wall) (db_runs d),
                       db_approvals := db_approvals d @ [ap]\<rparr>
            in if unique_violation ap_run_pk ap (db_approvals d)
               then (d, Inl (ApprovalConflict ''approval was already decided''))
               else (case refreshed run d' of Inl e \<Rightarrow> (d', Inl e) | Inr r \<Rightarrow> (d', Inr (ap, r))))"

definition update_incident_for_decision :: "Incident \<Rightarrow> ApprovalDecision \<Rightarrow> db \<Rightarrow> db" where
  "update_incident_for_decision incident dec d =
     (if dec = REJECT
      then d\<lparr>db_incidents := sql_update (\<lambda>i. inc_id i = inc_id incident)
              (\<lambda>i. i\<lparr>inc_status := I_NEEDS_HUMAN_INTERVENTION\<rparr>) (db_incidents d)\<rparr>
      else d)"

lemma decide_values_simps [row_simps]:
  "ar_id (decide_values dec w r) = ar_id r"
  "ar_run_id (decide_values dec w r) = ar_run_id r"
  "ar_status (decide_values dec w r) = decision_target dec"
  "ar_attempt_count (decide_values dec w r) = ar_attempt_count r"
  "ar_worker_id (decide_values dec w r) = None"
  by (simp_all add: decide_values_def)

end
