(* ===== verification/JobFacts.thy ===== *)
theory JobFacts
  imports Approvals GraphStore
begin

text \<open>
  What the operations of \<open>Jobs\<close>, \<open>RunService\<close> and \<open>Approvals\<close> do to the table of runs. A row
  \<open>evolves\<close> when its keys stay, its attempt counter does not fall and its status moves along
  \<open>RUN_TRANSITIONS\<close>; a table evolves when every row does and new rows are appended. Each operation
  is shown to evolve the table once, and the protocol theory needs nothing else of it.
\<close>

section \<open>Interpretations of the key contract\<close>

interpretation claim_upd: keyed_update ar_run_id "claim_values w l t" for w l t
  by unfold_locales (simp add: row_simps)

interpretation renew_upd: keyed_update ar_run_id "renew_values l t" for l t
  by unfold_locales (simp add: row_simps)

interpretation release_upd: keyed_update ar_run_id clear_lease
  by unfold_locales (simp add: row_simps)

interpretation retry_upd: keyed_update ar_run_id "retry_values m c dl w" for m c dl w
  by unfold_locales (simp add: row_simps)

interpretation expire_upd: keyed_update ar_run_id "expire_values t" for t
  by unfold_locales (simp add: row_simps)

interpretation status_upd: keyed_update ar_run_id "status_values s u w" for s u w
  by unfold_locales (simp add: row_simps)

interpretation decide_upd: keyed_update ar_run_id "decide_values dec w" for dec w
  by unfold_locales (simp add: row_simps)

interpretation status_pk: keyed_update ar_id "status_values s u w" for s u w
  by unfold_locales (simp add: row_simps)

interpretation decide_pk: keyed_update ar_id "decide_values dec w" for dec w
  by unfold_locales (simp add: row_simps)

interpretation retry_pk: keyed_update ar_id "retry_values m c dl w" for m c dl w
  by unfold_locales (simp add: row_simps)

lemma rowcount_run_pk:
  assumes "schema_ok d" and "\<And>x. x \<in> set (db_runs d) \<Longrightarrow> p x \<Longrightarrow> ar_id x = pk"
  shows "rowcount p (db_runs d) = (case get_run pk d of None \<Rightarrow> 0 | Some r \<Rightarrow> if p r then 1 else 0)"
  unfolding get_run_def using schema_runs(1) [OF assms(1)] assms(2) by (rule rowcount_key)

section \<open>Evolving rows and tables\<close>

definition row_evolves :: "AgentRun \<Rightarrow> AgentRun \<Rightarrow> bool" where
  "row_evolves r r' \<longleftrightarrow> ar_id r' = ar_id r \<and> ar_run_id r' = ar_run_id r
     \<and> ar_attempt_count r \<le> ar_attempt_count r'
     \<and> (ar_status r' = ar_status r \<or> ar_status r' \<in> RUN_TRANSITIONS (ar_status r))"

definition fresh_row :: "AgentRun \<Rightarrow> bool" where
  "fresh_row r \<longleftrightarrow> ar_status r = PENDING \<and> ar_attempt_count r = 0 \<and> ar_worker_id r = None"

definition runs_evolve :: "db \<Rightarrow> db \<Rightarrow> bool" where
  "runs_evolve d d' \<longleftrightarrow> (\<exists>xs ys. db_runs d' = xs @ ys \<and> list_all2 row_evolves (db_runs d) xs
     \<and> list_all fresh_row ys)"

lemma row_evolves_refl [simp]: "row_evolves r r"
  by (simp add: row_evolves_def)

lemma runs_evolve_refl [simp]: "runs_evolve d d"
  unfolding runs_evolve_def
  by (intro exI [of _ "db_runs d"] exI [of _ "[]"]) (simp add: list_all2_same)

lemma runs_evolve_same: "db_runs d' = db_runs d \<Longrightarrow> runs_evolve d d'"
  using runs_evolve_refl [of d] unfolding runs_evolve_def by simp

lemma runs_evolve_update:
  assumes "\<And>r. r \<in> set (db_runs d) \<Longrightarrow> p r \<Longrightarrow> row_evolves r (f r)"
    and "db_runs d' = sql_update p f (db_runs d)"
  shows "runs_evolve d d'"
proof -
  have "list_all2 row_evolves (db_runs d) (db_runs d')"
    using assms by (auto simp: sql_update_def list_all2_map2 list_all2_same)
  then show ?thesis unfolding runs_evolve_def by (intro exI [of _ "db_runs d'"] exI [of _ "[]"]) simp
qed

lemma list_all2_row_keys:
  "list_all2 row_evolves rs xs \<Longrightarrow> map ar_id xs = map ar_id rs \<and> map ar_run_id xs = map ar_run_id rs"
  by (induction rule: list_all2_induct) (auto simp: row_evolves_def)

lemma list_all2_row_member:
  "list_all2 row_evolves rs xs \<Longrightarrow> r \<in> set rs \<Longrightarrow> \<exists>r' \<in> set xs. row_evolves r r'"
  by (induction rule: list_all2_induct) auto

lemma runs_evolve_member:
  assumes "runs_evolve d d'" and "r \<in> set (db_runs d)"
  shows "\<exists>r' \<in> set (db_runs d'). row_evolves r r'"
proof -
  obtain xs ys where "db_runs d' = xs @ ys" "list_all2 row_evolves (db_runs d) xs"
    using assms(1) by (auto simp: runs_evolve_def)
  then show ?thesis using list_all2_row_member [OF _ assms(2)] by fastforce
qed

lemma runs_evolve_lookup:
  assumes "runs_evolve d d'" and "schema_ok d'" and "get_run_by_run_id rid d = Some r"
  obtains r' where "get_run_by_run_id rid d' = Some r'" "row_evolves r r'"
proof -
  obtain r' where r': "r' \<in> set (db_runs d')" "row_evolves r r'"
    using runs_evolve_member [OF assms(1)] get_run_by_run_idD [OF assms(3)] by blast
  moreover have "ar_run_id r' = rid"
    using r'(2) get_run_by_run_idD [OF assms(3)] by (simp add: row_evolves_def)
  ultimately show ?thesis using that by (simp add: get_run_by_run_id_iff [OF assms(2)])
qed

section \<open>Every operation evolves the table\<close>

lemma claim_candidates_member:
  "r \<in> set (claim_candidates locked m t rid d) \<longleftrightarrow>
     r \<in> set (db_runs d) \<and> claim_eligible t r \<and> ar_attempt_count r < m
     \<and> (case rid of None \<Rightarrow> True | Some x \<Rightarrow> ar_run_id r = x) \<and> ar_id r \<notin> locked"
  by (auto simp: claim_candidates_def)

lemma eligible_status: "claim_eligible t r \<Longrightarrow> ar_status r \<in> {PENDING, RUNNING}"
  by (auto simp: claim_eligible_def)

lemma status_pending_running:
  "s \<in> {PENDING, RUNNING} \<Longrightarrow> RUNNING \<in> RUN_TRANSITIONS s"
  by auto

lemma claim_evolves:
  assumes "schema_ok d" and "claim_next_run locked w l m t rid d = (d', c)"
  shows "runs_evolve d d'"
proof (cases "claim_candidates locked m t rid d")
  case Nil
  with assms(2) show ?thesis by (simp add: claim_next_run_def)
next
  case (Cons r rs)
  have r: "r \<in> set (db_runs d)" "claim_eligible t r"
    using claim_candidates_member [of r locked m t rid d] by (simp_all add: Cons)
  show ?thesis
  proof (rule runs_evolve_update)
    show "db_runs d' = sql_update (\<lambda>x. ar_id x = ar_id r) (claim_values w l t) (db_runs d)"
      using assms(2) by (auto simp: claim_next_run_def Cons)
    fix x assume "x \<in> set (db_runs d)" "ar_id x = ar_id r"
    then have "x = r" using r(1) distinct_key_eq [OF schema_runs(1) [OF assms(1)]] by blast
    then show "row_evolves x (claim_values w l t x)"
      using eligible_status [OF r(2)] by (auto simp: row_evolves_def row_simps)
  qed
qed

lemma renew_evolves: "renew_lease rid w l t ac d = (d', b) \<Longrightarrow> runs_evolve d d'"
  by (auto simp: renew_lease_def row_evolves_def row_simps
      intro!: runs_evolve_update [where p = "renew_matches rid w t ac" and f = "renew_values l t"])

lemma release_evolves: "release_claim rid w ac d = (d', b) \<Longrightarrow> runs_evolve d d'"
  by (auto simp: release_claim_def row_evolves_def row_simps
      intro!: runs_evolve_update [where p = "release_matches rid w ac" and f = clear_lease])

lemma expire_evolves: "expire_exhausted_runs m t d = (d', n) \<Longrightarrow> runs_evolve d d'"
  by (auto simp: expire_exhausted_runs_def expire_matches_def row_evolves_def row_simps terminal_simps
      intro!: runs_evolve_update [where p = "expire_matches m t" and f = "expire_values t"])

lemma retry_evolves:
  assumes "schema_ok d" and "retry_claim rid w m fc dl ac wall d = (d', res)"
  shows "runs_evolve d d'"
proof (cases "d' = d")
  case True
  then show ?thesis by simp
next
  case False
  then obtain r where r: "sql_first (release_matches rid w ac) (db_runs d) = Some r"
      "ar_status r = RUNNING"
      and d': "d' = d\<lparr>db_runs := sql_update (\<lambda>x. ar_id x = ar_id r)
                 (retry_values m fc dl wall) (db_runs d)\<rparr>"
    using assms(2) by (auto simp: retry_claim_def split: option.splits if_splits)
  show ?thesis
  proof (rule runs_evolve_update)
    show "db_runs d' = sql_update (\<lambda>x. ar_id x = ar_id r) (retry_values m fc dl wall) (db_runs d)"
      by (simp add: d')
    fix x assume "x \<in> set (db_runs d)" "ar_id x = ar_id r"
    then have "x = r"
      using sql_first_Some [OF r(1)] distinct_key_eq [OF schema_runs(1) [OF assms(1)]] by blast
    then show "row_evolves x (retry_values m fc dl wall x)"
      using r(2) by (auto simp: row_evolves_def row_simps terminal_simps)
  qed
qed

lemma mark_running_evolves: "mark_running cc t run d = (d', res) \<Longrightarrow> runs_evolve d d'"
  by (auto simp: mark_running_def Let_def row_evolves_def split: sum.splits if_splits
      intro!: runs_evolve_update [where p = "\<lambda>r. ar_id r = ar_id run \<and> (ar_status r = PENDING \<or> ar_status r = RUNNING)"
        and f = "\<lambda>r. r\<lparr>ar_status := RUNNING\<rparr>"])

lemma mark_status_evolves: "mark_status cc t run s u d = (d', res) \<Longrightarrow> runs_evolve d d'"
  by (auto simp: mark_status_def Let_def row_evolves_def row_simps split: sum.splits if_splits
      intro!: runs_evolve_update [where p = "\<lambda>r. ar_id r = ar_id run \<and> ar_status r = ar_status run"
        and f = "status_values s u t"])

lemma decide_evolves:
  "decide sha pk wall run dec actor reason aid ph d = (d', res) \<Longrightarrow> runs_evolve d d'"
  by (auto simp: decide_def Let_def row_evolves_def row_simps waiting_matches_def decision_target_def
      split: sum.splits if_splits
      intro!: runs_evolve_update [where p = "waiting_matches run" and f = "decide_values dec wall"])

lemma create_evolves:
  assumes "create_incident_and_run ids wall data mq d = (d', res)"
  shows "runs_evolve d d'"
proof (cases "d' = d")
  case True
  then show ?thesis by simp
next
  case False
  then obtain inc run where "d' = d\<lparr>db_incidents := db_incidents d @ [inc], db_runs := db_runs d @ [run]\<rparr>"
      "fresh_row run"
    using assms
    by (auto simp: create_incident_and_run_def Let_def new_run_def fresh_row_def split: if_splits)
  then show ?thesis
    unfolding runs_evolve_def
    by (intro exI [of _ "db_runs d"] exI [of _ "[run]"]) (simp add: list_all2_same)
qed

lemma progress_evolves: "record_progress cc t rid ws pl n d = (d', res) \<Longrightarrow> runs_evolve d d'"
  by (auto simp: record_progress_def row_evolves_def split: sum.splits
      intro!: runs_evolve_update [where p = "\<lambda>r. ar_run_id r = rid"
        and f = "\<lambda>r. r\<lparr>ar_workflow_state := ws, ar_plan := pl, ar_tool_call_count := n\<rparr>"])

lemma outcome_evolves:
  "persist_outcome sha cc t pk run pl n ats d = (d', res) \<Longrightarrow> runs_evolve d d'"
  by (auto simp: persist_outcome_def Let_def row_evolves_def split: sum.splits if_splits
      intro!: runs_evolve_update [where p = "\<lambda>r. ar_id r = ar_id run"
        and f = "\<lambda>r. r\<lparr>ar_plan := pl, ar_tool_call_count := n, ar_patch_attempt_count := length ats\<rparr>"])

lemma artifact_evolves:
  "persist_patch_artifact_once cc t pk rid x d = (d', res) \<Longrightarrow> runs_evolve d d'"
  by (rule runs_evolve_same)
    (auto simp: persist_patch_artifact_once_def Let_def split: option.splits sum.splits if_splits)

section \<open>Every operation keeps the schema\<close>

text \<open>An operation that writes no table but the runs, and inserts no run.\<close>

definition runs_only :: "db \<Rightarrow> db \<Rightarrow> bool" where
  "runs_only d d' \<longleftrightarrow> d' = d\<lparr>db_runs := db_runs d'\<rparr> \<and> length (db_runs d') = length (db_runs d)"

lemma runs_only_schema:
  assumes "schema_ok d" and "runs_evolve d d'" and "runs_only d d'"
  shows "schema_ok d'"
proof -
  obtain xs ys where xy: "db_runs d' = xs @ ys" "list_all2 row_evolves (db_runs d) xs"
    using assms(2) by (auto simp: runs_evolve_def)
  then have "ys = []"
    using assms(3) by (auto simp: runs_only_def dest: list_all2_lengthD)
  with xy have "map ar_id (db_runs d') = map ar_id (db_runs d)"
       "map ar_run_id (db_runs d') = map ar_run_id (db_runs d)"
    using list_all2_row_keys [of "db_runs d" xs] by auto
  moreover obtain rs where "d' = d\<lparr>db_runs := rs\<rparr>"
    using assms(3) by (auto simp: runs_only_def)
  ultimately show ?thesis using assms(1) by (simp add: schema_ok_def)
qed

lemma claim_runs_only: "claim_next_run locked w l m t rid d = (d', c) \<Longrightarrow> runs_only d d'"
  by (auto simp: claim_next_run_def runs_only_def split: list.splits)

lemma renew_runs_only: "renew_lease rid w l t ac d = (d', b) \<Longrightarrow> runs_only d d'"
  by (auto simp: renew_lease_def runs_only_def)

lemma release_runs_only: "release_claim rid w ac d = (d', b) \<Longrightarrow> runs_only d d'"
  by (auto simp: release_claim_def runs_only_def)

lemma retry_runs_only: "retry_claim rid w m fc dl ac wall d = (d', res) \<Longrightarrow> runs_only d d'"
  by (auto simp: retry_claim_def runs_only_def split: option.splits if_splits)

lemma expire_runs_only: "expire_exhausted_runs m t d = (d', n) \<Longrightarrow> runs_only d d'"
  by (auto simp: expire_exhausted_runs_def runs_only_def)

lemma mark_running_runs_only: "mark_running cc t run d = (d', res) \<Longrightarrow> runs_only d d'"
  by (auto simp: mark_running_def Let_def runs_only_def split: sum.splits if_splits)

lemma mark_status_runs_only: "mark_status cc t run s u d = (d', res) \<Longrightarrow> runs_only d d'"
  by (auto simp: mark_status_def Let_def runs_only_def split: sum.splits if_splits)

lemma create_schema:
  assumes "schema_ok d" and "create_incident_and_run ids wall data mq d = (d', res)"
  shows "schema_ok d'"
  using assms
  by (auto simp: create_incident_and_run_def Let_def schema_ok_def unique_violation_def new_run_def
      split: if_splits)

lemma map_sql_update:
  "(\<And>r. key (f r) = key r) \<Longrightarrow> map key (sql_update p f rows) = map key rows"
  by (simp add: sql_update_def)

lemma decide_schema:
  assumes "schema_ok d" and "decide sha pk wall run dec actor reason aid ph d = (d', res)"
  shows "schema_ok d'"
  using assms
  by (auto simp: decide_def Let_def schema_ok_def unique_violation_def map_sql_update row_simps
      split: sum.splits if_splits)

lemma progress_runs_only: "record_progress cc t rid ws pl n d = (d', res) \<Longrightarrow> runs_only d d'"
  by (auto simp: record_progress_def runs_only_def split: sum.splits)

lemma artifact_schema:
  assumes "schema_ok d" and "persist_patch_artifact_once cc t pk rid x d = (d', res)"
  shows "schema_ok d'"
  using assms
  by (auto simp: persist_patch_artifact_once_def Let_def schema_ok_def unique_violation_def
      split: option.splits sum.splits if_splits)

lemma outcome_schema:
  assumes "schema_ok d" and "persist_outcome sha cc t pk run pl n ats d = (d', res)"
  shows "schema_ok d'"
  using assms
  by (auto simp: persist_outcome_def Let_def schema_ok_def map_sql_update split: sum.splits if_splits)

lemmas schema_intros = create_schema decide_schema artifact_schema outcome_schema

lemmas evolve_intros = progress_evolves outcome_evolves artifact_evolves claim_evolves renew_evolves release_evolves retry_evolves expire_evolves
  mark_running_evolves mark_status_evolves decide_evolves create_evolves

lemmas runs_only_intros = progress_runs_only claim_runs_only renew_runs_only release_runs_only retry_runs_only
  expire_runs_only mark_running_runs_only mark_status_runs_only

section \<open>The bound on attempts\<close>

definition attempts_bounded :: "nat \<Rightarrow> db \<Rightarrow> bool" where
  "attempts_bounded m d \<longleftrightarrow> (\<forall>r \<in> set (db_runs d). ar_attempt_count r \<le> m)"

lemma bounded_update:
  assumes "attempts_bounded m d" and "db_runs d' = sql_update p f (db_runs d)"
    and "\<And>r. r \<in> set (db_runs d) \<Longrightarrow> p r \<Longrightarrow> ar_attempt_count (f r) \<le> m"
  shows "attempts_bounded m d'"
  using assms by (auto simp: attempts_bounded_def in_sql_update)

lemma claim_bounded:
  assumes "schema_ok d" and "attempts_bounded m d" and "claim_next_run locked w l m t rid d = (d', c)"
  shows "attempts_bounded m d'"
proof (cases "claim_candidates locked m t rid d")
  case Nil
  with assms(2,3) show ?thesis by (simp add: claim_next_run_def)
next
  case (Cons r rs)
  have r: "r \<in> set (db_runs d)" "ar_attempt_count r < m"
    using claim_candidates_member [of r locked m t rid d] by (simp_all add: Cons)
  have runs: "db_runs d' = sql_update (\<lambda>x. ar_id x = ar_id r) (claim_values w l t) (db_runs d)"
    using assms(3) by (auto simp: claim_next_run_def Cons)
  show ?thesis
  proof (rule bounded_update [OF assms(2) runs])
    fix x assume "x \<in> set (db_runs d)" "ar_id x = ar_id r"
    then have "x = r" using r(1) distinct_key_eq [OF schema_runs(1) [OF assms(1)]] by blast
    then show "ar_attempt_count (claim_values w l t x) \<le> m"
      using r(2) by (simp add: row_simps)
  qed
qed

lemma renew_bounded: "attempts_bounded m d \<Longrightarrow> renew_lease rid w l t ac d = (d', b) \<Longrightarrow> attempts_bounded m d'"
  by (auto simp: renew_lease_def attempts_bounded_def in_sql_update row_simps)

lemma release_bounded: "attempts_bounded m d \<Longrightarrow> release_claim rid w ac d = (d', b) \<Longrightarrow> attempts_bounded m d'"
  by (auto simp: release_claim_def attempts_bounded_def in_sql_update row_simps)

lemma retry_bounded:
  "attempts_bounded m d \<Longrightarrow> retry_claim rid w k fc dl ac wall d = (d', res) \<Longrightarrow> attempts_bounded m d'"
  by (auto simp: retry_claim_def attempts_bounded_def in_sql_update row_simps
      split: option.splits if_splits)

lemma expire_bounded: "attempts_bounded m d \<Longrightarrow> expire_exhausted_runs k t d = (d', n) \<Longrightarrow> attempts_bounded m d'"
  by (auto simp: expire_exhausted_runs_def attempts_bounded_def in_sql_update row_simps)

lemma mark_running_bounded:
  "attempts_bounded m d \<Longrightarrow> mark_running cc t run d = (d', res) \<Longrightarrow> attempts_bounded m d'"
  by (auto simp: mark_running_def Let_def attempts_bounded_def in_sql_update split: sum.splits if_splits)

lemma mark_status_bounded:
  "attempts_bounded m d \<Longrightarrow> mark_status cc t run s u d = (d', res) \<Longrightarrow> attempts_bounded m d'"
  by (auto simp: mark_status_def Let_def attempts_bounded_def in_sql_update row_simps
      split: sum.splits if_splits)

lemma decide_bounded:
  "attempts_bounded m d \<Longrightarrow> decide sha pk wall run dec actor reason aid ph d = (d', res) \<Longrightarrow>
   attempts_bounded m d'"
  by (auto simp: decide_def Let_def attempts_bounded_def in_sql_update row_simps
      split: sum.splits if_splits)

lemma create_bounded:
  "attempts_bounded m d \<Longrightarrow> create_incident_and_run ids wall data mq d = (d', res) \<Longrightarrow> attempts_bounded m d'"
  by (auto simp: create_incident_and_run_def Let_def attempts_bounded_def new_run_def split: if_splits)

lemma progress_bounded:
  "attempts_bounded m d \<Longrightarrow> record_progress cc t rid ws pl n d = (d', res) \<Longrightarrow> attempts_bounded m d'"
  by (auto simp: record_progress_def attempts_bounded_def in_sql_update split: sum.splits)

lemma outcome_bounded:
  "attempts_bounded m d \<Longrightarrow> persist_outcome sha cc t pk run pl n ats d = (d', res) \<Longrightarrow> attempts_bounded m d'"
  by (auto simp: persist_outcome_def Let_def attempts_bounded_def in_sql_update split: sum.splits if_splits)

lemma artifact_bounded:
  "attempts_bounded m d \<Longrightarrow> persist_patch_artifact_once cc t pk rid x d = (d', res) \<Longrightarrow> attempts_bounded m d'"
  by (auto simp: persist_patch_artifact_once_def Let_def attempts_bounded_def
      split: option.splits sum.splits if_splits)

lemmas bounded_intros = progress_bounded outcome_bounded artifact_bounded claim_bounded renew_bounded release_bounded retry_bounded expire_bounded
  mark_running_bounded mark_status_bounded decide_bounded create_bounded

section \<open>What a claim is\<close>

lemma claim_result:
  assumes "schema_ok d" and "claim_next_run locked w l m t rid d = (d', Some c)"
  obtains r where "get_run_by_run_id (cl_run_id c) d = Some r" "claim_eligible t r"
    "ar_attempt_count r < m" "ar_id r \<notin> locked" "cl_worker_id c = w"
    "cl_attempt_count c = ar_attempt_count r + 1"
    "cl_recover c = (ar_status r = RUNNING)"
    "get_run_by_run_id (cl_run_id c) d' = Some (claim_values w l t r)"
    "\<And>x. x \<in> set (claim_candidates locked m t rid d) \<Longrightarrow>
       (ar_next_attempt_at r, ar_started_at r) \<le> (ar_next_attempt_at x, ar_started_at x)"
proof -
  obtain r rs where rs: "claim_candidates locked m t rid d = r # rs"
    using assms(2) by (auto simp: claim_next_run_def split: list.splits)
  have c: "cl_run_id c = ar_run_id r" "cl_worker_id c = w" "cl_attempt_count c = ar_attempt_count r + 1"
      "cl_recover c = (ar_status r = RUNNING)"
    and d': "d' = d\<lparr>db_runs := sql_update (\<lambda>x. ar_id x = ar_id r) (claim_values w l t) (db_runs d)\<rparr>"
    using assms(2) by (auto simp: claim_next_run_def rs)
  have r: "r \<in> set (db_runs d)" "claim_eligible t r" "ar_attempt_count r < m" "ar_id r \<notin> locked"
    using claim_candidates_member [of r locked m t rid d] by (simp_all add: rs)
  have g: "get_run_by_run_id (cl_run_id c) d = Some r"
    using r(1) by (simp add: get_run_by_run_id_iff [OF assms(1)] c)
  have g': "get_run_by_run_id (cl_run_id c) d' = Some (claim_values w l t r)"
    using g claim_upd.lookup_after [where p = "\<lambda>x. ar_id x = ar_id r" and rows = "db_runs d"]
    by (simp add: get_run_by_run_id_def d')
  have "sorted (map (\<lambda>r. (ar_next_attempt_at r, ar_started_at r)) (r # rs))"
    unfolding rs [symmetric] claim_candidates_def by (rule sorted_sort_key)
  then have "\<And>x. x \<in> set (r # rs) \<Longrightarrow>
      (ar_next_attempt_at r, ar_started_at r) \<le> (ar_next_attempt_at x, ar_started_at x)"
    by auto
  with that [of r] g r c g' show ?thesis by (simp add: rs)
qed

lemma claim_other_runs:
  assumes "schema_ok d" and "claim_next_run locked w l m t rid d = (d', Some c)" and "x \<noteq> cl_run_id c"
  shows "get_run_by_run_id x d' = get_run_by_run_id x d"
proof -
  obtain r rs where rs: "claim_candidates locked m t rid d = r # rs"
    using assms(2) by (auto simp: claim_next_run_def split: list.splits)
  have c: "cl_run_id c = ar_run_id r"
    and d': "d' = d\<lparr>db_runs := sql_update (\<lambda>x. ar_id x = ar_id r) (claim_values w l t) (db_runs d)\<rparr>"
    using assms(2) by (auto simp: claim_next_run_def rs)
  have "r \<in> set (db_runs d)"
    using claim_candidates_member [of r locked m t rid d] by (simp add: rs)
  then have "\<And>y. y \<in> set (db_runs d) \<Longrightarrow> ar_id y = ar_id r \<Longrightarrow> ar_run_id y \<noteq> x"
    using distinct_key_eq [OF schema_runs(1) [OF assms(1)], of _ r] assms(3) c by fastforce
  then have "sql_first (\<lambda>r. ar_run_id r = x) (sql_update (\<lambda>x. ar_id x = ar_id r) (claim_values w l t) (db_runs d))
      = sql_first (\<lambda>r. ar_run_id r = x) (db_runs d)"
    by (intro claim_upd.other_key_unchanged) simp
  then show ?thesis by (simp add: get_run_by_run_id_def d')
qed

end
