(* ===== verification/ApprovalResume.thy ===== *)
theory ApprovalResume
  imports Approvals GitHubMock
begin

text \<open>
  \<open>agent/approval_resume.py\<close>: what a worker does with an approved run. The function commits
  several times; each step below that changes the database is one of its transactions, and an
  exception leaves what was committed before it. \<open>clk n\<close> is the clock at its \<open>n\<close>-th transaction.
  The GitHub client is the argument \<open>create\<close> with its own state \<open>g\<close>; it gets the function
  \<open>authorize\<close> (the fence at the time it is called) as the code's client does.
\<close>

type_synonym 'g pr_client =
  "pr_request \<Rightarrow> (time \<Rightarrow> db \<Rightarrow> exn + unit) \<Rightarrow> 'g \<Rightarrow> 'g \<times> PullRequestResult"

section \<open>The side-effect record\<close>

definition idempotency_key :: "string \<Rightarrow> PatchArtifact \<Rightarrow> string" where
  "idempotency_key run_id a = ''github_pr:'' @ run_id @ '':'' @ pa_patch_hash a"

definition find_effect :: "string \<Rightarrow> db \<Rightarrow> ExternalSideEffect option" where
  "find_effect key d = sql_first (\<lambda>e. se_idempotency_key e = key) (db_effects d)"

definition new_effect :: "string \<Rightarrow> AgentRun \<Rightarrow> string \<Rightarrow> ExternalSideEffect" where
  "new_effect pk run key = \<lparr>se_id = pk, se_run_pk = ar_id run, se_effect_type = ''github_pull_request'',
     se_idempotency_key = key, se_status = E_IN_PROGRESS, se_attempt_count = 1, se_result = [],
     se_error = None\<rparr>"

definition update_effect ::
  "string \<Rightarrow> (ExternalSideEffect \<Rightarrow> ExternalSideEffect) \<Rightarrow> db \<Rightarrow> db" where
  "update_effect key f d =
     d\<lparr>db_effects := sql_update (\<lambda>e. se_idempotency_key e = key) f (db_effects d)\<rparr>"

text \<open>Open the effect: insert it, or count another attempt on the one that is there.\<close>

definition open_effect :: "string \<Rightarrow> AgentRun \<Rightarrow> string \<Rightarrow> db \<Rightarrow> db \<times> (exn + unit)" where
  "open_effect pk run key d =
     (case find_effect key d of
        None \<Rightarrow>
          (let e = new_effect pk run key
           in if unique_violation (\<lambda>e. (se_run_pk e, se_effect_type e)) e (db_effects d)
              then (d, Inl (IntegrityError ''ux_side_effect_run_type''))
              else (d\<lparr>db_effects := db_effects d @ [e]\<rparr>, Inr ()))
      | Some _ \<Rightarrow>
          (update_effect key (\<lambda>e. e\<lparr>se_status := E_IN_PROGRESS,
              se_attempt_count := se_attempt_count e + 1\<rparr>) d, Inr ()))"

definition opt_str :: "string option \<Rightarrow> json" where
  "opt_str s = (case s of None \<Rightarrow> JNull | Some x \<Rightarrow> JStr x)"

definition pull_request_dict :: "PullRequestResult \<Rightarrow> (string \<times> json) list" where
  "pull_request_dict pr = [(''url'', JStr (pr_url pr)),
     (''number'', (case pr_number pr of None \<Rightarrow> JNull | Some n \<Rightarrow> JInt n)),
     (''branch'', JStr (pr_branch pr)), (''mode'', JStr (pr_mode pr))]"

section \<open>The transactions\<close>

record outcome =
  o_status :: AgentRunStatus
  o_extra :: "(string \<times> json) list"

text \<open>Reads and checks before anything is written.\<close>

definition check_approval ::
  "(string \<Rightarrow> string) \<Rightarrow> string \<Rightarrow> ApprovalDecision \<Rightarrow> db \<Rightarrow> exn + AgentRun \<times> PatchArtifact" where
  "check_approval sha run_id dec d =
     (case get_run_by_run_id run_id d of
        None \<Rightarrow> Inl (ValueError (''run not found: '' @ run_id))
      | Some run \<Rightarrow>
          (case sql_first (\<lambda>x. ap_run_pk x = ar_id run) (db_approvals d) of
             None \<Rightarrow> Inl (ValueError ''persisted human approval required'')
           | Some ap \<Rightarrow>
               if ap_decision ap \<noteq> Some dec
               then Inl (ValueError ''persisted human approval required'')
               else (case validated_artifact sha run (ap_patch_artifact_id ap) d of
                       Inl e \<Rightarrow> Inl e
                     | Inr a \<Rightarrow>
                         if ap_payload ap \<noteq> binding a
                         then Inl (ValueError ''approved artifact binding changed'')
                         else Inr (run, a))))"

definition resolved_update :: "AgentRun \<Rightarrow> (string \<times> json) list \<Rightarrow> status_update" where
  "resolved_update run pull_request = no_update\<lparr>u_workflow_state := Some W_RESOLVED,
     u_result := Some (dict_set ''pull_request'' (JObj pull_request) (ar_result run)),
     u_finished := True\<rparr>"

text \<open>The status write that ends a branch, and the dictionary it returns.\<close>

definition finish ::
  "ClaimedRun option \<Rightarrow> time \<Rightarrow> AgentRun \<Rightarrow> AgentRunStatus \<Rightarrow> status_update \<Rightarrow> (string \<times> json) list
     \<Rightarrow> db \<Rightarrow> db \<times> (exn + outcome)" where
  "finish cc t run status u extra d =
     (case mark_status cc t run status u d of
        (d', Inl e) \<Rightarrow> (d', Inl e)
      | (d', Inr r) \<Rightarrow> (d', Inr \<lparr>o_status = ar_status r, o_extra = extra\<rparr>))"

definition pr_body :: "AgentRun \<Rightarrow> PatchArtifact \<Rightarrow> string" where
  "pr_body run a = ''Automated fix proposal for run '' @ ar_run_id run @ ''.\<newline>\<newline>''
     @ ''Patch hash: '' @ pa_patch_hash a @ ''\<newline>''
     @ ''Base commit: '' @ pa_base_commit_sha a @ ''\<newline>''
     @ ''Test run: '' @ (case pa_test_run_id a of None \<Rightarrow> ''None'' | Some s \<Rightarrow> s) @ ''\<newline>''"

definition the_request :: "AgentRun \<Rightarrow> PatchArtifact \<Rightarrow> pr_request" where
  "the_request run a = \<lparr>rq_run_id = ar_run_id run,
     rq_title = ''IncidentPilot fix for '' @ ar_run_id run,
     rq_body = pr_body run a, rq_patch_diff = pa_patch_diff a,
     rq_base_commit_sha = pa_base_commit_sha a,
     rq_idempotency_key = idempotency_key (ar_run_id run) a\<rparr>"

text \<open>After GitHub answered: the fence again, then the effect and the run are closed.\<close>

definition close_effect ::
  "ClaimedRun option \<Rightarrow> (nat \<Rightarrow> time) \<Rightarrow> AgentRun \<Rightarrow> string \<Rightarrow> PullRequestResult \<Rightarrow> db
     \<Rightarrow> db \<times> (exn + outcome)" where
  "close_effect cc clk run key pr d =
     (case fence cc (clk 4) (ar_run_id run) d of
        Inl e \<Rightarrow> (d, Inl e)
      | Inr _ \<Rightarrow>
          if \<not> pr_ok pr then
            let d' = update_effect key (\<lambda>e. e\<lparr>se_status := E_FAILED,
                       se_error := str_or (pr_error pr) (Some ''github pr failed'')\<rparr>) d
            in if get_truthy ''retryable'' (pr_details pr)
               then (d', Inl (ConnectionError ''transient GitHub failure; remote reconciliation required''))
               else finish cc (clk 5) run FAILED
                 (no_update\<lparr>u_workflow_state := Some W_FAILED,
                    u_error := str_or (pr_error pr) (Some ''github pr failed''), u_finished := True\<rparr>)
                 [(''error'', opt_str (pr_error pr)), (''mode'', JStr (pr_mode pr))] d'
          else
            let pull_request = pull_request_dict pr;
                d' = update_effect key (\<lambda>e. e\<lparr>se_status := E_COMPLETED,
                       se_result := pull_request, se_error := None\<rparr>) d
            in finish cc (clk 5) run RESOLVED (resolved_update run pull_request)
                 [(''pull_request'', JObj (dict_merge (pr_details pr) pull_request))] d')"

text \<open>The approve path after the run is \<open>RUNNING\<close> again; \<open>run\<close> is the refreshed row.\<close>

definition approve_path ::
  "ClaimedRun option \<Rightarrow> (nat \<Rightarrow> time) \<Rightarrow> string \<Rightarrow> 'g pr_client \<Rightarrow> AgentRun \<Rightarrow> PatchArtifact
     \<Rightarrow> db \<times> 'g \<Rightarrow> (db \<times> 'g) \<times> (exn + outcome)" where
  "approve_path cc clk pk create run a w =
     (let d = fst w; g = snd w; key = idempotency_key (ar_run_id run) a in
      case fence cc (clk 1) (ar_run_id run) d of
        Inl e \<Rightarrow> ((d, g), Inl e)
      | Inr _ \<Rightarrow>
        (case (find_effect key d, map_option se_status (find_effect key d) = Some E_COMPLETED) of
           (Some eff, True) \<Rightarrow>
             (case finish cc (clk 2) run RESOLVED (resolved_update run (se_result eff))
                     [(''pull_request'', JObj (se_result eff))] d of
                (d', r) \<Rightarrow> ((d', g), r))
         | _ \<Rightarrow>
             (case open_effect pk run key d of
                (d1, Inl e) \<Rightarrow> ((d1, g), Inl e)
              | (d1, Inr _) \<Rightarrow>
                  (case fence cc (clk 2) (ar_run_id run) d1 of
                     Inl e \<Rightarrow> ((d1, g), Inl e)
                   | Inr _ \<Rightarrow>
                       (case create (the_request run a) (\<lambda>t. fence cc t (ar_run_id run)) g of
                          (g', pr) \<Rightarrow>
                            (case close_effect cc clk run key pr d1 of (d2, r) \<Rightarrow> ((d2, g'), r)))))))"

definition resume_after_approval ::
  "(string \<Rightarrow> string) \<Rightarrow> ClaimedRun option \<Rightarrow> (nat \<Rightarrow> time) \<Rightarrow> string \<Rightarrow> 'g pr_client \<Rightarrow> string
     \<Rightarrow> ApprovalDecision \<Rightarrow> db \<times> 'g \<Rightarrow> (db \<times> 'g) \<times> (exn + outcome)" where
  "resume_after_approval sha cc clk pk create run_id dec w =
     (let d = fst w; g = snd w in
      case check_approval sha run_id dec d of
        Inl e \<Rightarrow> (w, Inl e)
      | Inr (run, a) \<Rightarrow>
          if dec = REJECT then
            (case finish cc (clk 0) run NEEDS_HUMAN_INTERVENTION
                    (no_update\<lparr>u_workflow_state := Some W_NEEDS_HUMAN_INTERVENTION,
                       u_error := Some ''human rejected approval'', u_finished := True\<rparr>)
                    [(''decision'', JStr (decision_value dec))] d of
               (d', r) \<Rightarrow> ((d', g), r))
          else
            (case mark_status cc (clk 0) run RUNNING
                    (no_update\<lparr>u_workflow_state := Some W_CREATE_PULL_REQUEST\<rparr>) d of
               (d', Inl e) \<Rightarrow> ((d', g), Inl e)
             | (d', Inr run') \<Rightarrow> approve_path cc clk pk create run' a (d', g)))"

end
