(* ===== verification/LeaseProtocol.thy ===== *)
theory LeaseProtocol
  imports JobFacts ApprovalResume
begin

text \<open>
  The control plane as a state machine. The state is the database, its clock and every claim ever
  handed to a worker (a worker may be slow, cut off or dead and still act on its claim). A step is
  one transaction of any party: an admission, a claim, a heartbeat, a release, a retry, the
  expiry sweep, a status write through the fence with a claim or without one and with a row read
  at any earlier time, a human decision, the transactions of the graph and those of the resume of
  an approved run (its status writes are \<open>status\<close> steps). The scheduler picks steps freely, so every interleaving
  of workers and API requests is a run of the machine. \<open>m\<close> is \<open>max_job_attempts\<close>.
\<close>

record lsys =
  ls_db :: db
  ls_now :: time
  ls_claims :: "ClaimedRun list"

definition init_lsys :: lsys where
  "init_lsys = \<lparr>ls_db = empty_db, ls_now = 0, ls_claims = []\<rparr>"

definition holds_claim :: "lsys \<Rightarrow> ClaimedRun option \<Rightarrow> bool" where
  "holds_claim s cc \<longleftrightarrow> (case cc of None \<Rightarrow> True | Some c \<Rightarrow> c \<in> set (ls_claims s))"

text \<open>What every update of a side effect leaves alone.\<close>

definition keeps_effect_keys :: "(ExternalSideEffect \<Rightarrow> ExternalSideEffect) \<Rightarrow> bool" where
  "keeps_effect_keys f \<longleftrightarrow> (\<forall>e. se_idempotency_key (f e) = se_idempotency_key e
     \<and> se_run_pk (f e) = se_run_pk e \<and> se_effect_type (f e) = se_effect_type e)"

inductive sys_step :: "(string \<Rightarrow> string) \<Rightarrow> nat \<Rightarrow> lsys \<Rightarrow> lsys \<Rightarrow> bool" for sha m where
  tick: "ls_now s \<le> t \<Longrightarrow> sys_step sha m s (s\<lparr>ls_now := t\<rparr>)"
| admit: "create_incident_and_run ids wall data mq (ls_db s) = (d', res) \<Longrightarrow>
    sys_step sha m s (s\<lparr>ls_db := d'\<rparr>)"
| claim: "claim_next_run locked w l m (ls_now s) rid (ls_db s) = (d', Some c) \<Longrightarrow>
    sys_step sha m s (s\<lparr>ls_db := d', ls_claims := c # ls_claims s\<rparr>)"
| renew: "c \<in> set (ls_claims s) \<Longrightarrow>
    renew_lease (cl_run_id c) (cl_worker_id c) l (ls_now s) (Some (cl_attempt_count c)) (ls_db s) = (d', b) \<Longrightarrow>
    sys_step sha m s (s\<lparr>ls_db := d'\<rparr>)"
| release: "c \<in> set (ls_claims s) \<Longrightarrow>
    release_claim (cl_run_id c) (cl_worker_id c) (Some (cl_attempt_count c)) (ls_db s) = (d', b) \<Longrightarrow>
    sys_step sha m s (s\<lparr>ls_db := d'\<rparr>)"
| retry: "c \<in> set (ls_claims s) \<Longrightarrow>
    retry_claim (cl_run_id c) (cl_worker_id c) m fc dl (Some (cl_attempt_count c)) wall (ls_db s) = (d', r) \<Longrightarrow>
    sys_step sha m s (s\<lparr>ls_db := d'\<rparr>)"
| expire: "expire_exhausted_runs m (ls_now s) (ls_db s) = (d', n) \<Longrightarrow>
    sys_step sha m s (s\<lparr>ls_db := d'\<rparr>)"
| running: "holds_claim s cc \<Longrightarrow> mark_running cc (ls_now s) run (ls_db s) = (d', res') \<Longrightarrow>
    sys_step sha m s (s\<lparr>ls_db := d'\<rparr>)"
| status: "holds_claim s cc \<Longrightarrow> mark_status cc (ls_now s) run st u (ls_db s) = (d', res') \<Longrightarrow>
    sys_step sha m s (s\<lparr>ls_db := d'\<rparr>)"
| decision: "decide sha pk wall run dec actor reason aid ph (ls_db s) = (d', res'') \<Longrightarrow>
    sys_step sha m s (s\<lparr>ls_db := d'\<rparr>)"
| progress: "holds_claim s cc \<Longrightarrow> record_progress cc (ls_now s) rid ws pl n (ls_db s) = (d', v) \<Longrightarrow>
    sys_step sha m s (s\<lparr>ls_db := d'\<rparr>)"
| artifact: "holds_claim s cc \<Longrightarrow>
    persist_patch_artifact_once cc (ls_now s) pk rid' x (ls_db s) = (d', v') \<Longrightarrow>
    sys_step sha m s (s\<lparr>ls_db := d'\<rparr>)"
| outcome: "holds_claim s cc \<Longrightarrow>
    persist_outcome sha cc (ls_now s) pks run pl n ats (ls_db s) = (d', v) \<Longrightarrow>
    sys_step sha m s (s\<lparr>ls_db := d'\<rparr>)"
| effect_open: "open_effect pk run key (ls_db s) = (d', v) \<Longrightarrow>
    sys_step sha m s (s\<lparr>ls_db := d'\<rparr>)"
| effect_update: "keeps_effect_keys f \<Longrightarrow> sys_step sha m s (s\<lparr>ls_db := update_effect key f (ls_db s)\<rparr>)"

inductive reachable :: "(string \<Rightarrow> string) \<Rightarrow> nat \<Rightarrow> lsys \<Rightarrow> bool" for sha m where
  start: "reachable sha m init_lsys"
| step: "reachable sha m s \<Longrightarrow> sys_step sha m s s' \<Longrightarrow> reachable sha m s'"

section \<open>Every step evolves the database\<close>

lemma open_effect_evolves: "open_effect pk run key d = (d', v) \<Longrightarrow> runs_evolve d d'"
  by (rule runs_evolve_same)
    (auto simp: open_effect_def update_effect_def Let_def split: option.splits if_splits)

lemma update_effect_evolves: "runs_evolve d (update_effect key f d)"
  by (rule runs_evolve_same) (simp add: update_effect_def)

lemma find_effect_None: "find_effect key d = None \<Longrightarrow> key \<notin> se_idempotency_key ` set (db_effects d)"
  by (auto simp: find_effect_def sql_first_None)

lemma update_effect_schema: "schema_ok d \<Longrightarrow> keeps_effect_keys f \<Longrightarrow> schema_ok (update_effect key f d)"
  by (simp add: schema_ok_def update_effect_def keeps_effect_keys_def map_sql_update)

lemma open_effect_schema:
  assumes "schema_ok d" and "open_effect pk run key d = (d', v)"
  shows "schema_ok d'"
proof (cases "find_effect key d")
  case None
  then show ?thesis
    using assms find_effect_None [OF None]
    by (auto simp: open_effect_def Let_def schema_ok_def new_effect_def unique_violation_def split: if_splits)
next
  case (Some e)
  then have "d' = update_effect key (\<lambda>e. e\<lparr>se_status := E_IN_PROGRESS,
      se_attempt_count := se_attempt_count e + 1\<rparr>) d"
    using assms(2) by (simp add: open_effect_def)
  then show ?thesis using assms(1) by (simp add: update_effect_schema keeps_effect_keys_def)
qed

lemma open_effect_bounded:
  "attempts_bounded m d \<Longrightarrow> open_effect pk run key d = (d', v) \<Longrightarrow> attempts_bounded m d'"
  by (auto simp: open_effect_def update_effect_def attempts_bounded_def Let_def
      split: option.splits if_splits)

lemma update_effect_bounded: "attempts_bounded m d \<Longrightarrow> attempts_bounded m (update_effect key f d)"
  by (simp add: update_effect_def attempts_bounded_def)

lemmas effect_intros = open_effect_evolves update_effect_evolves open_effect_bounded
  update_effect_bounded open_effect_schema update_effect_schema

lemma step_evolves:
  assumes "sys_step sha m s s'" and "schema_ok (ls_db s)"
  shows "runs_evolve (ls_db s) (ls_db s')"
  using assms by (induction rule: sys_step.induct) (auto intro: evolve_intros effect_intros)

lemma step_schema:
  assumes "sys_step sha m s s'" and "schema_ok (ls_db s)"
  shows "schema_ok (ls_db s')"
  using assms
  by (induction rule: sys_step.induct)
    (auto intro: runs_only_schema evolve_intros runs_only_intros schema_intros effect_intros)

lemma step_bounded:
  assumes "sys_step sha m s s'" and "schema_ok (ls_db s)" and "attempts_bounded m (ls_db s)"
  shows "attempts_bounded m (ls_db s')"
  using assms by (induction rule: sys_step.induct) (auto intro: bounded_intros effect_intros)

section \<open>The invariant\<close>

text \<open>
  No two claims on a run carry the same attempt number, and no claim is ahead of its row.
\<close>

definition claim_key :: "ClaimedRun \<Rightarrow> string \<times> nat" where
  "claim_key c = (cl_run_id c, cl_attempt_count c)"

definition claim_behind :: "db \<Rightarrow> ClaimedRun \<Rightarrow> bool" where
  "claim_behind d c \<longleftrightarrow> (\<exists>r. get_run_by_run_id (cl_run_id c) d = Some r
     \<and> cl_attempt_count c \<le> ar_attempt_count r)"

definition lease_inv :: "nat \<Rightarrow> lsys \<Rightarrow> bool" where
  "lease_inv m s \<longleftrightarrow> schema_ok (ls_db s) \<and> attempts_bounded m (ls_db s)
     \<and> distinct (map claim_key (ls_claims s))
     \<and> list_all (claim_behind (ls_db s)) (ls_claims s)"

lemma claim_behind_evolves:
  assumes "runs_evolve d d'" and "schema_ok d'" and "claim_behind d c"
  shows "claim_behind d' c"
proof -
  obtain r where r: "get_run_by_run_id (cl_run_id c) d = Some r" "cl_attempt_count c \<le> ar_attempt_count r"
    using assms(3) by (auto simp: claim_behind_def)
  obtain r' where "get_run_by_run_id (cl_run_id c) d' = Some r'" "row_evolves r r'"
    using runs_evolve_lookup [OF assms(1,2) r(1)] .
  with r(2) show ?thesis by (auto simp: claim_behind_def row_evolves_def)
qed

lemma step_claims:
  assumes "sys_step sha m s s'"
  shows "ls_claims s' = ls_claims s \<or>
    (\<exists>locked w l rid c. claim_next_run locked w l m (ls_now s) rid (ls_db s) = (ls_db s', Some c)
       \<and> ls_claims s' = c # ls_claims s)"
  using assms by (induction rule: sys_step.induct) auto

lemma new_claim_fresh:
  assumes "lease_inv m s" and "claim_next_run locked w l m t rid (ls_db s) = (d', Some c)"
  shows "claim_key c \<notin> set (map claim_key (ls_claims s))"
proof
  assume "claim_key c \<in> set (map claim_key (ls_claims s))"
  then obtain c' where c': "c' \<in> set (ls_claims s)" "claim_key c' = claim_key c" by auto
  have "schema_ok (ls_db s)" using assms(1) by (simp add: lease_inv_def)
  then obtain r where "get_run_by_run_id (cl_run_id c) (ls_db s) = Some r"
      "cl_attempt_count c = ar_attempt_count r + 1"
    using claim_result [OF _ assms(2)] by metis
  moreover have "claim_behind (ls_db s) c'"
    using assms(1) c'(1) by (simp add: lease_inv_def list_all_iff)
  ultimately show False using c'(2) by (auto simp: claim_behind_def claim_key_def)
qed

lemma new_claim_behind:
  assumes "schema_ok d" and "claim_next_run locked w l m t rid d = (d', Some c)"
  shows "claim_behind d' c"
  using assms by (elim claim_result) (auto simp: claim_behind_def row_simps)

lemma lease_inv_init: "lease_inv m init_lsys"
  by (simp add: lease_inv_def init_lsys_def attempts_bounded_def empty_db_def schema_ok_def)

lemma lease_inv_step:
  assumes "sys_step sha m s s'" and "lease_inv m s"
  shows "lease_inv m s'"
proof -
  have d: "schema_ok (ls_db s)" "attempts_bounded m (ls_db s)"
    using assms(2) by (simp_all add: lease_inv_def)
  note d' = step_schema [OF assms(1) d(1)] step_bounded [OF assms(1) d]
  have old: "list_all (claim_behind (ls_db s')) (ls_claims s)"
    using assms(2) claim_behind_evolves [OF step_evolves [OF assms(1) d(1)] d'(1)]
    by (auto simp: lease_inv_def list_all_iff)
  from step_claims [OF assms(1)] show ?thesis
  proof (elim disjE exE conjE)
    assume "ls_claims s' = ls_claims s"
    then show ?thesis using assms(2) old d' by (simp add: lease_inv_def)
  next
    fix locked w l rid c
    assume c: "claim_next_run locked w l m (ls_now s) rid (ls_db s) = (ls_db s', Some c)"
      and cs: "ls_claims s' = c # ls_claims s"
    show ?thesis
      using assms(2) old d' new_claim_fresh [OF assms(2) c] new_claim_behind [OF d(1) c]
      by (auto simp: lease_inv_def cs)
  qed
qed

lemma reachable_lease_inv: "reachable sha m s \<Longrightarrow> lease_inv m s"
  by (induction rule: reachable.induct) (auto intro: lease_inv_init lease_inv_step)

end
