(* ===== verification/LeaseProps.thy ===== *)
theory LeaseProps
  imports LeaseProtocol
begin

text \<open>
  What the lease protocol guarantees, over every interleaving of \<open>sys_step\<close>: one writer per run,
  stale workers write nothing, statuses move along the machine of \<open>Enums\<close>, attempts are bounded.
  Then the contracts of the single operations of \<open>persistence/jobs.py\<close> and of \<open>RunService\<close>.
\<close>

section \<open>A concrete history\<close>

text \<open>One run is admitted and claimed by \<open>w1\<close>; \<open>w1\<close> stops; after its lease \<open>w2\<close> claims it.\<close>

definition demo_data :: IncidentData where
  "demo_data = \<lparr>d_incident_id = None, d_title = ''t'', d_service = ''orders'', d_severity = None,
     d_symptom = ''5xx'', d_start_time = None, d_repository = None, d_environment = None,
     d_payload = [], d_owner_id = None\<rparr>"

definition demo_ids :: fresh_ids where
  "demo_ids = \<lparr>f_incident_pk = ''i'', f_incident_id = ''inc-1'', f_run_pk = ''p'', f_run_id = ''run-1'',
     f_trace_id = ''tr''\<rparr>"

definition demo_admitted :: db where
  "demo_admitted = fst (create_incident_and_run demo_ids 0 demo_data 5 empty_db)"

definition demo_claimed :: db where
  "demo_claimed = fst (claim_next_run {} ''w1'' 60 2 0 None demo_admitted)"

definition demo_reclaimed :: db where
  "demo_reclaimed = fst (claim_next_run {} ''w2'' 60 2 60000000 None demo_claimed)"

definition claim1 :: ClaimedRun where
  "claim1 = \<lparr>cl_incident_pk = ''i'', cl_run_id = ''run-1'', cl_worker_id = ''w1'',
     cl_attempt_count = 1, cl_recover = False\<rparr>"

definition claim2 :: ClaimedRun where
  "claim2 = \<lparr>cl_incident_pk = ''i'', cl_run_id = ''run-1'', cl_worker_id = ''w2'',
     cl_attempt_count = 2, cl_recover = True\<rparr>"

definition demo_sys1 :: lsys where
  "demo_sys1 = \<lparr>ls_db = demo_claimed, ls_now = 0, ls_claims = [claim1]\<rparr>"

definition demo_sys2 :: lsys where
  "demo_sys2 = \<lparr>ls_db = demo_reclaimed, ls_now = 60000000, ls_claims = [claim2, claim1]\<rparr>"

lemma demo_admitted_eq:
  "demo_admitted = empty_db\<lparr>db_incidents := [new_incident demo_ids 0 demo_data],
     db_runs := [new_run ''p'' ''run-1'' ''i'' ''tr'' 0]\<rparr>"
  by (simp add: demo_admitted_def create_incident_and_run_def Let_def queued_runs_def rowcount_def
      empty_db_def unique_violation_def demo_ids_def new_incident_def)

lemma demo_claim1:
  "claim_next_run {} ''w1'' 60 2 0 None demo_admitted = (demo_claimed, Some claim1)"
  by (simp add: demo_claimed_def claim_next_run_def claim_candidates_def demo_admitted_eq
      claim_eligible_def new_run_def claim1_def)

lemma demo_claimed_eq:
  "demo_claimed = demo_admitted\<lparr>db_runs := [claim_values ''w1'' 60 0 (new_run ''p'' ''run-1'' ''i'' ''tr'' 0)]\<rparr>"
  by (simp add: demo_claimed_def claim_next_run_def claim_candidates_def demo_admitted_eq
      claim_eligible_def new_run_def sql_update_def)

lemma demo_claim2:
  "claim_next_run {} ''w2'' 60 2 60000000 None demo_claimed = (demo_reclaimed, Some claim2)"
  by (simp add: demo_reclaimed_def claim_next_run_def claim_candidates_def demo_claimed_eq
      claim_eligible_def claim_values_def new_run_def claim2_def seconds_def)

lemma demo_reclaimed_eq:
  "demo_reclaimed = demo_admitted\<lparr>db_runs := [claim_values ''w2'' 60 60000000
     (claim_values ''w1'' 60 0 (new_run ''p'' ''run-1'' ''i'' ''tr'' 0))]\<rparr>"
  by (simp add: demo_reclaimed_def claim_next_run_def claim_candidates_def demo_claimed_eq
      claim_eligible_def claim_values_def new_run_def sql_update_def seconds_def)

lemma demo_sys1_reachable: "reachable sha 2 demo_sys1"
proof -
  have "sys_step sha 2 init_lsys (init_lsys\<lparr>ls_db := demo_admitted\<rparr>)" (is "sys_step _ _ _ ?a")
    by (rule sys_step.admit [where ids = demo_ids and wall = 0 and data = demo_data and mq = 5
          and res = "snd (create_incident_and_run demo_ids 0 demo_data 5 empty_db)"])
      (simp add: demo_admitted_def init_lsys_def)
  then have a: "reachable sha 2 ?a" by (rule reachable.step [OF reachable.start])
  have "sys_step sha 2 ?a (?a\<lparr>ls_db := demo_claimed, ls_claims := claim1 # ls_claims ?a\<rparr>)"
    by (rule sys_step.claim) (simp add: init_lsys_def, rule demo_claim1)
  from reachable.step [OF a this] show ?thesis by (simp add: demo_sys1_def init_lsys_def)
qed

lemma demo_step12: "(sys_step sha 2)\<^sup>*\<^sup>* demo_sys1 demo_sys2"
proof -
  have "sys_step sha 2 demo_sys1 (demo_sys1\<lparr>ls_now := 60000000\<rparr>)" (is "sys_step _ _ _ ?b")
    by (rule sys_step.tick) (simp add: demo_sys1_def)
  moreover have "sys_step sha 2 ?b (?b\<lparr>ls_db := demo_reclaimed, ls_claims := claim2 # ls_claims ?b\<rparr>)"
    by (rule sys_step.claim) (simp add: demo_sys1_def, rule demo_claim2)
  ultimately have "(sys_step sha 2)\<^sup>*\<^sup>* demo_sys1 (?b\<lparr>ls_db := demo_reclaimed, ls_claims := claim2 # ls_claims ?b\<rparr>)"
    by simp
  then show ?thesis by (simp add: demo_sys1_def demo_sys2_def)
qed

lemma reachable_steps: "(sys_step sha m)\<^sup>*\<^sup>* s s' \<Longrightarrow> reachable sha m s \<Longrightarrow> reachable sha m s'"
  by (induction rule: rtranclp_induct) (auto intro: reachable.step)

lemma demo_sys2_reachable: "reachable sha 2 demo_sys2"
  by (rule reachable_steps [OF demo_step12 demo_sys1_reachable])

section \<open>Shared facts\<close>

lemma reachable_schema: "reachable sha m s \<Longrightarrow> schema_ok (ls_db s)"
  using reachable_lease_inv [of sha m s] by (simp add: lease_inv_def)

lemma claim_of_reachable:
  assumes "reachable sha m s" and "c \<in> set (ls_claims s)"
  shows "claim_behind (ls_db s) c"
  using reachable_lease_inv [OF assms(1)] assms(2) by (simp add: lease_inv_def list_all_iff)

lemma claim_key_inj:
  assumes "reachable sha m s" and "c \<in> set (ls_claims s)" and "c' \<in> set (ls_claims s)"
    and "claim_key c = claim_key c'"
  shows "c = c'"
  using reachable_lease_inv [OF assms(1)] assms(2-4)
  by (auto simp: lease_inv_def dest: distinct_key_eq)

lemma fence_passed:
  assumes "schema_ok d" and "fence (Some c) t rid d = Inr ()"
  obtains r where "cl_run_id c = rid" "get_run_by_run_id rid d = Some r"
    "ar_attempt_count r = cl_attempt_count c" "ar_status r = RUNNING"
    "ar_worker_id r = Some (cl_worker_id c)" "col_gt (ar_lease_expires_at r) t"
  using assms(2) by (auto simp: fence_claim_iff [OF assms(1)] fence_matches_def)

lemma fence_failed:
  assumes "fence (Some c) t rid d \<noteq> Inr ()"
  obtains e where "fence (Some c) t rid d = Inl e"
  using assms by (cases "fence (Some c) t rid d") auto

lemma steps_claims: "(sys_step sha m)\<^sup>*\<^sup>* s s' \<Longrightarrow> set (ls_claims s) \<subseteq> set (ls_claims s')"
proof (induction rule: rtranclp_induct)
  case base
  then show ?case by simp
next
  case (step y z)
  then show ?case using step_claims [of sha m y z] by auto
qed

text \<open>A claim that is behind its row matches no row any more.\<close>

lemma superseded_matches_none:
  assumes "schema_ok d" and "claim_behind d c'" and "cl_run_id c = cl_run_id c'"
    and "cl_attempt_count c < cl_attempt_count c'" and "r \<in> set (db_runs d)"
    and "ar_run_id r = cl_run_id c"
  shows "ar_attempt_count r \<noteq> cl_attempt_count c"
proof -
  have "get_run_by_run_id (cl_run_id c') d = Some r"
    using assms(3,5,6) by (simp add: get_run_by_run_id_iff [OF assms(1)])
  then show ?thesis using assms(2,4) by (auto simp: claim_behind_def)
qed

section \<open>One writer per run\<close>

text \<open>
  C1. Mutual exclusion. In every reachable state of the control plane, two claims that both pass
  the ownership fence for the same run at the same time are the same claim.
\<close>

theorem fence_mutual_exclusion:
  assumes "reachable sha m s" and "c1 \<in> set (ls_claims s)" and "c2 \<in> set (ls_claims s)"
    and "fence (Some c1) (ls_now s) rid (ls_db s) = Inr ()"
    and "fence (Some c2) (ls_now s) rid (ls_db s) = Inr ()"
  shows "c1 = c2"
proof -
  note d = reachable_schema [OF assms(1)]
  obtain r1 where "cl_run_id c1 = rid" "get_run_by_run_id rid (ls_db s) = Some r1"
      "ar_attempt_count r1 = cl_attempt_count c1"
    by (rule fence_passed [OF d assms(4)])
  moreover obtain r2 where "cl_run_id c2 = rid" "get_run_by_run_id rid (ls_db s) = Some r2"
      "ar_attempt_count r2 = cl_attempt_count c2"
    by (rule fence_passed [OF d assms(5)])
  ultimately have "claim_key c1 = claim_key c2" by (simp add: claim_key_def)
  with claim_key_inj [OF assms(1-3)] show ?thesis .
qed

lemma fence_mutual_exclusion_witness:
  "fence (Some claim2) 60000000 ''run-1'' demo_reclaimed = Inr () \<and>
   fence (Some claim1) 60000000 ''run-1'' demo_reclaimed \<noteq> Inr ()"
proof -
  have f: "fence (Some claim2) 60000000 ''run-1'' demo_reclaimed = Inr ()"
    by (simp add: fence_def claim2_def demo_reclaimed_eq rowcount_def fence_matches_def
        claim_values_def new_run_def seconds_def)
  show ?thesis
    using f fence_mutual_exclusion [OF demo_sys2_reachable, where ?c1.0 = claim2 and ?c2.0 = claim1
        and rid = "''run-1''"]
    by (auto simp: demo_sys2_def claim1_def claim2_def)
qed

text \<open>
  C2. A superseded worker writes nothing. Once a later claim on its run has been handed out, a
  claim's fence fails with \<open>LostLeaseError\<close> at every later point of every execution, whatever the
  clock says; its status writes, heartbeat, release and retry leave the database as it is.
\<close>

theorem superseded_claim_writes_nothing:
  assumes "reachable sha m s" and "c \<in> set (ls_claims s)" and "c' \<in> set (ls_claims s)"
    and "cl_run_id c' = cl_run_id c" and "cl_attempt_count c < cl_attempt_count c'"
    and "(sys_step sha m)\<^sup>*\<^sup>* s s'"
  shows "(\<exists>e. fence (Some c) t rid (ls_db s') = Inl (LostLeaseError e))
    \<and> fst (mark_running (Some c) t run (ls_db s')) = ls_db s'
    \<and> fst (mark_status (Some c) t run st u (ls_db s')) = ls_db s'
    \<and> renew_lease (cl_run_id c) (cl_worker_id c) l t (Some (cl_attempt_count c)) (ls_db s')
        = (ls_db s', False)
    \<and> release_claim (cl_run_id c) (cl_worker_id c) (Some (cl_attempt_count c)) (ls_db s')
        = (ls_db s', False)
    \<and> retry_claim (cl_run_id c) (cl_worker_id c) m fc dl (Some (cl_attempt_count c)) wall (ls_db s')
        = (ls_db s', LOST_LEASE)"
proof -
  let ?d = "ls_db s'"
  note s' = reachable_steps [OF assms(6,1)]
  note d = reachable_schema [OF s']
  have b: "claim_behind ?d c'"
    using claim_of_reachable [OF s'] steps_claims [OF assms(6)] assms(3) by auto
  note none = superseded_matches_none [OF d b assms(4) [symmetric] assms(5)]
  have f: "\<exists>e. fence (Some c) tt x ?d = Inl (LostLeaseError e)" for tt x
  proof -
    have "fence (Some c) tt x ?d \<noteq> Inr ()"
      using none by (auto simp: fence_claim_iff [OF d] fence_matches_def get_run_by_run_id_iff [OF d])
    then obtain e where "fence (Some c) tt x ?d = Inl e" by (rule fence_failed)
    then show ?thesis by (auto dest: fence_error)
  qed
  have w: "fst (mark_running (Some c) t run ?d) = ?d" "fst (mark_status (Some c) t run st u ?d) = ?d"
    using f [of t "ar_run_id run"] by (auto simp: mark_running_def mark_status_def)
  have nm: "\<not> release_matches (cl_run_id c) (cl_worker_id c) (Some (cl_attempt_count c)) r"
    "\<not> renew_matches (cl_run_id c) (cl_worker_id c) t (Some (cl_attempt_count c)) r"
    if "r \<in> set (db_runs ?d)" for r
    using none [OF that] by (auto simp: release_matches_def renew_matches_def attempt_matches_def)
  then have "sql_first (release_matches (cl_run_id c) (cl_worker_id c) (Some (cl_attempt_count c)))
      (db_runs ?d) = None"
    by (simp add: sql_first_None)
  then show ?thesis
    using f [of t rid] w nm by (simp add: renew_lease_def release_claim_def retry_claim_def sql_update_none)
qed

lemma superseded_claim_writes_nothing_witness:
  "fst (mark_status (Some claim1) 1 (new_run ''p'' ''run-1'' ''i'' ''tr'' 0) FAILED no_update
     demo_reclaimed) = demo_reclaimed"
  using superseded_claim_writes_nothing [OF demo_sys2_reachable, where c = claim1 and c' = claim2
      and s' = demo_sys2 and t = 1 and run = "new_run ''p'' ''run-1'' ''i'' ''tr'' 0" and st = FAILED
      and u = no_update]
  by (simp add: demo_sys2_def claim1_def claim2_def)

text \<open>
  A live lease is exclusive. While a worker passes the fence for a run, no claim made at that
  time by anybody returns the run, and the claim of another run leaves the worker's fence open.
\<close>

theorem live_lease_not_claimable:
  assumes "schema_ok d" and "fence (Some c) t rid d = Inr ()"
    and "claim_next_run locked w l m t wanted d = (d', Some c')"
  shows "cl_run_id c' \<noteq> rid \<and> fence (Some c) t rid d' = Inr ()"
proof -
  obtain r where r: "cl_run_id c = rid" "get_run_by_run_id rid d = Some r"
      "ar_status r = RUNNING" "col_gt (ar_lease_expires_at r) t"
    by (rule fence_passed [OF assms(1,2)])
  have ne: "cl_run_id c' \<noteq> rid"
  proof
    assume same: "cl_run_id c' = rid"
    obtain r' where "get_run_by_run_id rid d = Some r'" "claim_eligible t r'"
      using claim_result [OF assms(1,3)] same by metis
    with r show False by (auto simp: claim_eligible_def dest: col_gt_not_le)
  qed
  have "get_run_by_run_id rid d' = get_run_by_run_id rid d"
    using claim_other_runs [OF assms(1,3)] ne by simp
  moreover have "schema_ok d'"
    using assms(1,3) by (auto intro: runs_only_schema evolve_intros runs_only_intros)
  ultimately have "fence (Some c) t rid d' = Inr ()"
    using assms(1,2) by (simp add: fence_claim_iff)
  with ne show ?thesis by simp
qed

definition demo_two_runs :: db where
  "demo_two_runs = demo_claimed\<lparr>db_runs := db_runs demo_claimed @ [new_run ''q'' ''run-2'' ''i'' ''tr'' 5]\<rparr>"

lemma live_lease_not_claimable_witness:
  "fence (Some claim1) 30000000 ''run-1''
     (fst (claim_next_run {} ''w2'' 60 2 30000000 None demo_two_runs)) = Inr ()"
proof -
  have d: "demo_two_runs = demo_admitted\<lparr>db_runs := [claim_values ''w1'' 60 0 (new_run ''p'' ''run-1'' ''i'' ''tr'' 0),
      new_run ''q'' ''run-2'' ''i'' ''tr'' 5]\<rparr>"
    by (simp add: demo_two_runs_def demo_claimed_eq)
  have "schema_ok demo_two_runs"
    by (simp add: d schema_ok_def demo_admitted_eq empty_db_def new_run_def claim_values_def)
  moreover have "fence (Some claim1) 30000000 ''run-1'' demo_two_runs = Inr ()"
    by (simp add: fence_def claim1_def d rowcount_def fence_matches_def claim_values_def new_run_def
        seconds_def)
  moreover have "\<exists>d' c'. claim_next_run {} ''w2'' 60 2 30000000 None demo_two_runs = (d', Some c')"
    by (simp add: claim_next_run_def claim_candidates_def d claim_eligible_def claim_values_def
        new_run_def seconds_def)
  ultimately show ?thesis
    using live_lease_not_claimable [of demo_two_runs claim1 30000000 "''run-1''" "{}" "''w2''" 60 2 None]
    by auto
qed

section \<open>Statuses follow the machine\<close>

lemma step_run_evolves:
  assumes "reachable sha m s" and "sys_step sha m s s'"
    and "get_run_by_run_id rid (ls_db s) = Some r"
  obtains r' where "get_run_by_run_id rid (ls_db s') = Some r'" "row_evolves r r'"
proof -
  note d = reachable_schema [OF assms(1)]
  show ?thesis
    by (rule runs_evolve_lookup [OF step_evolves [OF assms(2) d] step_schema [OF assms(2) d] assms(3)])
      (rule that)
qed

text \<open>
  C13. Refinement of the status machine. Every transaction of the control plane leaves every run in
  place and moves its status along \<open>RUN_TRANSITIONS\<close> or not at all, and never lowers its attempt
  counter: the detailed system implements the abstract machine.
\<close>

theorem step_refines_run_machine:
  assumes "reachable sha m s" and "sys_step sha m s s'"
    and "get_run_by_run_id rid (ls_db s) = Some r"
  shows "\<exists>r'. get_run_by_run_id rid (ls_db s') = Some r' \<and> ar_id r' = ar_id r
    \<and> ar_attempt_count r \<le> ar_attempt_count r'
    \<and> (ar_status r' = ar_status r \<or> ar_status r' \<in> RUN_TRANSITIONS (ar_status r))"
proof -
  obtain r' where "get_run_by_run_id rid (ls_db s') = Some r'" "row_evolves r r'"
    by (rule step_run_evolves [OF assms])
  then show ?thesis by (auto simp: row_evolves_def)
qed

lemma demo_sys1_run: "get_run_by_run_id ''run-1'' (ls_db demo_sys1)
    = Some (claim_values ''w1'' 60 0 (new_run ''p'' ''run-1'' ''i'' ''tr'' 0))"
  by (simp add: demo_sys1_def get_run_by_run_id_def demo_claimed_eq sql_first_def claim_values_def new_run_def)

lemma step_refines_run_machine_witness:
  "\<exists>r'. get_run_by_run_id ''run-1'' (ls_db (demo_sys1\<lparr>ls_now := 60000000\<rparr>)) = Some r'
     \<and> (ar_status r' = RUNNING \<or> ar_status r' \<in> RUN_TRANSITIONS RUNNING)"
proof -
  have "sys_step id 2 demo_sys1 (demo_sys1\<lparr>ls_now := 60000000\<rparr>)"
    by (rule sys_step.tick) (simp add: demo_sys1_def)
  from step_refines_run_machine [OF demo_sys1_reachable this demo_sys1_run]
  show ?thesis by (auto simp: row_simps)
qed

text \<open>
  C21. Terminal means terminal. A run that has reached a terminal status keeps that status in every
  execution from there on.
\<close>

theorem terminal_status_absorbs:
  assumes "reachable sha m s" and "(sys_step sha m)\<^sup>*\<^sup>* s s'"
    and "get_run_by_run_id rid (ls_db s) = Some r" and "ar_status r \<in> TERMINAL_RUN_STATUSES"
  shows "\<exists>r'. get_run_by_run_id rid (ls_db s') = Some r' \<and> ar_status r' = ar_status r"
  using assms(2)
proof (induction rule: rtranclp_induct)
  case base
  with assms(3) show ?case by blast
next
  case (step y z)
  then obtain r1 where r1: "get_run_by_run_id rid (ls_db y) = Some r1" "ar_status r1 = ar_status r"
    by blast
  obtain r2 where r2: "get_run_by_run_id rid (ls_db z) = Some r2" "row_evolves r1 r2"
    by (rule step_run_evolves [OF reachable_steps [OF step(1) assms(1)] step(2) r1(1)])
  then have "ar_status r2 = ar_status r"
    using run_machine.terminal_step [of "ar_status r1" "ar_status r2"] assms(4) r1(2)
    by (auto simp: row_evolves_def)
  with r2 show ?case by blast
qed

definition demo_failed :: db where
  "demo_failed = fst (mark_status (Some claim1) 1
     (claim_values ''w1'' 60 0 (new_run ''p'' ''run-1'' ''i'' ''tr'' 0)) FAILED
     (no_update\<lparr>u_finished := True\<rparr>) demo_claimed)"

lemma demo_failed_reachable: "reachable sha 2 (demo_sys1\<lparr>ls_now := 1, ls_db := demo_failed\<rparr>)"
proof -
  have "sys_step sha 2 demo_sys1 (demo_sys1\<lparr>ls_now := 1\<rparr>)" (is "sys_step _ _ _ ?a")
    by (rule sys_step.tick) (simp add: demo_sys1_def)
  then have a: "reachable sha 2 ?a" by (rule reachable.step [OF demo_sys1_reachable])
  have "sys_step sha 2 ?a (?a\<lparr>ls_db := demo_failed\<rparr>)"
    by (rule sys_step.status [where cc = "Some claim1" and st = FAILED and u = "no_update\<lparr>u_finished := True\<rparr>"
          and run = "claim_values ''w1'' 60 0 (new_run ''p'' ''run-1'' ''i'' ''tr'' 0)"
          and res' = "snd (mark_status (Some claim1) 1
     (claim_values ''w1'' 60 0 (new_run ''p'' ''run-1'' ''i'' ''tr'' 0)) FAILED
     (no_update\<lparr>u_finished := True\<rparr>) demo_claimed)"])
      (simp_all add: demo_sys1_def holds_claim_def demo_failed_def)
  from reachable.step [OF a this] show ?thesis by simp
qed

lemma demo_failed_run:
  "\<exists>r. get_run_by_run_id ''run-1'' demo_failed = Some r \<and> ar_status r = FAILED"
  by (simp add: demo_failed_def mark_status_def fence_def claim1_def demo_claimed_eq rowcount_def
      fence_matches_def claim_values_def new_run_def seconds_def terminal_simps Let_def
      get_run_by_run_id_def sql_first_def sql_update_def status_values_def no_update_def clear_lease_def)

lemma terminal_status_absorbs_witness:
  "\<exists>r'. get_run_by_run_id ''run-1'' (ls_db (demo_sys1\<lparr>ls_now := 99, ls_db := demo_failed\<rparr>)) = Some r'
     \<and> ar_status r' = FAILED"
proof -
  obtain r where r: "get_run_by_run_id ''run-1'' demo_failed = Some r" "ar_status r = FAILED"
    using demo_failed_run by blast
  let ?s = "demo_sys1\<lparr>ls_now := 1, ls_db := demo_failed\<rparr>"
  have "sys_step id 2 ?s (?s\<lparr>ls_now := 99\<rparr>)" by (rule sys_step.tick) simp
  then have "(sys_step id 2)\<^sup>*\<^sup>* ?s (?s\<lparr>ls_now := 99\<rparr>)" by (rule r_into_rtranclp)
  from terminal_status_absorbs [OF demo_failed_reachable this, where rid = "''run-1''" and r = r] r
  show ?thesis by (simp add: terminal_simps)
qed

section \<open>Bounded work\<close>

definition positive_claims :: "lsys \<Rightarrow> bool" where
  "positive_claims s \<longleftrightarrow> list_all (\<lambda>c. 1 \<le> cl_attempt_count c) (ls_claims s)"

lemma step_positive:
  assumes "sys_step sha m s s'" and "schema_ok (ls_db s)" and "positive_claims s"
  shows "positive_claims s'"
  using step_claims [OF assms(1)]
proof (elim disjE exE conjE)
  assume "ls_claims s' = ls_claims s"
  with assms(3) show ?thesis by (simp add: positive_claims_def)
next
  fix locked w l rid c
  assume c: "claim_next_run locked w l m (ls_now s) rid (ls_db s) = (ls_db s', Some c)"
    and cs: "ls_claims s' = c # ls_claims s"
  obtain r :: AgentRun where "cl_attempt_count c = ar_attempt_count r + 1"
    by (rule claim_result [OF assms(2) c]) blast
  with assms(3) cs show ?thesis by (simp add: positive_claims_def)
qed

lemma reachable_positive: "reachable sha m s \<Longrightarrow> positive_claims s"
proof (induction rule: reachable.induct)
  case start
  then show ?case by (simp add: positive_claims_def init_lsys_def)
next
  case (step s s')
  then show ?case using step_positive [of sha m s s'] reachable_schema [of sha m s] by blast
qed

text \<open>
  C22. Work on a run is bounded. However workers crash, lose their leases and retry, at most
  \<open>max_job_attempts\<close> claims on one run are ever handed out, they carry the attempt numbers
  from 1 on without repetition, and no row ever counts more attempts than the maximum.
\<close>

theorem claims_per_run_bounded:
  assumes "reachable sha m s"
  shows "length (filter (\<lambda>c. cl_run_id c = rid) (ls_claims s)) \<le> m
    \<and> distinct (map cl_attempt_count (filter (\<lambda>c. cl_run_id c = rid) (ls_claims s)))
    \<and> (\<forall>c \<in> set (ls_claims s). 1 \<le> cl_attempt_count c \<and> cl_attempt_count c \<le> m)
    \<and> attempts_bounded m (ls_db s)"
proof -
  let ?cs = "filter (\<lambda>c. cl_run_id c = rid) (ls_claims s)"
  have inv: "distinct (map claim_key (ls_claims s))" "list_all (claim_behind (ls_db s)) (ls_claims s)"
      "attempts_bounded m (ls_db s)" "schema_ok (ls_db s)"
    using reachable_lease_inv [OF assms] by (simp_all add: lease_inv_def)
  have range: "1 \<le> cl_attempt_count c \<and> cl_attempt_count c \<le> m" if "c \<in> set (ls_claims s)" for c
    using that inv reachable_positive [OF assms]
    by (fastforce simp: list_all_iff claim_behind_def positive_claims_def attempts_bounded_def
        get_run_by_run_id_iff)
  have "distinct (map claim_key ?cs)"
    using inv(1) by (rule distinct_map_filter)
  then have dist: "distinct (map cl_attempt_count ?cs)"
    by (auto simp: distinct_map inj_on_def claim_key_def)
  then have "length ?cs = card (set (map cl_attempt_count ?cs))"
    by (metis distinct_card length_map)
  also have "\<dots> \<le> card {1..m}"
    by (rule card_mono) (use range in auto)
  finally show ?thesis using dist range inv(3) by auto
qed

lemma claims_per_run_bounded_witness:
  "length (filter (\<lambda>c. cl_run_id c = ''run-1'') (ls_claims demo_sys2)) = 2
   \<and> attempts_bounded 2 demo_reclaimed"
  using claims_per_run_bounded [OF demo_sys2_reachable, of "''run-1''"]
  by (simp add: demo_sys2_def claim1_def claim2_def)

end
