(* ===== verification/JobProps.thy ===== *)
theory JobProps
  imports LeaseProps
begin

text \<open>
  The contracts of the single operations of \<open>persistence/jobs.py\<close> and of \<open>RunService\<close>: which run a
  claim takes and what it writes, what a status write may do, how a failed attempt is retried, how
  exhausted runs are swept and how the queue bounds admission.
\<close>

section \<open>Claiming\<close>

lemma claim_None_iff: "snd (claim_next_run locked w l m t rid d) = None
    \<longleftrightarrow> (\<forall>r \<in> set (db_runs d). \<not> (claim_eligible t r \<and> ar_attempt_count r < m
          \<and> (case rid of None \<Rightarrow> True | Some x \<Rightarrow> ar_run_id r = x) \<and> ar_id r \<notin> locked))"
proof -
  have "snd (claim_next_run locked w l m t rid d) = None \<longleftrightarrow> claim_candidates locked m t rid d = []"
    by (auto simp: claim_next_run_def split: list.splits)
  also have "\<dots> \<longleftrightarrow> (\<forall>r. r \<notin> set (claim_candidates locked m t rid d))" by auto
  finally show ?thesis by (auto simp: claim_candidates_member)
qed

text \<open>
  C14. What a claim is. A successful claim takes an eligible, unlocked run with attempts left that
  is minimal in the queue order among all such runs, writes exactly the lease columns of that row
  and no other row, reports a recovery exactly when the run was \<open>RUNNING\<close> under an expired lease,
  and from then until the lease ends the new claim passes the fence.
\<close>

theorem claim_next_run_correct:
  assumes "schema_ok d" and "claim_next_run locked w l m t rid d = (d', Some c)"
  shows "\<exists>r. get_run_by_run_id (cl_run_id c) d = Some r
    \<and> claim_eligible t r \<and> ar_attempt_count r < m \<and> ar_id r \<notin> locked
    \<and> (\<forall>x \<in> set (db_runs d). claim_eligible t x \<and> ar_attempt_count x < m \<and> ar_id x \<notin> locked
          \<and> (case rid of None \<Rightarrow> True | Some y \<Rightarrow> ar_run_id x = y)
        \<longrightarrow> (ar_next_attempt_at r, ar_started_at r) \<le> (ar_next_attempt_at x, ar_started_at x))
    \<and> get_run_by_run_id (cl_run_id c) d' = Some (claim_values w l t r)
    \<and> (\<forall>x. x \<noteq> cl_run_id c \<longrightarrow> get_run_by_run_id x d' = get_run_by_run_id x d)
    \<and> cl_recover c = (ar_status r = RUNNING)
    \<and> (\<forall>u. u < t + seconds l \<longrightarrow> fence (Some c) u (cl_run_id c) d' = Inr ())"
proof -
  have d': "schema_ok d'"
    using assms by (auto intro: runs_only_schema evolve_intros runs_only_intros)
  show ?thesis
  proof (rule claim_result [OF assms])
    fix r
    assume r: "get_run_by_run_id (cl_run_id c) d = Some r" "claim_eligible t r"
      "ar_attempt_count r < m" "ar_id r \<notin> locked" "cl_worker_id c = w"
      "cl_attempt_count c = ar_attempt_count r + 1" "cl_recover c = (ar_status r = RUNNING)"
      "get_run_by_run_id (cl_run_id c) d' = Some (claim_values w l t r)"
      and least: "\<And>x. x \<in> set (claim_candidates locked m t rid d) \<Longrightarrow>
         (ar_next_attempt_at r, ar_started_at r) \<le> (ar_next_attempt_at x, ar_started_at x)"
    have "fence (Some c) u (cl_run_id c) d' = Inr ()" if "u < t + seconds l" for u
      using that r get_run_by_run_idD [OF r(1)]
      by (simp add: fence_claim_iff [OF d'] fence_matches_def claim_values_def)
    then show ?thesis
      using r least claim_other_runs [OF assms]
      by (intro exI [of _ r]) (simp add: claim_candidates_member)
  qed
qed

lemma claim_next_run_correct_witness:
  "fence (Some claim2) 119999999 ''run-1'' demo_reclaimed = Inr () \<and> cl_recover claim2"
proof -
  have "schema_ok demo_claimed"
    using reachable_schema [OF demo_sys1_reachable] by (simp add: demo_sys1_def)
  from claim_next_run_correct [OF this demo_claim2] show ?thesis
    by (auto simp: claim2_def seconds_def)
qed

section \<open>Writing a status\<close>

lemma mark_status_run:
  assumes "schema_ok d" and "fence cc t (ar_run_id run) d = Inr ()"
  shows "mark_status cc t run st u d =
    (if st \<notin> RUN_TRANSITIONS (ar_status run)
     then (d, Inl (RuntimeError (''terminal run transition denied: ''
            @ run_status_value (ar_status run) @ '' -> '' @ run_status_value st)))
     else case get_run (ar_id run) d of
        Some r \<Rightarrow> if ar_status r = ar_status run
          then (d\<lparr>db_runs := sql_update (\<lambda>r. ar_id r = ar_id run \<and> ar_status r = ar_status run)
                   (status_values st u t) (db_runs d)\<rparr>, Inr (status_values st u t r))
          else (d, Inl (RuntimeError ''concurrent run status transition''))
      | None \<Rightarrow> (d, Inl (RuntimeError ''concurrent run status transition'')))"
proof -
  let ?p = "\<lambda>r. ar_id r = ar_id run \<and> ar_status r = ar_status run"
  have count: "rowcount ?p (db_runs d) = (case get_run (ar_id run) d of None \<Rightarrow> 0
      | Some r \<Rightarrow> if ?p r then 1 else 0)"
    by (rule rowcount_run_pk [OF assms(1)]) simp
  have look: "get_run (ar_id run) (d\<lparr>db_runs := sql_update ?p (status_values st u t) (db_runs d)\<rparr>)
      = map_option (\<lambda>r. if ?p r then status_values st u t r else r) (get_run (ar_id run) d)"
    using status_pk.lookup_after [where p = ?p] by (simp add: get_run_def)
  show ?thesis
  proof (cases "get_run (ar_id run) d")
    case None
    then show ?thesis using assms(2) by (simp add: mark_status_def Let_def count)
  next
    case (Some r)
    then have "ar_id r = ar_id run" by (simp add: get_run_iff [OF assms(1)])
    then show ?thesis
      using assms(2) by (simp add: mark_status_def Let_def count look refreshed_def Some)
  qed
qed

lemma mark_status_Inr:
  assumes "schema_ok d" and "mark_status cc t run st u d = (d', Inr r')"
  obtains r where "fence cc t (ar_run_id run) d = Inr ()" "st \<in> RUN_TRANSITIONS (ar_status run)"
    "get_run (ar_id run) d = Some r" "ar_status r = ar_status run" "r' = status_values st u t r"
    "get_run (ar_id run) d' = Some r'"
proof (cases "fence cc t (ar_run_id run) d")
  case (Inl e)
  with assms(2) show ?thesis by (simp add: mark_status_def)
next
  case (Inr b)
  then have f: "fence cc t (ar_run_id run) d = Inr ()" by simp
  obtain r where r: "get_run (ar_id run) d = Some r" "ar_status r = ar_status run"
      "st \<in> RUN_TRANSITIONS (ar_status run)" "r' = status_values st u t r"
      "d' = d\<lparr>db_runs := sql_update (\<lambda>r. ar_id r = ar_id run \<and> ar_status r = ar_status run)
                   (status_values st u t) (db_runs d)\<rparr>"
    using assms(2) mark_status_run [OF assms(1) f, of st u] by (auto split: if_splits option.splits)
  have "ar_id r = ar_id run" using r(1) by (simp add: get_run_iff [OF assms(1)])
  then have "get_run (ar_id run) d' = Some r'"
    using status_pk.lookup_after [where p = "\<lambda>r. ar_id r = ar_id run \<and> ar_status r = ar_status run"] r
    by (simp add: get_run_def)
  with that f r show ?thesis by blast
qed

text \<open>
  The compare-and-set of \<open>mark_status\<close>. A call either succeeds or leaves the database as it
  is. It succeeds exactly when the caller passes the fence, the machine allows the move from the
  status the caller read, and the stored row still has that status; then the row carries the
  new status and the given columns and the call returns it.
\<close>

theorem mark_status_correct:
  assumes "schema_ok d"
  shows "(case mark_status cc t run st u d of
      (d', Inr r') \<Rightarrow>
        fence cc t (ar_run_id run) d = Inr () \<and> st \<in> RUN_TRANSITIONS (ar_status run)
        \<and> (\<exists>r. get_run (ar_id run) d = Some r \<and> ar_status r = ar_status run
             \<and> r' = status_values st u t r)
        \<and> get_run (ar_id run) d' = Some r' \<and> ar_status r' = st
    | (d', Inl e) \<Rightarrow> d' = d \<and>
        (fence cc t (ar_run_id run) d = Inl e
         \<or> st \<notin> RUN_TRANSITIONS (ar_status run)
         \<or> (\<forall>r. get_run (ar_id run) d = Some r \<longrightarrow> ar_status r \<noteq> ar_status run)))"
proof (cases "fence cc t (ar_run_id run) d")
  case (Inl e)
  then show ?thesis by (simp add: mark_status_def)
next
  case (Inr b)
  then have f: "fence cc t (ar_run_id run) d = Inr ()" by simp
  obtain d' res where eq: "mark_status cc t run st u d = (d', res)" by fastforce
  show ?thesis
  proof (cases res)
    case (Inl e)
    then show ?thesis
      using eq mark_status_run [OF assms f, of st u] by (auto split: if_splits option.splits)
  next
    case (Inr r')
    with eq mark_status_Inr [OF assms] show ?thesis by (fastforce simp: row_simps)
  qed
qed

lemma mark_status_correct_witness:
  "snd (mark_status (Some claim1) 1
     (claim_values ''w1'' 60 0 (new_run ''p'' ''run-1'' ''i'' ''tr'' 0)) PENDING no_update demo_reclaimed)
   = Inl (LostLeaseError ''lease expired or superseded'')
   \<and> (case mark_status (Some claim2) 60000001
        (claim_values ''w2'' 60 60000000 (claim_values ''w1'' 60 0 (new_run ''p'' ''run-1'' ''i'' ''tr'' 0)))
        WAITING_APPROVAL no_update demo_reclaimed of
       (d', Inr r) \<Rightarrow> get_run ''p'' d' = Some r \<and> ar_status r = WAITING_APPROVAL | (d', Inl e) \<Rightarrow> False)"
proof -
  have s: "schema_ok demo_reclaimed"
    using reachable_schema [OF demo_sys2_reachable] by (simp add: demo_sys2_def)
  show ?thesis
    using mark_status_correct [OF s, of "Some claim2" 60000001
        "claim_values ''w2'' 60 60000000 (claim_values ''w1'' 60 0 (new_run ''p'' ''run-1'' ''i'' ''tr'' 0))"
        WAITING_APPROVAL no_update]
    by (simp add: mark_status_def fence_def claim1_def claim2_def demo_reclaimed_eq rowcount_def
        fence_matches_def claim_values_def new_run_def seconds_def Let_def terminal_simps refreshed_def
        get_run_def sql_first_def sql_update_def status_values_def no_update_def)
qed

section \<open>Retrying and giving up\<close>

text \<open>
  A failed attempt. \<open>retry_claim\<close> with the claim's attempt number writes only when that claim
  still owns a running row under a live lease; then the run is back in the queue, free and not
  before the delay has passed, while attempts are left, and needs a human once they are used up.
  Otherwise the database is untouched and the caller learns the status or that it lost the lease.
\<close>

theorem retry_claim_correct:
  assumes "schema_ok d" and "get_run_by_run_id rid d = Some r" and "ar_worker_id r = Some w"
    and "ar_attempt_count r = n"
  shows "snd (retry_claim rid w m fc delay (Some n) wall d) =
    (if ar_status r \<noteq> RUNNING then Status (ar_status r)
     else if \<not> col_gt (ar_lease_expires_at r) wall then LOST_LEASE
     else Status (if m \<le> n then NEEDS_HUMAN_INTERVENTION else PENDING))
   \<and> (ar_status r \<noteq> RUNNING \<or> \<not> col_gt (ar_lease_expires_at r) wall
       \<longrightarrow> fst (retry_claim rid w m fc delay (Some n) wall d) = d)
   \<and> (ar_status r = RUNNING \<and> col_gt (ar_lease_expires_at r) wall \<longrightarrow>
       (\<exists>r'. get_run_by_run_id rid (fst (retry_claim rid w m fc delay (Some n) wall d)) = Some r'
         \<and> ar_worker_id r' = None \<and> ar_lease_expires_at r' = None \<and> ar_attempt_count r' = n
         \<and> ar_failure_category r' = Some fc
         \<and> (if m \<le> n then ar_status r' = NEEDS_HUMAN_INTERVENTION \<and> ar_finished_at r' = Some wall
            else ar_status r' = PENDING \<and> ar_next_attempt_at r' = Some (wall + delay)
              \<and> (\<forall>u. claim_eligible u r' \<longleftrightarrow> wall + delay \<le> u))))"
proof -
  have r: "r \<in> set (db_runs d)" "ar_run_id r = rid"
    using assms(2) by (simp_all add: get_run_by_run_id_iff [OF assms(1)])
  have hit: "sql_first (release_matches rid w (Some n)) (db_runs d) = Some r"
    by (rule sql_first_unique [OF schema_runs(2) [OF assms(1)]])
      (use r assms(3,4) in \<open>auto simp: release_matches_def attempt_matches_def\<close>)
  have live: "\<not> (ar_lease_expires_at r = None \<or> col_le (ar_lease_expires_at r) wall)
      \<longleftrightarrow> col_gt (ar_lease_expires_at r) wall"
    by (cases "ar_lease_expires_at r") auto
  have look: "get_run_by_run_id rid (d\<lparr>db_runs := sql_update (\<lambda>x. ar_id x = ar_id r)
        (retry_values m fc delay wall) (db_runs d)\<rparr>) = Some (retry_values m fc delay wall r)"
    using retry_upd.lookup_after [where p = "\<lambda>x. ar_id x = ar_id r"] assms(2)
    by (simp add: get_run_by_run_id_def)
  have vals: "ar_lease_expires_at (retry_values m fc delay wall r) = None"
      "ar_failure_category (retry_values m fc delay wall r) = Some fc"
      "m \<le> n \<Longrightarrow> ar_finished_at (retry_values m fc delay wall r) = Some wall"
      "\<not> m \<le> n \<Longrightarrow> ar_next_attempt_at (retry_values m fc delay wall r) = Some (wall + delay)"
    using assms(4) by (auto simp: retry_values_def clear_lease_def Let_def)
  then have elig: "\<not> m \<le> n \<Longrightarrow> claim_eligible u (retry_values m fc delay wall r) \<longleftrightarrow> wall + delay \<le> u" for u
    using assms(4) by (simp add: claim_eligible_def row_simps)
  show ?thesis
    using hit live look vals elig assms(4)
    by (auto simp: retry_claim_def row_simps)
qed

lemma retry_claim_correct_witness:
  "snd (retry_claim ''run-1'' ''w2'' 2 ''timeout'' 1000000 (Some 2) 60000001 demo_reclaimed)
     = Status NEEDS_HUMAN_INTERVENTION
   \<and> snd (retry_claim ''run-1'' ''w1'' 2 ''timeout'' 1000000 (Some 1) 5 demo_claimed) = Status PENDING"
proof -
  have s: "schema_ok demo_reclaimed" "schema_ok demo_claimed"
    using reachable_schema [OF demo_sys2_reachable] reachable_schema [OF demo_sys1_reachable]
    by (simp_all add: demo_sys2_def demo_sys1_def)
  let ?r1 = "claim_values ''w1'' 60 0 (new_run ''p'' ''run-1'' ''i'' ''tr'' 0)"
  let ?r2 = "claim_values ''w2'' 60 60000000 ?r1"
  have g: "get_run_by_run_id ''run-1'' demo_reclaimed = Some ?r2"
      "get_run_by_run_id ''run-1'' demo_claimed = Some ?r1"
    by (simp_all add: get_run_by_run_id_def demo_reclaimed_eq demo_claimed_eq sql_first_def row_simps
        new_run_def)
  show ?thesis
    using retry_claim_correct [OF s(1) g(1), where w = "''w2''" and n = 2 and m = 2 and wall = 60000001
        and fc = "''timeout''" and delay = 1000000]
      retry_claim_correct [OF s(2) g(2), where w = "''w1''" and n = 1 and m = 2 and wall = 5
        and fc = "''timeout''" and delay = 1000000]
    by (simp add: claim_values_def new_run_def seconds_def)
qed

text \<open>
  The expiry sweep. It ends exactly the running rows whose lease is over and whose attempts
  are used up, with \<open>NEEDS_HUMAN_INTERVENTION\<close> and no lease, counts them, and leaves every other
  row alone; a second sweep at the same time finds nothing.
\<close>

theorem expire_exhausted_runs_correct:
  assumes "schema_ok d" and "get_run_by_run_id rid d = Some r"
  shows "(\<exists>r'. get_run_by_run_id rid (fst (expire_exhausted_runs m t d)) = Some r'
      \<and> (if ar_status r = RUNNING \<and> col_le (ar_lease_expires_at r) t \<and> m \<le> ar_attempt_count r
         then ar_status r' = NEEDS_HUMAN_INTERVENTION \<and> ar_worker_id r' = None
              \<and> ar_lease_expires_at r' = None \<and> ar_finished_at r' = Some t
              \<and> ar_failure_category r' = Some ''lease_expired''
         else r' = r))
    \<and> snd (expire_exhausted_runs m t (fst (expire_exhausted_runs m t d))) = 0"
proof
  have "get_run_by_run_id rid (fst (expire_exhausted_runs m t d))
      = Some (if expire_matches m t r then expire_values t r else r)"
    using expire_upd.lookup_after [where p = "expire_matches m t"] assms(2)
    by (simp add: expire_exhausted_runs_def get_run_by_run_id_def)
  then show "\<exists>r'. get_run_by_run_id rid (fst (expire_exhausted_runs m t d)) = Some r'
      \<and> (if ar_status r = RUNNING \<and> col_le (ar_lease_expires_at r) t \<and> m \<le> ar_attempt_count r
         then ar_status r' = NEEDS_HUMAN_INTERVENTION \<and> ar_worker_id r' = None
              \<and> ar_lease_expires_at r' = None \<and> ar_finished_at r' = Some t
              \<and> ar_failure_category r' = Some ''lease_expired''
         else r' = r)"
    by (simp add: expire_matches_def expire_values_def clear_lease_def)
  have "\<not> expire_matches m t (if expire_matches m t x then expire_values t x else x)" for x
    by (simp add: expire_matches_def expire_values_def)
  then show "snd (expire_exhausted_runs m t (fst (expire_exhausted_runs m t d))) = 0"
    by (auto simp: expire_exhausted_runs_def in_sql_update)
qed

lemma expire_exhausted_runs_correct_witness:
  "\<exists>r'. get_run_by_run_id ''run-1'' (fst (expire_exhausted_runs 2 120000000 demo_reclaimed)) = Some r'
     \<and> ar_status r' = NEEDS_HUMAN_INTERVENTION"
proof -
  have s: "schema_ok demo_reclaimed"
    using reachable_schema [OF demo_sys2_reachable] by (simp add: demo_sys2_def)
  have g: "get_run_by_run_id ''run-1'' demo_reclaimed = Some (claim_values ''w2'' 60 60000000
      (claim_values ''w1'' 60 0 (new_run ''p'' ''run-1'' ''i'' ''tr'' 0)))"
    by (simp add: get_run_by_run_id_def demo_reclaimed_eq sql_first_def row_simps new_run_def)
  show ?thesis
    using expire_exhausted_runs_correct [OF s g, of 2 120000000]
    by (auto simp: claim_values_def new_run_def seconds_def)
qed

section \<open>Admission\<close>

text \<open>
  The admission bound. A submission is refused with \<open>QueueFullError\<close> exactly when the queue
  already holds \<open>max_queued_runs\<close> pending runs; a refused or failed one writes nothing; an accepted
  one appends one incident and one fresh pending run that belongs to it, so the queue grows by one
  and stays within the bound.
\<close>

theorem admission_bounded:
  "(case create_incident_and_run ids wall data mq d of
      (d', Inr (inc, run)) \<Rightarrow> queued_runs d < mq \<and> queued_runs d' = queued_runs d + 1
        \<and> queued_runs d' \<le> mq
        \<and> db_runs d' = db_runs d @ [run] \<and> db_incidents d' = db_incidents d @ [inc]
        \<and> ar_incident_pk run = inc_id inc \<and> ar_status run = PENDING \<and> ar_attempt_count run = 0
        \<and> ar_worker_id run = None \<and> inc_status inc = I_RECEIVED
        \<and> db_approvals d' = db_approvals d \<and> db_effects d' = db_effects d
    | (d', Inl e) \<Rightarrow> d' = d \<and>
        ((\<exists>msg. e = QueueFullError msg) = (mq \<le> queued_runs d)))"
  by (auto simp: create_incident_and_run_def Let_def queued_runs_def rowcount_def new_run_def
      new_incident_def)

end
