(* ===== verification/ApprovalProps.thy ===== *)
theory ApprovalProps
  imports JobProps
begin

text \<open>
  The human decision: it binds one proven artifact, is taken once, is final, and hands the run back
  to the queue. The invariant carried through the system is that every stored approval is backed
  by an artifact whose exact patch passed its tests.
\<close>

section \<open>One decision\<close>

lemma decide_cases:
  assumes "decide sha pk wall run dec actor reason aid ph d = (d', res)"
  obtains (error) m where "d' = d" "res = Inl (ApprovalConflict m)"
  | (gone) e a where "res = Inl e" "validated_artifact sha run aid d = Inr a" "get_run (ar_id run) d' = None"
      "rowcount (waiting_matches run) (db_runs d) \<noteq> 0"
      "d' = d\<lparr>db_runs := sql_update (waiting_matches run) (decide_values dec wall) (db_runs d),
              db_approvals := db_approvals d @ [new_approval pk run a dec actor reason wall]\<rparr>"
  | (ok) a r where "res = Inr (new_approval pk run a dec actor reason wall, r)"
      "validated_artifact sha run aid d = Inr a" "ph = None \<or> ph = Some (pa_patch_hash a)"
      "rowcount (waiting_matches run) (db_runs d) \<noteq> 0"
      "ar_id run \<notin> ap_run_pk ` set (db_approvals d)"
      "d' = d\<lparr>db_runs := sql_update (waiting_matches run) (decide_values dec wall) (db_runs d),
              db_approvals := db_approvals d @ [new_approval pk run a dec actor reason wall]\<rparr>"
      "get_run (ar_id run) d' = Some r"
proof (cases "validated_artifact sha run aid d")
  case (Inl e)
  then have "is_ValueError e" by (rule validated_artifact_error)
  with Inl assms error show ?thesis by (auto simp: decide_def)
next
  case (Inr a)
  let ?ap = "new_approval pk run a dec actor reason wall"
  let ?d = "d\<lparr>db_runs := sql_update (waiting_matches run) (decide_values dec wall) (db_runs d),
              db_approvals := db_approvals d @ [?ap]\<rparr>"
  show ?thesis
  proof (cases "(ph \<noteq> None \<and> ph \<noteq> Some (pa_patch_hash a)) \<or> rowcount (waiting_matches run) (db_runs d) = 0
      \<or> unique_violation ap_run_pk ?ap (db_approvals d)")
    case True
    with Inr assms error show ?thesis by (auto simp: decide_def Let_def split: if_splits)
  next
    case False
    then have "(d', res) = (case refreshed run ?d of Inl e \<Rightarrow> (?d, Inl e) | Inr r \<Rightarrow> (?d, Inr (?ap, r)))"
      using assms Inr by (auto simp: decide_def Let_def simp del: rowcount_zero)
    then show ?thesis
      using False Inr gone [of _ a] ok [of a]
      by (auto simp: refreshed_def unique_violation_def new_approval_def split: option.splits)
  qed
qed

lemma waiting_row:
  assumes "schema_ok d" and "rowcount (waiting_matches run) (db_runs d) \<noteq> 0"
  obtains r where "get_run (ar_id run) d = Some r" "ar_status r = WAITING_APPROVAL"
    "get_run (ar_id run) (d\<lparr>db_runs := sql_update (waiting_matches run) (decide_values dec wall) (db_runs d),
       db_approvals := aps\<rparr>) = Some (decide_values dec wall r)"
proof -
  obtain r where r: "r \<in> set (db_runs d)" "waiting_matches run r"
    using assms(2) by auto
  then have g: "get_run (ar_id run) d = Some r"
    by (simp add: get_run_iff [OF assms(1)] waiting_matches_def)
  then have "get_run (ar_id run) (d\<lparr>db_runs := sql_update (waiting_matches run) (decide_values dec wall)
      (db_runs d), db_approvals := aps\<rparr>) = Some (decide_values dec wall r)"
    using decide_pk.lookup_after [where p = "waiting_matches run"] r(2) by (simp add: get_run_def)
  with that g r(2) show ?thesis by (simp add: waiting_matches_def)
qed

lemma decide_Inr:
  assumes "schema_ok d" and "decide sha pk wall run dec actor reason aid ph d = (d', Inr (ap, r'))"
  obtains r a where "get_run (ar_id run) d = Some r" "ar_status r = WAITING_APPROVAL"
    "proven_artifact sha run d a" "ph = None \<or> ph = Some (pa_patch_hash a)"
    "ap = new_approval pk run a dec actor reason wall"
    "ar_id run \<notin> ap_run_pk ` set (db_approvals d)" "db_approvals d' = db_approvals d @ [ap]"
    "r' = decide_values dec wall r" "get_run (ar_id run) d' = Some r'"
  using assms(2)
proof (cases rule: decide_cases)
  case (ok a r1)
  obtain r where "get_run (ar_id run) d = Some r" "ar_status r = WAITING_APPROVAL"
    "get_run (ar_id run) d' = Some (decide_values dec wall r)"
    using waiting_row [OF assms(1) ok(4), where dec = dec and wall = wall] ok(6) by metis
  with that [of r a] ok validated_artifact_proven [OF ok(2)] show ?thesis by simp
qed auto

lemma decide_Inl:
  assumes "schema_ok d" and "decide sha pk wall run dec actor reason aid ph d = (d', Inl e)"
  shows "d' = d \<and> (\<exists>m. e = ApprovalConflict m)"
  using assms(2)
proof (cases rule: decide_cases)
  case (gone e' a)
  then show ?thesis using waiting_row [OF assms(1) gone(4), where dec = dec and wall = wall]
    by (metis option.distinct(1))
qed auto

lemma decision_target_cases:
  "decision_target dec = (case dec of APPROVE \<Rightarrow> PENDING | REJECT \<Rightarrow> NEEDS_HUMAN_INTERVENTION)"
  by (cases dec) (simp_all add: decision_target_def)

text \<open>
  C23. What a decision is. An accepted decision found the run waiting for approval and undecided,
  and an immutable artifact of this very run whose stored hash is the hash of its patch and whose
  test run passed on exactly that patch and base; it stores one approval bound to that artifact
  and moves the run to the decision's target status. Every refusal is an \<open>ApprovalConflict\<close> and
  leaves the database as it was.
\<close>

theorem decide_correct:
  assumes "schema_ok d"
  shows "(case decide sha pk wall run dec actor reason aid ph d of
      (d', Inr (ap, r')) \<Rightarrow>
        (\<exists>r a. get_run (ar_id run) d = Some r \<and> ar_status r = WAITING_APPROVAL
          \<and> proven_artifact sha run d a \<and> (ph = None \<or> ph = Some (pa_patch_hash a))
          \<and> ap = new_approval pk run a dec actor reason wall
          \<and> (\<forall>x \<in> set (db_approvals d). ap_run_pk x \<noteq> ar_id run)
          \<and> db_approvals d' = db_approvals d @ [ap]
          \<and> r' = decide_values dec wall r \<and> get_run (ar_id run) d' = Some r'
          \<and> ar_status r' = (case dec of APPROVE \<Rightarrow> PENDING | REJECT \<Rightarrow> NEEDS_HUMAN_INTERVENTION))
    | (d', Inl e) \<Rightarrow> d' = d \<and> (\<exists>m. e = ApprovalConflict m))"
proof -
  obtain d' res where eq: "decide sha pk wall run dec actor reason aid ph d = (d', res)" by fastforce
  show ?thesis
  proof (cases res)
    case (Inl e)
    with eq decide_Inl [OF assms] show ?thesis by simp
  next
    case (Inr b)
    obtain ap r' where b: "b = (ap, r')" by fastforce
    with Inr eq have "decide sha pk wall run dec actor reason aid ph d = (d', Inr (ap, r'))" by simp
    from decide_Inr [OF assms this] show ?thesis
      unfolding eq Inr b prod.case sum.case
      by (metis decide_values_simps(3) decision_target_cases imageI)
  qed
qed

text \<open>A run that waits for approval of a patch that passed its tests.\<close>

definition demo_artifact :: PatchArtifact where
  "demo_artifact = \<lparr>pa_id = ''a'', pa_patch_artifact_id = ''PA-1'', pa_run_pk = ''p'',
     pa_base_commit_sha = ''b'', pa_patch_diff = ''diff'', pa_patch_hash = ''h:diff'',
     pa_test_run_id = Some ''TR-1'', pa_immutable = True\<rparr>"

definition demo_test :: TestRun where
  "demo_test = \<lparr>tr_id = ''t'', tr_test_run_id = ''TR-1'', tr_run_pk = ''p'', tr_status = X_PASSED,
     tr_exit_code = Some 0, tr_patch_hash = ''h:diff'', tr_base_commit_sha = ''b'', tr_mode = ''docker''\<rparr>"

definition demo_run :: "nat \<Rightarrow> AgentRun" where
  "demo_run n = new_run ''p'' ''run-1'' ''i'' ''tr'' 0\<lparr>ar_status := WAITING_APPROVAL,
     ar_attempt_count := n, ar_result := [(''patch_artifact_id'', JStr ''PA-1'')]\<rparr>"

definition demo_waiting :: "nat \<Rightarrow> db" where
  "demo_waiting n = empty_db\<lparr>db_runs := [demo_run n], db_artifacts := [demo_artifact],
     db_test_runs := [demo_test]\<rparr>"

definition demo_sha :: "string \<Rightarrow> string" where
  "demo_sha s = ''h:'' @ s"

lemma demo_waiting_schema: "schema_ok (demo_waiting n)"
  by (simp add: schema_ok_def demo_waiting_def empty_db_def)

lemma demo_validated: "validated_artifact demo_sha (demo_run n) None (demo_waiting n) = Inr demo_artifact"
  by (simp add: validated_artifact_def sql_first_def demo_waiting_def demo_artifact_def demo_run_def
      new_run_def chosen_artifact_id_def hash_patch_def demo_sha_def demo_test_def test_confirms_def)

lemmas demo_decide_simps = decide_def demo_validated Let_def rowcount_def waiting_matches_def demo_waiting_def
  demo_run_def new_run_def empty_db_def unique_violation_def refreshed_def get_run_def sql_first_def sql_update_def
  decide_values_def demo_artifact_def decision_target_def

lemma demo_decide_ok:
  "\<exists>d' ap r. decide demo_sha ''ap'' 7 (demo_run n) APPROVE ''human'' ''ok'' None (Some ''h:diff'') (demo_waiting n)
     = (d', Inr (ap, r))"
  using demo_validated [of n] by (simp add: demo_decide_simps)

lemma decide_correct_witness:
  "\<exists>d' ap r. decide demo_sha ''ap'' 7 (demo_run 1) APPROVE ''human'' ''ok'' None (Some ''h:diff'') (demo_waiting 1)
      = (d', Inr (ap, r)) \<and> ar_status r = PENDING \<and> ap_decision ap = Some APPROVE
    \<and> db_approvals d' = [ap]"
proof -
  obtain d' ap r where eq: "decide demo_sha ''ap'' 7 (demo_run 1) APPROVE ''human'' ''ok'' None (Some ''h:diff'')
      (demo_waiting 1) = (d', Inr (ap, r))"
    using demo_decide_ok by blast
  have "db_approvals (demo_waiting 1) = []" by (simp add: demo_waiting_def empty_db_def)
  with eq decide_correct [OF demo_waiting_schema [of 1], where sha = demo_sha and pk = "''ap''" and wall = 7
      and run = "demo_run 1" and dec = APPROVE and actor = "''human''" and reason = "''ok''" and aid = None
      and ph = "Some ''h:diff''"]
  show ?thesis by (auto simp: new_approval_def)
qed

section \<open>Decisions are final\<close>

lemma decide_refused:
  assumes "ar_id run \<in> ap_run_pk ` set (db_approvals d)"
  shows "\<exists>m. decide sha pk wall run dec actor reason aid ph d = (d, Inl (ApprovalConflict m))"
proof -
  obtain d' res where eq: "decide sha pk wall run dec actor reason aid ph d = (d', res)" by fastforce
  have "unique_violation ap_run_pk (new_approval pk run a dec actor reason wall) (db_approvals d)" for a
    using assms by (auto simp: unique_violation_def new_approval_def)
  then show ?thesis
    using validated_artifact_error [of sha run aid d]
    by (auto simp: decide_def Let_def split: sum.splits)
qed

text \<open>What one step does to the tables an approval rests on.\<close>

lemma step_tables:
  assumes "sys_step sha m s s'"
  shows "set (db_artifacts (ls_db s)) \<subseteq> set (db_artifacts (ls_db s'))
    \<and> set (db_test_runs (ls_db s)) \<subseteq> set (db_test_runs (ls_db s'))
    \<and> set (db_approvals (ls_db s)) \<subseteq> set (db_approvals (ls_db s'))"
  using assms
proof (induction rule: sys_step.induct)
  case (artifact s cc pk rid' x d' v')
  then show ?case
    by (auto simp: persist_patch_artifact_once_def Let_def split: option.splits sum.splits if_splits)
next
  case (outcome s cc pks run pl n ats d' v)
  then show ?case by (auto simp: persist_outcome_def Let_def split: sum.splits if_splits)
next
  case (decision pk wall run dec actor reason aid ph s d' res'')
  then show ?case by (elim decide_cases) auto
next
  case (admit ids wall data mq s d' res)
  then show ?case by (auto simp: create_incident_and_run_def Let_def split: if_splits)
next
  case (effect_open pk run key s d' v)
  then show ?case by (auto simp: open_effect_def update_effect_def Let_def split: option.splits if_splits)
next
  case (retry c s fc dl wall d' r)
  then show ?case by (auto simp: retry_claim_def split: option.splits if_splits)
qed (auto simp: claim_next_run_def renew_lease_def release_claim_def expire_exhausted_runs_def
    mark_running_def mark_status_def record_progress_def update_effect_def Let_def
    split: list.splits sum.splits if_splits)

lemma steps_tables:
  "(sys_step sha m)\<^sup>*\<^sup>* s s' \<Longrightarrow> set (db_approvals (ls_db s)) \<subseteq> set (db_approvals (ls_db s'))"
  by (induction rule: rtranclp_induct) (use step_tables in blast)+

text \<open>
  A decision is taken once and is final. Once a run has an approval row, the row survives every
  execution unchanged, and any further decision on the run, by anybody, on any artifact and
  at any time, is refused with \<open>ApprovalConflict\<close> and writes nothing.
\<close>

theorem decision_is_final:
  assumes "ap \<in> set (db_approvals (ls_db s))" and "ap_run_pk ap = ar_id run"
    and "(sys_step sha m)\<^sup>*\<^sup>* s s'"
  shows "ap \<in> set (db_approvals (ls_db s'))
    \<and> (\<exists>msg. decide sha pk wall run dec actor reason aid ph (ls_db s')
          = (ls_db s', Inl (ApprovalConflict msg)))"
proof -
  have "ap \<in> set (db_approvals (ls_db s'))" using steps_tables [OF assms(3)] assms(1) by blast
  moreover from this have "ar_id run \<in> ap_run_pk ` set (db_approvals (ls_db s'))"
    using assms(2) by (metis imageI)
  ultimately show ?thesis by (blast intro: decide_refused)
qed

lemma decision_is_final_witness:
  "\<exists>d ap r. decide demo_sha ''ap'' 7 (demo_run 1) APPROVE ''human'' ''ok'' None (Some ''h:diff'') (demo_waiting 1)
      = (d, Inr (ap, r))
    \<and> (\<exists>msg. decide demo_sha ''ap2'' 8 r REJECT ''other'' ''no'' None None d = (d, Inl (ApprovalConflict msg)))"
proof -
  obtain d ap r where eq: "decide demo_sha ''ap'' 7 (demo_run 1) APPROVE ''human'' ''ok'' None (Some ''h:diff'')
      (demo_waiting 1) = (d, Inr (ap, r))"
    using demo_decide_ok by blast
  then have "ap \<in> set (db_approvals d)" "ap_run_pk ap = ar_id r"
    by (auto elim!: decide_cases simp: new_approval_def get_run_def sql_first_def
        dest!: sql_first_Some [unfolded sql_first_def])
  with decision_is_final [where s = "init_lsys\<lparr>ls_db := d\<rparr>" and s' = "init_lsys\<lparr>ls_db := d\<rparr>" and m = 1
      and sha = demo_sha and ap = ap and run = r]
  have "\<exists>msg. decide demo_sha ''ap2'' 8 r REJECT ''other'' ''no'' None None d = (d, Inl (ApprovalConflict msg))"
    by simp
  with eq show ?thesis by blast
qed

section \<open>Every approval is backed by a passing test\<close>

definition approval_backed :: "(string \<Rightarrow> string) \<Rightarrow> db \<Rightarrow> Approval \<Rightarrow> bool" where
  "approval_backed sha d ap \<longleftrightarrow> (\<exists>a \<in> set (db_artifacts d).
     pa_run_pk a = ap_run_pk ap \<and> pa_immutable a \<and> pa_patch_hash a = hash_patch sha (pa_patch_diff a)
     \<and> ap_patch_artifact_id ap = Some (pa_patch_artifact_id a) \<and> ap_payload ap = binding a
     \<and> (\<exists>t \<in> set (db_test_runs d). tr_run_pk t = ap_run_pk ap
          \<and> Some (tr_test_run_id t) = pa_test_run_id a \<and> test_confirms a t))"

lemma approval_backed_mono:
  assumes "approval_backed sha d ap" and "set (db_artifacts d) \<subseteq> set (db_artifacts d')"
    and "set (db_test_runs d) \<subseteq> set (db_test_runs d')"
  shows "approval_backed sha d' ap"
  using assms unfolding approval_backed_def by blast

lemma proven_backs:
  assumes "proven_artifact sha run d a"
  shows "approval_backed sha d (new_approval pk run a dec actor reason wall)"
  using assms unfolding proven_artifact_def approval_backed_def new_approval_def by auto

lemma step_new_approval:
  assumes "sys_step sha m s s'" and "ap \<in> set (db_approvals (ls_db s'))"
  shows "ap \<in> set (db_approvals (ls_db s)) \<or> approval_backed sha (ls_db s) ap"
  using assms
proof (induction rule: sys_step.induct)
  case (decision pk wall run dec actor reason aid ph s d' res'')
  from decision(1) show ?case
  proof (cases rule: decide_cases)
    case (error m)
    then show ?thesis using decision(2) by simp
  next
    case (gone e a)
    then show ?thesis using decision(2) proven_backs [OF validated_artifact_proven] by auto
  next
    case (ok a r)
    then show ?thesis using decision(2) proven_backs [OF validated_artifact_proven] by auto
  qed
next
  case (admit ids wall data mq s d' res)
  then show ?case by (auto simp: create_incident_and_run_def Let_def split: if_splits)
next
  case (effect_open pk run key s d' v)
  then show ?case by (auto simp: open_effect_def update_effect_def Let_def split: option.splits if_splits)
next
  case (retry c s fc dl wall d' r)
  then show ?case by (auto simp: retry_claim_def split: option.splits if_splits)
next
  case (artifact s cc pk rid' x d' v')
  then show ?case
    by (auto simp: persist_patch_artifact_once_def Let_def split: option.splits sum.splits if_splits)
next
  case (outcome s cc pks run pl n ats d' v)
  then show ?case by (auto simp: persist_outcome_def Let_def split: sum.splits if_splits)
qed (auto simp: claim_next_run_def renew_lease_def release_claim_def expire_exhausted_runs_def
    mark_running_def mark_status_def record_progress_def update_effect_def Let_def
    split: list.splits sum.splits if_splits)

lemma reachable_backed:
  "reachable sha m s \<Longrightarrow> \<forall>ap \<in> set (db_approvals (ls_db s)). approval_backed sha (ls_db s) ap"
proof (induction rule: reachable.induct)
  case start
  then show ?case by (simp add: init_lsys_def empty_db_def)
next
  case (step s s')
  show ?case
  proof
    fix ap assume "ap \<in> set (db_approvals (ls_db s'))"
    from step_new_approval [OF step(2) this] step(3) have "approval_backed sha (ls_db s) ap" by blast
    then show "approval_backed sha (ls_db s') ap"
      by (rule approval_backed_mono) (use step_tables [OF step(2)] in blast)+
  qed
qed

text \<open>
  C4. Nothing untested is ever approved. In every reachable state each stored approval names an
  immutable artifact of its run that is still there, bound field by field in the approval's payload,
  whose hash is the hash of its diff and for which the run has a passed test run with exit code 0
  on exactly that patch and base commit.
\<close>

theorem approvals_backed:
  assumes "reachable sha m s" and "ap \<in> set (db_approvals (ls_db s))"
  shows "approval_backed sha (ls_db s) ap"
  using reachable_backed [OF assms(1)] assms(2) by blast

text \<open>The claimed run of \<open>demo_sys1\<close> exports its patch, stores its test, waits and is approved.\<close>

definition demo_export :: PatchArtifactData where
  "demo_export = \<lparr>xa_patch_artifact_id = ''PA-1'', xa_base_commit_sha = ''b'', xa_patch_diff = ''diff'',
     xa_patch_hash = ''h:diff'', xa_test_run_id = ''TR-1''\<rparr>"

definition demo_attempt :: PatchAttempt where
  "demo_attempt = \<lparr>at_attempt = 1, at_summary = ''s'', at_patch_diff = Some ''diff'', at_status = None,
     at_generator = None, at_error = None, at_base_commit_sha = Some ''b'', at_test_run_id = Some ''TR-1'',
     at_test_ok = True, at_test_exit_code = Some 0, at_test_mode = Some ''docker'', at_test_stdout = [],
     at_test_stderr = [], at_reflection = None\<rparr>"

definition demo_row :: AgentRun where
  "demo_row = claim_values ''w1'' 60 0 (new_run ''p'' ''run-1'' ''i'' ''tr'' 0)"

definition demo_exported :: db where
  "demo_exported = fst (persist_patch_artifact_once (Some claim1) 0 ''a'' ''run-1'' demo_export demo_claimed)"

definition demo_stored :: db where
  "demo_stored = fst (persist_outcome demo_sha (Some claim1) 0 (\<lambda>_. ''t'') demo_row [] 0 [demo_attempt] demo_exported)"

definition demo_asked :: db where
  "demo_asked = fst (mark_status (Some claim1) 0 demo_row WAITING_APPROVAL no_update demo_stored)"

definition demo_approved :: db where
  "demo_approved = fst (decide demo_sha ''ap'' 7 demo_row APPROVE ''human'' ''ok'' (Some ''PA-1'') None demo_asked)"

lemma demo_claim1_fence:
  "db_runs d = [r] \<Longrightarrow> ar_run_id r = ''run-1'' \<Longrightarrow> ar_worker_id r = Some ''w1'' \<Longrightarrow> ar_attempt_count r = 1 \<Longrightarrow>
   ar_lease_expires_at r = Some 60000000 \<Longrightarrow> ar_status r = RUNNING \<Longrightarrow>
   fence (Some claim1) 0 ''run-1'' d = Inr ()"
  by (simp add: fence_def claim1_def rowcount_def fence_matches_def)

lemmas demo_rows = claim_values_def new_run_def seconds_def

lemma demo_exported_eq: "demo_exported = demo_claimed\<lparr>db_artifacts := [demo_artifact]\<rparr>"
  by (simp add: demo_exported_def persist_patch_artifact_once_def get_run_by_run_id_def sql_first_def
      demo_claim1_fence demo_claimed_eq demo_admitted_eq empty_db_def demo_rows unique_violation_def
      stored_artifact_def demo_export_def demo_artifact_def)

lemma demo_stored_eq: "demo_stored = demo_exported\<lparr>db_test_runs := [demo_test],
    db_runs := [demo_row\<lparr>ar_patch_attempt_count := 1\<rparr>]\<rparr>"
  by (simp add: demo_stored_def persist_outcome_def demo_claim1_fence demo_exported_eq demo_row_def
      demo_claimed_eq demo_admitted_eq empty_db_def demo_rows new_test_runs_def new_test_run_def
      demo_attempt_def demo_test_def hash_patch_def demo_sha_def sql_update_def)

lemma demo_asked_eq: "demo_asked = demo_stored\<lparr>db_runs := [demo_row\<lparr>ar_patch_attempt_count := 1,
    ar_status := WAITING_APPROVAL\<rparr>]\<rparr>"
  by (simp add: demo_asked_def mark_status_def demo_claim1_fence demo_stored_eq demo_row_def demo_rows
      Let_def rowcount_def terminal_simps sql_update_def status_values_def no_update_def)

lemma demo_approved_eq: "demo_approved = demo_asked\<lparr>
    db_runs := [decide_values APPROVE 7 (demo_row\<lparr>ar_patch_attempt_count := 1, ar_status := WAITING_APPROVAL\<rparr>)],
    db_approvals := [new_approval ''ap'' demo_row demo_artifact APPROVE ''human'' ''ok'' 7]\<rparr>"
proof -
  have "validated_artifact demo_sha demo_row (Some ''PA-1'') demo_asked = Inr demo_artifact"
    by (simp add: validated_artifact_def sql_first_def demo_asked_eq demo_stored_eq demo_exported_eq
        demo_artifact_def demo_row_def demo_rows chosen_artifact_id_def hash_patch_def demo_sha_def
        demo_test_def test_confirms_def)
  moreover have "db_approvals demo_asked = []"
    by (simp add: demo_asked_eq demo_stored_eq demo_exported_eq demo_claimed_eq demo_admitted_eq empty_db_def)
  ultimately show ?thesis
    by (simp add: demo_approved_def decide_def Let_def rowcount_def waiting_matches_def demo_asked_eq
        demo_row_def demo_rows unique_violation_def refreshed_def get_run_def sql_first_def sql_update_def
        decide_values_def split: option.splits sum.splits)
qed

lemma demo_approved_approvals: "db_approvals demo_approved
    = [new_approval ''ap'' demo_row demo_artifact APPROVE ''human'' ''ok'' 7]"
  by (simp add: demo_approved_eq)

lemma demo_db_step:
  assumes "reachable demo_sha 2 (demo_sys1\<lparr>ls_db := d\<rparr>)"
    and "sys_step demo_sha 2 (demo_sys1\<lparr>ls_db := d\<rparr>) (demo_sys1\<lparr>ls_db := d, ls_db := d'\<rparr>)"
  shows "reachable demo_sha 2 (demo_sys1\<lparr>ls_db := d'\<rparr>)"
  using reachable.step [OF assms] by simp

lemma demo_approved_reachable: "reachable demo_sha 2 (demo_sys1\<lparr>ls_db := demo_approved\<rparr>)"
proof -
  have h: "holds_claim (demo_sys1\<lparr>ls_db := d\<rparr>) (Some claim1)" for d
    by (simp add: holds_claim_def demo_sys1_def)
  have n: "ls_now (demo_sys1\<lparr>ls_db := d\<rparr>) = 0" for d by (simp add: demo_sys1_def)
  have "demo_sys1\<lparr>ls_db := demo_claimed\<rparr> = demo_sys1" by (simp add: demo_sys1_def)
  then have "reachable demo_sha 2 (demo_sys1\<lparr>ls_db := demo_claimed\<rparr>)"
    using demo_sys1_reachable [of demo_sha] by simp
  then have "reachable demo_sha 2 (demo_sys1\<lparr>ls_db := demo_exported\<rparr>)"
    by (rule demo_db_step) (rule sys_step.artifact [OF h], simp add: n, unfold demo_exported_def,
        rule prod.collapse [symmetric])
  then have "reachable demo_sha 2 (demo_sys1\<lparr>ls_db := demo_stored\<rparr>)"
    by (rule demo_db_step) (rule sys_step.outcome [OF h], simp add: n, unfold demo_stored_def,
        rule prod.collapse [symmetric])
  then have "reachable demo_sha 2 (demo_sys1\<lparr>ls_db := demo_asked\<rparr>)"
    by (rule demo_db_step) (rule sys_step.status [OF h], simp add: n, unfold demo_asked_def,
        rule prod.collapse [symmetric])
  then show ?thesis
    by (rule demo_db_step) (rule sys_step.decision, simp, unfold demo_approved_def,
        rule prod.collapse [symmetric])
qed

lemma approvals_backed_witness:
  "approval_backed demo_sha demo_approved (new_approval ''ap'' demo_row demo_artifact APPROVE ''human'' ''ok'' 7)"
  using approvals_backed [OF demo_approved_reachable] by (simp add: demo_approved_approvals)

section \<open>After an approval\<close>

text \<open>
  C36. When an approved run is picked up. Approving puts the run back in the queue with its attempt
  counter unchanged: any worker may claim it at once, exactly when it has attempts left. A run
  approved during its last attempt is offered to no worker, and the expiry sweep passes it over.
\<close>

theorem approved_run_claimable_iff:
  assumes "schema_ok d"
    and "decide sha pk wall run APPROVE actor reason aid ph d = (d', Inr (ap, r))"
    and "wall \<le> t"
  shows "(\<exists>d'' c. claim_next_run {} w l m t (Some (ar_run_id r)) d' = (d'', Some c))
      = (ar_attempt_count r < m)
    \<and> r \<in> set (db_runs (fst (expire_exhausted_runs m t d')))"
proof
  have s': "schema_ok d'" using assms(1,2) by (rule decide_schema)
  obtain r0 where r0: "get_run (ar_id run) d' = Some r" "r = decide_values APPROVE wall r0"
    by (rule decide_Inr [OF assms(1,2)])
  then have r: "get_run (ar_id run) d' = Some r" "ar_status r = PENDING" "\<exists>r0. r = decide_values APPROVE wall r0"
    by (auto simp: row_simps decision_target_def)
  then have in_d': "r \<in> set (db_runs d')" by (simp add: get_run_iff [OF s'])
  have elig: "claim_eligible t r"
    using r(2,3) assms(3) by (auto simp: claim_eligible_def decide_values_def)
  have same: "x = r" if "x \<in> set (db_runs d')" "ar_run_id x = ar_run_id r" for x
    using distinct_key_eq [OF schema_runs(2) [OF s'] that(1) in_d' that(2)] .
  have "(\<exists>d'' c. claim_next_run {} w l m t (Some (ar_run_id r)) d' = (d'', Some c))
      \<longleftrightarrow> snd (claim_next_run {} w l m t (Some (ar_run_id r)) d') \<noteq> None"
    by (cases "claim_next_run {} w l m t (Some (ar_run_id r)) d'") auto
  also have "\<dots> \<longleftrightarrow> ar_attempt_count r < m"
    unfolding claim_None_iff using elig in_d' by (auto dest: same)
  finally show "(\<exists>d'' c. claim_next_run {} w l m t (Some (ar_run_id r)) d' = (d'', Some c))
      = (ar_attempt_count r < m)" .
  show "r \<in> set (db_runs (fst (expire_exhausted_runs m t d')))"
    using in_d' r(2) by (auto simp: expire_exhausted_runs_def in_sql_update expire_matches_def intro: bexI [of _ r])
qed

lemma approved_run_claimable_iff_witness:
  "\<exists>d ap r. decide demo_sha ''ap'' 7 (demo_run 1) APPROVE ''human'' ''ok'' None (Some ''h:diff'') (demo_waiting 1)
      = (d, Inr (ap, r))
    \<and> (\<nexists>d'' c. claim_next_run {} ''w'' 60 1 1000000007 (Some ''run-1'') d = (d'', Some c))"
proof -
  obtain d ap r where eq: "decide demo_sha ''ap'' 7 (demo_run 1) APPROVE ''human'' ''ok'' None (Some ''h:diff'')
      (demo_waiting 1) = (d, Inr (ap, r))"
    using demo_decide_ok by blast
  have "r = decide_values APPROVE 7 (demo_run 1)"
    using eq demo_validated [of 1] by (simp add: demo_decide_simps)
  then have r: "ar_attempt_count r = 1" "ar_run_id r = ''run-1''"
    by (simp_all add: row_simps demo_run_def new_run_def)
  then have "\<nexists>d'' c. claim_next_run {} ''w'' 60 1 1000000007 (Some ''run-1'') d = (d'', Some c)"
    using approved_run_claimable_iff [OF demo_waiting_schema eq, where t = 1000000007 and w = "''w''" and l = 60 and m = 1] by simp
  with eq show ?thesis by blast
qed

end
