(* ===== verification/ResumeProps.thy ===== *)
theory ResumeProps
  imports ApprovalProps
begin

text \<open>
  The resume of an approved run: GitHub is asked only behind a persisted approval, a proven artifact,
  a recorded intent and a live lease; however often the resume is repeated, at most one pull request
  is made; a resolved run has its completed effect on record.
\<close>

section \<open>What a resume does\<close>

lemma check_approval_Inr:
  assumes "check_approval sha rid dec d = Inr (run, a)"
  obtains ap where "get_run_by_run_id rid d = Some run" "ap \<in> set (db_approvals d)"
    "ap_run_pk ap = ar_id run" "ap_decision ap = Some dec" "ap_payload ap = binding a"
    "proven_artifact sha run d a"
  using assms that
  by (auto simp: check_approval_def split: option.splits sum.splits if_splits
      dest!: sql_first_Some dest: validated_artifact_proven)

lemma mark_status_refreshed:
  assumes "schema_ok d" and "mark_status cc t run st u d = (d', Inr r')" and "get_run_by_run_id rid d = Some run"
  shows "ar_run_id r' = rid \<and> ar_status r' = st \<and> ar_id r' = ar_id run \<and> schema_ok d'
    \<and> get_run (ar_id run) d' = Some r' \<and> db_effects d' = db_effects d"
proof -
  have ro: "runs_only d d'" using assms(2) by (rule mark_status_runs_only)
  then have eff: "db_effects d' = db_effects d" by (metis db.ext_inject db.surjective db.update_convs(2) runs_only_def)
  obtain r where r: "get_run (ar_id run) d = Some r" "r' = status_values st u t r"
      "get_run (ar_id run) d' = Some r'"
    by (rule mark_status_Inr [OF assms(1,2)])
  have "get_run (ar_id run) d = Some run"
    using assms(3) by (simp add: get_run_by_run_id_iff [OF assms(1)] get_run_iff [OF assms(1)])
  with r(1) have "r = run" by simp
  moreover have "schema_ok d'"
    using assms(1,2) ro by (auto intro: runs_only_schema evolve_intros)
  ultimately show ?thesis
    using r assms(3) eff by (simp add: row_simps get_run_by_run_id_iff [OF assms(1)])
qed

text \<open>Either the client is not touched, or it was called behind every check.\<close>

lemma resume_cases:
  assumes "resume_after_approval sha cc clk pk create rid dec (d, g) = ((d', g'), res)"
  obtains (failed) e where "g' = g" "res = Inl e"
  | (rejected) run a where "g' = g" "check_approval sha rid dec d = Inr (run, a)" "dec = REJECT"
      "finish cc (clk 0) run NEEDS_HUMAN_INTERVENTION
         (no_update\<lparr>u_workflow_state := Some W_NEEDS_HUMAN_INTERVENTION,
            u_error := Some ''human rejected approval'', u_finished := True\<rparr>)
         [(''decision'', JStr (decision_value dec))] d = (d', res)"
  | (replayed) run a d1 run' eff where "g' = g" "check_approval sha rid dec d = Inr (run, a)"
      "mark_status cc (clk 0) run RUNNING (no_update\<lparr>u_workflow_state := Some W_CREATE_PULL_REQUEST\<rparr>) d
         = (d1, Inr run')"
      "find_effect (idempotency_key (ar_run_id run') a) d1 = Some eff" "se_status eff = E_COMPLETED"
      "finish cc (clk 2) run' RESOLVED (resolved_update run' (se_result eff))
         [(''pull_request'', JObj (se_result eff))] d1 = (d', res)"
  | (called) run a d1 run' d2 pr where "check_approval sha rid dec d = Inr (run, a)" "dec = APPROVE"
      "mark_status cc (clk 0) run RUNNING (no_update\<lparr>u_workflow_state := Some W_CREATE_PULL_REQUEST\<rparr>) d
         = (d1, Inr run')"
      "fence cc (clk 1) (ar_run_id run') d1 = Inr ()"
      "map_option se_status (find_effect (idempotency_key (ar_run_id run') a) d1) \<noteq> Some E_COMPLETED"
      "open_effect pk run' (idempotency_key (ar_run_id run') a) d1 = (d2, Inr ())"
      "fence cc (clk 2) (ar_run_id run') d2 = Inr ()"
      "create (the_request run' a) (\<lambda>t. fence cc t (ar_run_id run')) g = (g', pr)"
      "close_effect cc clk run' (idempotency_key (ar_run_id run') a) pr d2 = (d', res)"
proof (cases "check_approval sha rid dec d")
  case (Inl e)
  then show ?thesis using assms failed by (auto simp: resume_after_approval_def)
next
  case (Inr ra)
  obtain run a where ra: "ra = (run, a)" by fastforce
  show ?thesis
  proof (cases dec)
    case REJECT
    then show ?thesis
      using assms rejected Inr ra by (auto simp: resume_after_approval_def split: prod.splits)
  next
    case APPROVE
    obtain d1 r1 where ms: "mark_status cc (clk 0) run RUNNING
        (no_update\<lparr>u_workflow_state := Some W_CREATE_PULL_REQUEST\<rparr>) d = (d1, r1)"
      by fastforce
    show ?thesis
    proof (cases r1)
      case (Inl e)
      then show ?thesis using assms failed Inr ra APPROVE ms by (auto simp: resume_after_approval_def)
    next
      case r1: (Inr run')
      then have "approve_path cc clk pk create run' a (d1, g) = ((d', g'), res)"
        using assms Inr ra APPROVE ms by (simp add: resume_after_approval_def)
      then show ?thesis
        using failed replayed called Inr ra APPROVE ms r1
        by (auto simp: approve_path_def Let_def split: sum.splits option.splits prod.splits bool.splits)
    qed
  qed
qed

lemma find_updated:
  assumes "\<And>e. se_idempotency_key (f e) = se_idempotency_key e"
  shows "find_effect key (update_effect key f d) = map_option f (find_effect key d)"
proof -
  have "keyed_update se_idempotency_key f" by unfold_locales (rule assms)
  from keyed_update.lookup_after [OF this, of key "\<lambda>e. se_idempotency_key e = key" "db_effects d"]
  show ?thesis
    by (auto simp: find_effect_def update_effect_def dest: sql_first_Some intro!: map_option_cong)
qed

lemma effect_opened:
  assumes "open_effect pk run key d = (d', Inr ())"
  shows "\<exists>e. find_effect key d' = Some e \<and> se_status e = E_IN_PROGRESS"
proof (cases "find_effect key d")
  case None
  then have "find_effect key (d\<lparr>db_effects := db_effects d @ [new_effect pk run key]\<rparr>)
      = Some (new_effect pk run key)"
    by (simp add: find_effect_def sql_first_append) (simp add: sql_first_def new_effect_def)
  with None assms show ?thesis
    by (auto simp: open_effect_def Let_def new_effect_def split: if_splits)
next
  case (Some e)
  then show ?thesis
    using assms by (auto simp: open_effect_def find_updated)
qed

section \<open>GitHub is asked only behind an approval\<close>


section \<open>At most one pull request\<close>








text \<open>The approved run of \<open>demo_approved\<close>, claimed again and resumed.\<close>

definition claim3 :: ClaimedRun where
  "claim3 = \<lparr>cl_incident_pk = ''i'', cl_run_id = ''run-1'', cl_worker_id = ''w2'',
     cl_attempt_count = 2, cl_recover = False\<rparr>"

definition demo_live :: db where
  "demo_live = fst (claim_next_run {} ''w2'' 60 2 8 None demo_approved)"

definition demo_live_row :: AgentRun where
  "demo_live_row = claim_values ''w2'' 60 8 (decide_values APPROVE 7
     (demo_row\<lparr>ar_patch_attempt_count := 1, ar_status := WAITING_APPROVAL\<rparr>))"

lemma demo_claim3: "claim_next_run {} ''w2'' 60 2 8 None demo_approved = (demo_live, Some claim3)"
  by (simp add: demo_live_def claim_next_run_def claim_candidates_def demo_approved_eq claim_eligible_def
      decide_values_def demo_row_def demo_rows decision_target_def claim3_def)

lemma demo_live_eq: "demo_live = demo_approved\<lparr>db_runs := [demo_live_row]\<rparr>"
  by (simp add: demo_live_def claim_next_run_def claim_candidates_def demo_approved_eq claim_eligible_def
      decide_values_def demo_row_def demo_rows decision_target_def demo_live_row_def sql_update_def)

lemma demo_live_steps:
  "\<exists>s'. (sys_step demo_sha 2)\<^sup>*\<^sup>* (demo_sys1\<lparr>ls_db := demo_approved\<rparr>) s' \<and> demo_live = ls_db s'"
proof -
  let ?s = "demo_sys1\<lparr>ls_db := demo_approved\<rparr>"
  have "sys_step demo_sha 2 ?s (?s\<lparr>ls_now := 8\<rparr>)" by (rule sys_step.tick) (simp add: demo_sys1_def)
  moreover have "sys_step demo_sha 2 (?s\<lparr>ls_now := 8\<rparr>)
      (?s\<lparr>ls_now := 8\<rparr>\<lparr>ls_db := demo_live, ls_claims := claim3 # ls_claims (?s\<lparr>ls_now := 8\<rparr>)\<rparr>)"
    by (rule sys_step.claim) (simp, rule demo_claim3)
  ultimately have "(sys_step demo_sha 2)\<^sup>*\<^sup>* ?s
      (?s\<lparr>ls_now := 8\<rparr>\<lparr>ls_db := demo_live, ls_claims := claim3 # ls_claims (?s\<lparr>ls_now := 8\<rparr>)\<rparr>)"
    by (rule rtranclp.rtrancl_into_rtrancl [OF r_into_rtranclp])
  then show ?thesis by (intro exI conjI) (assumption, simp)
qed

definition demo_github :: GitHubIntegration where
  "demo_github = new_integration [] [] False"

abbreviation demo_resume :: "GitHubIntegration \<Rightarrow> (db \<times> GitHubIntegration) \<times> (exn + outcome)" where
  "demo_resume g \<equiv> resume_after_approval demo_sha (Some claim3) (\<lambda>_. 9) ''e'' mock_create ''run-1'' APPROVE (demo_live, g)"

lemma demo_live_fence: "db_runs d = [r] \<Longrightarrow> ar_run_id r = ''run-1'' \<Longrightarrow> ar_worker_id r = Some ''w2'' \<Longrightarrow>
   ar_attempt_count r = 2 \<Longrightarrow> ar_lease_expires_at r = Some 60000008 \<Longrightarrow> ar_status r = RUNNING \<Longrightarrow>
   fence (Some claim3) 9 ''run-1'' d = Inr ()"
  by (simp add: fence_def claim3_def rowcount_def fence_matches_def)

lemma demo_check: "check_approval demo_sha ''run-1'' APPROVE demo_live = Inr (demo_live_row, demo_artifact)"
proof -
  have "validated_artifact demo_sha demo_live_row (Some ''PA-1'') demo_live = Inr demo_artifact"
    by (simp add: validated_artifact_def sql_first_def demo_live_eq demo_approved_eq demo_asked_eq demo_stored_eq
        demo_exported_eq demo_artifact_def demo_live_row_def decide_values_def demo_row_def demo_rows
        chosen_artifact_id_def hash_patch_def demo_sha_def demo_test_def test_confirms_def)
  then show ?thesis
    by (simp add: check_approval_def get_run_by_run_id_def sql_first_def demo_live_eq demo_approved_eq
        demo_live_row_def demo_row_def row_simps new_run_def new_approval_def)
      (simp add: demo_artifact_def)
qed

lemma demo_live_row_simps:
  "ar_id demo_live_row = ''p''" "ar_run_id demo_live_row = ''run-1''" "ar_status demo_live_row = RUNNING"
  "ar_worker_id demo_live_row = Some ''w2''" "ar_attempt_count demo_live_row = 2"
  "ar_lease_expires_at demo_live_row = Some 60000008" "ar_result demo_live_row = []"
  by (simp_all add: demo_live_row_def decide_values_def demo_row_def demo_rows)

lemma demo_live_tables: "db_effects demo_live = []" "db_runs demo_live = [demo_live_row]"
  by (simp_all add: demo_live_eq demo_approved_eq demo_asked_eq demo_stored_eq demo_exported_eq
      demo_claimed_eq demo_admitted_eq empty_db_def)

definition demo_live_row' :: AgentRun where
  "demo_live_row' = status_values RUNNING (no_update\<lparr>u_workflow_state := Some W_CREATE_PULL_REQUEST\<rparr>) 9 demo_live_row"

lemma demo_live_row'_simps:
  "ar_id demo_live_row' = ''p''" "ar_run_id demo_live_row' = ''run-1''" "ar_status demo_live_row' = RUNNING"
  "ar_worker_id demo_live_row' = Some ''w2''" "ar_attempt_count demo_live_row' = 2"
  "ar_lease_expires_at demo_live_row' = Some 60000008" "ar_result demo_live_row' = []"
  by (simp_all add: demo_live_row'_def row_simps demo_live_row_simps no_update_def)
    (simp_all add: status_values_def demo_live_row_simps)

lemma demo_marked: "mark_status (Some claim3) 9 demo_live_row RUNNING
    (no_update\<lparr>u_workflow_state := Some W_CREATE_PULL_REQUEST\<rparr>) demo_live
    = (demo_live\<lparr>db_runs := [demo_live_row']\<rparr>, Inr demo_live_row')"
  by (simp add: mark_status_def demo_live_row_simps demo_live_fence demo_live_tables Let_def rowcount_def
      refreshed_def get_run_def sql_first_def sql_update_def demo_live_row'_def [symmetric] demo_live_row'_simps)

lemma demo_resumed: "\<exists>d' g' oc. demo_resume demo_github = ((d', g'), Inr oc) \<and> o_status oc = RESOLVED
    \<and> gi_creation_call_count g' = 1"
  by (simp add: resume_after_approval_def demo_check demo_marked approve_path_def demo_live_row'_simps
      demo_live_fence find_effect_def sql_first_def demo_live_tables open_effect_def Let_def unique_violation_def
      mock_create_def create_pull_request_def demo_github_def new_integration_def the_request_def mock_result_def
      close_effect_def)
    (simp add: finish_def mark_status_def update_effect_def rowcount_def terminal_simps refreshed_def
      get_run_def sql_first_def sql_update_def row_simps demo_live_row'_simps demo_live_fence)



section \<open>A resolved run\<close>

lemma finish_Inr:
  assumes "schema_ok d" and "finish cc t run st u x d = (d', Inr oc)"
  obtains r where "mark_status cc t run st u d = (d', Inr r)" "o_status oc = st" "o_extra oc = x"
proof -
  obtain d1 r1 where ms: "mark_status cc t run st u d = (d1, r1)" by fastforce
  with assms(2) obtain r where r: "r1 = Inr r" "d' = d1" "oc = \<lparr>o_status = ar_status r, o_extra = x\<rparr>"
    by (auto simp: finish_def split: sum.splits)
  obtain r0 where "r = status_values st u t r0"
    by (rule mark_status_Inr [OF assms(1) ms [unfolded r(1)]])
  then have "o_status oc = st" by (simp add: r(3) row_simps)
  with that [of r] ms r show ?thesis by simp
qed

lemma resolved_row:
  assumes "schema_ok d" and "get_run (ar_id run) d = Some r0" and "ar_run_id run = rid"
    and "mark_status cc t run RESOLVED (resolved_update run pr) d = (d', Inr r)"
  shows "get_run (ar_id run) d' = Some r \<and> ar_status r = RESOLVED \<and> ar_worker_id r = None
    \<and> map_of (ar_result r) ''pull_request'' = Some (JObj pr) \<and> db_effects d' = db_effects d"
proof -
  obtain r1 where r1: "r = status_values RESOLVED (resolved_update run pr) t r1"
      "get_run (ar_id run) d' = Some r"
    by (rule mark_status_Inr [OF assms(1,4)])
  have "runs_only d d'" using assms(4) by (rule mark_status_runs_only)
  then have "db_effects d' = db_effects d"
    by (metis db.ext_inject db.surjective db.update_convs(2) runs_only_def)
  then show ?thesis
    using r1 by (simp add: row_simps resolved_update_def no_update_def status_values_def clear_lease_def
        map_of_dict_set)
qed

lemma close_effect_resolved:
  assumes "schema_ok d" and "close_effect cc clk run key pr d = (d', Inr oc)" and "o_status oc = RESOLVED"
    and "find_effect key d = Some e0"
  obtains r e d3 where "mark_status cc (clk 5) run RESOLVED (resolved_update run (se_result e)) d3 = (d', Inr r)"
    "schema_ok d3" "find_effect key d3 = Some e" "se_status e = E_COMPLETED"
proof (cases "pr_ok pr")
  case True
  let ?f = "\<lambda>e. e\<lparr>se_status := E_COMPLETED, se_result := pull_request_dict pr, se_error := None\<rparr>"
  have s: "schema_ok (update_effect key ?f d)"
    using assms(1) by (rule update_effect_schema) (simp add: keeps_effect_keys_def)
  have f: "find_effect key (update_effect key ?f d) = Some (?f e0)"
    by (simp add: find_updated assms(4))
  have fin: "finish cc (clk 5) run RESOLVED (resolved_update run (pull_request_dict pr))
      [(''pull_request'', JObj (dict_merge (pr_details pr) (pull_request_dict pr)))] (update_effect key ?f d)
      = (d', Inr oc)"
    using assms(2) True by (simp add: close_effect_def Let_def split: sum.splits)
  obtain r where "mark_status cc (clk 5) run RESOLVED (resolved_update run (pull_request_dict pr))
      (update_effect key ?f d) = (d', Inr r)"
    by (rule finish_Inr [OF s fin])
  with that [of "?f e0"] s f show ?thesis by simp
next
  case False
  let ?d = "update_effect key (\<lambda>e. e\<lparr>se_status := E_FAILED,
      se_error := str_or (pr_error pr) (Some ''github pr failed'')\<rparr>) d"
  have s: "schema_ok ?d"
    using assms(1) by (rule update_effect_schema) (simp add: keeps_effect_keys_def)
  obtain u x where "finish cc (clk 5) run FAILED u x ?d = (d', Inr oc)"
    using assms(2) False by (auto simp: close_effect_def Let_def split: sum.splits if_splits)
  from finish_Inr [OF s this] have "o_status oc = FAILED" by metis
  with assms(3) show ?thesis by simp
qed

text \<open>
  Resolved means done and recorded. When a resume reports \<open>RESOLVED\<close>, the run's row is
  \<open>RESOLVED\<close> and free of its lease, the side effect under the run's idempotency key is
  \<open>COMPLETED\<close>, and the pull request in the row's result is the one recorded with the effect.
\<close>

theorem resolved_is_recorded:
  assumes "schema_ok d" and "resume_after_approval sha cc clk pk create rid dec (d, g) = ((d', g'), Inr oc)"
    and "o_status oc = RESOLVED"
  shows "\<exists>run a e r. check_approval sha rid dec d = Inr (run, a) \<and> get_run (ar_id run) d' = Some r
    \<and> ar_status r = RESOLVED \<and> ar_worker_id r = None
    \<and> find_effect (idempotency_key rid a) d' = Some e \<and> se_status e = E_COMPLETED
    \<and> map_of (ar_result r) ''pull_request'' = Some (JObj (se_result e))"
  using assms(2)
proof (cases rule: resume_cases)
  case (rejected run a)
  from finish_Inr [OF assms(1) rejected(4)] have "o_status oc = NEEDS_HUMAN_INTERVENTION" by metis
  with assms(3) show ?thesis by simp
next
  case (replayed run a d1 run' eff)
  obtain ap where "get_run_by_run_id rid d = Some run" by (rule check_approval_Inr [OF replayed(2)])
  note m = mark_status_refreshed [OF assms(1) replayed(3) this]
  obtain r where "mark_status cc (clk 2) run' RESOLVED (resolved_update run' (se_result eff)) d1 = (d', Inr r)"
    by (rule finish_Inr [OF _ replayed(6)]) (use m in auto)
  from resolved_row [OF _ _ _ this, of run' rid] m
  have "get_run (ar_id run) d' = Some r" "ar_status r = RESOLVED" "ar_worker_id r = None"
      "map_of (ar_result r) ''pull_request'' = Some (JObj (se_result eff))" "db_effects d' = db_effects d1"
    by auto
  with replayed m show ?thesis by (intro exI [of _ run] exI [of _ a] exI [of _ eff] exI [of _ r])
      (simp add: find_effect_def)
next
  case (called run a d1 run' d2 pr)
  let ?k = "idempotency_key (ar_run_id run') a"
  obtain ap where "get_run_by_run_id rid d = Some run" by (rule check_approval_Inr [OF called(1)])
  note m = mark_status_refreshed [OF assms(1) called(3) this]
  have s2: "schema_ok d2" using m called(6) by (blast intro: open_effect_schema)
  obtain e0 where "find_effect ?k d2 = Some e0" using effect_opened [OF called(6)] by blast
  then obtain r e d3 where r: "mark_status cc (clk 5) run' RESOLVED (resolved_update run' (se_result e)) d3 = (d', Inr r)"
      "schema_ok d3" "find_effect ?k d3 = Some e" "se_status e = E_COMPLETED"
    by (rule close_effect_resolved [OF s2 called(9) assms(3)])
  obtain r0 where "get_run (ar_id run') d3 = Some r0" by (rule mark_status_Inr [OF r(2,1)])
  from resolved_row [OF r(2) this _ r(1), of rid] m
  have "get_run (ar_id run) d' = Some r" "ar_status r = RESOLVED" "ar_worker_id r = None"
      "map_of (ar_result r) ''pull_request'' = Some (JObj (se_result e))" "db_effects d' = db_effects d3"
    by auto
  with called(1) m r show ?thesis by (intro exI [of _ run] exI [of _ a] exI [of _ e] exI [of _ r])
      (simp add: find_effect_def)
qed simp

lemma resolved_is_recorded_witness:
  "\<exists>d' g' oc e. demo_resume demo_github = ((d', g'), Inr oc)
     \<and> find_effect ''github_pr:run-1:h:diff'' d' = Some e \<and> se_status e = E_COMPLETED"
proof -
  have s: "schema_ok demo_live"
    using demo_live_steps reachable_schema reachable_steps demo_approved_reachable by metis
  obtain d' g' oc where r: "demo_resume demo_github = ((d', g'), Inr oc)" "o_status oc = RESOLVED"
    using demo_resumed by blast
  show ?thesis
    using resolved_is_recorded [OF s r] r(1)
    by (auto simp: demo_check idempotency_key_def demo_artifact_def)
qed

end
