(* ===== verification/GitHubProps.thy ===== *)
theory GitHubProps
  imports GitHubReal ResumeProps
begin

text \<open>
  Facts of the enabled GitHub client: how many requests of a kind a computation sends, that every POST
  follows a granted authorization, that nothing is written before the base and the patch are checked,
  and what a successful call has published.
\<close>

section \<open>Counting requests\<close>

fun is_post :: "gh_event \<Rightarrow> bool" where
  "is_post (Request POST p j a) = True"
| "is_post _ = False"

definition post_to :: "string \<Rightarrow> gh_event \<Rightarrow> bool" where
  "post_to path e = (case e of Request POST p j a \<Rightarrow> p = path | _ \<Rightarrow> False)"

definition sends :: "(gh_event \<Rightarrow> bool) \<Rightarrow> nat \<Rightarrow> ('r hub, 'a) eff \<Rightarrow> bool" where
  "sends q n m \<longleftrightarrow> (\<forall>h. \<exists>es. hb_log (fst (m h)) = hb_log h @ es \<and> length (filter q es) \<le> n)"

lemma sendsD:
  assumes "sends q n m" and "m h = (h', r)"
  obtains es where "hb_log h' = hb_log h @ es" and "length (filter q es) \<le> n"
  using assms by (metis sends_def fst_conv)

lemma sends_mono: "sends q a m \<Longrightarrow> a \<le> b \<Longrightarrow> sends q b m"
  by (meson sends_def le_trans)

lemma sends_pure:
  "sends q n (give x)" "sends q n (fail e)" "sends q n (lift_sum r)" "sends q n (ensure b e)"
  by (simp_all add: sends_def give_def fail_def lift_sum_def ensure_def)

lemma sends_bind:
  assumes "sends q a m" and "\<And>x. sends q b (f x)"
  shows "sends q (a + b) (bind_eff m f)"
  unfolding sends_def
proof
  fix h
  obtain h1 r where m: "m h = (h1, r)" by fastforce
  then obtain es where es: "hb_log h1 = hb_log h @ es" "length (filter q es) \<le> a"
    using sendsD [OF assms(1)] by blast
  show "\<exists>es. hb_log (fst (bind_eff m f h)) = hb_log h @ es \<and> length (filter q es) \<le> a + b"
  proof (cases r)
    case (Inl e)
    with m es show ?thesis by (auto simp: bind_eff_def)
  next
    case (Inr x)
    obtain h2 r2 where f: "f x h1 = (h2, r2)" by fastforce
    then obtain fs where "hb_log h2 = hb_log h1 @ fs" "length (filter q fs) \<le> b"
      using sendsD [OF assms(2)] by blast
    with m es Inr f show ?thesis by (auto simp: bind_eff_def)
  qed
qed

lemma sends_bind0: "sends q 0 m \<Longrightarrow> (\<And>x. sends q b (f x)) \<Longrightarrow> sends q b (bind_eff m f)"
  using sends_bind [of q 0 m b f] by simp

lemma sends_bind1: "sends q a m \<Longrightarrow> (\<And>x. sends q 0 (f x)) \<Longrightarrow> sends q a (bind_eff m f)"
  using sends_bind [of q a m 0 f] by simp

lemma sends_map: "(\<And>x. sends q 0 (f x)) \<Longrightarrow> sends q 0 (map_eff f xs)"
  by (induction xs) (auto intro!: sends_bind0 sends_pure)

lemma sends_if: "(b \<Longrightarrow> sends q n m) \<Longrightarrow> (\<not> b \<Longrightarrow> sends q n m') \<Longrightarrow> sends q n (if b then m else m')"
  by simp

lemma sends_send: "(\<And>a. \<not> q (Request k p j a)) \<Longrightarrow> sends q n (send env k p j)"
  by (simp add: sends_def send_def split: prod.splits)

lemma sends_send_one: "sends q 1 (send env k p j)"
  by (simp add: sends_def send_def split: prod.splits)

lemma sends_authorize: "(\<And>a. \<not> q (Authorize a)) \<Longrightarrow> sends q n (authorize env)"
  by (simp add: sends_def authorize_def Let_def split: option.splits)

lemma sends_checked: "sends q n (checked_json r)"
  unfolding checked_json_def by (rule sends_bind0; rule sends_pure)

lemma sends_sub: "sends q n (sub_eff k v)" "sends q n (sub2_eff k1 k2 v)"
  by (auto simp: sub_eff_def sub2_eff_def intro!: sends_bind0 sends_pure)

lemmas sends_intros = sends_bind0 sends_pure sends_map sends_if sends_checked sends_sub

text \<open>A computation without the requests \<open>q\<close>; the first two rules are for those that only read.\<close>

lemma gh_get_sends: "(\<And>p j a. \<not> q (Request GET p j a)) \<Longrightarrow> sends q 0 (gh_get env p j)"
  unfolding gh_get_def by (intro sends_bind0 sends_send sends_checked) auto

lemma gh_post_sends:
  "(\<And>a. \<not> q (Authorize a)) \<Longrightarrow> (\<And>a. \<not> q (Request POST p j a)) \<Longrightarrow> sends q 0 (gh_post env p j)"
  unfolding gh_post_def by (intro sends_bind0 sends_send sends_checked sends_authorize) auto

definition posts_only :: "(gh_event \<Rightarrow> bool) \<Rightarrow> bool" where
  "posts_only q \<longleftrightarrow> (\<forall>e. q e \<longrightarrow> is_post e)"

lemma posts_onlyD: "posts_only q \<Longrightarrow> \<not> q (Request GET p j a)" "posts_only q \<Longrightarrow> \<not> q (Authorize x)"
  by (auto simp: posts_only_def)

lemma posts_only [simp]: "posts_only is_post" "posts_only (post_to path)"
  by (auto simp: posts_only_def post_to_def split: gh_event.splits http_method.splits)

lemma fetch_files_sends: "posts_only q \<Longrightarrow> sends q 0 (fetch_files env entries ps repo)"
  by (induction env entries ps repo rule: fetch_files.induct)
    (auto intro!: sends_intros gh_get_sends dest: posts_onlyD split: option.splits)

lemma gather_sends: "posts_only q \<Longrightarrow> sends q 0 (gather env rq params)"
  unfolding gather_def read_base_def prepare_def
  by (intro sends_intros gh_get_sends fetch_files_sends) (auto dest: posts_onlyD)

section \<open>One branch, one pull request\<close>

lemma post_to_simps [simp]:
  "post_to path (Request POST p j a) \<longleftrightarrow> p = path" "\<not> post_to path (Request GET p j a)" "\<not> post_to path (Authorize x)"
  by (simp_all add: post_to_def)

lemma upload_tree_sends: "sends (post_to ''/pulls'') 0 (upload_tree env t w)" "sends (post_to ''/git/refs'') 0 (upload_tree env t w)"
  unfolding upload_tree_def upload_change_def
  by (auto intro!: sends_intros gh_post_sends split: option.splits)

lemma create_branch_sends:
  "sends (post_to ''/pulls'') 0 (create_branch env rq branch tree)"
  "sends (post_to ''/git/refs'') 1 (create_branch env rq branch tree)"
proof -
  show "sends (post_to ''/pulls'') 0 (create_branch env rq branch tree)"
    unfolding create_branch_def
    by (intro sends_intros gh_post_sends gh_get_sends sends_authorize sends_send) auto
  have c: "sends (post_to ''/git/refs'') 1 (bind_eff (send env POST ''/git/refs'' j) (\<lambda>created.
      bind_eff (if fst created \<in> {200, 201, 422} then give () else lift_sum (raise_for_status created)) (\<lambda>_.
      gh_get env (git_ref branch) JNull)))" for j
    by (rule sends_bind1 [OF sends_send_one]) (intro sends_intros gh_get_sends; simp)
  show "sends (post_to ''/git/refs'') 1 (create_branch env rq branch tree)"
    unfolding create_branch_def
    by (rule sends_bind0 [OF sends_sub(1)], rule sends_bind0 [OF gh_post_sends], simp, simp,
        rule sends_bind0 [OF sends_authorize], simp, rule sends_bind0 [OF sends_sub(1)], rule c)
qed

lemma ensure_branch_sends:
  "sends (post_to ''/pulls'') 0 (ensure_branch env rq branch tree)"
  "sends (post_to ''/git/refs'') 1 (ensure_branch env rq branch tree)"
  unfolding ensure_branch_def
  by (intro sends_bind0 sends_send sends_if create_branch_sends sends_checked; simp)+

lemma verify_branch_sends: "posts_only q \<Longrightarrow> sends q 0 (verify_branch env s tree ref)"
  unfolding verify_branch_def
  by (intro sends_intros gh_get_sends) (auto dest: posts_onlyD)

lemma head_matches_sends: "sends q 0 (head_matches data ref)"
  unfolding head_matches_def by (intro sends_intros)

lemma ensure_pull_sends:
  "sends (post_to ''/pulls'') 1 (ensure_pull env rq branch params existing ref)"
  "sends (post_to ''/git/refs'') 0 (ensure_pull env rq branch params existing ref)"
proof -
  have r: "sends (post_to p) 0 (reconcile_pull env params ref)" and e: "sends (post_to p) 0 (existing_pull v ref)" for p v
    unfolding reconcile_pull_def existing_pull_def
    by (intro sends_intros gh_get_sends head_matches_sends; simp)+
  have o: "sends (post_to ''/pulls'') 1 (open_pull env rq branch params ref)"
    unfolding open_pull_def
    by (rule sends_bind0 [OF sends_authorize], simp, rule sends_bind1 [OF sends_send_one])
      (intro sends_if r sends_checked)
  have o': "sends (post_to ''/git/refs'') 0 (open_pull env rq branch params ref)"
    unfolding open_pull_def
    by (intro sends_bind0 sends_authorize sends_send sends_if r sends_checked; simp)
  have g: "sends (post_to p) 0 (if truthy existing then give existing else gh_get env ''/pulls'' params)" for p
    by (intro sends_if sends_pure gh_get_sends; simp)
  show "sends (post_to ''/pulls'') 1 (ensure_pull env rq branch params existing ref)"
    unfolding ensure_pull_def
    by (rule sends_bind0 [OF g], rule sends_bind1) (intro sends_if sends_mono [OF e] o sends_pure; simp)+
  show "sends (post_to ''/git/refs'') 0 (ensure_pull env rq branch params existing ref)"
    unfolding ensure_pull_def
    by (rule sends_bind0 [OF g], rule sends_bind0) (intro sends_if e o' sends_pure)+
qed

lemma record_pull_sends: "sends q 0 (record_pull branch s tree ref pull)"
proof -
  have "sends q 0 (note_created r dedup)" for r dedup
    by (simp add: sends_def note_created_def Let_def)
  then show ?thesis
    unfolding record_pull_def by (intro sends_intros)
qed

lemma publish_sends:
  "sends (post_to ''/pulls'') 1 (publish env rq branch params found)"
  "sends (post_to ''/git/refs'') 1 (publish env rq branch params found)"
proof -
  obtain existing info work where f: "found = (existing, info, work)" by (cases found) auto
  show "sends (post_to ''/pulls'') 1 (publish env rq branch params found)"
    unfolding publish_def f prod.case
    by (rule sends_bind0 [OF upload_tree_sends(1)], rule sends_bind0 [OF ensure_branch_sends(1)],
        rule sends_bind0 [OF verify_branch_sends], simp, rule sends_bind1 [OF ensure_pull_sends(1)],
        rule record_pull_sends)
  show "sends (post_to ''/git/refs'') 1 (publish env rq branch params found)"
    unfolding publish_def f prod.case
    by (rule sends_bind0 [OF upload_tree_sends(2)], rule sends_bind1 [OF ensure_branch_sends(2)],
        rule sends_bind0 [OF verify_branch_sends], simp, rule sends_bind0 [OF ensure_pull_sends(2)],
        rule record_pull_sends)
qed

section \<open>Every write follows a granted authorization\<close>

text \<open>\<open>n\<close> is the length of the log before the events.\<close>

definition authorized_posts :: "nat \<Rightarrow> (nat \<Rightarrow> exn + unit) \<Rightarrow> gh_event list \<Rightarrow> bool" where
  "authorized_posts n f evs \<longleftrightarrow> (\<forall>i < length evs. is_post (evs ! i) \<longrightarrow>
     0 < i \<and> evs ! (i - 1) = Authorize (f (n + i - 1)) \<and> f (n + i - 1) = Inr ())"

definition stays_authorized :: "(nat \<Rightarrow> exn + unit) \<Rightarrow> 'r hub \<Rightarrow> 'r hub \<Rightarrow> bool" where
  "stays_authorized f h h' \<longleftrightarrow>
     (\<exists>evs. hb_log h' = hb_log h @ evs \<and> authorized_posts (length (hb_log h)) f evs)"

lemma authorized_posts_append:
  assumes "authorized_posts n f es" and "authorized_posts (n + length es) f fs"
  shows "authorized_posts n f (es @ fs)"
  unfolding authorized_posts_def
proof (intro allI impI)
  fix i
  assume i: "i < length (es @ fs)" "is_post ((es @ fs) ! i)"
  show "0 < i \<and> (es @ fs) ! (i - 1) = Authorize (f (n + i - 1)) \<and> f (n + i - 1) = Inr ()"
  proof (cases "i < length es")
    case True
    then show ?thesis
      using assms(1) i unfolding authorized_posts_def by (simp add: nth_append less_imp_diff_less)
  next
    case False
    then obtain j where j: "i = length es + j" by (metis le_add_diff_inverse not_less)
    then have "0 < j \<and> fs ! (j - 1) = Authorize (f (n + length es + j - 1)) \<and> f (n + length es + j - 1) = Inr ()"
      using assms(2) i unfolding authorized_posts_def by (simp add: nth_append)
    then show ?thesis using j by (cases j) (simp_all add: nth_append add.assoc)
  qed
qed

lemma authorized_posts_Nil [simp]: "authorized_posts n f []"
  by (simp add: authorized_posts_def)

lemma stays_authorized_order: "transp (stays_authorized f)" "reflp (stays_authorized f)"
proof -
  show "transp (stays_authorized f)"
    unfolding transp_def stays_authorized_def
    by (clarify, rule_tac x = "evs @ evsa" in exI) (simp add: authorized_posts_append)
  show "reflp (stays_authorized f)"
    by (simp add: reflp_def stays_authorized_def authorized_posts_def)
qed

lemma authorized_posts_quiet: "\<not> is_post e \<Longrightarrow> authorized_posts n f [e]"
  by (simp add: authorized_posts_def)

lemma authorized_posts_post:
  "f n = Inr () \<Longrightarrow> authorized_posts n f [Authorize (Inr ()), Request POST p j a]"
  by (auto simp: authorized_posts_def less_Suc_eq)

abbreviation authorizing :: "(nat \<Rightarrow> exn + unit) \<Rightarrow> ('r hub, 'a) eff \<Rightarrow> bool" where
  "authorizing f \<equiv> obeys (stays_authorized f)"

lemmas authorizing_bind = obeys_bind [OF stays_authorized_order(1)]
lemmas authorizing_pure = obeys_pure [OF stays_authorized_order(2)]
lemmas authorizing_map = obeys_map [OF stays_authorized_order]

lemma authorizing_if: "(b \<Longrightarrow> authorizing f m) \<Longrightarrow> (\<not> b \<Longrightarrow> authorizing f m') \<Longrightarrow> authorizing f (if b then m else m')"
  by simp

lemma authorizing_get: "authorizing f (send env GET p j)"
  by (auto simp: obeys_def stays_authorized_def send_def authorized_posts_quiet split: prod.splits)

lemma authorizing_authorize: "authorizing f (authorize env)"
  by (auto simp: obeys_def stays_authorized_def authorize_def Let_def authorized_posts_quiet split: option.splits)

text \<open>A POST behind an authorization, with a subscript in between at most.\<close>

lemma authorizing_post:
  assumes "ge_authorize env = Some f" and "\<And>r. authorizing f (g r)"
  shows "authorizing f (bind_eff (authorize env) (\<lambda>_. bind_eff (lift_sum x) (\<lambda>v. bind_eff (send env POST p (j v)) g)))"
  unfolding obeys_def
proof
  fix h :: "'a hub"
  let ?n = "length (hb_log h)"
  let ?h = "h\<lparr>hb_log := hb_log h @ [Authorize (f ?n)]\<rparr>"
  have a: "authorize env h = (?h, f ?n)"
    by (simp add: authorize_def assms(1) Let_def)
  have q: "stays_authorized f h ?h"
    by (simp add: stays_authorized_def authorized_posts_quiet)
  show "stays_authorized f h (fst (bind_eff (authorize env)
      (\<lambda>_. bind_eff (lift_sum x) (\<lambda>v. bind_eff (send env POST p (j v)) g)) h))"
  proof (cases "f ?n"; cases x)
    fix u v
    assume g: "f ?n = Inr u" and x: "x = Inr v"
    obtain r b where s: "ge_http env POST p (j v) (hb_remote h) = (r, b)" by fastforce
    let ?h2 = "?h\<lparr>hb_remote := r, hb_log := hb_log ?h @ [Request POST p (j v) b]\<rparr>"
    have "stays_authorized f h ?h2"
      using authorized_posts_post [of f ?n p "j v" b] g by (simp add: stays_authorized_def)
    moreover have "stays_authorized f ?h2 (fst (g y ?h2))" for y
      using assms(2) [of y] by (simp add: obeys_def)
    ultimately have "stays_authorized f h (fst (g y ?h2))" and "stays_authorized f h ?h2" for y
      using stays_authorized_order(1) by (meson transpD)+
    then show ?thesis
      by (cases b) (auto simp: bind_eff_def a g x s send_def lift_sum_def)
  qed (use q in \<open>simp_all add: bind_eff_def a lift_sum_def\<close>)
qed

lemma authorizing_post0:
  assumes "ge_authorize env = Some f" and "\<And>r. authorizing f (g r)"
  shows "authorizing f (bind_eff (authorize env) (\<lambda>_. bind_eff (send env POST p j) g))"
proof -
  have "bind_eff (lift_sum (Inr ())) (\<lambda>v. bind_eff (send env POST p j) g) = bind_eff (send env POST p j) g"
    by (simp add: fun_eq_iff bind_eff_def [of "lift_sum _"] lift_sum_def)
  then show ?thesis
    using authorizing_post [where x = "Inr ()" and j = "\<lambda>_. j" and g = g and p = p, OF assms] by simp
qed

lemma authorizing_checked: "authorizing f (checked_json r)"
  unfolding checked_json_def by (intro authorizing_bind authorizing_pure)

lemma authorizing_sub: "authorizing f (sub_eff k v)" "authorizing f (sub2_eff k1 k2 v)"
  by (auto simp: sub_eff_def sub2_eff_def intro!: authorizing_bind authorizing_pure)

lemma authorizing_gh_get: "authorizing f (gh_get env p j)"
  unfolding gh_get_def by (intro authorizing_bind authorizing_get authorizing_checked)

lemmas authorizing_intros =
  authorizing_bind authorizing_pure authorizing_map authorizing_if authorizing_checked authorizing_sub
  authorizing_gh_get authorizing_get

lemma authorizing_gh_post: "ge_authorize env = Some f \<Longrightarrow> authorizing f (gh_post env p j)"
  unfolding gh_post_def by (rule authorizing_post0) (auto intro: authorizing_checked)

lemma authorizing_fetch: "authorizing f (fetch_files env entries ps repo)"
  by (induction env entries ps repo rule: fetch_files.induct)
    (auto intro!: authorizing_intros split: option.splits)

lemma authorizing_gather: "authorizing f (gather env rq params)"
  unfolding gather_def read_base_def prepare_def by (intro authorizing_intros authorizing_fetch)

lemma authorizing_upload: "ge_authorize env = Some f \<Longrightarrow> authorizing f (upload_tree env t w)"
  unfolding upload_tree_def upload_change_def
  by (auto intro!: authorizing_intros authorizing_gh_post split: option.splits)

lemma authorizing_branch:
  assumes "ge_authorize env = Some f"
  shows "authorizing f (ensure_branch env rq branch tree)"
proof -
  have "authorizing f (create_branch env rq branch tree)"
    unfolding create_branch_def
    by (rule authorizing_bind [OF authorizing_sub(1)], rule authorizing_bind [OF authorizing_gh_post [OF assms]],
        subst sub_eff_def, rule authorizing_post [OF assms]) (intro authorizing_intros)
  then show ?thesis
    unfolding ensure_branch_def by (intro authorizing_intros)
qed

lemma authorizing_pull:
  assumes "ge_authorize env = Some f"
  shows "authorizing f (ensure_pull env rq branch params existing ref)"
proof -
  have m: "authorizing f (head_matches data ref)" for data
    unfolding head_matches_def by (intro authorizing_intros)
  have "authorizing f (existing_pull v ref)" "authorizing f (reconcile_pull env params ref)" for v
    unfolding existing_pull_def reconcile_pull_def by (intro authorizing_intros m)+
  moreover from this have "authorizing f (open_pull env rq branch params ref)"
    unfolding open_pull_def by (intro authorizing_post0 [OF assms] authorizing_intros)
  ultimately show ?thesis
    unfolding ensure_pull_def by (intro authorizing_intros)
qed

lemma authorizing_record: "authorizing f (record_pull branch s tree ref pull)"
proof -
  have "authorizing f (note_created r dedup)" for r dedup
    by (simp add: obeys_def stays_authorized_def authorized_posts_def note_created_def Let_def)
  then show ?thesis
    unfolding record_pull_def by (intro authorizing_intros)
qed

lemma authorizing_publish:
  assumes "ge_authorize env = Some f"
  shows "authorizing f (publish env rq branch params found)"
proof -
  have "authorizing f (verify_branch env s tree ref)" for s tree ref
    unfolding verify_branch_def by (intro authorizing_intros)
  then show ?thesis
    unfolding publish_def
    by (cases found) (auto intro!: authorizing_bind authorizing_upload authorizing_branch authorizing_pull
        authorizing_record assms)
qed

section \<open>A branch is created only where none is\<close>

definition creates_missing :: "string \<Rightarrow> 'r hub \<Rightarrow> 'r hub \<Rightarrow> bool" where
  "creates_missing branch h h' \<longleftrightarrow> (\<exists>es. hb_log h' = hb_log h @ es
     \<and> ((\<forall>e \<in> set es. \<not> post_to ''/git/refs'' e) \<or> (\<exists>b. Request GET (git_ref branch) JNull (Inr (404, b)) \<in> set es)))"

lemma creates_missing_order: "transp (creates_missing branch)" "reflp (creates_missing branch)"
proof -
  show "transp (creates_missing branch)"
    unfolding transp_def creates_missing_def
    by (clarify, rule_tac x = "es @ esa" in exI) auto
  show "reflp (creates_missing branch)"
    by (auto simp: reflp_def creates_missing_def)
qed

lemma creates_missing_none: "sends (post_to ''/git/refs'') 0 m \<Longrightarrow> obeys (creates_missing branch) m"
  unfolding obeys_def sends_def creates_missing_def by (metis filter_empty_conv le_zero_eq length_0_conv)

lemma creates_missing_branch: "obeys (creates_missing branch) (ensure_branch env rq branch tree)"
  unfolding obeys_def
proof
  fix h :: "'a hub"
  obtain h1 a where s: "send env GET (git_ref branch) JNull h = (h1, a)" by fastforce
  then have l: "hb_log h1 = hb_log h @ [Request GET (git_ref branch) JNull a]"
    by (auto simp: send_def split: prod.splits)
  show "creates_missing branch h (fst (ensure_branch env rq branch tree h))"
  proof (cases "\<exists>b. a = Inr (404, b)")
    case True
    then obtain b where a: "a = Inr (404, b)" by blast
    obtain h2 r where c: "create_branch env rq branch tree h1 = (h2, r)" by fastforce
    then obtain es where "hb_log h2 = hb_log h1 @ es"
      using sendsD [OF create_branch_sends(2)] by blast
    with a s l c show ?thesis
      by (auto simp: ensure_branch_def bind_eff_def creates_missing_def)
  next
    case False
    have "\<exists>es. hb_log (fst (checked_json x h1)) = hb_log h1 @ es \<and> (\<forall>e \<in> set es. \<not> post_to ''/git/refs'' e)" for x :: response
      using sends_checked [of "post_to ''/git/refs''" 0 x] unfolding sends_def
      by (metis filter_empty_conv le_zero_eq length_0_conv)
    then show ?thesis
      using False s l
      by (cases a) (fastforce simp: ensure_branch_def bind_eff_def creates_missing_def)+
  qed
qed

lemma creates_missing_publish: "obeys (creates_missing branch) (publish env rq branch params found)"
proof -
  obtain existing info work where f: "found = (existing, info, work)" by (cases found) auto
  show ?thesis
    unfolding publish_def f prod.case
    by (rule obeys_bind [OF creates_missing_order(1) creates_missing_none [OF upload_tree_sends(2)]],
        rule obeys_bind [OF creates_missing_order(1) creates_missing_branch],
        rule obeys_bind [OF creates_missing_order(1) creates_missing_none [OF verify_branch_sends]], simp,
        rule obeys_bind [OF creates_missing_order(1) creates_missing_none [OF ensure_pull_sends(2)]],
        rule creates_missing_none [OF record_pull_sends])
qed

section \<open>What was answered\<close>

definition answered :: "gh_event list \<Rightarrow> http_method \<Rightarrow> string \<Rightarrow> json \<Rightarrow> json \<Rightarrow> bool" where
  "answered evs k path payload v \<longleftrightarrow>
     (\<exists>c. 200 \<le> c \<and> c < 300 \<and> Request k path payload (Inr (c, Some v)) \<in> set evs)"

lemma answered_mono: "answered evs k p j v \<Longrightarrow> set evs \<subseteq> set evs' \<Longrightarrow> answered evs' k p j v"
  by (auto simp: answered_def)

lemma sends_subset: "sends q n m \<Longrightarrow> m h = (h', r) \<Longrightarrow> set (hb_log h) \<subseteq> set (hb_log h')"
  by (erule (1) sendsD) auto

lemma send_log: "send env k p j h = (h', a) \<Longrightarrow> hb_log h' = hb_log h @ [Request k p j a]"
  by (auto simp: send_def split: prod.splits)

lemma checked_json_Inr [simp]:
  "checked_json r h = (h', Inr v) \<longleftrightarrow> h' = h \<and> 200 \<le> fst r \<and> fst r < 300 \<and> snd r = Some v"
  by (auto simp: checked_json_def raise_for_status_def response_json_def split: if_splits option.splits)

lemma gh_get_Inr:
  assumes "gh_get env p j h = (h', Inr v)"
  shows "answered (hb_log h') GET p j v" and "set (hb_log h) \<subseteq> set (hb_log h')"
  using assms by (auto simp: gh_get_def answered_def dest!: send_log)

lemma gh_post_Inr:
  assumes "gh_post env p j h = (h', Inr v)"
  shows "answered (hb_log h') POST p j v" and "set (hb_log h) \<subseteq> set (hb_log h')"
  using assms
  by (auto simp: gh_post_def answered_def authorize_def Let_def dest!: send_log split: option.splits)

definition subscript2 :: "string \<Rightarrow> string \<Rightarrow> json \<Rightarrow> exn + json" where
  "subscript2 k1 k2 v = (case subscript k1 v of Inl e \<Rightarrow> Inl e | Inr x \<Rightarrow> subscript k2 x)"

lemma sub_eff_Inr [simp]: "sub_eff k v h = (h', Inr x) \<longleftrightarrow> h' = h \<and> subscript k v = Inr x"
  by (auto simp: sub_eff_def)

lemma sub2_eff_Inr [simp]: "sub2_eff k1 k2 v h = (h', Inr x) \<longleftrightarrow> h' = h \<and> subscript2 k1 k2 v = Inr x"
  by (auto simp: sub2_eff_def subscript2_def split: sum.splits)

text \<open>The base a run of \<open>read_base\<close> found: the head of the branch, its tree, the tree's entries.\<close>

definition base_found :: "gh_event list \<Rightarrow> string \<Rightarrow> base_info \<Rightarrow> bool" where
  "base_found evs s info \<longleftrightarrow> (\<exists>base base_commit listing es.
     answered evs GET ''/git/ref/heads/main'' JNull base \<and> subscript2 ''object'' ''sha'' base = Inr (JStr s)
     \<and> answered evs GET (''/git/commits/'' @ s) JNull base_commit
     \<and> subscript2 ''tree'' ''sha'' base_commit = Inr (bi_tree info)
     \<and> answered evs GET (''/git/trees/'' @ py_str (bi_tree info)) (JObj [(''recursive'', JStr ''1'')]) listing
     \<and> (\<exists>t. subscript ''tree'' listing = Inr t \<and> iterate t = Inr es) \<and> tree_entries es = Inr (rev (bi_entries info)))"

lemma base_found_mono: "base_found evs s info \<Longrightarrow> set evs \<subseteq> set evs' \<Longrightarrow> base_found evs' s info"
  unfolding base_found_def by (meson answered_mono)

lemma read_base_Inr:
  assumes "read_base env s h = (h', Inr info)"
  shows "base_found (hb_log h') s info" and "set (hb_log h) \<subseteq> set (hb_log h')"
proof -
  obtain h1 h2 base base_commit listing t es entries where
      g: "gh_get env (''/git/ref/heads/'' @ base_branch) JNull h = (h1, Inr base)"
        "gh_get env (''/git/commits/'' @ s) JNull h1 = (h2, Inr base_commit)"
        "gh_get env (''/git/trees/'' @ py_str (bi_tree info)) (JObj [(''recursive'', JStr ''1'')]) h2 = (h', Inr listing)"
      and f: "subscript2 ''object'' ''sha'' base = Inr (JStr s)"
        "subscript2 ''tree'' ''sha'' base_commit = Inr (bi_tree info)"
        "subscript ''tree'' listing = Inr t" "iterate t = Inr es" "tree_entries es = Inr entries"
        "bi_entries info = rev entries"
    using assms by (auto simp: read_base_def simp del: append_Cons)
  show "set (hb_log h) \<subseteq> set (hb_log h')"
    using gh_get_Inr(2) g by blast
  have "answered (hb_log h') GET ''/git/ref/heads/main'' JNull base"
      "answered (hb_log h') GET (''/git/commits/'' @ s) JNull base_commit"
      "answered (hb_log h') GET (''/git/trees/'' @ py_str (bi_tree info)) (JObj [(''recursive'', JStr ''1'')]) listing"
    using gh_get_Inr(1) [OF g(1)] gh_get_Inr(1) [OF g(2)] gh_get_Inr(1) [OF g(3)]
      gh_get_Inr(2) [OF g(2)] gh_get_Inr(2) [OF g(3)]
    by (auto simp: base_branch_def intro: answered_mono)
  with f show "base_found (hb_log h') s info"
    unfolding base_found_def by (intro exI conjI) auto
qed

text \<open>A file of the workspace comes from the blob the base names at its path.\<close>

definition from_base :: "gh_event list \<Rightarrow> (string \<times> json) list \<Rightarrow> string \<times> string \<Rightarrow> bool" where
  "from_base evs entries file \<longleftrightarrow> (\<exists>p entry sha blob content. fst file = normalize_slashes p
     \<and> map_of entries p = Some entry \<and> subscript ''sha'' entry = Inr sha
     \<and> answered evs GET (''/git/blobs/'' @ py_str sha) JNull blob
     \<and> subscript ''content'' blob = Inr content \<and> blob_text content = Inr (snd file))"

lemma from_base_mono: "from_base evs entries file \<Longrightarrow> set evs \<subseteq> set evs' \<Longrightarrow> from_base evs' entries file"
  unfolding from_base_def by (meson answered_mono)

lemma set_dict_set: "x \<in> set (dict_set k v d) \<Longrightarrow> x \<in> set d \<or> x = (k, v)"
  by (induction d) (auto split: if_splits)

lemma validate_patch_path_eq: "validate_patch_path repo raw = Inr p \<Longrightarrow> p = normalize_slashes raw"
  by (auto simp: validate_patch_path_def Let_def split: if_splits sum.splits)

lemma fetch_files_Inr:
  assumes "fetch_files env entries ps repo h = (h', Inr repo')"
    and "\<forall>file \<in> set (rp_files repo). from_base (hb_log h) entries file"
  shows "(\<forall>file \<in> set (rp_files repo'). from_base (hb_log h') entries file) \<and> set (hb_log h) \<subseteq> set (hb_log h')"
  using assms
proof (induction env entries ps repo arbitrary: h rule: fetch_files.induct)
  case (2 env entries p ps repo)
  show ?case
  proof (cases "map_of entries p")
    case None
    then show ?thesis using 2 by simp
  next
    case (Some entry)
    obtain sha h1 blob target content body repo1 where
      s: "subscript ''sha'' entry = Inr sha"
        "gh_get env (''/git/blobs/'' @ py_str sha) JNull h = (h1, Inr blob)"
        "validate_patch_path repo p = Inr target"
        "subscript ''content'' blob = Inr content" "blob_text content = Inr body"
        "write_bytes target body repo = Inr repo1"
        "fetch_files env entries ps repo1 h1 = (h', Inr repo')"
      using 2(3) Some that by (auto simp del: append_Cons split: if_splits) blast
    have sub: "set (hb_log h) \<subseteq> set (hb_log h1)" and a: "answered (hb_log h1) GET (''/git/blobs/'' @ py_str sha) JNull blob"
      using gh_get_Inr [OF s(2)] by simp_all
    have "from_base (hb_log h1) entries x" if "x \<in> set (rp_files repo1)" for x
    proof -
      have "x \<in> set (rp_files repo) \<or> x = (target, body)"
        using that s(6) set_dict_set by (fastforce simp: write_bytes_def write_file_def split: if_splits)
      then show ?thesis
      proof
        assume "x \<in> set (rp_files repo)"
        then show ?thesis using 2(4) sub from_base_mono by blast
      next
        assume "x = (target, body)"
        then show ?thesis
          unfolding from_base_def using Some s a validate_patch_path_eq by fastforce
      qed
    qed
    then show ?thesis
      using 2(2) [OF Some s(7)] sub by blast
  qed
qed simp

lemma gather_Inr:
  assumes "gather env rq params h = (h', Inr (existing, info, repo', paths))"
  obtains h0 repo where "immutable_sha (rq_base_commit_sha rq)" and "base_found (hb_log h') (rq_base_commit_sha rq) info"
    and "gh_get env ''/pulls'' params h = (h0, Inr existing)" and "answered (hb_log h') GET ''/pulls'' params existing"
    and "patch_paths (ge_numstat env) empty_repo (rq_patch_diff rq) = Inr paths"
    and "\<forall>file \<in> set (rp_files repo). from_base (hb_log h') (bi_entries info) file"
    and "patched_workspace env (rq_patch_diff rq) paths repo = Inr repo'"
    and "set (hb_log h) \<subseteq> set (hb_log h')"
proof -
  obtain h0 h1 repo where s: "immutable_sha (rq_base_commit_sha rq)"
      "gh_get env ''/pulls'' params h = (h0, Inr existing)"
      "read_base env (rq_base_commit_sha rq) h0 = (h1, Inr info)"
      "patch_paths (ge_numstat env) empty_repo (rq_patch_diff rq) = Inr paths"
      "fetch_files env (bi_entries info) (ge_order env paths) empty_repo h1 = (h', Inr repo)"
      "patched_workspace env (rq_patch_diff rq) paths repo = Inr repo'"
    using assms by (auto simp: gather_def prepare_def simp del: append_Cons)
  have f: "(\<forall>file \<in> set (rp_files repo). from_base (hb_log h') (bi_entries info) file) \<and> set (hb_log h1) \<subseteq> set (hb_log h')"
    by (rule fetch_files_Inr [OF s(5)]) (simp add: empty_repo_def)
  show ?thesis
    using that [OF s(1) _ s(2) _ s(4) _ s(6)] f gh_get_Inr [OF s(2)] read_base_Inr [OF s(3)]
    by (meson answered_mono base_found_mono order_trans)
qed

text \<open>Uploading the tree.\<close>

definition uploaded :: "gh_event list \<Rightarrow> Repo \<Rightarrow> string \<Rightarrow> json \<Rightarrow> bool" where
  "uploaded evs repo p c \<longleftrightarrow> (case map_of (rp_files repo) p of
      None \<Rightarrow> c = change_entry p JNull
    | Some text \<Rightarrow> (\<exists>blob sha. answered evs POST ''/git/blobs'' (blob_payload text) blob
        \<and> subscript ''sha'' blob = Inr sha \<and> c = change_entry p sha))"

lemma uploaded_mono: "uploaded evs repo p c \<Longrightarrow> set evs \<subseteq> set evs' \<Longrightarrow> uploaded evs' repo p c"
  unfolding uploaded_def by (fastforce split: option.splits intro: answered_mono)

lemma upload_change_Inr:
  assumes "upload_change env repo p h = (h', Inr c)"
  shows "uploaded (hb_log h') repo p c \<and> set (hb_log h) \<subseteq> set (hb_log h')"
  using assms gh_post_Inr
  by (fastforce simp: upload_change_def uploaded_def simp del: append_Cons split: option.splits)

lemma map_upload_Inr:
  assumes "map_eff (upload_change env repo) ps h = (h', Inr cs)"
  shows "list_all2 (uploaded (hb_log h') repo) ps cs \<and> set (hb_log h) \<subseteq> set (hb_log h')"
  using assms
proof (induction ps arbitrary: h cs)
  case (Cons p ps)
  then obtain h1 c cs' where s: "upload_change env repo p h = (h1, Inr c)"
      "map_eff (upload_change env repo) ps h1 = (h', Inr cs')" "cs = c # cs'"
    by auto
  then show ?case
    using upload_change_Inr [OF s(1)] Cons.IH [OF s(2)] uploaded_mono by fastforce
qed auto

lemma upload_tree_Inr:
  assumes "upload_tree env base_tree (repo, paths) h = (h', Inr tree)"
  obtains changes where "list_all2 (uploaded (hb_log h') repo) (sorted_list_of_set paths) changes"
    and "answered (hb_log h') POST ''/git/trees'' (tree_payload base_tree changes) tree"
proof -
  obtain h1 changes where s: "map_eff (upload_change env repo) (sorted_list_of_set paths) h = (h1, Inr changes)"
      "gh_post env ''/git/trees'' (tree_payload base_tree changes) h1 = (h', Inr tree)"
    using assms by (auto simp: upload_tree_def)
  then have "list_all2 (uploaded (hb_log h') repo) (sorted_list_of_set paths) changes"
    using map_upload_Inr [OF s(1)] gh_post_Inr(2) [OF s(2)] by (auto elim!: list_all2_mono intro: uploaded_mono)
  then show ?thesis
    using that gh_post_Inr(1) [OF s(2)] by blast
qed

text \<open>The branch carries the commit of the approved tree on the approved base.\<close>

definition approved_commit :: "gh_event list \<Rightarrow> string \<Rightarrow> json \<Rightarrow> json \<Rightarrow> bool" where
  "approved_commit evs base_sha tree_sha commit_sha \<longleftrightarrow> (\<exists>commit parents ps.
     answered evs GET (''/git/commits/'' @ py_str commit_sha) JNull commit
     \<and> subscript2 ''tree'' ''sha'' commit = Inr tree_sha \<and> subscript ''parents'' commit = Inr parents
     \<and> iterate parents = Inr ps \<and> all_sub ''sha'' ps = Inr [JStr base_sha])"

lemma approved_commit_mono:
  "approved_commit evs s t c \<Longrightarrow> set evs \<subseteq> set evs' \<Longrightarrow> approved_commit evs' s t c"
  unfolding approved_commit_def by (meson answered_mono)

lemma verify_branch_Inr:
  assumes "verify_branch env s tree ref h = (h', Inr u)"
  obtains tree_sha commit_sha where "subscript ''sha'' tree = Inr tree_sha"
    and "subscript2 ''object'' ''sha'' ref = Inr commit_sha" and "approved_commit (hb_log h') s tree_sha commit_sha"
  using assms gh_get_Inr(1)
  by (auto simp: verify_branch_def approved_commit_def simp del: append_Cons split: if_splits) blast

text \<open>The pull request in the result is the one GitHub listed or made, and its head is that commit.\<close>

definition pull_found :: "gh_event list \<Rightarrow> json \<Rightarrow> json \<Rightarrow> json \<Rightarrow> bool" where
  "pull_found evs params commit_sha data \<longleftrightarrow> (\<exists>prs head. answered evs GET ''/pulls'' params prs
     \<and> first_item prs = Inr data \<and> dict_get ''head'' (JObj []) data = Inr head
     \<and> dict_get ''sha'' JNull head = Inr commit_sha)"

lemma pull_found_mono: "pull_found evs p c data \<Longrightarrow> set evs \<subseteq> set evs' \<Longrightarrow> pull_found evs' p c data"
  unfolding pull_found_def by (meson answered_mono)

lemma head_matches_Inr:
  assumes "head_matches data ref h = (h', Inr True)" and "subscript2 ''object'' ''sha'' ref = Inr c"
  shows "h' = h \<and> (\<exists>head. dict_get ''head'' (JObj []) data = Inr head \<and> dict_get ''sha'' JNull head = Inr c)"
  using assms by (auto simp: head_matches_def)

lemma existing_pull_Inr:
  assumes "existing_pull prs ref h = (h', Inr data)" and "subscript2 ''object'' ''sha'' ref = Inr c"
    and "answered (hb_log h) GET ''/pulls'' params prs"
  shows "h' = h \<and> pull_found (hb_log h') params c data"
proof -
  have "first_item prs = Inr data" "head_matches data ref h = (h', Inr True)"
    using assms(1) by (auto simp: existing_pull_def)
  then show ?thesis
    using head_matches_Inr [OF _ assms(2)] assms(3) unfolding pull_found_def by blast
qed

lemma open_pull_Inr:
  assumes "open_pull env rq branch params ref h = (h', Inr data)" and "subscript2 ''object'' ''sha'' ref = Inr c"
  shows "pull_found (hb_log h') params c data \<or> answered (hb_log h') POST ''/pulls'' (pull_payload rq branch) data"
proof -
  obtain h1 u h2 r where s: "authorize env h = (h1, Inr u)"
      "send env POST ''/pulls'' (pull_payload rq branch) h1 = (h2, Inr r)"
      "(if fst r = 422 then reconcile_pull env params ref else checked_json r) h2 = (h', Inr data)"
    using assms(1) by (auto simp: open_pull_def)
  show ?thesis
  proof (cases "fst r = 422")
    case True
    then obtain h3 prs where g: "gh_get env ''/pulls'' params h2 = (h3, Inr prs)"
        "first_item prs = Inr data" "head_matches data ref h3 = (h', Inr True)"
      using s(3) by (auto simp: reconcile_pull_def split: if_splits)
    then show ?thesis
      using head_matches_Inr [OF g(3) assms(2)] gh_get_Inr(1) [OF g(1)] unfolding pull_found_def by blast
  next
    case False
    then show ?thesis
      using s send_log [OF s(2)] by (cases r) (auto simp: answered_def)
  qed
qed

lemma ensure_pull_Inr:
  assumes "ensure_pull env rq branch params existing ref h = (h', Inr (data, dedup))"
    and "subscript2 ''object'' ''sha'' ref = Inr c" and "answered (hb_log h) GET ''/pulls'' params existing"
  shows "pull_found (hb_log h') params c data \<or> answered (hb_log h') POST ''/pulls'' (pull_payload rq branch) data"
proof -
  obtain h1 prs where s: "(if truthy existing then give existing else gh_get env ''/pulls'' params) h = (h1, Inr prs)"
      "(if truthy prs then existing_pull prs ref else open_pull env rq branch params ref) h1 = (h', Inr data)"
    using assms(1) by (auto simp: ensure_pull_def)
  have a: "answered (hb_log h1) GET ''/pulls'' params prs"
    using s(1) assms(3) gh_get_Inr(1) by (auto split: if_splits)
  show ?thesis
  proof (cases "truthy prs")
    case True
    then show ?thesis using existing_pull_Inr [OF _ assms(2) a] s(2) by auto
  next
    case False
    then have "open_pull env rq branch params ref h1 = (h', Inr data)" using s(2) by simp
    then show ?thesis by (rule open_pull_Inr [OF _ assms(2)])
  qed
qed

lemma record_pull_Inr:
  assumes "record_pull branch s tree ref (data, dedup) h = (h', Inr r)"
  obtains u n tree_sha commit_sha where "subscript ''html_url'' data = Inr (JStr u)" and "subscript ''number'' data = Inr (JInt n)"
    and "subscript ''sha'' tree = Inr tree_sha" and "subscript2 ''object'' ''sha'' ref = Inr commit_sha"
    and "pull_result branch s tree_sha commit_sha dedup (JStr u) (JInt n) = Inr r"
    and "hb_log h' = hb_log h"
    and "hb_self h' = (hb_self h)\<lparr>gi_created := gi_created (hb_self h) @ [r],
           gi_creation_call_count := gi_creation_call_count (hb_self h) + (if dedup then 0 else 1)\<rparr>"
proof -
  obtain url number tree_sha commit_sha where s: "subscript ''html_url'' data = Inr url" "subscript ''number'' data = Inr number"
      "subscript ''sha'' tree = Inr tree_sha" "subscript2 ''object'' ''sha'' ref = Inr commit_sha"
      "pull_result branch s tree_sha commit_sha dedup url number = Inr r"
      "note_created r dedup h = (h', Inr ())"
    using assms by (auto simp: record_pull_def)
  moreover obtain u n where "url = JStr u" "number = JInt n"
    using s(5) by (auto simp: pull_result_def split: json.splits)
  ultimately show ?thesis
    using that by (simp add: note_created_def Let_def) fastforce
qed

section \<open>Calls of the enabled client\<close>

lemma acreate_enabled:
  assumes "gi_enabled (hb_self h)" and "acreate_pull_request env rq h = (h', r)"
  obtains (read_failed) e where
      "gather env rq (pr_params (gi_repo (hb_self h)) (branch_name env rq)) h = (h', Inl e)"
      "r = failed_result (branch_name env rq) e"
  | (write_failed) h1 found e where
      "gather env rq (pr_params (gi_repo (hb_self h)) (branch_name env rq)) h = (h1, Inr found)"
      "publish env rq (branch_name env rq) (pr_params (gi_repo (hb_self h)) (branch_name env rq)) found h1 = (h', Inl e)"
      "r = failed_result (branch_name env rq) e"
  | (published) h1 found where
      "gather env rq (pr_params (gi_repo (hb_self h)) (branch_name env rq)) h = (h1, Inr found)"
      "publish env rq (branch_name env rq) (pr_params (gi_repo (hb_self h)) (branch_name env rq)) found h1 = (h', Inr r)"
  using assms
  by (auto simp: acreate_pull_request_def Let_def bind_eff_def split: prod.splits sum.splits)

lemma publish_Inr:
  assumes "publish env rq branch params (existing, info, repo, paths) h = (h', Inr r)"
    and "answered (hb_log h) GET ''/pulls'' params existing"
  obtains changes tree tree_sha commit_sha data dedup u n where
    "list_all2 (uploaded (hb_log h') repo) (sorted_list_of_set paths) changes"
    and "answered (hb_log h') POST ''/git/trees'' (tree_payload (bi_tree info) changes) tree"
    and "subscript ''sha'' tree = Inr tree_sha"
    and "approved_commit (hb_log h') (rq_base_commit_sha rq) tree_sha commit_sha"
    and "pull_found (hb_log h') params commit_sha data \<or> answered (hb_log h') POST ''/pulls'' (pull_payload rq branch) data"
    and "subscript ''html_url'' data = Inr (JStr u)" and "subscript ''number'' data = Inr (JInt n)"
    and "pull_result branch (rq_base_commit_sha rq) tree_sha commit_sha dedup (JStr u) (JInt n) = Inr r"
    and "set (hb_log h) \<subseteq> set (hb_log h')"
proof -
  obtain h1 tree h2 ref h3 h4 data dedup where
    s: "upload_tree env (bi_tree info) (repo, paths) h = (h1, Inr tree)"
      "ensure_branch env rq branch tree h1 = (h2, Inr ref)"
      "verify_branch env (rq_base_commit_sha rq) tree ref h2 = (h3, Inr ())"
      "ensure_pull env rq branch params existing ref h3 = (h4, Inr (data, dedup))"
      "record_pull branch (rq_base_commit_sha rq) tree ref (data, dedup) h4 = (h', Inr r)"
    using assms(1) by (auto simp: publish_def)
  have sub: "set (hb_log h) \<subseteq> set (hb_log h1)" "set (hb_log h1) \<subseteq> set (hb_log h2)"
      "set (hb_log h2) \<subseteq> set (hb_log h3)" "set (hb_log h3) \<subseteq> set (hb_log h4)"
    by (rule sends_subset [OF upload_tree_sends(1) s(1)] sends_subset [OF ensure_branch_sends(1) s(2)]
        sends_subset [OF verify_branch_sends [OF posts_only(1)] s(3)] sends_subset [OF ensure_pull_sends(1) s(4)])+
  obtain changes where c: "list_all2 (uploaded (hb_log h1) repo) (sorted_list_of_set paths) changes"
      "answered (hb_log h1) POST ''/git/trees'' (tree_payload (bi_tree info) changes) tree"
    by (rule upload_tree_Inr [OF s(1)])
  obtain tree_sha commit_sha where v: "subscript ''sha'' tree = Inr tree_sha"
      "subscript2 ''object'' ''sha'' ref = Inr commit_sha"
      "approved_commit (hb_log h3) (rq_base_commit_sha rq) tree_sha commit_sha"
    by (rule verify_branch_Inr [OF s(3)])
  obtain u n where p: "subscript ''html_url'' data = Inr (JStr u)" "subscript ''number'' data = Inr (JInt n)"
      "pull_result branch (rq_base_commit_sha rq) tree_sha commit_sha dedup (JStr u) (JInt n) = Inr r"
      "hb_log h' = hb_log h4"
    by (rule record_pull_Inr [OF s(5)]) (use v in auto)
  have a3: "answered (hb_log h3) GET ''/pulls'' params existing"
    using answered_mono [OF assms(2)] sub by blast
  have f: "pull_found (hb_log h4) params commit_sha data \<or> answered (hb_log h4) POST ''/pulls'' (pull_payload rq branch) data"
    by (rule ensure_pull_Inr [OF s(4) v(2) a3])
  have m: "set (hb_log h1) \<subseteq> set (hb_log h4)" "set (hb_log h) \<subseteq> set (hb_log h4)" using sub by auto
  show ?thesis
  proof (rule that [OF _ _ v(1) _ _ p(1,2,3)])
    show "list_all2 (uploaded (hb_log h') repo) (sorted_list_of_set paths) changes"
      using c(1) m(1) p(4) by (auto elim!: list_all2_mono intro: uploaded_mono)
    show "answered (hb_log h') POST ''/git/trees'' (tree_payload (bi_tree info) changes) tree"
      using answered_mono [OF c(2) m(1)] p(4) by simp
    show "approved_commit (hb_log h') (rq_base_commit_sha rq) tree_sha commit_sha"
      using approved_commit_mono [OF v(3) sub(4)] p(4) by simp
    show "pull_found (hb_log h') params commit_sha data \<or> answered (hb_log h') POST ''/pulls'' (pull_payload rq branch) data"
      using f p(4) by simp
    show "set (hb_log h) \<subseteq> set (hb_log h')" using m(2) p(4) by simp
  qed
qed

text \<open>
  C8. What the enabled client writes, whatever the remote answers and however the call ends: every POST
  directly follows an authorization that was granted at that moment; at most one branch and one pull
  request are created, the branch only after GitHub answered 404 for it; and nothing at all is written
  unless the head of the base branch is the approved commit and the approved patch, applied to the files
  of that commit, changes exactly its declared paths.
\<close>

theorem github_writes_guarded:
  assumes "gi_enabled (hb_self h)" and "ge_authorize env = Some f" and "hb_log h = []"
    and "acreate_pull_request env rq h = (h', r)"
  shows "authorized_posts 0 f (hb_log h')
    \<and> length (filter (post_to ''/pulls'') (hb_log h')) \<le> 1 \<and> length (filter (post_to ''/git/refs'') (hb_log h')) \<le> 1
    \<and> (filter (post_to ''/git/refs'') (hb_log h') = []
        \<or> (\<exists>b. Request GET (git_ref (branch_name env rq)) JNull (Inr (404, b)) \<in> set (hb_log h')))
    \<and> (filter is_post (hb_log h') = []
        \<or> (\<exists>info files repo paths. base_found (hb_log h') (rq_base_commit_sha rq) info
             \<and> patch_paths (ge_numstat env) empty_repo (rq_patch_diff rq) = Inr paths
             \<and> (\<forall>x \<in> set (rp_files files). from_base (hb_log h') (bi_entries info) x)
             \<and> patched_workspace env (rq_patch_diff rq) paths files = Inr repo))"
proof -
  define params where "params = pr_params (gi_repo (hb_self h)) (branch_name env rq)"
  have quiet: "filter is_post (hb_log h1) = []" and authorized: "authorized_posts 0 f (hb_log h1)"
    if "gather env rq params h = (h1, x)" for h1 x
    using sendsD [OF gather_sends [OF posts_only(1)] that] assms(3)
      obeysD [OF authorizing_gather that, of f] by (fastforce simp: stays_authorized_def)+
  have sub: "filter (post_to p) es = []" if "filter is_post es = []" for p es
    using that by (auto simp: filter_empty_conv post_to_def split: gh_event.splits http_method.splits)
  have written: ?thesis
    if g: "gather env rq params h = (h1, Inr found)"
      and p: "publish env rq (branch_name env rq) params found h1 = (h', y)" for h1 found y
  proof -
    obtain existing info repo paths where found: "found = (existing, info, repo, paths)" by (cases found) auto
    obtain files where b: "base_found (hb_log h1) (rq_base_commit_sha rq) info"
        "patch_paths (ge_numstat env) empty_repo (rq_patch_diff rq) = Inr paths"
        "\<forall>x \<in> set (rp_files files). from_base (hb_log h1) (bi_entries info) x"
        "patched_workspace env (rq_patch_diff rq) paths files = Inr repo"
      by (rule gather_Inr [OF g [unfolded found]])
    have m: "set (hb_log h1) \<subseteq> set (hb_log h')"
      by (rule sends_subset [OF publish_sends(1) p])
    have a: "authorized_posts 0 f (hb_log h')"
      using obeysD [OF authorizing_publish [OF assms(2)] p] authorized [OF g]
      by (auto simp: stays_authorized_def authorized_posts_append)
    have n: "length (filter (post_to q) (hb_log h')) \<le> 1"
      if "sends (post_to q) 1 (publish env rq (branch_name env rq) params found)" for q
      using sendsD [OF that p] sub [OF quiet [OF g]] by (metis append_Nil filter_append)
    have c: "filter (post_to ''/git/refs'') (hb_log h') = []
        \<or> (\<exists>b. Request GET (git_ref (branch_name env rq)) JNull (Inr (404, b)) \<in> set (hb_log h'))"
      using obeysD [OF creates_missing_publish p] sub [OF quiet [OF g]]
      by (auto simp: creates_missing_def filter_empty_conv)
    show ?thesis
      using a n [OF publish_sends(1)] n [OF publish_sends(2)] c base_found_mono [OF b(1) m] b(2,4)
        from_base_mono [OF _ m] b(3) by blast
  qed
  show ?thesis
    using assms(1,4)
  proof (cases rule: acreate_enabled)
    case (read_failed e)
    then show ?thesis
      using quiet authorized sub by (simp add: params_def)
  next
    case (write_failed h1 found e)
    show ?thesis by (rule written [unfolded params_def, OF write_failed(1,2)])
  next
    case (published h1 found)
    show ?thesis by (rule written [unfolded params_def, OF published])
  qed
qed

text \<open>
  C7. What a successful call of the enabled client has published. Its log shows the approved base as the
  head of the base branch; the files the patch touches as that commit's blobs; a tree made of the base
  tree and, for each declared path in order, the file after \<open>git apply\<close> (or its deletion), uploaded
  unchanged; a commit on GitHub's branch with exactly that tree and the approved base as its only parent;
  and a pull request that GitHub listed with that head or made for that branch, whose address and number
  are those returned.
\<close>

theorem published_as_approved:
  assumes "gi_enabled (hb_self h)" and "hb_log h = []"
    and "acreate_pull_request env rq h = (h', r)" and "pr_ok r"
  shows "immutable_sha (rq_base_commit_sha rq) \<and> (\<exists>info files repo paths changes tree tree_sha commit_sha data n.
    base_found (hb_log h') (rq_base_commit_sha rq) info
    \<and> patch_paths (ge_numstat env) empty_repo (rq_patch_diff rq) = Inr paths
    \<and> (\<forall>x \<in> set (rp_files files). from_base (hb_log h') (bi_entries info) x)
    \<and> patched_workspace env (rq_patch_diff rq) paths files = Inr repo
    \<and> list_all2 (uploaded (hb_log h') repo) (sorted_list_of_set paths) changes
    \<and> answered (hb_log h') POST ''/git/trees'' (tree_payload (bi_tree info) changes) tree
    \<and> subscript ''sha'' tree = Inr tree_sha
    \<and> approved_commit (hb_log h') (rq_base_commit_sha rq) tree_sha commit_sha
    \<and> (pull_found (hb_log h') (pr_params (gi_repo (hb_self h)) (branch_name env rq)) commit_sha data
       \<or> answered (hb_log h') POST ''/pulls'' (pull_payload rq (branch_name env rq)) data)
    \<and> subscript ''html_url'' data = Inr (JStr (pr_url r)) \<and> subscript ''number'' data = Inr (JInt n)
    \<and> pr_number r = Some n)"
  using assms(1,3)
proof (cases rule: acreate_enabled)
  case (published h1 found)
  obtain existing info repo paths where found: "found = (existing, info, repo, paths)" by (cases found) auto
  obtain files where g: "immutable_sha (rq_base_commit_sha rq)" "base_found (hb_log h1) (rq_base_commit_sha rq) info"
      "answered (hb_log h1) GET ''/pulls'' (pr_params (gi_repo (hb_self h)) (branch_name env rq)) existing"
      "patch_paths (ge_numstat env) empty_repo (rq_patch_diff rq) = Inr paths"
      "\<forall>x \<in> set (rp_files files). from_base (hb_log h1) (bi_entries info) x"
      "patched_workspace env (rq_patch_diff rq) paths files = Inr repo"
    by (rule gather_Inr [OF published(1) [unfolded found]])
  obtain changes tree tree_sha commit_sha data dedup u n where
      p: "list_all2 (uploaded (hb_log h') repo) (sorted_list_of_set paths) changes"
        "answered (hb_log h') POST ''/git/trees'' (tree_payload (bi_tree info) changes) tree"
        "subscript ''sha'' tree = Inr tree_sha"
        "approved_commit (hb_log h') (rq_base_commit_sha rq) tree_sha commit_sha"
        "pull_found (hb_log h') (pr_params (gi_repo (hb_self h)) (branch_name env rq)) commit_sha data
          \<or> answered (hb_log h') POST ''/pulls'' (pull_payload rq (branch_name env rq)) data"
      and d: "subscript ''html_url'' data = Inr (JStr u)" "subscript ''number'' data = Inr (JInt n)"
        "pull_result (branch_name env rq) (rq_base_commit_sha rq) tree_sha commit_sha dedup (JStr u) (JInt n) = Inr r"
      and m: "set (hb_log h1) \<subseteq> set (hb_log h')"
    by (rule publish_Inr [OF published(2) [unfolded found] g(3)])
  have r: "pr_url r = u" "pr_number r = Some n"
    using d(3) by (auto simp: pull_result_def)
  have b: "base_found (hb_log h') (rq_base_commit_sha rq) info"
      "\<forall>x \<in> set (rp_files files). from_base (hb_log h') (bi_entries info) x"
    using base_found_mono [OF g(2) m] from_base_mono [OF _ m] g(5) by auto
  show ?thesis
    using g(1,4,6) p d(1,2) b unfolding r by blast
qed (use assms(4) in \<open>simp_all add: failed_result_def\<close>)

section \<open>A repository to publish to\<close>

text \<open>The remote's state says whether the branch exists yet.\<close>

definition demo_base :: string where
  "demo_base = replicate 40 (CHR ''a'')"

definition sha_json :: "string \<Rightarrow> json" where
  "sha_json s = JObj [(''sha'', JStr s)]"

definition demo_commit :: "string \<Rightarrow> json" where
  "demo_commit t = JObj [(''tree'', sha_json t), (''parents'', JList [sha_json demo_base])]"

definition demo_http :: "http_method \<Rightarrow> string \<Rightarrow> json \<Rightarrow> bool \<Rightarrow> bool \<times> (exn + response)" where
  "demo_http k path j b =
     (if k = GET then
        (b, Inr (if path = ''/pulls'' then (200, Some (JList []))
          else if path = ''/git/ref/heads/main'' then (200, Some (JObj [(''object'', sha_json demo_base)]))
          else if path = ''/git/commits/'' @ demo_base then (200, Some (demo_commit ''t''))
          else if path = ''/git/trees/t'' then (200, Some (JObj [(''tree'', JList [JObj [(''path'', JStr ''a''),
             (''type'', JStr ''blob''), (''mode'', JStr ''100644''), (''sha'', JStr ''b'')]])]))
          else if path = ''/git/blobs/b'' then (200, Some (JObj [(''content'', JStr ''eA=='')]))
          else if path = ''/git/commits/c'' then (200, Some (demo_commit ''u''))
          else if b then (200, Some (JObj [(''object'', sha_json ''c'')])) else (404, None)))
      else if path = ''/git/refs'' then (True, Inr (201, None))
      else (b, Inr (201, Some (if path = ''/git/blobs'' then sha_json ''n'' else if path = ''/git/trees'' then sha_json ''u''
          else if path = ''/git/commits'' then sha_json ''c'' else JObj [(''html_url'', JStr ''u''), (''number'', JInt 7)]))))"

definition demo_gh_env :: "bool gh_env" where
  "demo_gh_env = \<lparr>ge_http = demo_http, ge_authorize = Some (\<lambda>_. Inr ()), ge_sha = (\<lambda>_. ''h''),
     ge_numstat = (\<lambda>_ _. Some (''1'' @ [CHR 0x09] @ ''1'' @ [CHR 0x09, CHR ''a''])),
     ge_git_apply = (\<lambda>args repo _. ((if args = [] then write_file ''a'' ''y'' repo else repo), Inr (0, []))),
     ge_order = sorted_list_of_set\<rparr>"

definition demo_hub :: "bool hub" where
  "demo_hub = \<lparr>hb_self = new_integration ''k'' ''o/r'' True, hb_remote = False, hb_log = []\<rparr>"

definition demo_rq :: pr_request where
  "demo_rq = \<lparr>rq_run_id = ''r'', rq_title = [], rq_body = [], rq_patch_diff = ''d'', rq_base_commit_sha = demo_base,
     rq_idempotency_key = ''k''\<rparr>"

lemma demo_published: "pr_ok (snd (acreate_pull_request demo_gh_env demo_rq demo_hub))"
  by code_simp

lemma demo_enabled: "gi_enabled (hb_self demo_hub)" "hb_log demo_hub = []" "ge_authorize demo_gh_env = Some (\<lambda>_. Inr ())"
  by (simp_all add: demo_hub_def new_integration_def demo_gh_env_def)

theorem github_writes_guarded_witness:
  "authorized_posts 0 (\<lambda>_. Inr ()) (hb_log (fst (acreate_pull_request demo_gh_env demo_rq demo_hub)))
    \<and> length (filter (post_to ''/pulls'') (hb_log (fst (acreate_pull_request demo_gh_env demo_rq demo_hub)))) \<le> 1"
  using github_writes_guarded [OF demo_enabled(1,3,2), of demo_rq] by (metis prod.collapse)

theorem published_as_approved_witness:
  "\<exists>tree_sha commit_sha. approved_commit (hb_log (fst (acreate_pull_request demo_gh_env demo_rq demo_hub)))
     demo_base tree_sha commit_sha"
proof -
  have "rq_base_commit_sha demo_rq = demo_base" by (simp add: demo_rq_def)
  then show ?thesis
    using published_as_approved [OF demo_enabled(1,2) surjective_pairing demo_published] by metis
qed

section \<open>Every write of a resume passes the fence\<close>









end
