(* ===== verification/Evidence.thy ===== *)
theory Evidence
  imports Gateway
begin

text \<open>
  \<open>agent/evidence.py\<close> and \<open>agent/reasoning.py\<close>: what counts as evidence. \<open>sha\<close> is
  \<open>hashlib.sha256(...).hexdigest()\<close>. Two outputs are the same dictionary when they agree up to the
  order of keys; the model keeps integers, floats and booleans apart where Python's \<open>==\<close> does not.
\<close>

record EvidenceItem =
  ev_evidence_id :: string
  ev_run_id :: string
  ev_source :: string
  ev_source_type :: string
  ev_tool_call_id :: string
  ev_content :: string
  ev_summary :: string
  ev_hash :: string
  ev_result :: "(string \<times> json) list"

definition content_hash :: "(string \<Rightarrow> string) \<Rightarrow> (string \<times> json) list \<Rightarrow> string" where
  "content_hash sha output = sha (dumps_sorted (JObj output))"

definition same_dict :: "(string \<times> json) list \<Rightarrow> (string \<times> json) list \<Rightarrow> bool" where
  "same_dict a b \<longleftrightarrow> sort_keys (JObj a) = sort_keys (JObj b)"

text \<open>\<open>{call["tool_call_id"]: call for call in calls if ...}\<close>: the last call wins.\<close>

definition successful_call :: "ToolResult list \<Rightarrow> string \<Rightarrow> ToolResult option" where
  "successful_call calls i =
     map_of (rev (map (\<lambda>c. (tl_tool_call_id c, c)) (filter (\<lambda>c. tl_status c = T_SUCCEEDED) calls))) i"

definition backed :: "(string \<Rightarrow> string) \<Rightarrow> ToolResult list \<Rightarrow> string \<Rightarrow> EvidenceItem \<Rightarrow> bool" where
  "backed sha calls run_id e = (case successful_call calls (ev_tool_call_id e) of
      None \<Rightarrow> False
    | Some c \<Rightarrow> ev_run_id e = run_id \<and> ev_result e \<noteq> [] \<and> same_dict (ev_result e) (tl_output c)
        \<and> ev_hash e = content_hash sha (ev_result e)
        \<and> \<not> get_truthy ''error'' (ev_result e) \<and> \<not> get_truthy ''partial'' (ev_result e)
        \<and> \<not> get_truthy ''truncated'' (ev_result e))"

fun keep_valid ::
  "(string \<Rightarrow> string) \<Rightarrow> ToolResult list \<Rightarrow> string \<Rightarrow> string set \<Rightarrow> EvidenceItem list \<Rightarrow> EvidenceItem list" where
  "keep_valid sha calls run_id seen [] = []"
| "keep_valid sha calls run_id seen (e # es) =
     (if backed sha calls run_id e \<and> content_hash sha (ev_result e) \<notin> seen
      then e # keep_valid sha calls run_id (insert (content_hash sha (ev_result e)) seen) es
      else keep_valid sha calls run_id seen es)"

definition valid_evidence ::
  "(string \<Rightarrow> string) \<Rightarrow> EvidenceItem list \<Rightarrow> ToolResult list \<Rightarrow> string \<Rightarrow> EvidenceItem list" where
  "valid_evidence sha evidence calls run_id = keep_valid sha calls run_id {} evidence"

section \<open>reasoning.py\<close>

record Hypothesis =
  hy_statement :: string
  hy_evidence_ids :: "string list"
  hy_status :: string
  hy_confidence :: string
  hy_verified :: bool
  hy_notes :: string

record RootCause =
  rc_summary :: string
  rc_evidence_ids :: "string list"
  rc_affected_component :: string
  rc_fault_category :: string
  rc_causal_facts :: "string list"
  rc_confidence :: string
  rc_verified :: bool

definition evidence_ids_from :: "EvidenceItem list \<Rightarrow> string list" where
  "evidence_ids_from es = filter (\<lambda>i. i \<noteq> []) (map ev_evidence_id es)"

definition build_hypothesis :: "string \<Rightarrow> EvidenceItem list \<Rightarrow> string \<Rightarrow> Hypothesis" where
  "build_hypothesis statement es confidence = \<lparr>hy_statement = statement,
     hy_evidence_ids = evidence_ids_from es, hy_status = ''OPEN'', hy_confidence = confidence,
     hy_verified = False, hy_notes = []\<rparr>"

definition verify_hypothesis :: "Hypothesis \<Rightarrow> EvidenceItem list \<Rightarrow> nat \<Rightarrow> bool \<times> string" where
  "verify_hypothesis h es min_evidence =
     (let known = set (map ev_evidence_id es); refs = remdups (hy_evidence_ids h) in
      if refs = [] then (False, ''hypothesis has no evidence_ids'')
      else if \<not> set refs \<subseteq> known
      then (False, ''hypothesis references unknown evidence: '' @ repr_list (sort (filter (\<lambda>i. i \<notin> known) refs)))
      else if length refs < min_evidence
      then (False, ''insufficient evidence references ('' @ show_nat (length refs) @ '' < '' @ show_nat min_evidence @ '')'')
      else (True, ''evidence bindings valid''))"

text \<open>The two fields this helper leaves out of its dictionary hold their defaults.\<close>

definition form_root_cause :: "Hypothesis \<Rightarrow> string \<Rightarrow> string \<Rightarrow> string list \<Rightarrow> exn + RootCause" where
  "form_root_cause h component category facts =
     (if hy_evidence_ids h = [] then Inl (ValueError ''root cause must reference evidence ids'')
      else Inr \<lparr>rc_summary = hy_statement h, rc_evidence_ids = hy_evidence_ids h,
        rc_affected_component = component,
        rc_fault_category = (if category = [] then ''unspecified'' else category),
        rc_causal_facts = facts, rc_confidence = [], rc_verified = False\<rparr>)"

section \<open>What is valid\<close>

lemma successful_call_mem:
  "successful_call calls i = Some c \<Longrightarrow> c \<in> set calls \<and> tl_tool_call_id c = i \<and> tl_status c = T_SUCCEEDED"
  by (auto simp: successful_call_def dest!: map_of_SomeD)

lemma keep_valid_backed: "e \<in> set (keep_valid sha calls rid seen es) \<Longrightarrow> e \<in> set es \<and> backed sha calls rid e"
  by (induction es arbitrary: seen) (auto split: if_splits)

lemma keep_valid_fresh:
  "distinct (map ev_hash (keep_valid sha calls rid seen es))
   \<and> ev_hash ` set (keep_valid sha calls rid seen es) \<inter> seen = {}"
proof (induction es arbitrary: seen)
  case Nil
  then show ?case by simp
next
  case (Cons e es)
  have "backed sha calls rid e \<Longrightarrow> ev_hash e = content_hash sha (ev_result e)"
    by (auto simp: backed_def split: option.splits)
  with Cons [of seen] Cons [of "insert (content_hash sha (ev_result e)) seen"] show ?case by auto
qed

lemma keep_valid_all:
  assumes "\<And>e. e \<in> set es \<Longrightarrow> backed sha calls rid e" and "distinct (map ev_hash es)"
    and "ev_hash ` set es \<inter> seen = {}"
  shows "keep_valid sha calls rid seen es = es"
  using assms
proof (induction es arbitrary: seen)
  case Nil
  then show ?case by simp
next
  case (Cons e es)
  have "ev_hash e = content_hash sha (ev_result e)"
    using Cons.prems(1) [of e] by (auto simp: backed_def split: option.splits)
  with Cons show ?case by auto
qed

lemma valid_evidence_member:
  "e \<in> set (valid_evidence sha es calls rid) \<Longrightarrow> e \<in> set es \<and> backed sha calls rid e"
  unfolding valid_evidence_def by (rule keep_valid_backed)

lemma valid_evidence_distinct: "distinct (map ev_hash (valid_evidence sha es calls rid))"
  using keep_valid_fresh [of sha calls rid "{}" es] by (simp add: valid_evidence_def)

lemma valid_evidence_idem:
  "valid_evidence sha (valid_evidence sha es calls rid) calls rid = valid_evidence sha es calls rid"
  unfolding valid_evidence_def
  by (rule keep_valid_all) (use keep_valid_backed keep_valid_fresh [of sha calls rid "{}" es] in auto)

lemma keep_valid_complete:
  "e \<in> set es \<Longrightarrow> backed sha calls rid e \<Longrightarrow>
   ev_hash e \<in> seen \<union> ev_hash ` set (keep_valid sha calls rid seen es)"
proof (induction es arbitrary: seen)
  case Nil
  then show ?case by simp
next
  case (Cons x es)
  have "backed sha calls rid e \<Longrightarrow> ev_hash e = content_hash sha (ev_result e)" for e
    by (auto simp: backed_def split: option.splits)
  with Cons Cons.IH [of seen] Cons.IH [of "insert (content_hash sha (ev_result x)) seen"]
  show ?case by auto
qed

text \<open>
  Provenance. What \<open>valid_evidence\<close> keeps comes from the evidence it was given, and each item is
  backed: it belongs to this run, a successful call with its id returned this very output, and its
  hash is the hash of that output. No observation is counted twice, every backed observation is
  represented, and checking again changes nothing.
\<close>

theorem valid_evidence_provenance:
  "set (valid_evidence sha es calls rid) \<subseteq> {e \<in> set es. backed sha calls rid e}
   \<and> distinct (map ev_hash (valid_evidence sha es calls rid))
   \<and> ev_hash ` {e \<in> set es. backed sha calls rid e} = ev_hash ` set (valid_evidence sha es calls rid)
   \<and> valid_evidence sha (valid_evidence sha es calls rid) calls rid = valid_evidence sha es calls rid"
proof -
  have "ev_hash ` {e \<in> set es. backed sha calls rid e} \<subseteq> ev_hash ` set (valid_evidence sha es calls rid)"
    using keep_valid_complete [of _ es sha calls rid "{}"] by (auto simp: valid_evidence_def)
  then show ?thesis
    using valid_evidence_member [of _ sha es calls rid] valid_evidence_distinct [of sha es calls rid]
      valid_evidence_idem [of sha es calls rid]
    by blast
qed

text \<open>
  The binding check of a hypothesis. It passes exactly when the hypothesis cites at least the
  required number of different evidence ids and all of them exist.
\<close>

theorem verify_hypothesis_iff:
  "fst (verify_hypothesis h es n) \<longleftrightarrow>
     hy_evidence_ids h \<noteq> [] \<and> set (hy_evidence_ids h) \<subseteq> set (map ev_evidence_id es)
     \<and> n \<le> card (set (hy_evidence_ids h))"
  by (auto simp: verify_hypothesis_def Let_def length_remdups_card_conv)

end
