(* ===== verification/Decision.thy ===== *)
theory Decision
  imports Evidence
begin

text \<open>
  \<open>agent/decision.py\<close> with the schemas of \<open>llm/schemas.py\<close>: the decisions of an investigation. The
  class \<open>AgentDecisionModel\<close> has two behaviours, one per kind of provider: the deterministic policy,
  which is translated, and the language model, whose answers are a parameter. Both fill the record
  \<open>decision_model\<close>, which is all the graph sees. The answers of a language model may differ from
  call to call, so each function gets the number of the external call.
\<close>

section \<open>Schemas\<close>

record ToolSelection =
  sel_tool_name :: string
  sel_reason :: string
  sel_arguments :: "(string \<times> json) list"

record InvestigationPlan =
  ip_steps :: "string list"
  ip_focus :: string

record HypothesisProposal =
  hp_statement :: string
  hp_evidence_ids :: "string list"
  hp_confidence :: string

record VerificationDecision =
  vd_hypothesis_supported :: bool
  vd_notes :: string

record RootCauseConclusion =
  cn_statement :: string
  cn_fault_category :: string
  cn_affected_component :: string
  cn_causal_facts :: "string list"
  cn_supporting_evidence_ids :: "string list"
  cn_confidence :: string

datatype action = A_COLLECT | A_FORM_HYPOTHESIS | A_VERIFY_HYPOTHESIS | A_DECLARE_ROOT_CAUSE
  | A_INSUFFICIENT_EVIDENCE | A_NEEDS_HUMAN

record NextAction =
  na_action :: action
  na_tool_selection :: "ToolSelection option"
  na_reason :: string

definition READONLY_TOOLS :: "string list" where
  "READONLY_TOOLS = [''read_metrics'', ''read_logs'', ''inspect_git_history'', ''inspect_git_diff'',
     ''read_source_code'', ''query_database_readonly'']"

section \<open>What a decision sees\<close>

text \<open>The dictionary \<open>incident_context\<close> of the graph, with the errors of recent tool calls.\<close>

record incident_context =
  ic_incident_id :: string
  ic_title :: string
  ic_service :: string
  ic_symptom :: string
  ic_environment :: string
  ic_repository :: string
  ic_rejected_hypotheses :: nat
  ic_recent_tool_errors :: "(string \<times> string option) list"

definition str_or_null :: "string option \<Rightarrow> json" where
  "str_or_null s = (case s of None \<Rightarrow> JNull | Some x \<Rightarrow> JStr x)"

definition incident_dict :: "incident_context \<Rightarrow> (string \<times> json) list" where
  "incident_dict c = [(''incident_id'', JStr (ic_incident_id c)), (''title'', JStr (ic_title c)),
     (''service'', JStr (ic_service c)), (''symptom'', JStr (ic_symptom c)),
     (''environment'', JStr (ic_environment c)), (''repository'', JStr (ic_repository c)),
     (''rejected_hypotheses'', JInt (int (ic_rejected_hypotheses c)))]
     @ (if ic_recent_tool_errors c = [] then []
        else [(''recent_tool_errors'', JList (map (\<lambda>(n, e).
                JObj [(''tool_name'', JStr n), (''error'', str_or_null e)]) (ic_recent_tool_errors c)))])"

definition safe_evidence :: "EvidenceItem \<Rightarrow> json" where
  "safe_evidence e = JObj [(''evidence_id'', JStr (ev_evidence_id e)), (''source'', JStr (ev_source e)),
     (''source_type'', JStr (ev_source_type e)), (''result'', JObj (ev_result e))]"

text \<open>\<open>unique.setdefault(json.dumps(item["result"], sort_keys=True), item)\<close>\<close>

fun unique_results :: "string set \<Rightarrow> EvidenceItem list \<Rightarrow> EvidenceItem list" where
  "unique_results seen [] = []"
| "unique_results seen (e # es) =
     (let k = dumps_sorted (JObj (ev_result e)) in
      if k \<in> seen then unique_results seen es else e # unique_results (insert k seen) es)"

definition context_text :: "incident_context \<Rightarrow> EvidenceItem list \<Rightarrow> string" where
  "context_text c es = untrusted_context
     (JObj [(''incident'', JObj (incident_dict c)),
            (''evidence'', JList (map safe_evidence (unique_results {} es)))]) 24000"

definition hypothesis_json :: "HypothesisProposal \<Rightarrow> json" where
  "hypothesis_json h = JObj [(''statement'', JStr (hp_statement h)),
     (''evidence_ids'', JList (map JStr (hp_evidence_ids h))), (''confidence'', JStr (hp_confidence h))]"

text \<open>Evidence as it is put before a model in full; the time stamp is left out.\<close>

definition evidence_json :: "EvidenceItem \<Rightarrow> json" where
  "evidence_json e = JObj [(''evidence_id'', JStr (ev_evidence_id e)), (''run_id'', JStr (ev_run_id e)),
     (''source'', JStr (ev_source e)), (''source_type'', JStr (ev_source_type e)),
     (''tool_call_id'', JStr (ev_tool_call_id e)), (''content'', JStr (ev_content e)),
     (''summary'', JStr (ev_summary e)), (''hash'', JStr (ev_hash e)), (''result'', JObj (ev_result e))]"

section \<open>The interface\<close>

record decision_model =
  dm_deterministic :: bool
  dm_plan :: "nat \<Rightarrow> incident_context \<Rightarrow> exn + InvestigationPlan"
  dm_next_action :: "nat \<Rightarrow> incident_context \<Rightarrow> EvidenceItem list \<Rightarrow> exn + NextAction"
  dm_propose_hypothesis :: "nat \<Rightarrow> incident_context \<Rightarrow> EvidenceItem list \<Rightarrow> exn + HypothesisProposal"
  dm_verification_action ::
    "nat \<Rightarrow> incident_context \<Rightarrow> EvidenceItem list \<Rightarrow> HypothesisProposal \<Rightarrow> exn + ToolSelection"
  dm_verify :: "nat \<Rightarrow> HypothesisProposal \<Rightarrow> EvidenceItem list \<Rightarrow> exn + VerificationDecision"
  dm_conclude ::
    "nat \<Rightarrow> incident_context \<Rightarrow> HypothesisProposal \<Rightarrow> EvidenceItem list \<Rightarrow> exn + RootCauseConclusion"
  dm_patch :: "nat \<Rightarrow> json \<Rightarrow> exn + string"
  dm_direct_conclusion :: "nat \<Rightarrow> incident_context \<Rightarrow> EvidenceItem list \<Rightarrow> exn + RootCauseConclusion"

section \<open>The deterministic policy\<close>

definition collect_with :: "string \<Rightarrow> string \<Rightarrow> (string \<times> json) list \<Rightarrow> NextAction" where
  "collect_with name reason args = \<lparr>na_action = A_COLLECT,
     na_tool_selection = Some \<lparr>sel_tool_name = name, sel_reason = reason, sel_arguments = args\<rparr>,
     na_reason = []\<rparr>"

definition form_with :: "string \<Rightarrow> NextAction" where
  "form_with reason = \<lparr>na_action = A_FORM_HYPOTHESIS, na_tool_selection = None, na_reason = reason\<rparr>"

definition det_plan :: InvestigationPlan where
  "det_plan = \<lparr>ip_steps = [''Select the highest-value readonly observation'',
       ''Propose an evidence-bound hypothesis'', ''Collect independent verification evidence'',
       ''Conclude only after verification''],
     ip_focus = ''Correlate service signals, recent changes, source, and database behavior''\<rparr>"

definition rejection_candidates :: "incident_context \<Rightarrow> (string \<times> (string \<times> json) list) list" where
  "rejection_candidates c =
     [(''inspect_git_diff'', [(''repository'', JStr (ic_repository c)), (''commit_sha'', JStr ''HEAD'')]),
      (''query_database_readonly'', [(''query'', JStr ''SELECT 1 AS health'')])]"

definition first_candidates :: "incident_context \<Rightarrow> (string \<times> (string \<times> json) list) list" where
  "first_candidates c =
     [(''read_metrics'', [(''service'', JStr (ic_service c)), (''window'', JStr ''incident'')]),
      (''read_logs'', [(''service'', JStr (ic_service c)), (''window'', JStr ''incident'')]),
      (''inspect_git_history'', [(''repository'', JStr (ic_repository c)), (''limit'', JInt 5)])]"

definition det_next_action :: "incident_context \<Rightarrow> EvidenceItem list \<Rightarrow> NextAction" where
  "det_next_action c es =
     (let sources = ev_source ` set es in
      if ic_rejected_hypotheses c \<noteq> 0 then
        (case find (\<lambda>(n, a). n \<notin> sources) (rejection_candidates c) of
           Some (n, a) \<Rightarrow> collect_with n ''collect a new falsification signal after hypothesis rejection'' a
         | None \<Rightarrow> form_with ''new evidence collected after rejection'')
      else
        (case find (\<lambda>(n, a). n \<notin> sources) (first_candidates c) of
           Some (n, a) \<Rightarrow> collect_with n (n @ '' provides a distinct signal not yet observed'') a
         | None \<Rightarrow> form_with ''three independent sources collected''))"

definition CATEGORY_MARKERS :: "(string \<times> string) list" where
  "CATEGORY_MARKERS = [(''null'', ''null handling regression''),
     (''schema'', ''schema compatibility regression''),
     (''timeout'', ''dependency timeout configuration''),
     (''n_plus_one'', ''N+1 query regression''),
     (''missing_index'', ''missing database index'')]"

definition det_propose_hypothesis :: "incident_context \<Rightarrow> EvidenceItem list \<Rightarrow> HypothesisProposal" where
  "det_propose_hypothesis c es =
     (let text = py_lower (dumps (JList (map (\<lambda>e. JObj (ev_result e)) es)));
          category = (case find (\<lambda>(marker, label). contains marker text) CATEGORY_MARKERS of
            Some (marker, label) \<Rightarrow> label | None \<Rightarrow> ''database/query regression'')
      in \<lparr>hp_statement = ic_service c @ '' degradation is caused by '' @ category,
          hp_evidence_ids = map ev_evidence_id es, hp_confidence = ''MEDIUM''\<rparr>)"

definition det_verification_action :: "incident_context \<Rightarrow> ToolSelection" where
  "det_verification_action c = \<lparr>sel_tool_name = ''read_source_code'',
     sel_reason = ''inspect implementation independently of telemetry'',
     sel_arguments = [(''repository'', JStr (ic_repository c)), (''path'', JStr ''app.py'')]\<rparr>"

definition det_verify :: "HypothesisProposal \<Rightarrow> EvidenceItem list \<Rightarrow> VerificationDecision" where
  "det_verify h es =
     (let supported = (set (hp_evidence_ids h) \<subseteq> ev_evidence_id ` set es
            \<and> 3 \<le> length (remdups (map ev_source_type es)))
      in \<lparr>vd_hypothesis_supported = supported,
          vd_notes = (if supported then ''independent telemetry/change/source evidence agrees''
                      else ''evidence does not independently verify the hypothesis'')\<rparr>)"

definition det_conclude ::
  "incident_context \<Rightarrow> HypothesisProposal \<Rightarrow> EvidenceItem list \<Rightarrow> RootCauseConclusion" where
  "det_conclude c h es = \<lparr>cn_statement = hp_statement h,
     cn_fault_category = ''code_or_database_regression'', cn_affected_component = ic_service c,
     cn_causal_facts = [hp_statement h], cn_supporting_evidence_ids = map ev_evidence_id es,
     cn_confidence = ''MEDIUM''\<rparr>"

definition deterministic_model :: decision_model where
  "deterministic_model = \<lparr>dm_deterministic = True,
     dm_plan = (\<lambda>n c. Inr det_plan),
     dm_next_action = (\<lambda>n c es. Inr (det_next_action c es)),
     dm_propose_hypothesis = (\<lambda>n c es. Inr (det_propose_hypothesis c es)),
     dm_verification_action = (\<lambda>n c es h. Inr (det_verification_action c)),
     dm_verify = (\<lambda>n h es. Inr (det_verify h es)),
     dm_conclude = (\<lambda>n c h es. Inr (det_conclude c h es)),
     dm_patch = (\<lambda>n v. Inl (RuntimeError ''deterministic patching is a test-only adapter'')),
     dm_direct_conclusion = (\<lambda>n c es. Inr (det_conclude c (det_propose_hypothesis c es) es))\<rparr>"

section \<open>A language model\<close>

text \<open>
  \<open>provider.complete_structured\<close> per schema: the number of the call and the user message. The system
  prompt is a constant of each operation.
\<close>

record llm =
  llm_plan :: "nat \<Rightarrow> string \<Rightarrow> exn + InvestigationPlan"
  llm_next_action :: "nat \<Rightarrow> string \<Rightarrow> exn + NextAction"
  llm_hypothesis :: "nat \<Rightarrow> string \<Rightarrow> exn + HypothesisProposal"
  llm_verification_action :: "nat \<Rightarrow> string \<Rightarrow> HypothesisProposal \<Rightarrow> exn + NextAction"
  llm_verify :: "nat \<Rightarrow> string \<Rightarrow> exn + VerificationDecision"
  llm_conclude :: "nat \<Rightarrow> string \<Rightarrow> exn + RootCauseConclusion"
  llm_patch :: "nat \<Rightarrow> string \<Rightarrow> exn + string"
  llm_direct :: "nat \<Rightarrow> string \<Rightarrow> exn + RootCauseConclusion"

definition verification_selection :: "exn + NextAction \<Rightarrow> exn + ToolSelection" where
  "verification_selection r = (case r of Inl e \<Rightarrow> Inl e
     | Inr a \<Rightarrow> (case na_tool_selection a of
         None \<Rightarrow> Inl (ValueError ''verification requires a tool selection'') | Some t \<Rightarrow> Inr t))"

definition provider_model :: "llm \<Rightarrow> decision_model" where
  "provider_model p = \<lparr>dm_deterministic = False,
     dm_plan = (\<lambda>n c. llm_plan p n (untrusted_context (JObj (incident_dict c)) 24000)),
     dm_next_action = (\<lambda>n c es. llm_next_action p n (context_text c es)),
     dm_propose_hypothesis = (\<lambda>n c es. llm_hypothesis p n (context_text c es)),
     dm_verification_action = (\<lambda>n c es h. verification_selection (llm_verification_action p n (context_text c es) h)),
     dm_verify = (\<lambda>n h es. llm_verify p n (untrusted_context
        (JObj [(''hypothesis'', hypothesis_json h), (''evidence'', JList (map evidence_json es))]) 24000)),
     dm_conclude = (\<lambda>n c h es. llm_conclude p n (untrusted_context
        (JObj [(''incident'', JObj (incident_dict c)), (''hypothesis'', hypothesis_json h),
               (''evidence'', JList (map evidence_json es))]) 24000)),
     dm_patch = (\<lambda>n v. llm_patch p n (untrusted_context v 24000)),
     dm_direct_conclusion = (\<lambda>n c es. llm_direct p n (context_text c es))\<rparr>"

section \<open>The policy makes progress\<close>

definition wanted_sources :: "incident_context \<Rightarrow> string list" where
  "wanted_sources c = map fst (if ic_rejected_hypotheses c \<noteq> 0 then rejection_candidates c else first_candidates c)"

text \<open>
  The deterministic policy. It asks for evidence exactly while one of the sources it wants at this
  stage is unobserved, always from a read-only tool that has not been observed yet, and proposes a
  hypothesis otherwise.
\<close>

theorem det_next_action_progress:
  "(na_action (det_next_action c es) = A_COLLECT) = (\<exists>n \<in> set (wanted_sources c). n \<notin> ev_source ` set es)
   \<and> (na_action (det_next_action c es) = A_COLLECT \<longrightarrow>
        (\<exists>t. na_tool_selection (det_next_action c es) = Some t \<and> sel_tool_name t \<in> set READONLY_TOOLS
           \<and> sel_tool_name t \<in> set (wanted_sources c) \<and> sel_tool_name t \<notin> ev_source ` set es))
   \<and> (na_action (det_next_action c es) \<noteq> A_COLLECT \<longrightarrow> na_action (det_next_action c es) = A_FORM_HYPOTHESIS)"
  by (simp add: det_next_action_def Let_def wanted_sources_def rejection_candidates_def first_candidates_def
      collect_with_def form_with_def READONLY_TOOLS_def)

definition demo_context :: incident_context where
  "demo_context = \<lparr>ic_incident_id = ''INC-1'', ic_title = ''Slow orders'', ic_service = ''orders-api'',
     ic_symptom = ''p95 above 2s'', ic_environment = ''staging'', ic_repository = ''orders-api'',
     ic_rejected_hypotheses = 0, ic_recent_tool_errors = []\<rparr>"

theorem det_next_action_progress_witness:
  "\<exists>t. na_tool_selection (det_next_action demo_context []) = Some t \<and> sel_tool_name t \<in> set READONLY_TOOLS"
proof -
  have "na_action (det_next_action demo_context []) = A_COLLECT"
    by (simp add: det_next_action_def demo_context_def first_candidates_def collect_with_def)
  then show ?thesis using det_next_action_progress [of demo_context "[]"] by blast
qed

end
