(* ===== verification/Graph.thy ===== *)
theory Graph
  imports Decision Sandbox GraphStore ApprovalResume
begin

text \<open>
  \<open>agent/graph.py\<close>: the investigation workflow. A node of the graph is a function of the settings, the
  state and the world; the world holds what the nodes reach outside the state: the tool gateway, the
  runtime handles (the sandbox manager and the flag of the last tests), the database, and a counter of
  external events. Answers of a model, tools and processes, fresh identifiers, the clock and what
  other transactions did to the database are arguments of \<open>env\<close>, indexed by that counter, so they may
  be anything and change from call to call.
\<close>

section \<open>State, settings, world\<close>

record AgentState =
  st_run_id :: string
  st_incident_id :: string
  st_incident_title :: string
  st_service :: string
  st_symptom :: string
  st_environment :: string
  st_repository :: string
  st_workflow_state :: WorkflowState
  st_plan :: "string list"
  st_evidence :: "EvidenceItem list"
  st_hypotheses :: "Hypothesis list"
  st_root_cause :: "RootCause option"
  st_tool_calls :: "ToolResult list"
  st_patch_attempts :: "PatchAttempt list"
  st_patch_artifact :: "PatchArtifactData option"
  st_approval_required :: bool
  st_status :: AgentRunStatus
  st_error :: "string option"
  st_result :: "(string \<times> json) list"
  st_trace_id :: string

datatype strategy = AUTONOMOUS | FIXED | DIRECT

record world =
  wd_gateway :: ToolGateway
  wd_manager :: "SandboxManager option"
  wd_test_ok :: bool
  wd_db :: db
  wd_tick :: nat

record env =
  en_decision :: decision_model
  en_provider_name :: string
  en_model_name :: string
  en_strategy :: strategy
  en_max_tool_calls :: int
  en_max_patch_attempts :: int
  en_investigation_only :: bool
  en_sandbox :: SandboxSettings
  en_tools :: "nat \<Rightarrow> string \<Rightarrow> handler"
  en_jitter :: "nat \<Rightarrow> nat \<Rightarrow> rat"
  en_new_id :: "nat \<Rightarrow> string"
  en_sha :: "string \<Rightarrow> string"
  en_source :: "nat \<Rightarrow> source"
  en_source_name :: string
  en_git :: "nat \<Rightarrow> git_state"
  en_numstat :: "nat \<Rightarrow> Repo \<Rightarrow> string \<Rightarrow> string option"
  en_applied :: "nat \<Rightarrow> Repo \<Rightarrow> string \<Rightarrow> Repo option"
  en_process :: "nat \<Rightarrow> process"
  en_python :: string
  en_root :: string
  en_claim :: "ClaimedRun option"
  en_now :: "nat \<Rightarrow> time"
  en_others :: "nat \<Rightarrow> db \<Rightarrow> db"
  en_usage :: "nat \<Rightarrow> json"

type_synonym 'a io = "world \<Rightarrow> world \<times> (exn + 'a)"

definition return_io :: "'a \<Rightarrow> 'a io" where
  "return_io x w = (w, Inr x)"

definition raise_io :: "exn \<Rightarrow> 'a io" where
  "raise_io e w = (w, Inl e)"

definition bind_io :: "'a io \<Rightarrow> ('a \<Rightarrow> 'b io) \<Rightarrow> 'b io" where
  "bind_io m f w = (case m w of (w', Inl e) \<Rightarrow> (w', Inl e) | (w', Inr x) \<Rightarrow> f x w')"

text \<open>\<open>except Exception as exc\<close> around one call.\<close>

definition catch_io :: "'a io \<Rightarrow> (exn \<Rightarrow> 'b io) \<Rightarrow> ('a \<Rightarrow> 'b io) \<Rightarrow> 'b io" where
  "catch_io m h f w = (case m w of (w', Inl e) \<Rightarrow> h e w' | (w', Inr x) \<Rightarrow> f x w')"

text \<open>An external answer, and a transaction on the database as it is by then.\<close>

definition ask :: "(nat \<Rightarrow> exn + 'a) \<Rightarrow> 'a io" where
  "ask f w = (w\<lparr>wd_tick := Suc (wd_tick w)\<rparr>, f (wd_tick w))"

definition new_id :: "env \<Rightarrow> string \<Rightarrow> string io" where
  "new_id env pre = ask (\<lambda>n. Inr (pre @ ''-'' @ en_new_id env n))"

definition transaction :: "env \<Rightarrow> (time \<Rightarrow> db \<Rightarrow> db \<times> (exn + 'a)) \<Rightarrow> 'a io" where
  "transaction env op w = (let n = wd_tick w in
     case op (en_now env n) (en_others env n (wd_db w)) of
       (d, r) \<Rightarrow> (w\<lparr>wd_db := d, wd_tick := Suc n\<rparr>, r))"

section \<open>Helpers of the nodes\<close>

definition set_result :: "string \<Rightarrow> json \<Rightarrow> AgentState \<Rightarrow> AgentState" where
  "set_result k v s = s\<lparr>st_result := dict_set k v (st_result s)\<rparr>"

definition stop_as :: "AgentRunStatus \<Rightarrow> WorkflowState \<Rightarrow> AgentState \<Rightarrow> AgentState" where
  "stop_as status ws s = s\<lparr>st_status := status, st_workflow_state := ws\<rparr>"

definition insufficient :: "AgentState \<Rightarrow> AgentState" where
  "insufficient = stop_as INSUFFICIENT_EVIDENCE W_INSUFFICIENT_EVIDENCE"

definition needs_human :: "AgentState \<Rightarrow> AgentState" where
  "needs_human = stop_as NEEDS_HUMAN_INTERVENTION W_NEEDS_HUMAN_INTERVENTION"

definition rejected_count :: "AgentState \<Rightarrow> nat" where
  "rejected_count s = length (filter (\<lambda>h. hy_status h = ''REJECTED'') (st_hypotheses s))"

definition context_of :: "AgentState \<Rightarrow> incident_context" where
  "context_of s = \<lparr>ic_incident_id = st_incident_id s, ic_title = st_incident_title s,
     ic_service = st_service s, ic_symptom = st_symptom s, ic_environment = st_environment s,
     ic_repository = st_repository s, ic_rejected_hypotheses = rejected_count s, ic_recent_tool_errors = []\<rparr>"

definition with_failures :: "ToolResult list \<Rightarrow> incident_context \<Rightarrow> incident_context" where
  "with_failures calls c = c\<lparr>ic_recent_tool_errors :=
     map (\<lambda>r. (tl_tool_name r, tl_error r)) (filter (\<lambda>r. tl_status r \<noteq> T_SUCCEEDED) (last_n 3 calls))\<rparr>"

definition call_tool :: "env \<Rightarrow> AgentState \<Rightarrow> ToolSelection \<Rightarrow> ToolResult io" where
  "call_tool env s sel w = (let n = wd_tick w in
     case call (en_tools env n (sel_tool_name sel)) (en_jitter env n) (''TC-'' @ en_new_id env n)
            (st_run_id s) (st_trace_id s) (sel_tool_name sel) (JObj (sel_arguments sel)) (wd_gateway w) of
       (g, delays, r) \<Rightarrow> (w\<lparr>wd_gateway := g, wd_tick := Suc n\<rparr>, r))"

definition steps_left :: "world \<Rightarrow> bool" where
  "steps_left w = can_step (gw_budget (wd_gateway w))"

section \<open>plan\<close>

definition baseline_plan :: InvestigationPlan where
  "baseline_plan = \<lparr>ip_steps = [''Collect fixed context'', ''Diagnose from observations''],
     ip_focus = ''controlled evaluation baseline''\<rparr>"

definition plan_node :: "env \<Rightarrow> AgentState \<Rightarrow> AgentState io" where
  "plan_node env s =
     (let s1 = s\<lparr>st_workflow_state := W_PLAN\<rparr> in
      bind_io (if en_strategy env = AUTONOMOUS then ask (\<lambda>n. dm_plan (en_decision env) n (context_of s1))
               else return_io baseline_plan)
        (\<lambda>plan. return_io (set_result ''plan_focus'' (JStr (ip_focus plan))
           (set_result ''model'' (JObj [(''provider'', JStr (en_provider_name env)), (''model'', JStr (en_model_name env))])
             (s1\<lparr>st_plan := ip_steps plan\<rparr>)))))"

section \<open>collect_evidence\<close>

definition fixed_observations :: "env \<Rightarrow> AgentState \<Rightarrow> (string \<times> (string \<times> json) list) list" where
  "fixed_observations env s =
     [(''read_metrics'', [(''service'', JStr (st_service s))]),
      (''read_logs'', [(''service'', JStr (st_service s))]),
      (''inspect_git_history'', [(''repository'', JStr (st_repository s)), (''limit'', JInt 5)])]
     @ (if en_strategy env = DIRECT
        then [(''read_source_code'', [(''repository'', JStr (st_repository s)), (''path'', JStr ''app.py'')])] else [])"

definition baseline_action :: "env \<Rightarrow> AgentState \<Rightarrow> nat \<Rightarrow> NextAction" where
  "baseline_action env s index =
     (let fixed = fixed_observations env s in
      if length fixed \<le> index then form_with []
      else collect_with (fst (fixed ! index)) ''fixed baseline observation'' (snd (fixed ! index)))"

definition choose_action :: "env \<Rightarrow> AgentState \<Rightarrow> ToolResult list \<Rightarrow> EvidenceItem list \<Rightarrow> NextAction io" where
  "choose_action env s calls evidence =
     (if en_strategy env \<in> {DIRECT, FIXED} then return_io (baseline_action env s (length calls))
      else ask (\<lambda>n. dm_next_action (en_decision env) n (with_failures calls (context_of s)) evidence))"

definition removeprefix :: "string \<Rightarrow> string \<Rightarrow> string" where
  "removeprefix p s = (if prefix p s then drop (length p) s else s)"

definition observation :: "env \<Rightarrow> AgentState \<Rightarrow> ToolSelection \<Rightarrow> ToolResult \<Rightarrow> string \<Rightarrow> EvidenceItem" where
  "observation env s sel r eid = \<lparr>ev_evidence_id = eid, ev_run_id = st_run_id s,
     ev_source = sel_tool_name sel,
     ev_source_type = removeprefix ''inspect_'' (removeprefix ''read_'' (sel_tool_name sel)),
     ev_tool_call_id = tl_tool_call_id r, ev_content = dumps_sorted (JObj (tl_output r)),
     ev_summary = sel_reason sel, ev_hash = content_hash (en_sha env) (tl_output r), ev_result = tl_output r\<rparr>"

text \<open>
  One iteration after the action is chosen: whether the loop goes on, the state, the calls and the
  evidence.
\<close>

definition collect_one ::
  "env \<Rightarrow> AgentState \<Rightarrow> ToolResult list \<Rightarrow> EvidenceItem list \<Rightarrow> NextAction
     \<Rightarrow> (bool \<times> AgentState \<times> ToolResult list \<times> EvidenceItem list) io" where
  "collect_one env s calls evidence a =
     (if na_action a \<in> {A_FORM_HYPOTHESIS, A_VERIFY_HYPOTHESIS, A_DECLARE_ROOT_CAUSE}
      then return_io (False, s, calls, evidence)
      else if na_action a = A_INSUFFICIENT_EVIDENCE
      then return_io (False, set_result ''stop_reason'' (JStr (na_reason a)) (insufficient s), calls, evidence)
      else if na_action a = A_NEEDS_HUMAN
      then return_io (False, set_result ''stop_reason'' (JStr (na_reason a)) (needs_human s), calls, evidence)
      else (case na_tool_selection a of
        None \<Rightarrow> return_io (False, set_result ''stop_reason''
                  (JStr ''model asked to collect evidence with no tool selection'') (insufficient s), calls, evidence)
      | Some sel \<Rightarrow>
          bind_io (call_tool env s sel) (\<lambda>r.
            let calls' = calls @ [r] in
            if sel_tool_name sel \<notin> set READONLY_TOOLS
            then return_io (False, set_result ''stop_reason'' (JStr ''model selected an unregistered tool'')
                   (needs_human s), calls', evidence)
            else bind_io (if tl_status r = T_SUCCEEDED
                     then bind_io (new_id env ''EVID'') (\<lambda>eid. return_io (evidence @ [observation env s sel r eid]))
                     else return_io evidence)
              (\<lambda>evidence'.
                 if en_max_tool_calls env \<le> int (length calls')
                 then return_io (False, needs_human s, calls', evidence')
                 else return_io (True, s, calls', evidence')))))"

definition record_step_io :: "unit io" where
  "record_step_io w = (w\<lparr>wd_gateway := (wd_gateway w)\<lparr>gw_budget := record_step (gw_budget (wd_gateway w))\<rparr>\<rparr>, Inr ())"

text \<open>
  The loop. Its fuel is the number of steps the budget has left; each iteration records one, so the
  fuel ends only with the budget.
\<close>

fun collect_loop ::
  "nat \<Rightarrow> env \<Rightarrow> AgentState \<Rightarrow> ToolResult list \<Rightarrow> EvidenceItem list
     \<Rightarrow> (AgentState \<times> ToolResult list \<times> EvidenceItem list) io" where
  "collect_loop 0 env s calls evidence w = (w, Inr (s, calls, evidence))"
| "collect_loop (Suc n) env s calls evidence w =
     (if \<not> steps_left w then (w, Inr (s, calls, evidence))
      else bind_io record_step_io (\<lambda>_.
             bind_io (choose_action env s calls evidence) (\<lambda>a.
               bind_io (collect_one env s calls evidence a) (\<lambda>(go_on, s', calls', evidence').
                 if go_on then collect_loop n env s' calls' evidence'
                 else return_io (s', calls', evidence')))) w)"

definition steps_remaining :: "world \<Rightarrow> nat" where
  "steps_remaining w = nat (max_steps (gw_budget (wd_gateway w)) - step_count (gw_budget (wd_gateway w)))"

definition collect_end :: "AgentState \<Rightarrow> world \<Rightarrow> AgentState" where
  "collect_end s w =
     (let s1 = set_result ''investigation_steps'' (JInt (step_count (gw_budget (wd_gateway w)))) s;
          s2 = (if \<not> steps_left w \<and> st_status s1 = RUNNING then needs_human s1 else s1)
      in if st_evidence s2 = []
         then (insufficient s2)\<lparr>st_result := [(''message'', JStr ''no evidence collected'')]\<rparr>
         else s2)"

definition collect_evidence_node :: "env \<Rightarrow> AgentState \<Rightarrow> AgentState io" where
  "collect_evidence_node env s w =
     (let s1 = s\<lparr>st_workflow_state := W_COLLECT_EVIDENCE\<rparr> in
      bind_io (collect_loop (steps_remaining w) env s1 (st_tool_calls s1) (st_evidence s1))
        (\<lambda>(s2, calls, evidence) w2.
           (w2, Inr (collect_end (s2\<lparr>st_tool_calls := calls, st_evidence := evidence\<rparr>) w2))) w)"

section \<open>form_hypothesis\<close>

definition cited :: "string list \<Rightarrow> EvidenceItem list \<Rightarrow> bool" where
  "cited ids evidence \<longleftrightarrow> ids \<noteq> [] \<and> set ids \<subseteq> ev_evidence_id ` set evidence"

definition root_cause_of :: "RootCauseConclusion \<Rightarrow> bool \<Rightarrow> RootCause" where
  "root_cause_of c ok = \<lparr>rc_summary = cn_statement c, rc_evidence_ids = cn_supporting_evidence_ids c,
     rc_affected_component = cn_affected_component c, rc_fault_category = cn_fault_category c,
     rc_causal_facts = cn_causal_facts c, rc_confidence = cn_confidence c, rc_verified = ok\<rparr>"

definition open_hypothesis :: "HypothesisProposal \<Rightarrow> Hypothesis" where
  "open_hypothesis p = \<lparr>hy_statement = hp_statement p, hy_evidence_ids = hp_evidence_ids p,
     hy_status = ''OPEN'', hy_confidence = hp_confidence p, hy_verified = False, hy_notes = []\<rparr>"

definition direct_outcome :: "RootCauseConclusion \<Rightarrow> AgentState \<Rightarrow> AgentState" where
  "direct_outcome c s =
     (if cited (cn_supporting_evidence_ids c) (st_evidence s)
      then (stop_as INVESTIGATION_COMPLETE W_ROOT_CAUSE_FOUND s)\<lparr>st_root_cause := Some (root_cause_of c False)\<rparr>
      else insufficient s)"

definition proposed_outcome :: "HypothesisProposal \<Rightarrow> AgentState \<Rightarrow> AgentState" where
  "proposed_outcome p s =
     (if cited (hp_evidence_ids p) (st_evidence s)
      then s\<lparr>st_hypotheses := st_hypotheses s @ [open_hypothesis p]\<rparr>
      else (insufficient s)\<lparr>st_result := [(''message'', JStr ''model hypothesis cited unknown or no evidence'')]\<rparr>)"

definition with_valid_evidence :: "env \<Rightarrow> AgentState \<Rightarrow> AgentState" where
  "with_valid_evidence env s =
     s\<lparr>st_evidence := valid_evidence (en_sha env) (st_evidence s) (st_tool_calls s) (st_run_id s)\<rparr>"

definition form_hypothesis_node :: "env \<Rightarrow> AgentState \<Rightarrow> AgentState io" where
  "form_hypothesis_node env s =
     (let s1 = s\<lparr>st_workflow_state := W_FORM_HYPOTHESIS\<rparr> in
      if st_status s1 \<noteq> RUNNING then return_io s1
      else
        let s2 = with_valid_evidence env s1 in
        if length (st_evidence s2) < 2
        then return_io ((insufficient s2)\<lparr>st_result := [(''message'', JStr ''insufficient evidence''),
               (''evidence_count'', JInt (int (length (st_evidence s2))))]\<rparr>)
        else if en_strategy env = DIRECT
        then bind_io (ask (\<lambda>n. dm_direct_conclusion (en_decision env) n (context_of s2) (st_evidence s2)))
               (\<lambda>c. return_io (direct_outcome c s2))
        else bind_io (ask (\<lambda>n. dm_propose_hypothesis (en_decision env) n (context_of s2) (st_evidence s2)))
               (\<lambda>p. return_io (proposed_outcome p s2)))"

section \<open>verify_hypothesis\<close>

text \<open>\<open>str\<close> of a dictionary is its \<open>repr\<close>.\<close>

fun py_repr :: "json \<Rightarrow> string" where
  "py_repr JNull = ''None''"
| "py_repr (JBool b) = (if b then ''True'' else ''False'')"
| "py_repr (JInt i) = show_int i"
| "py_repr (JFloat m k) = show_float m k"
| "py_repr (JStr s) = repr_str s"
| "py_repr (JList xs) = ''['' @ join '', '' (map py_repr xs) @ '']''"
| "py_repr (JObj kvs) = ''{'' @ join '', '' (map (\<lambda>kv. repr_str (fst kv) @ '': '' @ py_repr (snd kv)) kvs) @ ''}''"

definition proposal_of :: "Hypothesis \<Rightarrow> HypothesisProposal" where
  "proposal_of h = \<lparr>hp_statement = hy_statement h, hp_evidence_ids = hy_evidence_ids h,
     hp_confidence = hy_confidence h\<rparr>"

definition fixed_verification :: "AgentState \<Rightarrow> ToolSelection" where
  "fixed_verification s = \<lparr>sel_tool_name = ''read_source_code'', sel_reason = ''fixed independent verification'',
     sel_arguments = [(''repository'', JStr (st_repository s)), (''path'', JStr ''app.py'')]\<rparr>"

definition verification_item ::
  "env \<Rightarrow> AgentState \<Rightarrow> ToolSelection \<Rightarrow> ToolResult \<Rightarrow> string \<Rightarrow> EvidenceItem" where
  "verification_item env s sel r eid = \<lparr>ev_evidence_id = eid, ev_run_id = st_run_id s,
     ev_source = sel_tool_name sel, ev_source_type = ''verification'',
     ev_tool_call_id = tl_tool_call_id r, ev_content = py_repr (JObj (tl_output r)),
     ev_summary = sel_reason sel, ev_hash = content_hash (en_sha env) (tl_output r), ev_result = tl_output r\<rparr>"

definition hypothesis_json' :: "Hypothesis \<Rightarrow> json" where
  "hypothesis_json' h = JObj [(''statement'', JStr (hy_statement h)),
     (''evidence_ids'', JList (map JStr (hy_evidence_ids h))), (''confidence'', JStr (hy_confidence h)),
     (''status'', JStr (hy_status h)), (''verified'', JBool (hy_verified h)),
     (''verification_notes'', JStr (hy_notes h))]"

definition judged :: "VerificationDecision \<Rightarrow> AgentState \<Rightarrow> Hypothesis" where
  "judged d s = (last (st_hypotheses s))\<lparr>hy_evidence_ids := map ev_evidence_id (st_evidence s),
     hy_verified := vd_hypothesis_supported d,
     hy_status := (if vd_hypothesis_supported d then ''VERIFIED'' else ''REJECTED''), hy_notes := vd_notes d\<rparr>"

definition with_judged :: "VerificationDecision \<Rightarrow> AgentState \<Rightarrow> AgentState" where
  "with_judged d s = s\<lparr>st_hypotheses := butlast (st_hypotheses s) @ [judged d s]\<rparr>"

definition rejected_outcome :: "VerificationDecision \<Rightarrow> bool \<Rightarrow> AgentState \<Rightarrow> AgentState" where
  "rejected_outcome d steps s =
     (let s1 = s\<lparr>st_result := [(''message'', JStr (vd_notes d)),
                   (''hypothesis'', hypothesis_json' (last (st_hypotheses s)))]\<rparr>
      in if 3 \<le> rejected_count s1 \<or> \<not> steps then insufficient s1 else s1)"

definition TAXONOMY :: "string list" where
  "TAXONOMY = [''database_performance'', ''application_bug'', ''dependency'', ''data_contract'',
     ''configuration'', ''code_regression'']"

definition acceptable :: "bool \<Rightarrow> RootCauseConclusion \<Rightarrow> EvidenceItem list \<Rightarrow> bool" where
  "acceptable det c evidence \<longleftrightarrow>
     cited (cn_supporting_evidence_ids c) evidence
     \<and> ev_evidence_id (last evidence) \<in> set (cn_supporting_evidence_ids c)
     \<and> 2 \<le> card (ev_source ` set (filter (\<lambda>e. ev_evidence_id e \<in> set (cn_supporting_evidence_ids c)) evidence))
     \<and> (det \<or> cn_fault_category c \<in> set TAXONOMY)"

definition concluded_outcome :: "env \<Rightarrow> RootCauseConclusion \<Rightarrow> AgentState \<Rightarrow> AgentState" where
  "concluded_outcome env c s =
     (if \<not> acceptable (dm_deterministic (en_decision env)) c (st_evidence s) then insufficient s
      else
        let s1 = s\<lparr>st_root_cause := Some (root_cause_of c True), st_workflow_state := W_ROOT_CAUSE_FOUND\<rparr>
        in if en_investigation_only env then s1\<lparr>st_status := INVESTIGATION_COMPLETE\<rparr> else s1)"

text \<open>After the independent observation is among the evidence: the judgement and the conclusion.\<close>

definition judge :: "env \<Rightarrow> HypothesisProposal \<Rightarrow> AgentState \<Rightarrow> AgentState io" where
  "judge env proposal s =
     bind_io (ask (\<lambda>n. dm_verify (en_decision env) n proposal (st_evidence s)))
       (\<lambda>d. let s1 = with_judged d s in
          if \<not> vd_hypothesis_supported d
          then (\<lambda>w. (w, Inr (rejected_outcome d (steps_left w) s1)))
          else bind_io (ask (\<lambda>n. dm_conclude (en_decision env) n (context_of s1)
                             (proposal_of (last (st_hypotheses s1))) (st_evidence s1)))
                 (\<lambda>c. return_io (concluded_outcome env c s1)))"

definition verify_hypothesis_node :: "env \<Rightarrow> AgentState \<Rightarrow> AgentState io" where
  "verify_hypothesis_node env s =
     (let s1 = s\<lparr>st_workflow_state := W_VERIFY_HYPOTHESIS\<rparr> in
      if st_status s1 \<noteq> RUNNING then return_io s1
      else if st_hypotheses s1 = [] then return_io (insufficient s1)
      else
        let proposal = proposal_of (last (st_hypotheses s1)) in
        bind_io (if en_strategy env = FIXED then return_io (fixed_verification s1)
                 else ask (\<lambda>n. dm_verification_action (en_decision env) n (context_of s1) (st_evidence s1) proposal))
          (\<lambda>sel. bind_io (call_tool env s1 sel) (\<lambda>r.
             let s2 = s1\<lparr>st_tool_calls := st_tool_calls s1 @ [r]\<rparr> in
             if tl_status r \<noteq> T_SUCCEEDED
                \<or> content_hash (en_sha env) (tl_output r) \<in> ev_hash ` set (st_evidence s2)
             then return_io (set_result ''stop_reason''
                    (JStr ''verification failed or supplied no independent observation'') (insufficient s2))
             else bind_io (new_id env ''EVID'') (\<lambda>eid.
                    judge env proposal (with_valid_evidence env
                      (s2\<lparr>st_evidence := st_evidence s2 @ [verification_item env s2 sel r eid]\<rparr>))))))"

section \<open>reflect, needs_human\<close>

definition reflect_node :: "AgentState \<Rightarrow> AgentState io" where
  "reflect_node s = return_io
     (let attempts = st_patch_attempts s in
      s\<lparr>st_workflow_state := W_REFLECT,
        st_patch_attempts := (if attempts = [] then []
          else butlast attempts @ [(last attempts)\<lparr>at_reflection := Some ''tests failed; retry with simplified patch''\<rparr>])\<rparr>)"

definition needs_human_node :: "AgentState \<Rightarrow> AgentState io" where
  "needs_human_node s = return_io (needs_human s)"

section \<open>create_sandbox\<close>

definition create_sandbox_node :: "env \<Rightarrow> AgentState \<Rightarrow> AgentState io" where
  "create_sandbox_node env s w =
     (let s1 = s\<lparr>st_workflow_state := W_CREATE_SANDBOX\<rparr>; n = wd_tick w in
      if st_root_cause s1 = None then (w, Inr (s1\<lparr>st_status := INSUFFICIENT_EVIDENCE\<rparr>))
      else (case create_workspace (en_sandbox env) (en_git env n) (en_source env n) (st_run_id s1) new_manager of
        (m, r) \<Rightarrow>
          (w\<lparr>wd_manager := Some m, wd_test_ok := False, wd_tick := Suc n\<rparr>,
           Inr (case r of
             Inr _ \<Rightarrow> set_result ''sandbox_source'' (JStr (en_source_name env)) s1
           | Inl e \<Rightarrow> (stop_as FAILED W_FAILED s1)\<lparr>st_error := Some (''sandbox create failed: '' @ message e)\<rparr>))))"

text \<open>An operation of the sandbox manager.\<close>

definition with_manager :: "(nat \<Rightarrow> SandboxManager \<Rightarrow> SandboxManager \<times> (exn + 'a)) \<Rightarrow> 'a io" where
  "with_manager f w = (case wd_manager w of
      None \<Rightarrow> (w, Inl (OtherError ''KeyError: manager''))
    | Some m \<Rightarrow> (case f (wd_tick w) m of
        (m', r) \<Rightarrow> (w\<lparr>wd_manager := Some m', wd_tick := Suc (wd_tick w)\<rparr>, r)))"

definition manager_base :: "AgentState \<Rightarrow> world \<Rightarrow> string" where
  "manager_base s w = (case wd_manager w of None \<Rightarrow> ''UNVERSIONED'' | Some m \<Rightarrow> base_commit_sha (st_run_id s) m)"

definition apply_io :: "env \<Rightarrow> AgentState \<Rightarrow> string \<Rightarrow> unit io" where
  "apply_io env s patch = with_manager (\<lambda>n m.
     apply_patch_run (en_numstat env n) (en_applied env n) (st_run_id s) patch m)"

definition replay_patch :: "env \<Rightarrow> AgentState \<Rightarrow> unit io" where
  "replay_patch env s w =
     (if st_patch_attempts s \<noteq> [] \<and> str_or (at_patch_diff (last (st_patch_attempts s))) None \<noteq> None
      then if at_base_commit_sha (last (st_patch_attempts s)) \<noteq> Some (manager_base s w)
           then (w, Inl (ValueError ''checkpoint patch base changed; revalidation required''))
           else apply_io env s (the (at_patch_diff (last (st_patch_attempts s)))) w
      else (w, Inr ()))"

text \<open>Whether there is a manager, with the state as \<open>create_sandbox_node_r\<close> left it.\<close>

definition ensure_workspace :: "env \<Rightarrow> bool \<Rightarrow> AgentState \<Rightarrow> (AgentState \<times> bool) io" where
  "ensure_workspace env replay s w =
     (if wd_manager w \<noteq> None then (w, Inr (s, True))
      else bind_io (create_sandbox_node env s) (\<lambda>s1.
        if st_status s1 \<noteq> RUNNING then return_io (s1, False)
        else bind_io (if replay then replay_patch env s1 else return_io ()) (\<lambda>_. return_io (s1, True))) w)"

section \<open>generate_patch\<close>

definition root_cause_json :: "RootCause \<Rightarrow> json" where
  "root_cause_json rc = JObj [(''summary'', JStr (rc_summary rc)), (''statement'', JStr (rc_summary rc)),
     (''fault_category'', JStr (rc_fault_category rc)), (''affected_component'', JStr (rc_affected_component rc)),
     (''causal_facts'', JList (map JStr (rc_causal_facts rc))),
     (''evidence_ids'', JList (map JStr (rc_evidence_ids rc))), (''confidence'', JStr (rc_confidence rc)),
     (''verified'', JBool (rc_verified rc))]"

definition opt_entry :: "string \<Rightarrow> string option \<Rightarrow> (string \<times> json) list" where
  "opt_entry k v = (case v of None \<Rightarrow> [] | Some x \<Rightarrow> [(k, JStr x)])"

definition fault_profile :: "env \<Rightarrow> string" where
  "fault_profile env = (if ss_sandbox_fault_type (en_sandbox env) \<noteq> [] then ''pytest_fault'' else ''pytest_regression'')"

text \<open>An earlier attempt as a model sees it; the duration of its tests is left out.\<close>

definition attempt_json :: "env \<Rightarrow> PatchAttempt \<Rightarrow> json" where
  "attempt_json env p = JObj ([(''attempt'', JInt (int (at_attempt p))), (''summary'', JStr (at_summary p))]
     @ opt_entry ''patch_diff'' (at_patch_diff p) @ opt_entry ''status'' (at_status p)
     @ opt_entry ''generator'' (at_generator p) @ opt_entry ''base_commit_sha'' (at_base_commit_sha p)
     @ (case at_test_run_id p of None \<Rightarrow> [] | Some i \<Rightarrow>
          [(''test_run_id'', JStr i), (''test_ok'', JBool (at_test_ok p)),
           (''test_exit_code'', case at_test_exit_code p of None \<Rightarrow> JNull | Some c \<Rightarrow> JInt c),
           (''test_mode'', str_or_null (at_test_mode p)), (''test_profile'', JStr (fault_profile env)),
           (''test_stdout'', JStr (at_test_stdout p)), (''test_stderr'', JStr (at_test_stderr p))])
     @ opt_entry ''reflection'' (at_reflection p))"

definition patch_context :: "env \<Rightarrow> AgentState \<Rightarrow> PatchAttempt list \<Rightarrow> json" where
  "patch_context env s previous = JObj
     [(''root_cause'', case st_root_cause s of None \<Rightarrow> JNull | Some rc \<Rightarrow> root_cause_json rc),
      (''supporting_evidence'', JList (map evidence_json (st_evidence s))),
      (''previous_attempts'', JList (map (attempt_json env) previous)),
      (''repository'', JStr (st_repository s))]"

definition new_attempt :: "AgentState \<Rightarrow> PatchAttempt" where
  "new_attempt s = \<lparr>at_attempt = length (st_patch_attempts s) + 1,
     at_summary = (case st_root_cause s of None \<Rightarrow> ''regression'' | Some rc \<Rightarrow> rc_summary rc),
     at_patch_diff = None, at_status = None, at_generator = None, at_error = None, at_base_commit_sha = None,
     at_test_run_id = None, at_test_ok = False, at_test_exit_code = None, at_test_mode = None,
     at_test_stdout = [], at_test_stderr = [], at_reflection = None\<rparr>"

definition change_last :: "(PatchAttempt \<Rightarrow> PatchAttempt) \<Rightarrow> AgentState \<Rightarrow> AgentState" where
  "change_last f s = s\<lparr>st_patch_attempts :=
     (if st_patch_attempts s = [] then [] else butlast (st_patch_attempts s) @ [f (last (st_patch_attempts s))])\<rparr>"

text \<open>The patch and its generator for the new last attempt of the state.\<close>

definition propose_patch :: "env \<Rightarrow> AgentState \<Rightarrow> (string \<times> string) io" where
  "propose_patch env s =
     (if dm_deterministic (en_decision env)
      then return_io (generate_deterministic_patch (at_summary (last (st_patch_attempts s))), ''deterministic-test-adapter'')
      else bind_io (ask (\<lambda>n. dm_patch (en_decision env) n (patch_context env s (butlast (st_patch_attempts s)))))
             (\<lambda>p. return_io (p, en_provider_name env @ '':'' @ en_model_name env)))"

definition try_patch :: "env \<Rightarrow> AgentState \<Rightarrow> string \<times> string \<Rightarrow> AgentState io" where
  "try_patch env s pg =
     catch_io (apply_io env s (fst pg))
       (\<lambda>e. return_io ((change_last (\<lambda>p. p\<lparr>at_status := Some ''apply_failed'', at_error := Some (message e)\<rparr>) s)
              \<lparr>st_status := FAILED, st_error := Some (''apply patch failed: '' @ message e)\<rparr>))
       (\<lambda>_ w. (w, Inr (change_last (\<lambda>p. p\<lparr>at_patch_diff := Some (fst pg), at_status := Some ''applied'',
              at_generator := Some (snd pg), at_base_commit_sha := Some (manager_base s w)\<rparr>) s)))"

text \<open>A second attempt drops the workspace of the first.\<close>

definition drop_runtime :: "AgentState \<Rightarrow> unit io" where
  "drop_runtime s w = (if st_patch_attempts s \<noteq> [] then w\<lparr>wd_manager := None, wd_test_ok := False\<rparr> else w, Inr ())"

definition base_changed :: "AgentState \<Rightarrow> world \<Rightarrow> bool" where
  "base_changed s w \<longleftrightarrow> st_patch_attempts s \<noteq> []
     \<and> at_base_commit_sha (hd (st_patch_attempts s)) \<noteq> Some (manager_base s w)"

definition generate_patch_node :: "env \<Rightarrow> AgentState \<Rightarrow> AgentState io" where
  "generate_patch_node env s =
     (let s1 = s\<lparr>st_workflow_state := W_GENERATE_PATCH\<rparr> in
      bind_io (drop_runtime s1) (\<lambda>_.
        bind_io (ensure_workspace env False s1) (\<lambda>(s2, ready) w.
          if ready \<and> base_changed s2 w then (w, Inl (ValueError ''base changed between patch attempts''))
          else if \<not> ready then (w, Inr (s2\<lparr>st_status := FAILED, st_error := Some ''sandbox manager missing''\<rparr>))
          else
            let s3 = s2\<lparr>st_patch_attempts := st_patch_attempts s2 @ [new_attempt s2]\<rparr> in
            if en_max_patch_attempts env < int (length (st_patch_attempts s3))
            then (w, Inr ((needs_human s3)\<lparr>st_error := Some ''max patch attempts exceeded''\<rparr>))
            else bind_io (propose_patch env s3) (try_patch env s3) w)))"

section \<open>run_tests\<close>

definition tests_io :: "env \<Rightarrow> AgentState \<Rightarrow> SandboxResult io" where
  "tests_io env s = with_manager (\<lambda>n m.
     (case run_tests_async (en_sandbox env) (en_process env n) (en_python env)
             (''ip-sandbox-'' @ en_new_id env n) (en_root env) (st_run_id s) (fault_profile env) m of
        (m', commands, r) \<Rightarrow> (m', r)))"

definition tested_attempt :: "string \<Rightarrow> string \<Rightarrow> SandboxResult \<Rightarrow> PatchAttempt \<Rightarrow> PatchAttempt" where
  "tested_attempt tid base r p = p\<lparr>at_test_run_id := Some tid, at_test_ok := sr_ok r,
     at_test_exit_code := Some (sr_exit_code r), at_base_commit_sha := Some base, at_test_mode := Some (sr_mode r),
     at_test_stdout := last_n 4000 (sr_stdout r), at_test_stderr := last_n 2000 (sr_stderr r),
     at_status := Some (if sr_ok r then ''TESTS_PASSED'' else ''TESTS_FAILED'')\<rparr>"

definition tested_result :: "env \<Rightarrow> string \<Rightarrow> SandboxResult \<Rightarrow> AgentState \<Rightarrow> AgentState" where
  "tested_result env tid r s =
     set_result ''test_exit_code'' (JInt (sr_exit_code r))
       (set_result ''test_scope'' (JStr (if ss_sandbox_fault_type (en_sandbox env) \<noteq> [] then ''fault-active''
            else ''healthy-regression-only''))
         (set_result ''test_mode'' (JStr (sr_mode r))
           (set_result ''test_status'' (JStr (if sr_ok r then ''PASSED'' else ''FAILED''))
             (set_result ''test_run_id'' (JStr tid) s))))"

definition run_tests_node :: "env \<Rightarrow> AgentState \<Rightarrow> AgentState io" where
  "run_tests_node env s =
     (let s1 = s\<lparr>st_workflow_state := W_RUN_TESTS\<rparr> in
      bind_io (ensure_workspace env True s1) (\<lambda>(s2, ready).
        if \<not> ready then return_io (s2\<lparr>st_status := FAILED\<rparr>)
        else catch_io (tests_io env s2)
          (\<lambda>e. return_io (s2\<lparr>st_status := FAILED, st_error := Some (''run tests failed: '' @ message e)\<rparr>))
          (\<lambda>r. bind_io (new_id env ''TR'') (\<lambda>tid w.
             (w\<lparr>wd_test_ok := sr_ok r\<rparr>,
              Inr (tested_result env tid r (change_last (tested_attempt tid (manager_base s2 w) r) s2)))))))"

section \<open>export_patch_artifact\<close>

definition last_patch :: "AgentState \<Rightarrow> string" where
  "last_patch s = (if st_patch_attempts s = [] then []
     else (case at_patch_diff (last (st_patch_attempts s)) of None \<Rightarrow> [] | Some p \<Rightarrow> p))"

definition result_str :: "string \<Rightarrow> AgentState \<Rightarrow> string" where
  "result_str k s = (case map_of (st_result s) k of Some (JStr v) \<Rightarrow> v | _ \<Rightarrow> [])"

definition exported :: "AgentState \<Rightarrow> PatchArtifactData \<Rightarrow> AgentState" where
  "exported s x =
     set_result ''patch_hash'' (JStr (xa_patch_hash x)) (set_result ''patch_artifact_id'' (JStr (xa_patch_artifact_id x))
       ((stop_as WAITING_APPROVAL W_WAIT_FOR_APPROVAL s)\<lparr>st_patch_artifact := Some x, st_approval_required := True\<rparr>))"

definition export_with_manager :: "env \<Rightarrow> AgentState \<Rightarrow> AgentState io" where
  "export_with_manager env s w =
     (if wd_manager w = None then (w, Inr (s\<lparr>st_status := FAILED\<rparr>)) else
      bind_io (with_manager (\<lambda>n m. (m, Inr (export_patch_artifact (en_sha env) (''PA-'' @ en_new_id env n)
                (base_commit_sha (st_run_id s) m) (last_patch s) (result_str ''test_run_id'' s)))))
       (\<lambda>x. bind_io (\<lambda>w. transaction env (\<lambda>now. persist_patch_artifact_once (en_claim env) now
                          (en_new_id env (wd_tick w)) (st_run_id s) x) w)
          (\<lambda>pid. bind_io (with_manager (\<lambda>n m. (destroy_workspace (st_run_id s) m, Inr ())))
             (\<lambda>_. return_io (exported s (x\<lparr>xa_patch_artifact_id := pid\<rparr>))))) w)"

definition export_artifact_node :: "env \<Rightarrow> AgentState \<Rightarrow> AgentState io" where
  "export_artifact_node env s w =
     (let s1 = s\<lparr>st_workflow_state := W_EXPORT_PATCH_ARTIFACT\<rparr> in
      if wd_manager w = None
      then bind_io (run_tests_node env s1) (\<lambda>s2 w2.
             if st_status s2 \<noteq> RUNNING \<or> \<not> wd_test_ok w2 then (w2, Inr (stop_as FAILED W_FAILED s2))
             else export_with_manager env s2 w2) w
      else export_with_manager env s1 w)"

section \<open>wait_for_approval\<close>

text \<open>
  The first visit raises \<open>interrupt\<close> and ends the invocation with the state as it is. On the resumed
  visit the outcome of \<open>resume_after_approval\<close> is put into the state.
\<close>

definition approval_outcome :: "outcome \<Rightarrow> AgentState \<Rightarrow> AgentState" where
  "approval_outcome oc s = s\<lparr>st_result := dict_merge (st_result s)
        (dict_merge [(''status'', JStr (run_status_value (o_status oc)))] (o_extra oc)),
     st_status := o_status oc,
     st_workflow_state := (if o_status oc = RESOLVED then W_RESOLVED else W_NEEDS_HUMAN_INTERVENTION)\<rparr>"

definition approval_decision_of :: "string \<Rightarrow> exn + ApprovalDecision" where
  "approval_decision_of v = (case find (\<lambda>d. decision_value d = v) [APPROVE, REJECT] of
      None \<Rightarrow> Inl (ValueError (v @ '' is not a valid ApprovalDecision'')) | Some d \<Rightarrow> Inr d)"

definition wait_for_approval_node ::
  "env \<Rightarrow> string \<Rightarrow> 'g pr_client \<Rightarrow> string \<Rightarrow> AgentState \<Rightarrow> db \<times> 'g \<Rightarrow> (db \<times> 'g) \<times> (exn + AgentState)" where
  "wait_for_approval_node env pk create decision s w =
     (case approval_decision_of decision of
        Inl e \<Rightarrow> (w, Inl e)
      | Inr dec \<Rightarrow>
          (case resume_after_approval (en_sha env) (en_claim env) (en_now env) pk create (st_run_id s) dec w of
             (w', Inl e) \<Rightarrow> (w', Inl e)
           | (w', Inr oc) \<Rightarrow> (w', Inr (approval_outcome oc s))))"

section \<open>The graph\<close>

datatype node = PLAN | COLLECT_EVIDENCE | FORM_HYPOTHESIS | VERIFY_HYPOTHESIS | CREATE_SANDBOX
  | GENERATE_PATCH | RUN_TESTS | REFLECT | EXPORT_PATCH_ARTIFACT | WAIT_FOR_APPROVAL | NEEDS_HUMAN

fun run_node :: "env \<Rightarrow> node \<Rightarrow> AgentState \<Rightarrow> AgentState io" where
  "run_node env PLAN s = plan_node env s"
| "run_node env COLLECT_EVIDENCE s = collect_evidence_node env s"
| "run_node env FORM_HYPOTHESIS s = form_hypothesis_node env s"
| "run_node env VERIFY_HYPOTHESIS s = verify_hypothesis_node env s"
| "run_node env CREATE_SANDBOX s = create_sandbox_node env s"
| "run_node env GENERATE_PATCH s = generate_patch_node env s"
| "run_node env RUN_TESTS s = run_tests_node env s"
| "run_node env REFLECT s = reflect_node s"
| "run_node env EXPORT_PATCH_ARTIFACT s = export_artifact_node env s"
| "run_node env WAIT_FOR_APPROVAL s = return_io s"
| "run_node env NEEDS_HUMAN s = needs_human_node s"

definition fence_io :: "env \<Rightarrow> AgentState \<Rightarrow> unit io" where
  "fence_io env s = transaction env (\<lambda>now d. (d, fence (en_claim env) now (st_run_id s) d))"

text \<open>The budget a recovered process has already spent.\<close>

definition recorded_steps :: "AgentState \<Rightarrow> int" where
  "recorded_steps s = (case map_of (st_result s) ''investigation_steps'' of Some (JInt i) \<Rightarrow> i | _ \<Rightarrow> 0)"

definition restore_budget :: "AgentState \<Rightarrow> BudgetTracker \<Rightarrow> BudgetTracker" where
  "restore_budget s b = b\<lparr>
     tool_call_count := max (tool_call_count b) (int (sum_list (map tl_attempt_count (st_tool_calls s)))),
     step_count := max (step_count b) (recorded_steps s)\<rparr>"

definition restore_io :: "AgentState \<Rightarrow> unit io" where
  "restore_io s w = (w\<lparr>wd_gateway := (wd_gateway w)\<lparr>gw_budget := restore_budget s (gw_budget (wd_gateway w))\<rparr>\<rparr>, Inr ())"

definition progress_io :: "env \<Rightarrow> AgentState \<Rightarrow> AgentState \<Rightarrow> AgentState io" where
  "progress_io env s s' =
     bind_io (transaction env (\<lambda>now. record_progress (en_claim env) now (st_run_id s)
                (st_workflow_state s') (st_plan s') (length (st_tool_calls s'))))
       (\<lambda>_. return_io s')"

definition guarded :: "env \<Rightarrow> node \<Rightarrow> AgentState \<Rightarrow> AgentState io" where
  "guarded env nd s =
     (if nd \<noteq> WAIT_FOR_APPROVAL \<and> st_status s \<noteq> RUNNING then return_io s
      else bind_io (fence_io env s) (\<lambda>_. bind_io (restore_io s) (\<lambda>_.
             bind_io (run_node env nd s) (\<lambda>s'.
               if nd = WAIT_FOR_APPROVAL then return_io s' else progress_io env s s'))))"

definition route_after_collect :: "AgentState \<Rightarrow> node option" where
  "route_after_collect s = (if st_status s \<noteq> RUNNING then None else Some FORM_HYPOTHESIS)"

definition route_after_verify :: "AgentState \<Rightarrow> world \<Rightarrow> node option" where
  "route_after_verify s w =
     (if st_status s \<noteq> RUNNING then None
      else if st_root_cause s \<noteq> None then Some CREATE_SANDBOX
      else if 0 < rejected_count s \<and> steps_left w \<and> rejected_count s < 3 then Some COLLECT_EVIDENCE
      else None)"

definition route_after_patch :: "AgentState \<Rightarrow> node option" where
  "route_after_patch s =
     (if st_status s = RUNNING \<and> st_patch_attempts s \<noteq> [] \<and> at_status (last (st_patch_attempts s)) = Some ''applied''
      then Some RUN_TESTS else Some NEEDS_HUMAN)"

definition route_after_tests :: "env \<Rightarrow> AgentState \<Rightarrow> world \<Rightarrow> node option" where
  "route_after_tests env s w =
     (if st_status s \<noteq> RUNNING then None
      else if wd_test_ok w then Some EXPORT_PATCH_ARTIFACT
      else if int (length (st_patch_attempts s)) < en_max_patch_attempts env then Some REFLECT
      else Some NEEDS_HUMAN)"

text \<open>The edges; \<open>None\<close> is \<open>END\<close>.\<close>

fun edge :: "env \<Rightarrow> node \<Rightarrow> AgentState \<Rightarrow> world \<Rightarrow> node option" where
  "edge env PLAN s w = Some COLLECT_EVIDENCE"
| "edge env COLLECT_EVIDENCE s w = route_after_collect s"
| "edge env FORM_HYPOTHESIS s w = (if st_status s = RUNNING then Some VERIFY_HYPOTHESIS else None)"
| "edge env VERIFY_HYPOTHESIS s w = route_after_verify s w"
| "edge env CREATE_SANDBOX s w = (if st_status s = RUNNING then Some GENERATE_PATCH else None)"
| "edge env GENERATE_PATCH s w = route_after_patch s"
| "edge env RUN_TESTS s w = route_after_tests env s w"
| "edge env REFLECT s w = Some GENERATE_PATCH"
| "edge env EXPORT_PATCH_ARTIFACT s w = Some WAIT_FOR_APPROVAL"
| "edge env WAIT_FOR_APPROVAL s w = None"
| "edge env NEEDS_HUMAN s w = None"

text \<open>
  The run of the graph from a node, until \<open>END\<close> or the interrupt. The fuel is the recursion limit,
  whose exhaustion raises.
\<close>

fun drive :: "nat \<Rightarrow> env \<Rightarrow> node \<Rightarrow> AgentState \<Rightarrow> AgentState io" where
  "drive 0 env nd s w = (w, Inl (OtherError ''GraphRecursionError''))"
| "drive (Suc n) env nd s w = bind_io (guarded env nd s)
     (\<lambda>s' w'. case edge env nd s' w' of None \<Rightarrow> (w', Inr s') | Some nd' \<Rightarrow> drive n env nd' s' w') w"

definition RECURSION_LIMIT :: nat where
  "RECURSION_LIMIT = 50"

text \<open>
  A checkpoint is the next node and the state before it. \<open>finally\<close> destroys the workspace.
\<close>

definition run_with_langgraph :: "env \<Rightarrow> (node \<times> AgentState) option \<Rightarrow> AgentState \<Rightarrow> AgentState io" where
  "run_with_langgraph env checkpoint s w =
     (let (nd, s0) = (case checkpoint of None \<Rightarrow> (PLAN, s) | Some c \<Rightarrow> c) in
      case drive RECURSION_LIMIT env nd s0 w of
        (w', r) \<Rightarrow>
          (w'\<lparr>wd_manager := map_option (destroy_workspace (st_run_id s)) (wd_manager w')\<rparr>,
           map_sum id (set_result ''token_usage'' (en_usage env (wd_tick w'))) r))"

fun is_LostLeaseError :: "exn \<Rightarrow> bool" where
  "is_LostLeaseError (LostLeaseError m) = True"
| "is_LostLeaseError _ = False"

definition fallback_state :: "exn \<Rightarrow> AgentState \<Rightarrow> AgentState" where
  "fallback_state e s = (stop_as FAILED W_FAILED s)
     \<lparr>st_error := Some (''graph execution failed: '' @ message e), st_result := [(''fallback'', JBool True)]\<rparr>"

definition execute_graph :: "env \<Rightarrow> (node \<times> AgentState) option \<Rightarrow> AgentState \<Rightarrow> AgentState io" where
  "execute_graph env checkpoint s =
     catch_io (run_with_langgraph env checkpoint s)
       (\<lambda>e. if is_LostLeaseError e then raise_io e else return_io (fallback_state e s)) return_io"

section \<open>run_agent_workflow\<close>

definition initial_state :: "Incident \<Rightarrow> AgentRun \<Rightarrow> AgentState" where
  "initial_state inc run = \<lparr>st_run_id = ar_run_id run, st_incident_id = inc_incident_id inc,
     st_incident_title = inc_title inc, st_service = inc_service inc, st_symptom = inc_symptom inc,
     st_environment = inc_environment inc, st_repository = inc_repository inc,
     st_workflow_state = W_INCIDENT_RECEIVED, st_plan = [], st_evidence = [], st_hypotheses = [],
     st_root_cause = None, st_tool_calls = [], st_patch_attempts = [], st_patch_artifact = None,
     st_approval_required = False, st_status = RUNNING, st_error = None, st_result = [],
     st_trace_id = ar_trace_id run\<rparr>"

definition final_update :: "AgentState \<Rightarrow> status_update" where
  "final_update s = \<lparr>u_workflow_state = Some (st_workflow_state s), u_error = st_error s,
     u_result = Some (dict_set ''hypotheses'' (JList (map hypothesis_json' (st_hypotheses s))) (st_result s)),
     u_root_cause = map_option root_cause_json (st_root_cause s),
     u_finished = (st_status s \<in> TERMINAL_RUN_STATUSES)\<rparr>"

definition save_outcome :: "env \<Rightarrow> AgentRun \<Rightarrow> AgentState \<Rightarrow> AgentState io" where
  "save_outcome env run s =
     bind_io (\<lambda>w. transaction env (\<lambda>now. persist_outcome (en_sha env) (en_claim env) now
                (\<lambda>p. en_new_id env (wd_tick w) @ show_nat (at_attempt p)) run (st_plan s) (length (st_tool_calls s)) (st_patch_attempts s)) w)
       (\<lambda>_. bind_io (transaction env (\<lambda>now. mark_status (en_claim env) now run (st_status s) (final_update s)))
          (\<lambda>_. return_io s))"

definition run_agent_workflow ::
  "env \<Rightarrow> string \<Rightarrow> string \<Rightarrow> bool \<Rightarrow> (node \<times> AgentState) option \<Rightarrow> AgentState io" where
  "run_agent_workflow env incident_pk run_id recover checkpoint w =
     (case (get_incident incident_pk (wd_db w), get_run_by_run_id run_id (wd_db w)) of
        (Some inc, Some run) \<Rightarrow>
          bind_io (transaction env (\<lambda>now. mark_running (en_claim env) now run))
            (\<lambda>run1. bind_io (execute_graph env (if recover then checkpoint else None) (initial_state inc run1))
               (save_outcome env run1)) w
      | _ \<Rightarrow> (w, Inl (ValueError ''incident or run not found'')))"

section \<open>resume_agent_workflow\<close>

text \<open>
  The resume of the interrupted run: \<open>checkpoint\<close> is the state the interrupt kept. \<open>guarded\<close> fences and
  then visits the node, with the clock moved on.
\<close>

definition resume_agent_workflow ::
  "env \<Rightarrow> string \<Rightarrow> 'g pr_client \<Rightarrow> AgentState option \<Rightarrow> string \<Rightarrow> string \<Rightarrow> db \<times> 'g
     \<Rightarrow> (db \<times> 'g) \<times> (exn + AgentState)" where
  "resume_agent_workflow env pk create checkpoint run_id decision w =
     (case get_run_by_run_id run_id (fst w) of
        None \<Rightarrow> (w, Inl (ValueError (''run not found: '' @ run_id)))
      | Some run \<Rightarrow>
          (case get_incident (ar_incident_pk run) (fst w) of
             None \<Rightarrow> (w, Inl (ValueError (''incident missing for run: '' @ run_id)))
           | Some inc \<Rightarrow>
               (case checkpoint of
                  None \<Rightarrow> (w, Inl (ValueError ''approval checkpoint missing; automatic resume denied''))
                | Some s \<Rightarrow>
                    (case fence (en_claim env) (en_now env 0) run_id (fst w) of
                       Inl e \<Rightarrow> (w, Inl e)
                     | Inr _ \<Rightarrow>
                         (case wait_for_approval_node (env\<lparr>en_now := (\<lambda>n. en_now env (Suc n))\<rparr>) pk create decision s w of
                            (w', r) \<Rightarrow> (w', map_sum id (set_result ''token_usage'' (en_usage env 0)) r))))))"

end
