(* ===== verification/GatewayProps.thy ===== *)
theory GatewayProps
  imports Gateway
begin

text \<open>
  What the gateway promises about every call: nothing runs unless it is registered, within budget and
  valid; every execution is charged once; only failures that may pass are retried, with bounded
  delays; what leaves it is redacted.
\<close>

section \<open>The retry loop\<close>

lemma audit_simps [simp]:
  "gw_budget (audit ev g) = gw_budget g" "gw_registry (audit ev g) = gw_registry g"
  by (simp_all add: audit_def)

definition outcome_executed :: "attempts_outcome \<Rightarrow> nat" where
  "outcome_executed oc = (case oc of Succeeded _ n \<Rightarrow> n | Gave_up _ _ _ n _ \<Rightarrow> n)"

definition within_budget :: "BudgetTracker \<Rightarrow> bool" where
  "within_budget b \<longleftrightarrow> tool_call_count b \<le> max_tool_calls b"

text \<open>
  The accounting of the loop. The first execution was charged before the loop, which the offset
  \<open>pre\<close> stands for.
\<close>

definition pre_charged :: "nat \<Rightarrow> int" where
  "pre_charged attempt = (if attempt = 0 then 1 else 0)"

lemma attempt_loop_run:
  assumes "\<not> (0 < attempt \<and> \<not> can_call_tool (gw_budget g))"
  shows "attempt_loop spec h jitter ev args (Suc left) attempt executed g =
    (case run_handler h executed args of
       Inr out \<Rightarrow> (audit (ev ''tool_succeeded'' @ [(''attempt'', JInt (int attempt))]) (charge_retry attempt g), [],
                  Succeeded out (executed + 1))
     | Inl e \<Rightarrow> (case failure spec e of (st, err, cat) \<Rightarrow>
         let g2 = audit (ev ''tool_attempt_failed'' @ [(''attempt'', JInt (int attempt + 1)),
                    (''error_category'', JStr cat)]) (charge_retry attempt g)
         in if cat \<notin> set RETRYABLE \<or> left = 0
            then (g2, [], Gave_up st err cat (executed + 1) attempt)
            else (case attempt_loop spec h jitter ev args left (attempt + 1) (executed + 1) g2 of
                    (g3, ds, oc) \<Rightarrow> (g3, retry_delay attempt (jitter attempt) # ds, oc))))"
  by (subst attempt_loop.simps) (simp only: assms if_False Let_def)

declare attempt_loop.simps [simp del]

lemma attempt_loop_cut:
  assumes "0 < attempt \<and> \<not> can_call_tool (gw_budget g)"
  shows "attempt_loop spec h jitter ev args (Suc left) attempt executed g
    = (g, [], Gave_up T_DENIED ''retry budget exhausted'' ''budget'' executed attempt)"
  by (subst attempt_loop.simps) (simp only: assms simp_thms if_True)

lemma charge_retry_facts:
  assumes "\<not> (0 < attempt \<and> \<not> can_call_tool (gw_budget g))" and "within_budget (gw_budget g)"
  shows "within_budget (gw_budget (charge_retry attempt g))"
    "gw_registry (charge_retry attempt g) = gw_registry g"
    "tool_call_count (gw_budget (charge_retry attempt g)) = tool_call_count (gw_budget g) + 1 - pre_charged attempt"
    "max_tool_calls (gw_budget (charge_retry attempt g)) = max_tool_calls (gw_budget g)"
    "max_steps (gw_budget (charge_retry attempt g)) = max_steps (gw_budget g)"
    "step_count (gw_budget (charge_retry attempt g)) = step_count (gw_budget g)"
  using assms
  by (auto simp: charge_retry_def within_budget_def can_call_tool_def record_tool_call_def pre_charged_def)

lemma attempt_loop_accounts:
  assumes "attempt_loop spec h jitter ev args left attempt executed g = (g', ds, oc)" and "0 < left"
    and "within_budget (gw_budget g)"
  shows "tool_call_count (gw_budget g') - tool_call_count (gw_budget g)
      = int (outcome_executed oc) - int executed - pre_charged attempt
    \<and> outcome_executed oc \<le> executed + left
    \<and> max_tool_calls (gw_budget g') = max_tool_calls (gw_budget g)
    \<and> max_steps (gw_budget g') = max_steps (gw_budget g) \<and> step_count (gw_budget g') = step_count (gw_budget g)
    \<and> within_budget (gw_budget g') \<and> gw_registry g' = gw_registry g"
  using assms
proof (induction left arbitrary: attempt executed g g' ds oc)
  case 0
  then show ?case by simp
next
  case (Suc left)
  show ?case
  proof (cases "0 < attempt \<and> \<not> can_call_tool (gw_budget g)")
    case True
    then have "pre_charged attempt = 0" by (simp add: pre_charged_def)
    with Suc.prems attempt_loop_cut [OF True, of spec h jitter ev args left executed] show ?thesis
      by (auto simp: outcome_executed_def)
  next
    case False
    note run = Suc.prems(1) [unfolded attempt_loop_run [OF False]]
    note g1 = charge_retry_facts [OF False Suc.prems(3)]
    show ?thesis
    proof (cases "run_handler h executed args")
      case (Inr out)
      with run g1 show ?thesis by (auto simp: outcome_executed_def)
    next
      case (Inl e)
      obtain st err cat where f: "failure spec e = (st, err, cat)" by (cases "failure spec e")
      show ?thesis
      proof (cases "cat \<notin> set RETRYABLE \<or> left = 0")
        case True
        with run Inl f g1 show ?thesis by (auto simp: outcome_executed_def)
      next
        case more: False
        define g2 where "g2 = audit (ev ''tool_attempt_failed'' @ [(''attempt'', JInt (int attempt + 1)),
                          (''error_category'', JStr cat)]) (charge_retry attempt g)"
        obtain g3 ds3 oc3 where rec: "attempt_loop spec h jitter ev args left (attempt + 1) (executed + 1) g2
            = (g3, ds3, oc3)"
          by (cases "attempt_loop spec h jitter ev args left (attempt + 1) (executed + 1) g2")
        have "g' = g3" "oc = oc3"
          using run Inl f more rec by (auto simp: g2_def [symmetric])
        moreover have "pre_charged (attempt + 1) = 0" by (simp add: pre_charged_def)
        ultimately show ?thesis using Suc.IH [OF rec] more g1 by (simp add: g2_def)
      qed
    qed
  qed
qed

text \<open>An execution that fails in a way that may pass.\<close>

definition passing_failure :: "ToolSpec \<Rightarrow> exn + (string \<times> json) list \<Rightarrow> bool" where
  "passing_failure spec r = (case r of Inl e \<Rightarrow> snd (snd (failure spec e)) \<in> set RETRYABLE | Inr _ \<Rightarrow> False)"

definition outcome_explained ::
  "ToolSpec \<Rightarrow> handler \<Rightarrow> (string \<times> json) list \<Rightarrow> nat \<Rightarrow> nat \<Rightarrow> attempts_outcome \<Rightarrow> bool" where
  "outcome_explained spec h args executed left oc = (case oc of
      Succeeded out n \<Rightarrow> executed < n \<and> run_handler h (n - 1) args = Inr out
    | Gave_up st err cat n _ \<Rightarrow>
        (st, err, cat) = (T_DENIED, ''retry budget exhausted'', ''budget'') \<and> executed \<le> n
        \<or> executed < n \<and> (\<exists>e. run_handler h (n - 1) args = Inl e \<and> failure spec e = (st, err, cat))
          \<and> (cat \<in> set RETRYABLE \<longrightarrow> n = executed + left))"

lemma outcome_explained_later:
  "outcome_explained spec h args (executed + 1) left oc \<Longrightarrow> outcome_explained spec h args executed (Suc left) oc"
  by (auto simp: outcome_explained_def split: attempts_outcome.splits)

lemma attempt_loop_history:
  assumes "attempt_loop spec h jitter ev args left attempt executed g = (g', ds, oc)" and "0 < left"
  shows "outcome_explained spec h args executed left oc
    \<and> (\<forall>k. executed \<le> k \<and> k + 1 < outcome_executed oc \<longrightarrow> passing_failure spec (run_handler h k args))
    \<and> (\<forall>x \<in> set ds. \<exists>k. x = retry_delay k (jitter k))"
  using assms
proof (induction left arbitrary: attempt executed g g' ds oc)
  case 0
  then show ?case by simp
next
  case (Suc left)
  show ?case
  proof (cases "0 < attempt \<and> \<not> can_call_tool (gw_budget g)")
    case True
    with Suc.prems attempt_loop_cut [OF True, of spec h jitter ev args left executed] show ?thesis
      by (auto simp: outcome_executed_def outcome_explained_def)
  next
    case False
    note run = Suc.prems(1) [unfolded attempt_loop_run [OF False]]
    show ?thesis
    proof (cases "run_handler h executed args")
      case (Inr out)
      with run show ?thesis by (auto simp: outcome_executed_def outcome_explained_def)
    next
      case (Inl e)
      obtain st err cat where f: "failure spec e = (st, err, cat)" by (cases "failure spec e")
      show ?thesis
      proof (cases "cat \<notin> set RETRYABLE \<or> left = 0")
        case True
        with run Inl f show ?thesis by (auto simp: outcome_executed_def outcome_explained_def)
      next
        case more: False
        define g2 where "g2 = audit (ev ''tool_attempt_failed'' @ [(''attempt'', JInt (int attempt + 1)),
                          (''error_category'', JStr cat)]) (charge_retry attempt g)"
        obtain g3 ds3 oc3 where rec: "attempt_loop spec h jitter ev args left (attempt + 1) (executed + 1) g2
            = (g3, ds3, oc3)"
          by (cases "attempt_loop spec h jitter ev args left (attempt + 1) (executed + 1) g2")
        have eq: "ds = retry_delay attempt (jitter attempt) # ds3" "oc = oc3"
          using run Inl f more rec by (auto simp: g2_def [symmetric])
        have first: "passing_failure spec (run_handler h executed args)"
          using Inl f more by (simp add: passing_failure_def)
        note ih = Suc.IH [OF rec]
        have "passing_failure spec (run_handler h k args)"
          if "executed \<le> k" "k + 1 < outcome_executed oc" for k
          using that first ih more eq by (cases "k = executed") auto
        then show ?thesis using ih more eq by (auto intro: outcome_explained_later)
      qed
    qed
  qed
qed

section \<open>Calls\<close>

text \<open>A call that reaches the handler: registered, within budget, valid.\<close>

definition admitted :: "string \<Rightarrow> json \<Rightarrow> ToolGateway \<Rightarrow> ToolSpec \<Rightarrow> (string \<times> json) list \<Rightarrow> bool" where
  "admitted name payload g spec args \<longleftrightarrow> registry_get name (gw_registry g) = Some spec
     \<and> can_call_tool (gw_budget g) \<and> validate_input spec payload = Inr args"

lemma call_not_admitted:
  assumes "\<nexists>spec args. admitted name payload g spec args"
  shows "\<exists>g' res. (\<forall>h jitter. call h jitter tcid run_id trace_id name payload g = (g', [], res))
    \<and> gw_budget g' = gw_budget g \<and> gw_registry g' = gw_registry g
    \<and> (\<forall>r. res = Inr r \<longrightarrow> tl_status r \<in> {T_DENIED, T_FAILED} \<and> tl_attempt_count r = 0 \<and> tl_output r = [])"
proof (cases "registry_get name (gw_registry g)")
  case None
  then show ?thesis by (auto simp: call_def Let_def tool_result_def)
next
  case (Some spec)
  show ?thesis
  proof (cases "can_call_tool (gw_budget g)")
    case False
    with Some show ?thesis by (auto simp: call_def Let_def tool_result_def)
  next
    case True
    with Some assms obtain e where "validate_input spec payload = Inl e"
      by (cases "validate_input spec payload") (auto simp: admitted_def)
    with Some True show ?thesis by (auto simp: call_def Let_def tool_result_def)
  qed
qed

lemma call_admitted:
  assumes "admitted name payload g spec args"
  obtains g' ds oc where
    "attempt_loop spec h jitter (\<lambda>e. call_event e tcid name run_id trace_id) args (ts_max_retries spec + 1) 0 0
       (g\<lparr>gw_budget := record_tool_call (gw_budget g)\<rparr>) = (g', ds, oc)"
    "case call h jitter tcid run_id trace_id name payload g of (g2, ds2, res) \<Rightarrow>
       gw_budget g2 = gw_budget g' \<and> gw_registry g2 = gw_registry g' \<and> ds2 = ds
       \<and> res = Inr (case oc of
           Succeeded out n \<Rightarrow> tool_result tcid name trace_id T_SUCCEEDED (redact_dict out) None
                                (redact 0 (JObj args)) n None
         | Gave_up st err cat n _ \<Rightarrow> tool_result tcid name trace_id st [] (Some err) (redact 0 (JObj args)) n (Some cat))"
proof -
  obtain g' ds oc where l: "attempt_loop spec h jitter (\<lambda>e. call_event e tcid name run_id trace_id) args
      (ts_max_retries spec + 1) 0 0 (g\<lparr>gw_budget := record_tool_call (gw_budget g)\<rparr>) = (g', ds, oc)"
    by (metis surj_pair)
  show ?thesis
    by (rule that [OF l]) (use assms l in \<open>auto simp: call_def admitted_def split: attempts_outcome.splits\<close>)
qed

lemma admitted_returns:
  assumes "admitted name payload g spec args"
  shows "\<exists>g' ds r. call h jitter tcid run_id trace_id name payload g = (g', ds, Inr r)"
  by (rule call_admitted [OF assms, of h jitter tcid run_id trace_id])
    (cases "call h jitter tcid run_id trace_id name payload g", auto)

text \<open>
  The gate. A call of a tool that is not registered, that is over budget or whose input does not
  validate never reaches a handler: whatever the handlers would do, the answer is the same, it is
  a denial or a validation failure with no output (or the raised comparison error), no execution is
  charged and nothing is slept.
\<close>

theorem call_gated:
  assumes "\<nexists>spec args. admitted name payload g spec args"
  shows "call h jitter tcid run_id trace_id name payload g = call h' jitter' tcid run_id trace_id name payload g
    \<and> gw_budget (fst (call h jitter tcid run_id trace_id name payload g)) = gw_budget g
    \<and> fst (snd (call h jitter tcid run_id trace_id name payload g)) = []
    \<and> (case snd (snd (call h jitter tcid run_id trace_id name payload g)) of
        Inl e \<Rightarrow> \<not> is_ValueError e
      | Inr r \<Rightarrow> tl_status r \<in> {T_DENIED, T_FAILED} \<and> tl_output r = [] \<and> tl_attempt_count r = 0)"
proof (cases "registry_get name (gw_registry g)")
  case None
  then show ?thesis by (simp add: call_def Let_def tool_result_def)
next
  case (Some spec)
  show ?thesis
  proof (cases "can_call_tool (gw_budget g)")
    case False
    with Some show ?thesis by (simp add: call_def Let_def tool_result_def)
  next
    case True
    with Some assms obtain e where "validate_input spec payload = Inl e"
      by (cases "validate_input spec payload") (auto simp: admitted_def)
    with Some True show ?thesis by (simp add: call_def Let_def tool_result_def)
  qed
qed

definition demo_spec :: ToolSpec where
  "demo_spec = \<lparr>ts_name = ''read_logs'', ts_category = ''readonly_external'', ts_timeout = (300, 1),
     ts_max_retries = 1, ts_required = [''service''],
     ts_properties = [(''service'', Some ''string''), (''limit'', Some ''integer'')], ts_additional = Some False\<rparr>"

definition demo_gateway :: ToolGateway where
  "demo_gateway = \<lparr>gw_registry = [(''read_logs'', demo_spec)], gw_budget = new_budget 2 5, gw_audit_log = []\<rparr>"

lemma call_gated_witness:
  "call (\<lambda>n args. Inr (JObj [(''ok'', JBool True)])) (\<lambda>_. 0) ''TC'' ''r'' ''t'' ''rm_rf'' (JObj []) demo_gateway
   = call (\<lambda>n args. Inl (TimeoutError [])) (\<lambda>_. 1) ''TC'' ''r'' ''t'' ''rm_rf'' (JObj []) demo_gateway"
  using call_gated [of "''rm_rf''" "JObj []" demo_gateway "\<lambda>n args. Inr (JObj [(''ok'', JBool True)])" "\<lambda>_. 0"
      "''TC''" "''r''" "''t''" "\<lambda>n args. Inl (TimeoutError [])" "\<lambda>_. 1"]
  by (simp add: admitted_def registry_get_def demo_gateway_def)

lemma call_accounts:
  assumes "within_budget (gw_budget g)"
    and "call h jitter tcid run_id trace_id name payload g = (g', ds, Inr r)"
  shows "within_budget (gw_budget g')
    \<and> tool_call_count (gw_budget g') = tool_call_count (gw_budget g) + int (tl_attempt_count r)
    \<and> tl_attempt_count r \<le> (case registry_get name (gw_registry g) of None \<Rightarrow> 0 | Some s \<Rightarrow> ts_max_retries s + 1)
    \<and> max_tool_calls (gw_budget g') = max_tool_calls (gw_budget g)
    \<and> max_steps (gw_budget g') = max_steps (gw_budget g) \<and> step_count (gw_budget g') = step_count (gw_budget g)
    \<and> gw_registry g' = gw_registry g"
proof (cases "\<exists>spec args. admitted name payload g spec args")
  case False
  obtain g2 res where c: "\<forall>h jitter. call h jitter tcid run_id trace_id name payload g = (g2, [], res)"
      "gw_budget g2 = gw_budget g" "gw_registry g2 = gw_registry g"
      "\<forall>r. res = Inr r \<longrightarrow> tl_status r \<in> {T_DENIED, T_FAILED} \<and> tl_attempt_count r = 0 \<and> tl_output r = []"
    using call_not_admitted [OF False, of tcid run_id trace_id] by blast
  with assms have "g' = g2" "tl_attempt_count r = 0" by auto
  with c assms(1) show ?thesis by simp
next
  case True
  then obtain spec args where ad: "admitted name payload g spec args" by blast
  obtain g1 ds1 oc where l: "attempt_loop spec h jitter (\<lambda>e. call_event e tcid name run_id trace_id) args
      (ts_max_retries spec + 1) 0 0 (g\<lparr>gw_budget := record_tool_call (gw_budget g)\<rparr>) = (g1, ds1, oc)"
    and c: "case call h jitter tcid run_id trace_id name payload g of (g2, ds2, res) \<Rightarrow>
       gw_budget g2 = gw_budget g1 \<and> gw_registry g2 = gw_registry g1 \<and> ds2 = ds1
       \<and> res = Inr (case oc of
           Succeeded out n \<Rightarrow> tool_result tcid name trace_id T_SUCCEEDED (redact_dict out) None
                                (redact 0 (JObj args)) n None
         | Gave_up st err cat n _ \<Rightarrow> tool_result tcid name trace_id st [] (Some err) (redact 0 (JObj args)) n (Some cat))"
    by (rule call_admitted [OF ad])
  have "within_budget (gw_budget (g\<lparr>gw_budget := record_tool_call (gw_budget g)\<rparr>))"
    using ad by (simp add: admitted_def can_call_tool_def within_budget_def record_tool_call_def)
  note acc = attempt_loop_accounts [OF l _ this]
  have "tl_attempt_count r = outcome_executed oc"
    using c assms(2) by (auto simp: outcome_executed_def tool_result_def split: attempts_outcome.splits)
  with acc c assms(2) ad show ?thesis
    by (simp add: admitted_def record_tool_call_def pre_charged_def)
qed

text \<open>
  The budget. A call that starts within the budget of tool calls ends within it; the counter grows
  by exactly the executions the result reports, at most one more than the retries of the tool; the
  limits, the step counter and the registry are left alone.
\<close>

theorem call_charges_executions:
  assumes "within_budget (gw_budget g)"
    and "call h jitter tcid run_id trace_id name payload g = (g', ds, Inr r)"
  shows "within_budget (gw_budget g')
    \<and> tool_call_count (gw_budget g') = tool_call_count (gw_budget g) + int (tl_attempt_count r)
    \<and> tl_attempt_count r \<le> (case registry_get name (gw_registry g) of None \<Rightarrow> 0 | Some s \<Rightarrow> ts_max_retries s + 1)
    \<and> max_tool_calls (gw_budget g') = max_tool_calls (gw_budget g)
    \<and> max_steps (gw_budget g') = max_steps (gw_budget g) \<and> step_count (gw_budget g') = step_count (gw_budget g)
    \<and> gw_registry g' = gw_registry g"
  by (rule call_accounts [OF assms])

lemma call_charges_executions_witness:
  "\<exists>g' ds r. call (\<lambda>n args. Inl (TimeoutError [])) (\<lambda>_. 0) ''TC'' ''r'' ''t'' ''read_logs''
       (JObj [(''service'', JStr ''orders'')]) demo_gateway = (g', ds, Inr r)
     \<and> within_budget (gw_budget g') \<and> tool_call_count (gw_budget g') = int (tl_attempt_count r)"
proof -
  have "admitted ''read_logs'' (JObj [(''service'', JStr ''orders'')]) demo_gateway demo_spec [(''service'', JStr ''orders'')]"
    by code_simp
  from admitted_returns [OF this] obtain g' ds r where
      c: "call (\<lambda>n args. Inl (TimeoutError [])) (\<lambda>_. 0) ''TC'' ''r'' ''t'' ''read_logs''
       (JObj [(''service'', JStr ''orders'')]) demo_gateway = (g', ds, Inr r)"
    by blast
  have "within_budget (gw_budget demo_gateway)" "tool_call_count (gw_budget demo_gateway) = 0"
    by (simp_all add: demo_gateway_def new_budget_def within_budget_def)
  with call_charges_executions [OF _ c] c show ?thesis by auto
qed

section \<open>Retries\<close>

lemma retry_delay_bounds:
  assumes "0 \<le> jitter" and "jitter \<le> 1"
  shows "0 < retry_delay k jitter \<and> retry_delay k jitter \<le> 15 / 2"
proof -
  have p: "(0::rat) < min 5 (2 ^ k / 4)" by simp
  have "min 5 (2 ^ k / 4) * (1 / 2 + jitter) \<le> 5 * (3 / 2)"
    by (rule mult_mono) (use assms in auto)
  with p assms(1) show ?thesis by (simp add: retry_delay_def)
qed

text \<open>
  Retries. When a call reaches its handler, every execution but the last failed in a way that may
  pass (a timeout, a connection or server failure, a rate limit). A success is the redacted output of
  the last execution. A failure is the last execution's failure, and it either may not pass or used
  up the last retry, unless the budget cut the retries short. Every delay is positive and at most
  seven and a half seconds when the jitter lies between 0 and 1.
\<close>

theorem call_retries_correct:
  assumes "admitted name payload g spec args" and "\<And>k. 0 \<le> jitter k \<and> jitter k \<le> 1"
    and "call h jitter tcid run_id trace_id name payload g = (g', ds, Inr r)"
  shows "(\<forall>k. k + 1 < tl_attempt_count r \<longrightarrow> passing_failure spec (run_handler h k args))
    \<and> (case tl_status r of
        T_SUCCEEDED \<Rightarrow> \<exists>out. run_handler h (tl_attempt_count r - 1) args = Inr out \<and> tl_output r = redact_dict out
      | st \<Rightarrow> tl_output r = [] \<and>
          (st = T_DENIED \<and> tl_error_category r = Some ''budget''
           \<or> (\<exists>e err cat. run_handler h (tl_attempt_count r - 1) args = Inl e \<and> failure spec e = (st, err, cat)
                \<and> tl_error r = Some err \<and> tl_error_category r = Some cat
                \<and> (cat \<in> set RETRYABLE \<longrightarrow> tl_attempt_count r = ts_max_retries spec + 1))))
    \<and> (\<forall>x \<in> set ds. 0 < x \<and> x \<le> 15 / 2)"
proof -
  obtain g1 ds1 oc where l: "attempt_loop spec h jitter (\<lambda>e. call_event e tcid name run_id trace_id) args
      (ts_max_retries spec + 1) 0 0 (g\<lparr>gw_budget := record_tool_call (gw_budget g)\<rparr>) = (g1, ds1, oc)"
    and c: "case call h jitter tcid run_id trace_id name payload g of (g2, ds2, res) \<Rightarrow>
       gw_budget g2 = gw_budget g1 \<and> gw_registry g2 = gw_registry g1 \<and> ds2 = ds1
       \<and> res = Inr (case oc of
           Succeeded out n \<Rightarrow> tool_result tcid name trace_id T_SUCCEEDED (redact_dict out) None
                                (redact 0 (JObj args)) n None
         | Gave_up st err cat n _ \<Rightarrow> tool_result tcid name trace_id st [] (Some err) (redact 0 (JObj args)) n (Some cat))"
    by (rule call_admitted [OF assms(1)])
  have hist: "outcome_explained spec h args 0 (ts_max_retries spec + 1) oc"
      "\<And>k. k + 1 < outcome_executed oc \<Longrightarrow> passing_failure spec (run_handler h k args)"
      "\<And>x. x \<in> set ds1 \<Longrightarrow> \<exists>k. x = retry_delay k (jitter k)"
    using attempt_loop_history [OF l] by auto
  have delays: "\<forall>x \<in> set ds1. 0 < x \<and> x \<le> 15 / 2"
    using hist(3) retry_delay_bounds assms(2) by metis
  have fst_fail: "fst (failure spec e) \<noteq> T_SUCCEEDED" for e by (cases e) (simp_all add: failure_def)
  show ?thesis
  proof (cases oc)
    case (Succeeded out n)
    with c assms(3) hist delays show ?thesis
      by (auto simp: tool_result_def outcome_explained_def outcome_executed_def)
  next
    case (Gave_up st err cat n att)
    then have r: "tl_status r = st" "tl_output r = []" "tl_error r = Some err" "tl_error_category r = Some cat"
        "tl_attempt_count r = n" "ds = ds1"
      using c assms(3) by (auto simp: tool_result_def)
    have "st = T_DENIED \<and> cat = ''budget'' \<or> (\<exists>e. run_handler h (n - 1) args = Inl e \<and> failure spec e = (st, err, cat))
        \<and> (cat \<in> set RETRYABLE \<longrightarrow> n = ts_max_retries spec + 1)"
      using hist(1) Gave_up by (auto simp: outcome_explained_def)
    moreover from this have "st \<noteq> T_SUCCEEDED" using fst_fail by (metis ToolCallStatus.distinct(13) fst_conv)
    ultimately show ?thesis
      using r hist(2) delays Gave_up by (cases st) (auto simp: outcome_executed_def)
  qed
qed

lemma demo_admitted_call:
  "admitted ''read_logs'' (JObj [(''service'', JStr ''orders'')]) demo_gateway demo_spec [(''service'', JStr ''orders'')]"
  by code_simp

definition demo_handler :: handler where
  "demo_handler n args = (if n = 0 then Inl (TimeoutError []) else Inr (JObj [(''token'', JStr ''x''), (''logs'', JStr ''ok'')]))"

lemma call_retries_correct_witness:
  "\<exists>g' ds r. call demo_handler (\<lambda>_. 1 / 2) ''TC'' ''r'' ''t'' ''read_logs''
       (JObj [(''service'', JStr ''orders'')]) demo_gateway = (g', ds, Inr r)
     \<and> list_all (\<lambda>x. 0 < x \<and> x \<le> 15 / 2) ds"
proof -
  obtain g' ds r where c: "call demo_handler (\<lambda>_. 1 / 2) ''TC'' ''r'' ''t'' ''read_logs''
       (JObj [(''service'', JStr ''orders'')]) demo_gateway = (g', ds, Inr r)"
    using admitted_returns [OF demo_admitted_call] by blast
  from call_retries_correct [OF demo_admitted_call _ c] c show ?thesis by (auto simp: list_all_iff)
qed

section \<open>What leaves the gateway\<close>

definition audit_ok :: "ToolGateway \<Rightarrow> bool" where
  "audit_ok g \<longleftrightarrow> length (gw_audit_log g) \<le> 1000 \<and> list_all hides (gw_audit_log g)"

lemma audit_ok_audit: "audit_ok g \<Longrightarrow> audit_ok (audit ev g)"
  using redact_hides by (auto simp: audit_ok_def audit_def last_n_def list_all_iff dest: in_set_dropD)

lemma audit_ok_budget: "audit_ok (g\<lparr>gw_budget := b\<rparr>) = audit_ok g"
  by (simp add: audit_ok_def)

lemma audit_ok_charge: "audit_ok (charge_retry attempt g) = audit_ok g"
  by (simp add: charge_retry_def audit_ok_budget)

lemma attempt_loop_audit:
  "attempt_loop spec h jitter ev args left attempt executed g = (g', ds, oc) \<Longrightarrow> audit_ok g \<Longrightarrow> audit_ok g'"
proof (induction left arbitrary: attempt executed g g' ds oc)
  case 0
  then show ?case by (simp add: attempt_loop.simps)
next
  case (Suc left)
  show ?case
  proof (cases "0 < attempt \<and> \<not> can_call_tool (gw_budget g)")
    case True
    with Suc.prems attempt_loop_cut [OF True, of spec h jitter ev args left executed] show ?thesis by simp
  next
    case False
    note run = Suc.prems(1) [unfolded attempt_loop_run [OF False] Let_def]
    show ?thesis
    proof (cases "run_handler h executed args")
      case (Inr out)
      with run Suc.prems(2) show ?thesis by (auto simp: audit_ok_audit audit_ok_charge)
    next
      case (Inl e)
      obtain st err cat where f: "failure spec e = (st, err, cat)" by (cases "failure spec e")
      let ?g2 = "audit (ev ''tool_attempt_failed'' @ [(''attempt'', JInt (int attempt + 1)),
                    (''error_category'', JStr cat)]) (charge_retry attempt g)"
      have g2: "audit_ok ?g2" using Suc.prems(2) by (simp add: audit_ok_audit audit_ok_charge)
      show ?thesis
      proof (cases "cat \<notin> set RETRYABLE \<or> left = 0")
        case True
        with run Inl f g2 show ?thesis by auto
      next
        case more: False
        obtain g3 ds3 oc3 where rec: "attempt_loop spec h jitter ev args left (attempt + 1) (executed + 1) ?g2
            = (g3, ds3, oc3)"
          by (metis surj_pair)
        have "g' = g3" using run Inl f more rec by auto
        with Suc.IH [OF rec g2] show ?thesis by simp
      qed
    qed
  qed
qed

text \<open>
  Nothing secret leaves the gateway in the clear under a secret's name, and its log stays small.
  The input and the output in the result of any call, and every event of the audit log, hold the
  redaction mark under every key that names a secret; the log keeps at most 1000 events.
\<close>

theorem call_redacts:
  assumes "audit_ok g" and "call h jitter tcid run_id trace_id name payload g = (g', ds, res)"
  shows "audit_ok g' \<and> (case res of Inl e \<Rightarrow> True | Inr r \<Rightarrow> hides (tl_input r) \<and> hides (JObj (tl_output r)))"
proof (cases "\<exists>spec args. admitted name payload g spec args")
  case False
  have "audit_ok (fst (call h jitter tcid run_id trace_id name payload g))"
    using assms(1) False
    by (auto simp: call_def Let_def admitted_def audit_ok_audit split: option.splits sum.splits)
  moreover have "\<forall>r. snd (snd (call h jitter tcid run_id trace_id name payload g)) = Inr r \<longrightarrow>
      tl_input r = redact 0 payload \<and> tl_output r = []"
    using False by (auto simp: call_def Let_def admitted_def tool_result_def split: option.splits sum.splits)
  moreover have "hides (JObj [])" by simp
  ultimately show ?thesis using assms(2) redact_hides by (cases res) (auto simp del: hides.simps)
next
  case True
  then obtain spec args where ad: "admitted name payload g spec args" by blast
  obtain g1 ds1 oc where l: "attempt_loop spec h jitter (\<lambda>e. call_event e tcid name run_id trace_id) args
      (ts_max_retries spec + 1) 0 0 (g\<lparr>gw_budget := record_tool_call (gw_budget g)\<rparr>) = (g1, ds1, oc)"
    by (metis surj_pair)
  have a: "audit_ok g1" using attempt_loop_audit [OF l] assms(1) by (simp add: audit_ok_budget)
  have out: "hides (JObj (redact_dict out))" for out
    unfolding redact_dict_obj by (rule redact_hides)
  have h0: "hides (JObj [])" by simp
  show ?thesis
    using assms(2) ad l a out redact_hides h0
    by (cases oc) (auto simp: call_def admitted_def Let_def tool_result_def audit_ok_audit simp del: hides.simps)
qed

lemma call_redacts_witness:
  "\<exists>g' ds r. call demo_handler (\<lambda>_. 1 / 2) ''TC'' ''r'' ''t'' ''read_logs''
       (JObj [(''service'', JStr ''orders'')]) demo_gateway = (g', ds, Inr r) \<and> audit_ok g' \<and> hides (tl_input r)"
proof -
  obtain g' ds r where c: "call demo_handler (\<lambda>_. 1 / 2) ''TC'' ''r'' ''t'' ''read_logs''
       (JObj [(''service'', JStr ''orders'')]) demo_gateway = (g', ds, Inr r)"
    using admitted_returns [OF demo_admitted_call] by blast
  have "audit_ok demo_gateway" by (simp add: audit_ok_def demo_gateway_def)
  from call_redacts [OF this c] c show ?thesis by auto
qed

section \<open>What a validated input looks like\<close>

text \<open>The typing of an argument, stated without the checks: a boolean is no number here.\<close>

definition has_type :: "string \<Rightarrow> json \<Rightarrow> bool" where
  "has_type ty v \<longleftrightarrow> (ty = ''string'' \<longrightarrow> (\<exists>s. v = JStr s)) \<and> (ty = ''integer'' \<longrightarrow> (\<exists>i. v = JInt i))
     \<and> (ty = ''number'' \<longrightarrow> (\<exists>i. v = JInt i) \<or> (\<exists>a k. v = JFloat a k)) \<and> (ty = ''boolean'' \<longrightarrow> (\<exists>b. v = JBool b))"

fun number_of :: "json \<Rightarrow> rat option" where
  "number_of (JInt i) = Some (of_int i)"
| "number_of (JFloat a k) = Some (of_int a / 10 ^ k)"
| "number_of (JBool b) = Some (if b then 1 else 0)"
| "number_of _ = None"

definition well_typed_argument :: "ToolSpec \<Rightarrow> string \<times> json \<Rightarrow> bool" where
  "well_typed_argument spec kv = (case kv of (k, v) \<Rightarrow> case map_of (ts_properties spec) k of
     None \<Rightarrow> True
   | Some ty \<Rightarrow> (\<forall>x. ty = Some x \<longrightarrow> has_type x v)
       \<and> (\<forall>s. v = JStr s \<longrightarrow> length s \<le> (if k = ''query'' then 8192 else 512))
       \<and> (k = ''limit'' \<longrightarrow> (\<exists>q. number_of v = Some q \<and> 1 \<le> q \<and> q \<le> 50)))"

definition well_typed_input :: "ToolSpec \<Rightarrow> (string \<times> json) list \<Rightarrow> bool" where
  "well_typed_input spec args \<longleftrightarrow> length (dumps (JObj args)) \<le> 16000
     \<and> set (ts_required spec) \<subseteq> fst ` set args
     \<and> (ts_additional spec = Some False \<longrightarrow> fst ` set args \<subseteq> fst ` set (ts_properties spec))
     \<and> list_all (well_typed_argument spec) args"

lemma in_limits_iff: "in_limits v = Some True \<longleftrightarrow> (\<exists>q. number_of v = Some q \<and> 1 \<le> q \<and> q \<le> 50)"
proof (cases v)
  case (JFloat a k)
  have "(10 ^ k \<le> a) = (1 \<le> (of_int a :: rat) / 10 ^ k)" for a :: int
    by (simp add: le_divide_eq)
  moreover have "(a \<le> 50 * 10 ^ k) = ((of_int a :: rat) / 10 ^ k \<le> 50)" for a :: int
    by (simp add: divide_le_eq) (metis of_int_le_iff of_int_mult of_int_numeral of_int_power)
  ultimately show ?thesis by (simp add: JFloat)
qed auto

lemma type_checked:
  "\<not> type_mismatch ty v \<and> \<not> (ty \<in> {''integer'', ''number''} \<and> is_bool v) \<longleftrightarrow> has_type ty v"
  by (cases v) (auto simp: type_mismatch_def has_type_def)

lemma validate_field_iff: "validate_field spec k v = Inr () \<longleftrightarrow> well_typed_argument spec (k, v)"
proof (cases "map_of (ts_properties spec) k")
  case (Some ty)
  let ?n = "if k = ''query'' then 8192 else 512 :: nat"
  have "validate_field spec k v = Inr () \<longleftrightarrow> \<not> (ty \<noteq> None \<and> type_mismatch (the ty) v)
      \<and> \<not> (ty \<in> {Some ''integer'', Some ''number''} \<and> is_bool v)
      \<and> \<not> (case v of JStr s \<Rightarrow> ?n < length s | _ \<Rightarrow> False) \<and> (k = ''limit'' \<longrightarrow> in_limits v = Some True)"
    unfolding validate_field_def Some by (simp split: option.split bool.split del: not_None_eq)
  moreover have "(case v of JStr s \<Rightarrow> ?n < length s | _ \<Rightarrow> False) \<longleftrightarrow> \<not> (\<forall>s. v = JStr s \<longrightarrow> length s \<le> ?n)"
    by (cases v) auto
  moreover have "(ty \<noteq> None \<and> type_mismatch (the ty) v) \<or> (ty \<in> {Some ''integer'', Some ''number''} \<and> is_bool v)
      \<longleftrightarrow> \<not> (\<forall>x. ty = Some x \<longrightarrow> has_type x v)"
    using type_checked [of _ v] by (cases ty) auto
  moreover have "well_typed_argument spec (k, v) \<longleftrightarrow> (\<forall>x. ty = Some x \<longrightarrow> has_type x v)
      \<and> (\<forall>s. v = JStr s \<longrightarrow> length s \<le> ?n) \<and> (k = ''limit'' \<longrightarrow> in_limits v = Some True)"
    by (simp add: well_typed_argument_def Some in_limits_iff)
  ultimately show ?thesis by blast
qed (simp add: validate_field_def well_typed_argument_def)

lemma validate_fields_iff: "validate_fields spec args = Inr () \<longleftrightarrow> list_all (well_typed_argument spec) args"
proof (induction args)
  case (Cons kv args)
  then show ?case
    using validate_field_iff [of spec "fst kv" "snd kv"] by (cases kv) (auto split: sum.splits)
qed simp

text \<open>
  C19. Typed inputs. The gateway accepts exactly the dictionaries that are well typed for the tool: at
  most 16000 characters long, with every required field, no undeclared one where the schema closes the
  object, every declared field of its type (no boolean for a number), strings within their length and
  \<open>limit\<close> between 1 and 50; and it hands them to the tool as they are.
\<close>

theorem validated_input_typed:
  "validate_input spec payload = Inr args \<longleftrightarrow> payload = JObj args \<and> well_typed_input spec args"
proof (cases payload)
  case (JObj d)
  have "list_all (well_typed_argument spec) d" if "ts_properties spec = []"
    using that by (auto simp: list_all_iff well_typed_argument_def)
  then have fields: "(if ts_properties spec = [] then Inr d else
        (case validate_fields spec d of Inl e \<Rightarrow> Inl e | Inr _ \<Rightarrow> Inr d)) = Inr args
      \<longleftrightarrow> args = d \<and> list_all (well_typed_argument spec) d"
    using validate_fields_iff [of spec d] by (auto split: sum.splits)
  have "sort (filter p xs) = [] \<longleftrightarrow> (\<forall>x \<in> set xs. \<not> p x)" for p and xs :: "string list"
    by (metis filter_empty_conv set_empty set_sort)
  then have extras: "sort (filter (\<lambda>k. k \<notin> fst ` set (ts_properties spec)) (map fst d)) = []
      \<longleftrightarrow> fst ` set d \<subseteq> fst ` set (ts_properties spec)"
    by auto
  have missing: "filter (\<lambda>k. k \<notin> fst ` set d) (ts_required spec) = [] \<longleftrightarrow> set (ts_required spec) \<subseteq> fst ` set d"
    by (auto simp: filter_empty_conv)
  show ?thesis
    using fields by (auto simp: validate_input_def Let_def JObj extras missing well_typed_input_def split: if_splits)
qed (simp_all add: validate_input_def)

end
