(* ===== verification/FakeTools.thy ===== *)
theory FakeTools
  imports Gateway
begin

text \<open>
  \<open>tools/fake.py\<close>: the deterministic read-only tools of development and tests, with their
  specifications. \<open>guard\<close> is \<open>validate_readonly_sql\<close>. A missing argument takes its default; the schemas
  admit no other arguments, so \<open>**_\<close> is always empty behind the gateway. A line end inside the
  sources is the character \<open>nl\<close>.
\<close>

definition arg_or :: "string \<Rightarrow> json \<Rightarrow> (string \<times> json) list \<Rightarrow> json" where
  "arg_or k d args = (case map_of args k of None \<Rightarrow> d | Some v \<Rightarrow> v)"

definition fake_read_metrics :: "string \<Rightarrow> (string \<times> json) list \<Rightarrow> json" where
  "fake_read_metrics hint args = JObj [(''service'', arg_or ''service'' (JStr ''orders-api'') args),
     (''window'', arg_or ''window'' (JStr ''incident'') args), (''p95_latency_ms'', JInt 2800),
     (''error_rate'', JFloat 7 2), (''signal'', JStr ''elevated_latency''), (''fault_hint'', JStr hint)]"

definition top_error :: "string \<Rightarrow> string \<Rightarrow> int \<Rightarrow> json" where
  "top_error c m n = JObj [(''class'', JStr c), (''message'', JStr m), (''count'', JInt n)]"

definition fake_read_logs :: "string \<Rightarrow> (string \<times> json) list \<Rightarrow> json" where
  "fake_read_logs hint args = JObj [(''service'', arg_or ''service'' (JStr ''orders-api'') args),
     (''window'', arg_or ''window'' (JStr ''incident'') args), (''error_count'', JInt 42),
     (''top_errors'', JList [top_error ''SlowQueryError'' ''query exceeded 2000ms'' 30,
        top_error ''TimeoutError'' ''db operation timed out'' 12]),
     (''fault_hint'', JStr hint)]"

definition fake_inspect_git_history :: "string \<Rightarrow> (string \<times> json) list \<Rightarrow> json" where
  "fake_inspect_git_history hint args = JObj [(''repository'', arg_or ''repository'' (JStr []) args),
     (''commits'', JList [JObj [(''sha'', JStr ''abc1234''),
        (''message'', JStr ''Add orders listing endpoint without pagination filter''),
        (''author'', JStr ''dev''), (''date'', JStr ''2026-09-15T10:00:00Z'')]]),
     (''fault_hint'', JStr hint)]"

definition fake_inspect_git_diff :: "string \<Rightarrow> (string \<times> json) list \<Rightarrow> json" where
  "fake_inspect_git_diff hint args = JObj [(''repository'', arg_or ''repository'' (JStr []) args),
     (''commit_sha'', arg_or ''commit_sha'' (JStr ''abc1234'') args),
     (''files'', JList [JStr ''app/services/orders.py'']),
     (''diff'', JStr (''- query = select(Order)'' @ [CHR 0x0A] @ ''+ query = select(Order).join(Order.items)'')),
     (''fault_hint'', JStr hint)]"

section \<open>Reading source in windows\<close>

definition fake_lines :: "string list" where
  "fake_lines = map (\<lambda>l. l @ [CHR 0x0A]) [''def list_orders(db):'', ''    # N+1: items loaded per order'',
     ''    orders = db.query(Order).all()'', ''    return [o.with_items() for o in orders]'']"

text \<open>\<open>int(start_line)\<close> of an argument the schema admits.\<close>

definition fake_read_source_code :: "string \<Rightarrow> (string \<times> json) list \<Rightarrow> json" where
  "fake_read_source_code hint args =
     (let start = (case arg_or ''start_line'' (JInt 1) args of JInt i \<Rightarrow> i | _ \<Rightarrow> 1);
          first = max 1 start;
          window = (if first \<le> int (length fake_lines) then drop (nat (first - 1)) fake_lines else [])
      in JObj [(''repository'', arg_or ''repository'' (JStr []) args),
           (''path'', arg_or ''path'' (JStr ''app/services/orders.py'') args),
           (''content'', JStr (concat window)), (''start_line'', JInt first),
           (''end_line'', JInt (first + int (length window) - 1)), (''total_lines'', JInt (int (length fake_lines))),
           (''has_more'', JBool False), (''fault_hint'', JStr hint)])"

definition fake_query_database :: "(json \<Rightarrow> exn + unit) \<Rightarrow> string \<Rightarrow> (string \<times> json) list \<Rightarrow> exn + json" where
  "fake_query_database guard hint args =
     (let q = arg_or ''query'' (JStr ''SELECT 1'') args in
      case guard q of
        Inl e \<Rightarrow> Inl e
      | Inr _ \<Rightarrow> Inr (JObj [(''query'', q),
          (''rows'', JList [JObj [(''slow_queries'', JInt 12), (''max_duration_ms'', JInt 2400)]]),
          (''fault_hint'', JStr hint)]))"

definition fake_handler :: "(json \<Rightarrow> exn + unit) \<Rightarrow> string \<Rightarrow> string \<Rightarrow> handler" where
  "fake_handler guard hint name n args =
     (if name = ''read_metrics'' then Inr (fake_read_metrics hint args)
      else if name = ''read_logs'' then Inr (fake_read_logs hint args)
      else if name = ''inspect_git_history'' then Inr (fake_inspect_git_history hint args)
      else if name = ''inspect_git_diff'' then Inr (fake_inspect_git_diff hint args)
      else if name = ''read_source_code'' then Inr (fake_read_source_code hint args)
      else fake_query_database guard hint args)"

section \<open>Registration\<close>

definition fake_spec :: "string \<Rightarrow> (string \<times> string) list \<Rightarrow> string list \<Rightarrow> ToolSpec" where
  "fake_spec name props req = \<lparr>ts_name = name, ts_category = ''readonly_external'', ts_timeout = (300, 1),
     ts_max_retries = 1, ts_required = req, ts_properties = map (\<lambda>(k, t). (k, Some t)) props,
     ts_additional = Some False\<rparr>"

definition fake_specs :: "ToolSpec list" where
  "fake_specs =
     [fake_spec ''read_metrics'' [(''service'', ''string''), (''window'', ''string'')] [''service''],
      fake_spec ''read_logs'' [(''service'', ''string''), (''window'', ''string'')] [''service''],
      fake_spec ''inspect_git_history'' [(''repository'', ''string''), (''limit'', ''integer'')] [],
      fake_spec ''inspect_git_diff'' [(''repository'', ''string''), (''commit_sha'', ''string'')] [],
      fake_spec ''read_source_code'' [(''repository'', ''string''), (''path'', ''string''),
        (''start_line'', ''integer'')] [''path''],
      fake_spec ''query_database_readonly'' [(''query'', ''string'')] [''query'']]"

definition register_fake_readonly_tools :: "ToolRegistry \<Rightarrow> ToolRegistry" where
  "register_fake_readonly_tools reg = fold register fake_specs reg"

end
