(* ===== verification/GraphFacts.thy ===== *)
theory GraphFacts
  imports Graph GatewayProps FakeTools
begin

text \<open>
  A small calculus for the nodes of the graph: \<open>wlp m Q w\<close> says that when \<open>m\<close> returns from the world
  \<open>w\<close>, what it returns satisfies \<open>Q\<close>. What each node does to the parts of the state other nodes
  depend on is stated once here, and the contract of an invariant of the whole graph is a locale.
\<close>

section \<open>Weakest liberal preconditions\<close>

definition wlp :: "'a io \<Rightarrow> ('a \<Rightarrow> world \<Rightarrow> bool) \<Rightarrow> world \<Rightarrow> bool" where
  "wlp m Q w = (case m w of (w', Inl e) \<Rightarrow> True | (w', Inr x) \<Rightarrow> Q x w')"

lemma wlpD: "wlp m Q w \<Longrightarrow> m w = (w', Inr x) \<Longrightarrow> Q x w'"
  by (simp add: wlp_def)

lemma wlpI: "(\<And>w' x. m w = (w', Inr x) \<Longrightarrow> Q x w') \<Longrightarrow> wlp m Q w"
  by (auto simp: wlp_def split: prod.splits sum.splits)

lemma wlp_mono: "wlp m Q w \<Longrightarrow> (\<And>x w'. Q x w' \<Longrightarrow> R x w') \<Longrightarrow> wlp m R w"
  by (auto simp: wlp_def split: prod.splits sum.splits)

lemma wlp_return [simp]: "wlp (return_io x) Q w = Q x w"
  by (simp add: wlp_def return_io_def)

lemma wlp_raise [simp]: "wlp (raise_io e) Q w"
  by (simp add: wlp_def raise_io_def)

lemma wlp_bind [simp]: "wlp (bind_io m f) Q w = wlp m (\<lambda>x. wlp (f x) Q) w"
  by (simp add: wlp_def bind_io_def split: prod.splits sum.splits)

lemma wlp_catch [simp]: "wlp (catch_io m h f) Q w =
    (case m w of (w', Inl e) \<Rightarrow> wlp (h e) Q w' | (w', Inr x) \<Rightarrow> wlp (f x) Q w')"
  by (simp add: wlp_def catch_io_def split: prod.splits sum.splits)

lemma wlp_if [simp]: "wlp (if c then m1 else m2) Q w = (if c then wlp m1 Q w else wlp m2 Q w)"
  by simp

lemma wlp_ask [simp]: "wlp (ask f) Q w =
    (case f (wd_tick w) of Inl e \<Rightarrow> True | Inr x \<Rightarrow> Q x (w\<lparr>wd_tick := Suc (wd_tick w)\<rparr>))"
  by (simp add: wlp_def ask_def split: sum.splits)

lemma wlp_new_id [simp]: "wlp (new_id env pre) Q w =
    Q (pre @ ''-'' @ en_new_id env (wd_tick w)) (w\<lparr>wd_tick := Suc (wd_tick w)\<rparr>)"
  by (simp add: new_id_def)

lemma wlp_state [simp]: "wlp (\<lambda>w. (g w, Inr (f w))) Q w = Q (f w) (g w)"
  by (simp add: wlp_def)

lemma wlp_const: "(\<And>x w'. Q x w') \<Longrightarrow> wlp m Q w"
  by (rule wlpI) simp

lemma wlp_call_tool: "(\<And>r w'. Q r w') \<Longrightarrow> wlp (call_tool env s sel) Q w"
  by (rule wlp_const)

text \<open>A part of the world an operation leaves alone, whether it returns or raises.\<close>

definition keeps :: "(world \<Rightarrow> 'p) \<Rightarrow> 'a io \<Rightarrow> bool" where
  "keeps p m \<longleftrightarrow> (\<forall>w. p (fst (m w)) = p w)"

section \<open>The loop of collect_evidence\<close>

definition same_but_outcome :: "AgentState \<Rightarrow> AgentState \<Rightarrow> bool" where
  "same_but_outcome s s' \<longleftrightarrow> st_run_id s' = st_run_id s \<and> st_hypotheses s' = st_hypotheses s
     \<and> st_root_cause s' = st_root_cause s \<and> st_patch_attempts s' = st_patch_attempts s
     \<and> st_patch_artifact s' = st_patch_artifact s \<and> st_evidence s' = st_evidence s
     \<and> st_tool_calls s' = st_tool_calls s
     \<and> (st_status s' = st_status s \<or> st_status s' \<in> {INSUFFICIENT_EVIDENCE, NEEDS_HUMAN_INTERVENTION})"

lemma same_but_outcome_refl [simp]: "same_but_outcome s s"
  by (simp add: same_but_outcome_def)

lemma state_helpers [simp]:
  "same_but_outcome s (set_result k v (insufficient s))"
  "same_but_outcome s (set_result k v (needs_human s))"
  "same_but_outcome s (needs_human s)"
  by (simp_all add: same_but_outcome_def set_result_def insufficient_def needs_human_def stop_as_def)

lemma same_but_outcome_trans:
  "same_but_outcome a b \<Longrightarrow> same_but_outcome b c \<Longrightarrow> same_but_outcome a c"
  by (auto simp: same_but_outcome_def)

lemma collect_one_state:
  "wlp (collect_one env s calls evidence a) (\<lambda>r w'. case r of (go_on, s', calls', evidence') \<Rightarrow> same_but_outcome s s') w"
  unfolding collect_one_def
  by (auto simp: Let_def split: option.splits intro!: wlp_call_tool)

text \<open>An iteration of the loop, and the rule for an invariant of it.\<close>

definition collect_iteration ::
  "env \<Rightarrow> AgentState \<Rightarrow> ToolResult list \<Rightarrow> EvidenceItem list
     \<Rightarrow> (bool \<times> AgentState \<times> ToolResult list \<times> EvidenceItem list) io" where
  "collect_iteration env s calls evidence = bind_io record_step_io (\<lambda>_.
     bind_io (choose_action env s calls evidence) (collect_one env s calls evidence))"

lemma collect_loop_Suc: "collect_loop (Suc n) env s calls evidence w =
   (if \<not> steps_left w then (w, Inr (s, calls, evidence))
    else bind_io (collect_iteration env s calls evidence) (\<lambda>(go_on, s', calls', evidence').
           if go_on then collect_loop n env s' calls' evidence' else return_io (s', calls', evidence')) w)"
  by (simp add: collect_iteration_def bind_io_def split: prod.splits sum.splits)

declare collect_loop.simps(2) [simp del]

lemma collect_loop_invariant:
  assumes "I s calls evidence w"
    and step: "\<And>s calls evidence w. I s calls evidence w \<Longrightarrow> steps_left w \<Longrightarrow>
      wlp (collect_iteration env s calls evidence) (\<lambda>r w'. case r of (go_on, s', calls', evidence') \<Rightarrow> I s' calls' evidence' w') w"
  shows "wlp (collect_loop n env s calls evidence) (\<lambda>r w'. case r of (s', calls', evidence') \<Rightarrow> I s' calls' evidence' w') w"
  using assms(1)
proof (induction n arbitrary: s calls evidence w)
  case 0
  then show ?case by (simp add: wlp_def)
next
  case (Suc n)
  show ?case
  proof (rule wlpI)
    fix w' x
    assume run: "collect_loop (Suc n) env s calls evidence w = (w', Inr x)"
    show "case x of (s', calls', evidence') \<Rightarrow> I s' calls' evidence' w'"
    proof (cases "steps_left w")
      case False
      then show ?thesis using run Suc.prems by (auto simp: collect_loop_Suc)
    next
      case True
      then obtain w1 go_on s1 calls1 evidence1 where
          it: "collect_iteration env s calls evidence w = (w1, Inr (go_on, s1, calls1, evidence1))"
          and rest: "(if go_on then collect_loop n env s1 calls1 evidence1
             else return_io (s1, calls1, evidence1)) w1 = (w', Inr x)"
        using run by (auto simp: collect_loop_Suc bind_io_def split: prod.splits sum.splits)
      have "I s1 calls1 evidence1 w1" using wlpD [OF step [OF Suc.prems True] it] by simp
      then show ?thesis
        using rest wlpD [OF Suc.IH [of s1 calls1 evidence1 w1]] by (auto simp: return_io_def split: if_splits)
    qed
  qed
qed

lemma collect_iteration_state:
  "wlp (collect_iteration env s calls evidence) (\<lambda>r w'. case r of (go_on, s', calls', evidence') \<Rightarrow> same_but_outcome s s') w"
  unfolding collect_iteration_def wlp_bind by (rule wlp_const, rule wlp_const, rule collect_one_state)

lemma collect_loop_state:
  "wlp (collect_loop n env s calls evidence) (\<lambda>r w'. case r of (s', calls', evidence') \<Rightarrow> same_but_outcome s s') w"
proof (rule collect_loop_invariant)
  fix s1 calls1 evidence1 w1
  assume "same_but_outcome s s1"
  then show "wlp (collect_iteration env s1 calls1 evidence1)
      (\<lambda>r w'. case r of (go_on, s', calls', evidence') \<Rightarrow> same_but_outcome s s') w1"
    by (rule_tac wlp_mono [OF collect_iteration_state]) (auto intro: same_but_outcome_trans)
qed simp

section \<open>What the nodes do\<close>

definition inquiry :: "AgentState \<Rightarrow> string \<times> Hypothesis list \<times> RootCause option \<times> EvidenceItem list \<times> ToolResult list" where
  "inquiry s = (st_run_id s, st_hypotheses s, st_root_cause s, st_evidence s, st_tool_calls s)"

definition patching :: "AgentState \<Rightarrow> PatchAttempt list \<times> PatchArtifactData option" where
  "patching s = (st_patch_attempts s, st_patch_artifact s)"

lemma set_result_simps [simp]:
  "inquiry (set_result k v s) = inquiry s" "patching (set_result k v s) = patching s"
  "st_status (set_result k v s) = st_status s" "st_root_cause (set_result k v s) = st_root_cause s"
  "st_run_id (set_result k v s) = st_run_id s" "st_patch_attempts (set_result k v s) = st_patch_attempts s"
  "st_evidence (set_result k v s) = st_evidence s" "st_tool_calls (set_result k v s) = st_tool_calls s"
  "st_hypotheses (set_result k v s) = st_hypotheses s" "st_patch_artifact (set_result k v s) = st_patch_artifact s"
  by (simp_all add: set_result_def inquiry_def patching_def)

lemma stop_simps [simp]:
  "inquiry (stop_as st ws s) = inquiry s" "patching (stop_as st ws s) = patching s"
  "st_status (stop_as st ws s) = st" "st_status (insufficient s) = INSUFFICIENT_EVIDENCE"
  "st_status (needs_human s) = NEEDS_HUMAN_INTERVENTION"
  "inquiry (insufficient s) = inquiry s" "patching (insufficient s) = patching s"
  "inquiry (needs_human s) = inquiry s" "patching (needs_human s) = patching s"
  by (simp_all add: stop_as_def insufficient_def needs_human_def inquiry_def patching_def)

lemma update_simps [simp]:
  "inquiry (s\<lparr>st_workflow_state := ws\<rparr>) = inquiry s" "patching (s\<lparr>st_workflow_state := ws\<rparr>) = patching s"
  "inquiry (s\<lparr>st_status := st\<rparr>) = inquiry s" "patching (s\<lparr>st_status := st\<rparr>) = patching s"
  "inquiry (s\<lparr>st_error := er\<rparr>) = inquiry s" "patching (s\<lparr>st_error := er\<rparr>) = patching s"
  "inquiry (s\<lparr>st_result := re\<rparr>) = inquiry s" "patching (s\<lparr>st_result := re\<rparr>) = patching s"
  "inquiry (s\<lparr>st_plan := pl\<rparr>) = inquiry s" "patching (s\<lparr>st_plan := pl\<rparr>) = patching s"
  "inquiry (s\<lparr>st_patch_attempts := ats\<rparr>) = inquiry s"
  "patching (s\<lparr>st_evidence := es\<rparr>) = patching s" "patching (s\<lparr>st_tool_calls := tcs\<rparr>) = patching s"
  "patching (s\<lparr>st_hypotheses := hs\<rparr>) = patching s" "patching (s\<lparr>st_root_cause := rc\<rparr>) = patching s"
  by (simp_all add: inquiry_def patching_def)

lemma plan_node_does:
  "wlp (plan_node env s) (\<lambda>s' w'. inquiry s' = inquiry s \<and> patching s' = patching s \<and> st_status s' = st_status s) w"
  by (simp add: plan_node_def Let_def split: sum.split)

lemma collect_end_does:
  "inquiry (collect_end s w) = inquiry s \<and> patching (collect_end s w) = patching s
   \<and> (st_status (collect_end s w) = st_status s
      \<or> st_status (collect_end s w) \<in> {INSUFFICIENT_EVIDENCE, NEEDS_HUMAN_INTERVENTION})"
  by (simp add: collect_end_def Let_def)

lemma collect_node_run:
  assumes "collect_evidence_node env s w = (w', Inr s')"
  obtains s2 calls evidence where
    "collect_loop (steps_remaining w) env (s\<lparr>st_workflow_state := W_COLLECT_EVIDENCE\<rparr>) (st_tool_calls s) (st_evidence s) w
       = (w', Inr (s2, calls, evidence))"
    "s' = collect_end (s2\<lparr>st_tool_calls := calls, st_evidence := evidence\<rparr>) w'"
  using assms
  by (auto simp: collect_evidence_node_def Let_def bind_io_def split: prod.splits sum.splits)

lemma collect_node_does:
  "wlp (collect_evidence_node env s) (\<lambda>s' w'. st_run_id s' = st_run_id s \<and> st_hypotheses s' = st_hypotheses s
     \<and> st_root_cause s' = st_root_cause s \<and> patching s' = patching s
     \<and> (st_status s' = st_status s \<or> st_status s' \<in> {INSUFFICIENT_EVIDENCE, NEEDS_HUMAN_INTERVENTION})) w"
proof (rule wlpI)
  fix w' s'
  assume "collect_evidence_node env s w = (w', Inr s')"
  then obtain s2 calls evidence where
      run: "collect_loop (steps_remaining w) env (s\<lparr>st_workflow_state := W_COLLECT_EVIDENCE\<rparr>) (st_tool_calls s)
        (st_evidence s) w = (w', Inr (s2, calls, evidence))"
      and s': "s' = collect_end (s2\<lparr>st_tool_calls := calls, st_evidence := evidence\<rparr>) w'"
    by (rule collect_node_run)
  have "same_but_outcome (s\<lparr>st_workflow_state := W_COLLECT_EVIDENCE\<rparr>) s2"
    using wlpD [OF collect_loop_state run] by simp
  then show "st_run_id s' = st_run_id s \<and> st_hypotheses s' = st_hypotheses s
     \<and> st_root_cause s' = st_root_cause s \<and> patching s' = patching s
     \<and> (st_status s' = st_status s \<or> st_status s' \<in> {INSUFFICIENT_EVIDENCE, NEEDS_HUMAN_INTERVENTION})"
    using collect_end_does [of "s2\<lparr>st_tool_calls := calls, st_evidence := evidence\<rparr>" w']
    by (auto simp: s' same_but_outcome_def inquiry_def patching_def)
qed

lemma form_node_does:
  assumes "st_status s = RUNNING"
  shows "wlp (form_hypothesis_node env s) (\<lambda>s' w'. st_run_id s' = st_run_id s \<and> patching s' = patching s
     \<and> st_tool_calls s' = st_tool_calls s
     \<and> st_evidence s' = valid_evidence (en_sha env) (st_evidence s) (st_tool_calls s) (st_run_id s)
     \<and> (st_status s' = RUNNING \<and> st_root_cause s' = st_root_cause s
          \<and> (\<exists>p. st_hypotheses s' = st_hypotheses s @ [open_hypothesis p])
        \<or> st_status s' = INSUFFICIENT_EVIDENCE \<and> st_root_cause s' = st_root_cause s
        \<or> st_status s' = INVESTIGATION_COMPLETE
          \<and> (\<exists>c. st_root_cause s' = Some (root_cause_of c False)
               \<and> cited (cn_supporting_evidence_ids c) (st_evidence s')))) w"
  using assms
  by (auto simp: form_hypothesis_node_def Let_def with_valid_evidence_def direct_outcome_def proposed_outcome_def
      insufficient_def stop_as_def patching_def split: sum.split)

lemma judge_does:
  assumes "st_status s = RUNNING" and "st_root_cause s = None" and "st_hypotheses s \<noteq> []"
  shows "wlp (judge env p s) (\<lambda>s' w'. st_run_id s' = st_run_id s \<and> patching s' = patching s
     \<and> st_tool_calls s' = st_tool_calls s \<and> st_evidence s' = st_evidence s
     \<and> (st_status s' = INSUFFICIENT_EVIDENCE \<and> st_root_cause s' = None
        \<or> st_status s' = RUNNING \<and> st_root_cause s' = None \<and> rejected_count s' < 3 \<and> steps_left w'
          \<and> (\<exists>h. st_hypotheses s' = butlast (st_hypotheses s) @ [h] \<and> hy_status h = ''REJECTED'')
        \<or> st_status s' \<in> {RUNNING, INVESTIGATION_COMPLETE}
          \<and> (\<exists>c. st_root_cause s' = Some (root_cause_of c True)
               \<and> acceptable (dm_deterministic (en_decision env)) c (st_evidence s')))) w"
  using assms
  by (auto simp: judge_def wlp_def bind_io_def ask_def with_judged_def rejected_outcome_def judged_def Let_def
      concluded_outcome_def insufficient_def stop_as_def patching_def return_io_def rejected_count_def
      split: sum.splits prod.splits)

text \<open>A verified root cause, and what a judged inquiry looks like relative to the inquiry before it.\<close>

definition found :: "env \<Rightarrow> AgentState \<Rightarrow> bool" where
  "found env s \<longleftrightarrow> (\<exists>c es. st_root_cause s = Some (root_cause_of c True)
     \<and> st_evidence s = valid_evidence (en_sha env) es (st_tool_calls s) (st_run_id s)
     \<and> acceptable (dm_deterministic (en_decision env)) c (st_evidence s))"

lemma found_root: "found env s \<Longrightarrow> st_root_cause s \<noteq> None"
  by (auto simp: found_def)

definition verified_from :: "env \<Rightarrow> AgentState \<Rightarrow> AgentState \<Rightarrow> world \<Rightarrow> bool" where
  "verified_from env s s' w' \<longleftrightarrow> st_run_id s' = st_run_id s \<and> patching s' = patching s
     \<and> (st_status s' = INSUFFICIENT_EVIDENCE \<and> st_root_cause s' = None
        \<or> st_status s' = RUNNING \<and> st_root_cause s' = None \<and> rejected_count s' < 3 \<and> steps_left w'
          \<and> (\<exists>h. st_hypotheses s' = butlast (st_hypotheses s) @ [h] \<and> hy_status h = ''REJECTED'')
        \<or> st_status s' \<in> {RUNNING, INVESTIGATION_COMPLETE} \<and> found env s')"

lemma verify_node_does:
  assumes "st_status s = RUNNING" and "st_root_cause s = None" and "st_hypotheses s \<noteq> []"
  shows "wlp (verify_hypothesis_node env s) (verified_from env s) w"
proof -
  have judged: "wlp (judge env p (with_valid_evidence env s2)) (verified_from env s) w2"
    if "st_status s2 = RUNNING" "st_root_cause s2 = None" "st_hypotheses s2 = st_hypotheses s"
      "st_run_id s2 = st_run_id s" "patching s2 = patching s" for p s2 w2
  proof (rule wlp_mono [OF judge_does])
    show "st_hypotheses (with_valid_evidence env s2) \<noteq> []"
      using that assms(3) by (simp add: with_valid_evidence_def)
  qed (use that in \<open>auto simp: with_valid_evidence_def verified_from_def found_def\<close>)
  show ?thesis
    using assms
    by (auto simp: verify_hypothesis_node_def Let_def fixed_verification_def verified_from_def patching_def
        insufficient_def stop_as_def
        intro!: wlp_call_tool judged split: sum.split)
qed

lemma create_node_does:
  "wlp (create_sandbox_node env s) (\<lambda>s' w'. inquiry s' = inquiry s \<and> patching s' = patching s
     \<and> (st_status s' = st_status s \<and> st_root_cause s \<noteq> None \<and> wd_manager w' \<noteq> None \<and> \<not> wd_test_ok w'
        \<or> st_status s' \<in> {INSUFFICIENT_EVIDENCE, FAILED})) w"
  by (auto simp: create_sandbox_node_def wlp_def Let_def split: prod.splits sum.splits)

lemma with_manager_does:
  "wlp (with_manager f) (\<lambda>x w'. \<exists>m m'. wd_manager w = Some m \<and> f (wd_tick w) m = (m', Inr x)
      \<and> w' = w\<lparr>wd_manager := Some m', wd_tick := Suc (wd_tick w)\<rparr>) w"
  by (auto simp: with_manager_def wlp_def split: option.splits prod.splits sum.splits)

lemma apply_io_does:
  "wlp (apply_io env s p) (\<lambda>x w'. wd_manager w' \<noteq> None \<and> wd_test_ok w' = wd_test_ok w) w"
  unfolding apply_io_def by (rule wlp_mono [OF with_manager_does]) auto

lemma replay_patch_does:
  "wd_manager w \<noteq> None \<Longrightarrow> wlp (replay_patch env s) (\<lambda>x w'. wd_manager w' \<noteq> None \<and> wd_test_ok w' = wd_test_ok w) w"
  using apply_io_does [of env s "the (at_patch_diff (last (st_patch_attempts s)))" w]
  by (auto simp: replay_patch_def wlp_def split: prod.splits sum.splits)

lemma ensure_workspace_does:
  assumes "st_status s = RUNNING"
  shows "wlp (ensure_workspace env replay s) (\<lambda>(s', ready) w'. inquiry s' = inquiry s \<and> patching s' = patching s
     \<and> (ready \<longrightarrow> st_status s' = RUNNING \<and> wd_manager w' \<noteq> None)
     \<and> (\<not> ready \<longrightarrow> st_status s' \<in> {INSUFFICIENT_EVIDENCE, FAILED})
     \<and> (wd_manager w \<noteq> None \<longrightarrow> w' = w)) w"
proof (cases "wd_manager w")
  case (Some m)
  then show ?thesis using assms by (simp add: ensure_workspace_def wlp_def)
next
  case None
  have "wlp (bind_io (create_sandbox_node env s) (\<lambda>s1.
        if st_status s1 \<noteq> RUNNING then return_io (s1, False)
        else bind_io (if replay then replay_patch env s1 else return_io ()) (\<lambda>_. return_io (s1, True))))
      (\<lambda>(s', ready) w'. inquiry s' = inquiry s \<and> patching s' = patching s
         \<and> (ready \<longrightarrow> st_status s' = RUNNING \<and> wd_manager w' \<noteq> None)
         \<and> (\<not> ready \<longrightarrow> st_status s' \<in> {INSUFFICIENT_EVIDENCE, FAILED})) w"
    unfolding wlp_bind
    by (rule wlp_mono [OF create_node_does])
      (use assms in \<open>auto intro!: wlp_mono [OF replay_patch_does]\<close>)
  then show ?thesis using None by (simp add: ensure_workspace_def wlp_def split: prod.splits sum.splits)
qed

lemma patching_change_last:
  "inquiry (change_last f s) = inquiry s" "st_patch_artifact (change_last f s) = st_patch_artifact s"
  "length (st_patch_attempts (change_last f s)) = length (st_patch_attempts s)"
  "st_patch_attempts s \<noteq> [] \<Longrightarrow> last (st_patch_attempts (change_last f s)) = f (last (st_patch_attempts s))"
  "st_status (change_last f s) = st_status s" "st_result (change_last f s) = st_result s"
  "(st_patch_attempts (change_last f s) = []) = (st_patch_attempts s = [])"
  by (simp_all add: change_last_def inquiry_def)

lemma try_patch_does:
  assumes "st_patch_attempts s \<noteq> []"
  shows "wlp (try_patch env s pg) (\<lambda>s' w'. inquiry s' = inquiry s \<and> st_patch_artifact s' = st_patch_artifact s
     \<and> length (st_patch_attempts s') = length (st_patch_attempts s)
     \<and> (st_status s' = st_status s \<and> at_patch_diff (last (st_patch_attempts s')) = Some (fst pg)
          \<and> wd_manager w' \<noteq> None
        \<or> st_status s' = FAILED)) w"
proof (cases "apply_io env s (fst pg) w")
  case (Pair w1 r)
  show ?thesis
  proof (cases r)
    case (Inl e)
    then show ?thesis using Pair by (simp add: try_patch_def patching_change_last)
  next
    case (Inr u)
    have "wd_manager w1 \<noteq> None" using wlpD [OF apply_io_does, of env s "fst pg" w w1 u] Pair Inr by simp
    then show ?thesis using Pair Inr assms by (simp add: try_patch_def patching_change_last)
  qed
qed

lemma propose_patch_does: "wlp (propose_patch env s) (\<lambda>pg w'. True) w"
  by (rule wlp_const) simp

lemma generate_node_does:
  assumes "st_status s = RUNNING"
  shows "wlp (generate_patch_node env s) (\<lambda>s' w'. inquiry s' = inquiry s \<and> st_patch_artifact s' = st_patch_artifact s
     \<and> (st_status s' = RUNNING \<and> length (st_patch_attempts s') = Suc (length (st_patch_attempts s))
          \<and> int (length (st_patch_attempts s')) \<le> en_max_patch_attempts env
          \<and> at_patch_diff (last (st_patch_attempts s')) \<noteq> None \<and> wd_manager w' \<noteq> None
        \<or> st_status s' \<in> {FAILED, NEEDS_HUMAN_INTERVENTION})) w"
proof -
  let ?s = "s\<lparr>st_workflow_state := W_GENERATE_PATCH\<rparr>"
  let ?P = "\<lambda>s' w'. inquiry s' = inquiry s \<and> st_patch_artifact s' = st_patch_artifact s
     \<and> (st_status s' = RUNNING \<and> length (st_patch_attempts s') = Suc (length (st_patch_attempts s))
          \<and> int (length (st_patch_attempts s')) \<le> en_max_patch_attempts env
          \<and> at_patch_diff (last (st_patch_attempts s')) \<noteq> None \<and> wd_manager w' \<noteq> None
        \<or> st_status s' \<in> {FAILED, NEEDS_HUMAN_INTERVENTION})"
  show ?thesis
  proof (rule wlpI)
    fix w' s'
    assume run: "generate_patch_node env s w = (w', Inr s')"
    obtain w1 where w1: "drop_runtime ?s w = (w1, Inr ())" by (simp add: drop_runtime_def)
    obtain s2 ready w2 where en: "ensure_workspace env False ?s w1 = (w2, Inr (s2, ready))"
      and rest: "(if ready \<and> base_changed s2 w2 then (w2, Inl (ValueError ''base changed between patch attempts''))
          else if \<not> ready then (w2, Inr (s2\<lparr>st_status := FAILED, st_error := Some ''sandbox manager missing''\<rparr>))
          else
            let s3 = s2\<lparr>st_patch_attempts := st_patch_attempts s2 @ [new_attempt s2]\<rparr> in
            if en_max_patch_attempts env < int (length (st_patch_attempts s3))
            then (w2, Inr ((needs_human s3)\<lparr>st_error := Some ''max patch attempts exceeded''\<rparr>))
            else bind_io (propose_patch env s3) (try_patch env s3) w2) = (w', Inr s')"
      using run w1
      by (auto simp: generate_patch_node_def bind_io_def Let_def split: prod.splits sum.splits)
    have e: "inquiry s2 = inquiry s" "patching s2 = patching s" "ready \<Longrightarrow> st_status s2 = RUNNING"
      using wlpD [OF ensure_workspace_does en] assms by simp_all
    let ?s3 = "s2\<lparr>st_patch_attempts := st_patch_attempts s2 @ [new_attempt s2]\<rparr>"
    have kept: "inquiry ?s3 = inquiry s" "st_patch_artifact ?s3 = st_patch_artifact s"
        "length (st_patch_attempts ?s3) = Suc (length (st_patch_attempts s))"
      using e(1,2) by (simp_all add: patching_def)
    consider (missing) "\<not> ready" | (many) "ready" "en_max_patch_attempts env < int (length (st_patch_attempts ?s3))"
      | (go) "ready" "\<not> en_max_patch_attempts env < int (length (st_patch_attempts ?s3))" by blast
    then show "?P s' w'"
    proof cases
      case missing
      then show ?thesis using rest e(1,2) by (auto simp: patching_def)
    next
      case many
      then have "s' = (needs_human ?s3)\<lparr>st_error := Some ''max patch attempts exceeded''\<rparr>"
        using rest by (auto simp: Let_def split: if_splits)
      then show ?thesis using kept(1,2) by (simp add: needs_human_def stop_as_def inquiry_def)
    next
      case go
      have "wlp (bind_io (propose_patch env ?s3) (try_patch env ?s3)) ?P w2"
        unfolding wlp_bind
      proof (rule wlp_mono [OF propose_patch_does])
        fix pg w3
        show "wlp (try_patch env ?s3 pg) ?P w3"
          by (rule wlp_mono [OF try_patch_does]) (use kept e(3) go in auto)
      qed
      moreover have "bind_io (propose_patch env ?s3) (try_patch env ?s3) w2 = (w', Inr s')"
        using rest go by (simp add: Let_def split: if_splits)
      ultimately show ?thesis by (rule wlpD)
    qed
  qed
qed

text \<open>The last attempt carries the test run the result names, at the base of the workspace.\<close>

definition tested :: "AgentState \<Rightarrow> world \<Rightarrow> bool" where
  "tested s w \<longleftrightarrow> at_test_run_id (last (st_patch_attempts s)) = Some (result_str ''test_run_id'' s)
     \<and> at_base_commit_sha (last (st_patch_attempts s)) = Some (manager_base s w)
     \<and> at_test_ok (last (st_patch_attempts s)) = wd_test_ok w"

lemma result_str_tested: "result_str ''test_run_id'' (tested_result env tid r s) = tid"
  by (simp add: tested_result_def result_str_def set_result_def)

lemma tested_result_simps [simp]:
  "inquiry (tested_result env tid r s) = inquiry s" "patching (tested_result env tid r s) = patching s"
  "st_status (tested_result env tid r s) = st_status s"
  "st_patch_attempts (tested_result env tid r s) = st_patch_attempts s"
  "st_patch_artifact (tested_result env tid r s) = st_patch_artifact s"
  "st_run_id (tested_result env tid r s) = st_run_id s"
  by (simp_all add: tested_result_def)

lemma inquiry_run_id: "inquiry s = inquiry s' \<Longrightarrow> st_run_id s = st_run_id s'"
  by (simp add: inquiry_def)

lemma manager_base_eq:
  "st_run_id s = st_run_id s' \<Longrightarrow> wd_manager w = wd_manager w' \<Longrightarrow> manager_base s w = manager_base s' w'"
  by (simp add: manager_base_def split: option.split)

lemma tests_io_does: "wlp (tests_io env s) (\<lambda>r w'. wd_manager w' \<noteq> None) w"
  unfolding tests_io_def by (rule wlp_mono [OF with_manager_does]) auto

lemma run_tests_node_does:
  assumes "st_status s = RUNNING"
  shows "wlp (run_tests_node env s) (\<lambda>s' w'. inquiry s' = inquiry s \<and> st_patch_artifact s' = st_patch_artifact s
     \<and> length (st_patch_attempts s') = length (st_patch_attempts s)
     \<and> (st_status s' = FAILED
        \<or> st_status s' = RUNNING \<and> wd_manager w' \<noteq> None
          \<and> (st_patch_attempts s \<noteq> [] \<longrightarrow> tested s' w'
               \<and> at_patch_diff (last (st_patch_attempts s')) = at_patch_diff (last (st_patch_attempts s))))) w"
    (is "wlp _ ?P w")
proof (rule wlpI)
  fix w' s'
  assume run: "run_tests_node env s w = (w', Inr s')"
  let ?s = "s\<lparr>st_workflow_state := W_RUN_TESTS\<rparr>"
  let ?tests = "\<lambda>s2. catch_io (tests_io env s2)
          (\<lambda>e. return_io (s2\<lparr>st_status := FAILED, st_error := Some (''run tests failed: '' @ message e)\<rparr>))
          (\<lambda>r. bind_io (new_id env ''TR'') (\<lambda>tid w.
             (w\<lparr>wd_test_ok := sr_ok r\<rparr>,
              Inr (tested_result env tid r (change_last (tested_attempt tid (manager_base s2 w) r) s2)))))"
  obtain s2 ready w2 where en: "ensure_workspace env True ?s w = (w2, Inr (s2, ready))"
    and rest: "(if \<not> ready then return_io (s2\<lparr>st_status := FAILED\<rparr>) else ?tests s2) w2 = (w', Inr s')"
    using run by (auto simp: run_tests_node_def bind_io_def Let_def split: prod.splits sum.splits)
  have e: "inquiry s2 = inquiry s" "patching s2 = patching s" "ready \<Longrightarrow> st_status s2 = RUNNING"
    using wlpD [OF ensure_workspace_does en] assms by simp_all
  have p: "st_patch_attempts s2 = st_patch_attempts s" "st_patch_artifact s2 = st_patch_artifact s"
    using e(2) by (simp_all add: patching_def)
  show "?P s' w'"
  proof (cases ready)
    case False
    then show ?thesis using rest e p by (auto simp: return_io_def)
  next
    case True
    have "wlp (?tests s2) ?P w2"
    proof (cases "tests_io env s2 w2")
      case (Pair w3 res)
      show ?thesis
      proof (cases res)
        case (Inl x)
        then show ?thesis using Pair e p by simp
      next
        case (Inr r)
        have m: "wd_manager w3 \<noteq> None"
          using wlpD [OF tests_io_does] Pair Inr by simp
        let ?w4 = "w3\<lparr>wd_tick := Suc (wd_tick w3)\<rparr>"
        let ?tid = "''TR'' @ ''-'' @ en_new_id env (wd_tick w3)"
        let ?s' = "tested_result env ?tid r (change_last (tested_attempt ?tid (manager_base s2 ?w4) r) s2)"
        let ?w' = "?w4\<lparr>wd_test_ok := sr_ok r\<rparr>"
        have base: "manager_base ?s' ?w' = manager_base s2 ?w4"
          by (rule manager_base_eq) (simp_all add: change_last_def)
        have keep: "inquiry ?s' = inquiry s" "st_patch_artifact ?s' = st_patch_artifact s"
            "length (st_patch_attempts ?s') = length (st_patch_attempts s)" "st_status ?s' = RUNNING"
          using e p True by (simp_all add: patching_change_last)
        have last: "st_patch_attempts s \<noteq> [] \<Longrightarrow> last (st_patch_attempts ?s')
            = tested_attempt ?tid (manager_base s2 ?w4) r (last (st_patch_attempts s))"
          using p by (simp add: patching_change_last)
        have "st_patch_attempts s \<noteq> [] \<Longrightarrow> tested ?s' ?w'"
          unfolding tested_def base result_str_tested last by (simp add: tested_attempt_def)
        moreover have "st_patch_attempts s \<noteq> [] \<Longrightarrow>
            at_patch_diff (last (st_patch_attempts ?s')) = at_patch_diff (last (st_patch_attempts s))"
          unfolding last by (simp add: tested_attempt_def)
        moreover have "wd_manager ?w' \<noteq> None" using m by simp
        ultimately have "?P ?s' ?w'" using keep by blast
        then show ?thesis using Pair Inr by simp
      qed
    qed
    then show ?thesis using rest True by (simp add: wlp_def)
  qed
qed

lemma exported_simps:
  "inquiry (exported s x) = inquiry s" "st_patch_attempts (exported s x) = st_patch_attempts s"
  "st_patch_artifact (exported s x) = Some x" "st_status (exported s x) = WAITING_APPROVAL"
  "st_approval_required (exported s x)"
  by (simp_all add: exported_def stop_as_def inquiry_def set_result_def)

text \<open>The artifact of a state waiting for approval is the tested patch of its last attempt.\<close>

definition artifact_of_tested :: "env \<Rightarrow> AgentState \<Rightarrow> bool" where
  "artifact_of_tested env s \<longleftrightarrow> st_patch_attempts s \<noteq> [] \<and> st_approval_required s
     \<and> (\<exists>x a. st_patch_artifact s = Some x \<and> last (st_patch_attempts s) = a \<and> at_test_ok a
          \<and> at_patch_diff a = Some (xa_patch_diff x) \<and> at_test_run_id a = Some (xa_test_run_id x)
          \<and> at_base_commit_sha a = Some (xa_base_commit_sha x)
          \<and> xa_patch_hash x = hash_patch (en_sha env) (xa_patch_diff x))"

lemma export_with_manager_does:
  assumes "st_patch_attempts s \<noteq> []" and "at_patch_diff (last (st_patch_attempts s)) \<noteq> None"
    and "wd_manager w \<noteq> None \<Longrightarrow> tested s w \<and> wd_test_ok w"
  shows "wlp (export_with_manager env s) (\<lambda>s' w'. inquiry s' = inquiry s
     \<and> st_patch_attempts s' = st_patch_attempts s
     \<and> (st_status s' = FAILED \<or> st_status s' = WAITING_APPROVAL \<and> artifact_of_tested env s')) w"
proof (cases "wd_manager w")
  case None
  then show ?thesis by (simp add: export_with_manager_def wlp_def)
next
  case (Some m)
  obtain p where p: "at_patch_diff (last (st_patch_attempts s)) = Some p" using assms(2) by blast
  have t: "tested s w" "wd_test_ok w" using assms(3) Some by simp_all
  define X where "X = export_patch_artifact (en_sha env) (''PA-'' @ en_new_id env (wd_tick w))
      (base_commit_sha (st_run_id s) m) (last_patch s) (result_str ''test_run_id'' s)"
  have good: "artifact_of_tested env (exported s (X\<lparr>xa_patch_artifact_id := pid\<rparr>))" for pid
    using t p assms(1) Some
    by (auto simp: X_def artifact_of_tested_def exported_simps tested_def export_patch_artifact_def last_patch_def
        manager_base_def)
  let ?body = "bind_io (with_manager (\<lambda>n m. (m, Inr (export_patch_artifact (en_sha env) (''PA-'' @ en_new_id env n)
                (base_commit_sha (st_run_id s) m) (last_patch s) (result_str ''test_run_id'' s)))))
       (\<lambda>x. bind_io (\<lambda>w. transaction env (\<lambda>now. persist_patch_artifact_once (en_claim env) now
                          (en_new_id env (wd_tick w)) (st_run_id s) x) w)
          (\<lambda>pid. bind_io (with_manager (\<lambda>n m. (destroy_workspace (st_run_id s) m, Inr ())))
             (\<lambda>_. return_io (exported s (x\<lparr>xa_patch_artifact_id := pid\<rparr>)))))"
  let ?Q = "\<lambda>s' w'. inquiry s' = inquiry s \<and> st_patch_attempts s' = st_patch_attempts s
     \<and> (st_status s' = FAILED \<or> st_status s' = WAITING_APPROVAL \<and> artifact_of_tested env s')"
  have "wlp ?body ?Q w"
    unfolding wlp_bind
  proof (rule wlp_mono [OF with_manager_does])
    fix x w1
    assume "\<exists>m m'. wd_manager w = Some m \<and> (m, Inr (export_patch_artifact (en_sha env)
        (''PA-'' @ en_new_id env (wd_tick w)) (base_commit_sha (st_run_id s) m) (last_patch s)
        (result_str ''test_run_id'' s))) = (m', Inr x) \<and> w1 = w\<lparr>wd_manager := Some m', wd_tick := Suc (wd_tick w)\<rparr>"
    then have x: "x = X" using Some by (auto simp: X_def)
    show "wlp (\<lambda>w. transaction env (\<lambda>now. persist_patch_artifact_once (en_claim env) now
                          (en_new_id env (wd_tick w)) (st_run_id s) x) w)
         (\<lambda>pid. wlp (with_manager (\<lambda>n m. (destroy_workspace (st_run_id s) m, Inr ())))
            (\<lambda>_. wlp (return_io (exported s (x\<lparr>xa_patch_artifact_id := pid\<rparr>))) ?Q)) w1"
      by (rule wlp_const, rule wlp_const) (simp add: x good exported_simps)
  qed
  then show ?thesis using Some by (simp add: export_with_manager_def wlp_def)
qed

lemma export_node_does:
  assumes "st_status s = RUNNING" and "st_patch_attempts s \<noteq> []"
    and "at_patch_diff (last (st_patch_attempts s)) \<noteq> None"
    and "wd_manager w \<noteq> None \<Longrightarrow> tested s w \<and> wd_test_ok w"
  shows "wlp (export_artifact_node env s) (\<lambda>s' w'. inquiry s' = inquiry s
     \<and> length (st_patch_attempts s') = length (st_patch_attempts s)
     \<and> (st_status s' = FAILED \<or> st_status s' = WAITING_APPROVAL \<and> artifact_of_tested env s')) w"
    (is "wlp _ ?P w")
proof -
  let ?s = "s\<lparr>st_workflow_state := W_EXPORT_PATCH_ARTIFACT\<rparr>"
  show ?thesis
  proof (cases "wd_manager w")
    case (Some m)
    have "wlp (export_with_manager env ?s) ?P w"
      by (rule wlp_mono [OF export_with_manager_does])
        (use assms Some in \<open>auto simp: tested_def result_str_def manager_base_def\<close>)
    then show ?thesis using Some by (simp add: export_artifact_node_def Let_def wlp_def)
  next
    case None
    have "wlp (bind_io (run_tests_node env ?s) (\<lambda>s2 w2.
             if st_status s2 \<noteq> RUNNING \<or> \<not> wd_test_ok w2 then (w2, Inr (stop_as FAILED W_FAILED s2))
             else export_with_manager env s2 w2)) ?P w"
      unfolding wlp_bind
    proof (rule wlp_mono [OF run_tests_node_does])
      show "st_status ?s = RUNNING" using assms(1) by simp
      fix s2 w2
      assume r: "inquiry s2 = inquiry ?s \<and> st_patch_artifact s2 = st_patch_artifact ?s
         \<and> length (st_patch_attempts s2) = length (st_patch_attempts ?s)
         \<and> (st_status s2 = FAILED
            \<or> st_status s2 = RUNNING \<and> wd_manager w2 \<noteq> None
              \<and> (st_patch_attempts ?s \<noteq> [] \<longrightarrow> tested s2 w2
               \<and> at_patch_diff (last (st_patch_attempts s2)) = at_patch_diff (last (st_patch_attempts ?s))))"
      show "wlp (\<lambda>w2. if st_status s2 \<noteq> RUNNING \<or> \<not> wd_test_ok w2 then (w2, Inr (stop_as FAILED W_FAILED s2))
             else export_with_manager env s2 w2) ?P w2"
      proof (cases "st_status s2 \<noteq> RUNNING \<or> \<not> wd_test_ok w2")
        case True
        then show ?thesis using r by (simp add: wlp_def stop_as_def inquiry_def)
      next
        case False
        have "wlp (export_with_manager env s2) ?P w2"
          by (rule wlp_mono [OF export_with_manager_does]) (use assms r False in auto)
        then show ?thesis using False by (simp add: wlp_def)
      qed
    qed
    then show ?thesis using None by (simp add: export_artifact_node_def Let_def wlp_def)
  qed
qed

section \<open>The wrapper of a node\<close>

lemma bind_io_Inr: "bind_io m f w = (w', Inr y) \<longleftrightarrow> (\<exists>w1 x. m w = (w1, Inr x) \<and> f x w1 = (w', Inr y))"
  by (auto simp: bind_io_def split: prod.splits sum.splits)

lemma transaction_world:
  "transaction env op w = (w', r) \<Longrightarrow>
     wd_manager w' = wd_manager w \<and> wd_test_ok w' = wd_test_ok w \<and> wd_gateway w' = wd_gateway w"
  by (auto simp: transaction_def Let_def split: prod.splits)

lemma guarded_cases:
  assumes "guarded env nd s w = (w', Inr s')"
  obtains (skipped) "nd \<noteq> WAIT_FOR_APPROVAL" "st_status s \<noteq> RUNNING" "s' = s" "w' = w"
  | (ran) w1 w2 where "nd = WAIT_FOR_APPROVAL \<or> st_status s = RUNNING"
      "wd_manager w1 = wd_manager w" "wd_test_ok w1 = wd_test_ok w"
      "wd_gateway w1 = (wd_gateway w)\<lparr>gw_budget := restore_budget s (gw_budget (wd_gateway w))\<rparr>"
      "run_node env nd s w1 = (w2, Inr s')"
      "wd_manager w' = wd_manager w2" "wd_test_ok w' = wd_test_ok w2" "wd_gateway w' = wd_gateway w2"
proof (cases "nd \<noteq> WAIT_FOR_APPROVAL \<and> st_status s \<noteq> RUNNING")
  case True
  then have "guarded env nd s = return_io s" unfolding guarded_def by (rule if_P)
  from subst [OF this, of "\<lambda>m. m w = (w', Inr s')", OF assms] have "return_io s w = (w', Inr s')" .
  then show ?thesis using True by (intro skipped) (simp_all add: return_io_def)
next
  case False
  let ?rest = "\<lambda>s'. if nd = WAIT_FOR_APPROVAL then return_io s' else progress_io env s s'"
  have "guarded env nd s = bind_io (fence_io env s) (\<lambda>_. bind_io (restore_io s) (\<lambda>_. bind_io (run_node env nd s) ?rest))"
    unfolding guarded_def by (rule if_not_P [OF False])
  from subst [OF this, of "\<lambda>m. m w = (w', Inr s')", OF assms]
  have "bind_io (fence_io env s) (\<lambda>_. bind_io (restore_io s) (\<lambda>_. bind_io (run_node env nd s) ?rest)) w = (w', Inr s')" .
  then obtain wf u where f: "fence_io env s w = (wf, Inr u)"
    and "bind_io (restore_io s) (\<lambda>_. bind_io (run_node env nd s) ?rest) wf = (w', Inr s')"
    unfolding bind_io_Inr by blast
  then obtain w1 v where w1: "restore_io s wf = (w1, Inr v)"
    and "bind_io (run_node env nd s) ?rest w1 = (w', Inr s')"
    unfolding bind_io_Inr by blast
  then obtain w2 s2 where r: "run_node env nd s w1 = (w2, Inr s2)" and rest: "?rest s2 w2 = (w', Inr s')"
    unfolding bind_io_Inr by blast
  note wf = transaction_world [OF f [unfolded fence_io_def]]
  have "s' = s2 \<and> wd_manager w' = wd_manager w2 \<and> wd_test_ok w' = wd_test_ok w2 \<and> wd_gateway w' = wd_gateway w2"
  proof (cases "nd = WAIT_FOR_APPROVAL")
    case True
    then show ?thesis using rest by (simp add: return_io_def)
  next
    case False
    then obtain w3 x where t: "transaction env (\<lambda>now. record_progress (en_claim env) now (st_run_id s)
                (st_workflow_state s2) (st_plan s2) (length (st_tool_calls s2))) w2 = (w3, Inr x)"
        and "return_io s2 w3 = (w', Inr s')"
      using rest by (auto simp: progress_io_def bind_io_Inr)
    then show ?thesis using transaction_world [OF t] by (simp add: return_io_def)
  qed
  moreover have "wd_manager w1 = wd_manager w" "wd_test_ok w1 = wd_test_ok w"
      "wd_gateway w1 = (wd_gateway w)\<lparr>gw_budget := restore_budget s (gw_budget (wd_gateway w))\<rparr>"
    using w1 wf by (auto simp: restore_io_def)
  ultimately show ?thesis using r False by (intro ran [of w1 w2]) auto
qed

section \<open>Invariants and variants of the graph\<close>

text \<open>
  The contract of an assertion per node: a visit that starts in the assertion of the node ends in the
  assertion of the next node, or in \<open>F\<close> when there is none.
\<close>

locale graph_invariant =
  fixes env :: env
    and I :: "node \<Rightarrow> AgentState \<Rightarrow> world \<Rightarrow> bool"
    and F :: "AgentState \<Rightarrow> world \<Rightarrow> bool"
  assumes visit: "I nd s w \<Longrightarrow> guarded env nd s w = (w', Inr s') \<Longrightarrow>
      (case edge env nd s' w' of None \<Rightarrow> F s' w' | Some nd' \<Rightarrow> I nd' s' w')"
begin

lemma drive_final: "I nd s w \<Longrightarrow> drive n env nd s w = (w', Inr s') \<Longrightarrow> F s' w'"
proof (induction n arbitrary: nd s w)
  case 0
  then show ?case by simp
next
  case (Suc n)
  obtain w1 s1 where v: "guarded env nd s w = (w1, Inr s1)"
      and rest: "(case edge env nd s1 w1 of None \<Rightarrow> (w1, Inr s1) | Some nd' \<Rightarrow> drive n env nd' s1 w1) = (w', Inr s')"
    using Suc.prems(2) by (auto simp: bind_io_def split: prod.splits sum.splits)
  then show ?case
    using visit [OF Suc.prems(1) v] Suc.IH by (auto split: option.splits)
qed

end

text \<open>The nodes a run visits, with any fuel.\<close>

fun trail :: "nat \<Rightarrow> env \<Rightarrow> node \<Rightarrow> AgentState \<Rightarrow> world \<Rightarrow> node list" where
  "trail 0 env nd s w = []"
| "trail (Suc n) env nd s w = nd # (case guarded env nd s w of
     (w', Inl e) \<Rightarrow> []
   | (w', Inr s') \<Rightarrow> (case edge env nd s' w' of None \<Rightarrow> [] | Some nd' \<Rightarrow> trail n env nd' s' w'))"

text \<open>With a number that decreases along every edge, the graph ends by itself.\<close>

locale graph_variant = graph_invariant +
  fixes V :: "node \<Rightarrow> AgentState \<Rightarrow> nat"
  assumes decreases: "I nd s w \<Longrightarrow> guarded env nd s w = (w', Inr s') \<Longrightarrow>
      edge env nd s' w' = Some nd' \<Longrightarrow> V nd' s' < V nd s"
begin

lemma drive_enough: "I nd s w \<Longrightarrow> V nd s < n \<Longrightarrow> V nd s < m \<Longrightarrow> drive n env nd s w = drive m env nd s w"
proof (induction n arbitrary: m nd s w)
  case 0
  then show ?case by simp
next
  case (Suc n)
  then obtain m' where m: "m = Suc m'" by (cases m) auto
  have "(case edge env nd s1 w1 of None \<Rightarrow> (w1, Inr s1) | Some nd' \<Rightarrow> drive n env nd' s1 w1)
      = (case edge env nd s1 w1 of None \<Rightarrow> (w1, Inr s1) | Some nd' \<Rightarrow> drive m' env nd' s1 w1)"
    if "guarded env nd s w = (w1, Inr s1)" for w1 s1
  proof (cases "edge env nd s1 w1")
    case (Some nd')
    have "I nd' s1 w1" "V nd' s1 < V nd s"
      using visit [OF Suc.prems(1) that] decreases [OF Suc.prems(1) that Some] Some by simp_all
    then show ?thesis using Suc.IH [of nd' s1 w1 m'] Suc.prems(2,3) Some m by simp
  qed simp
  then show ?case by (simp add: m bind_io_def split: prod.split sum.split)
qed

lemma trail_bounded: "I nd s w \<Longrightarrow> length (trail n env nd s w) \<le> Suc (V nd s)"
proof (induction n arbitrary: nd s w)
  case 0
  then show ?case by simp
next
  case (Suc n)
  have "length (trail n env nd' s' w') \<le> V nd s"
    if "guarded env nd s w = (w', Inr s')" "edge env nd s' w' = Some nd'" for w' s' nd'
  proof -
    have "I nd' s' w'" using visit [OF Suc.prems that(1)] that(2) by simp
    then show ?thesis using Suc.IH decreases [OF Suc.prems that] by (meson Suc_leI le_trans)
  qed
  then show ?case by (simp split: prod.split sum.split option.split)
qed

end

end
