(* ===== verification/GraphDemo.thy ===== *)
theory GraphDemo
  imports GraphFacts
begin

text \<open>
  A concrete run for the witnesses: the deterministic policy with the fake tools on a repository with
  the fault the deterministic patch repairs. Hashes are the identity, identifiers count the external
  events, and nobody else writes to the database.
\<close>

definition faulty_app :: string where
  "faulty_app = ''def list_orders():'' @ nl @ find_slow @ find_old @ ''        return []'' @ nl"

definition demo_tree :: Repo where
  "demo_tree = \<lparr>rp_files = [(''app.py'', faulty_app), (''tests/test_regression.py'', ''def test_ok(): pass'')],
     rp_links = []\<rparr>"

definition demo_summary :: string where
  "demo_summary = ''orders-api degradation is caused by dependency timeout configuration''"

definition demo_sandbox :: SandboxSettings where
  "demo_sandbox = \<lparr>ss_environment = ''test'', ss_sandbox_enabled = True, ss_sandbox_network = ''none'',
     ss_sandbox_image = ''incidentpilot-sandbox:py312'', ss_sandbox_fault_type = []\<rparr>"

definition demo_env :: env where
  "demo_env = \<lparr>en_decision = deterministic_model, en_provider_name = ''fake'', en_model_name = ''fake-model-v1'',
     en_strategy = AUTONOMOUS, en_max_tool_calls = 40, en_max_patch_attempts = 3, en_investigation_only = False,
     en_sandbox = demo_sandbox, en_tools = (\<lambda>n name. fake_handler (\<lambda>q. Inr ()) ''slow_database_query'' name),
     en_jitter = (\<lambda>n k. 1 / 2), en_new_id = show_nat, en_sha = (\<lambda>x. x), en_source = (\<lambda>n. SourceDir demo_tree),
     en_source_name = ''reference/orders_api'', en_git = (\<lambda>n. \<lparr>gs_head = Some ''0a1b'', gs_dirty = False\<rparr>),
     en_numstat = (\<lambda>n r p. None), en_applied = (\<lambda>n r p. None),
     en_process = (\<lambda>n cmd r. (r, Inr (0, ''1 passed'', []))), en_python = ''python3'', en_root = ''/tmp/w'',
     en_claim = None, en_now = (\<lambda>n. 0), en_others = (\<lambda>n d. d), en_usage = (\<lambda>n. JNull)\<rparr>"

definition demo_incident :: Incident where
  "demo_incident = \<lparr>inc_id = ''i'', inc_incident_id = ''INC-1'', inc_owner_id = None, inc_title = ''Slow orders'',
     inc_service = ''orders-api'', inc_severity = SEV2, inc_symptom = ''p95 above 2s'', inc_start_time = 0,
     inc_repository = ''orders-api'', inc_environment = ''staging'', inc_status = I_INVESTIGATING, inc_payload = []\<rparr>"

definition demo_agent_run :: AgentRun where
  "demo_agent_run = \<lparr>ar_id = ''p'', ar_run_id = ''RUN-1'', ar_incident_pk = ''i'', ar_status = RUNNING,
     ar_workflow_state = W_INCIDENT_RECEIVED, ar_plan = [], ar_root_cause = None, ar_tool_call_count = 0,
     ar_patch_attempt_count = 0, ar_trace_id = ''T-1'', ar_error = None, ar_result = [], ar_worker_id = None,
     ar_lease_expires_at = None, ar_attempt_count = 1, ar_next_attempt_at = None, ar_last_heartbeat_at = None,
     ar_failure_category = None, ar_started_at = 0, ar_finished_at = None\<rparr>"

definition demo_start :: AgentState where
  "demo_start = initial_state demo_incident demo_agent_run"

definition demo_world :: world where
  "demo_world = \<lparr>wd_gateway = \<lparr>gw_registry = register_fake_readonly_tools [], gw_budget = new_budget 40 20,
       gw_audit_log = []\<rparr>, wd_manager = None, wd_test_ok = False, wd_db = empty_db, wd_tick = 0\<rparr>"

text \<open>The run after its tests passed, when the artifact is exported.\<close>

definition demo_attempt :: PatchAttempt where
  "demo_attempt = \<lparr>at_attempt = 1, at_summary = demo_summary, at_patch_diff = Some ''[]'',
     at_status = Some ''TESTS_PASSED'', at_generator = Some ''deterministic-test-adapter'', at_error = None,
     at_base_commit_sha = Some ''0a1b'', at_test_run_id = Some ''TR-9'', at_test_ok = True,
     at_test_exit_code = Some 0, at_test_mode = Some ''local-pytest'', at_test_stdout = ''1 passed'',
     at_test_stderr = [], at_reflection = None\<rparr>"

definition demo_tested :: AgentState where
  "demo_tested = demo_start\<lparr>st_workflow_state := W_RUN_TESTS, st_patch_attempts := [demo_attempt],
     st_result := [(''test_run_id'', JStr ''TR-9'')]\<rparr>"

definition demo_tested_world :: world where
  "demo_tested_world = demo_world\<lparr>wd_manager := Some \<lparr>sm_workspaces = [], sm_base_commits = [(''RUN-1'', ''0a1b'')]\<rparr>,
     wd_test_ok := True\<rparr>"

text \<open>The run with two observations, under the strategy that asks for a conclusion
  directly.\<close>

definition demo_call :: "string \<Rightarrow> string \<Rightarrow> ToolResult" where
  "demo_call tid name = \<lparr>tl_tool_call_id = tid, tl_tool_name = name, tl_status = T_SUCCEEDED,
     tl_output = [(''top_errors'', JStr tid)], tl_error = None, tl_input = JObj [],
     tl_attempt_count = 1, tl_error_category = None, tl_trace_id = ''T-1''\<rparr>"

definition demo_item :: "string \<Rightarrow> string \<Rightarrow> string \<Rightarrow> string \<Rightarrow> EvidenceItem" where
  "demo_item eid tid name kind = \<lparr>ev_evidence_id = eid, ev_run_id = ''RUN-1'', ev_source = name,
     ev_source_type = kind, ev_tool_call_id = tid, ev_content = ''timeout'', ev_summary = ''timeouts'',
     ev_hash = content_hash (\<lambda>x. x) (tl_output (demo_call tid name)), ev_result = tl_output (demo_call tid name)\<rparr>"

definition demo_inquiry :: AgentState where
  "demo_inquiry = demo_start\<lparr>
     st_evidence := [demo_item ''E-A'' ''TC-A'' ''read_logs'' ''log'', demo_item ''E-B'' ''TC-B'' ''read_metrics'' ''metric''],
     st_tool_calls := [demo_call ''TC-A'' ''read_logs'', demo_call ''TC-B'' ''read_metrics'']\<rparr>"

definition demo_inquiry_env :: env where
  "demo_inquiry_env = demo_env\<lparr>en_strategy := DIRECT\<rparr>"

end
