(* ===== verification/GraphProps.thy ===== *)
theory GraphProps
  imports GraphFacts GraphDemo
begin

text \<open>
  What the graph guarantees: it ends by itself and never in status \<open>RUNNING\<close>, what waits for approval
  is the patch whose tests passed, and a root cause rests on evidence that successful tool calls of
  the run returned. The first two follow from one assertion per node, the third from another.
\<close>

section \<open>Routing\<close>

definition patched :: "AgentState \<Rightarrow> bool" where
  "patched s \<longleftrightarrow> st_patch_attempts s \<noteq> [] \<and> at_patch_diff (last (st_patch_attempts s)) \<noteq> None"

fun at_node :: "node \<Rightarrow> AgentState \<Rightarrow> world \<Rightarrow> bool" where
  "at_node VERIFY_HYPOTHESIS s w = (st_root_cause s = None \<and> rejected_count s < 3 \<and> st_hypotheses s \<noteq> []
     \<and> hy_status (last (st_hypotheses s)) \<noteq> ''REJECTED'')"
| "at_node RUN_TESTS s w = patched s"
| "at_node EXPORT_PATCH_ARTIFACT s w = (patched s \<and> (wd_manager w \<noteq> None \<longrightarrow> tested s w \<and> wd_test_ok w))"
| "at_node WAIT_FOR_APPROVAL s w = False"
| "at_node nd s w = (nd \<in> {PLAN, COLLECT_EVIDENCE, FORM_HYPOTHESIS} \<longrightarrow> st_root_cause s = None \<and> rejected_count s < 3)"

definition settled :: "env \<Rightarrow> AgentState \<Rightarrow> world \<Rightarrow> bool" where
  "settled env s w \<longleftrightarrow> st_status s \<noteq> RUNNING \<and> (st_status s = WAITING_APPROVAL \<longrightarrow> artifact_of_tested env s)"

definition well_routed :: "env \<Rightarrow> node \<Rightarrow> AgentState \<Rightarrow> world \<Rightarrow> bool" where
  "well_routed env nd s w \<longleftrightarrow> (if st_status s = RUNNING then at_node nd s w else settled env s w)"

text \<open>The edges that can still be taken; \<open>patching_left\<close> counts those from \<open>generate_patch\<close> on.\<close>

definition patching_left :: "env \<Rightarrow> AgentState \<Rightarrow> nat" where
  "patching_left env s = 3 * (nat (en_max_patch_attempts env) - length (st_patch_attempts s)) + 1"

definition inquiry_left :: "AgentState \<Rightarrow> nat" where
  "inquiry_left s = 3 * (3 - rejected_count s)"

fun edges_left :: "env \<Rightarrow> node \<Rightarrow> AgentState \<Rightarrow> nat" where
  "edges_left env PLAN s = inquiry_left s + patching_left env s + 2"
| "edges_left env COLLECT_EVIDENCE s = inquiry_left s + patching_left env s + 1"
| "edges_left env FORM_HYPOTHESIS s = inquiry_left s + patching_left env s"
| "edges_left env VERIFY_HYPOTHESIS s = inquiry_left s - 1 + patching_left env s"
| "edges_left env CREATE_SANDBOX s = patching_left env s + 1"
| "edges_left env GENERATE_PATCH s = patching_left env s"
| "edges_left env RUN_TESTS s = patching_left env s + 2"
| "edges_left env REFLECT s = patching_left env s + 1"
| "edges_left env EXPORT_PATCH_ARTIFACT s = 1"
| "edges_left env WAIT_FOR_APPROVAL s = 0"
| "edges_left env NEEDS_HUMAN s = 0"

text \<open>One visit: the next node is in its assertion, and the number of edges went down.\<close>

definition visit_ok :: "env \<Rightarrow> node \<Rightarrow> AgentState \<Rightarrow> AgentState \<Rightarrow> world \<Rightarrow> bool" where
  "visit_ok env nd s s' w' \<longleftrightarrow> (case edge env nd s' w' of
      None \<Rightarrow> settled env s' w'
    | Some nd' \<Rightarrow> well_routed env nd' s' w' \<and> edges_left env nd' s' < edges_left env nd s)"

lemma rejected_count_cong: "st_hypotheses s = st_hypotheses s' \<Longrightarrow> rejected_count s = rejected_count s'"
  by (simp add: rejected_count_def)

lemma left_cong:
  "st_hypotheses s = st_hypotheses s' \<Longrightarrow> inquiry_left s = inquiry_left s'"
  "length (st_patch_attempts s) = length (st_patch_attempts s') \<Longrightarrow> patching_left env s = patching_left env s'"
  by (simp_all add: inquiry_left_def patching_left_def rejected_count_def)

lemma inquiryD:
  assumes "inquiry s' = inquiry s"
  shows "st_hypotheses s' = st_hypotheses s" "st_root_cause s' = st_root_cause s" "st_run_id s' = st_run_id s"
    "st_evidence s' = st_evidence s" "st_tool_calls s' = st_tool_calls s"
  using assms by (simp_all add: inquiry_def)

lemma patchingD:
  assumes "patching s' = patching s"
  shows "st_patch_attempts s' = st_patch_attempts s" "st_patch_artifact s' = st_patch_artifact s"
  using assms by (simp_all add: patching_def)

text \<open>A node that is skipped, or ends the run, in a status other than \<open>RUNNING\<close>.\<close>

lemma visit_stopped:
  assumes "settled env s' w'" and "patching_left env s' = patching_left env s \<or> nd \<notin> {PLAN, REFLECT}"
    and "inquiry_left s' = inquiry_left s \<or> nd \<noteq> PLAN"
  shows "visit_ok env nd s s' w'"
  using assms
  by (cases nd) (auto simp: visit_ok_def settled_def well_routed_def route_after_collect_def route_after_verify_def
      route_after_patch_def route_after_tests_def patching_left_def)

lemma settled_plain: "st_status s \<notin> {RUNNING, WAITING_APPROVAL} \<Longrightarrow> settled env s w"
  by (simp add: settled_def)

lemma visit_run:
  assumes run: "run_node env nd s w = (w1, Inr s')" and status: "st_status s = RUNNING"
    and at: "at_node nd s w" and same: "wd_manager w' = wd_manager w1" "wd_test_ok w' = wd_test_ok w1"
      "wd_gateway w' = wd_gateway w1"
  shows "visit_ok env nd s s' w'"
proof (cases nd)
  case PLAN
  have d: "inquiry s' = inquiry s" "patching s' = patching s" "st_status s' = RUNNING"
    using wlpD [OF plan_node_does, of env s w w1 s'] run PLAN status by auto
  then show ?thesis
    using at PLAN left_cong [of s' s] inquiryD [OF d(1)] patchingD [OF d(2)]
    by (simp add: visit_ok_def well_routed_def rejected_count_def)
next
  case COLLECT_EVIDENCE
  have d: "st_hypotheses s' = st_hypotheses s" "st_root_cause s' = st_root_cause s" "patching s' = patching s"
      "st_status s' = RUNNING \<or> st_status s' \<in> {INSUFFICIENT_EVIDENCE, NEEDS_HUMAN_INTERVENTION}"
    using wlpD [OF collect_node_does, of env s w w1 s'] run COLLECT_EVIDENCE status by auto
  then show ?thesis
    using at COLLECT_EVIDENCE left_cong [of s' s] patchingD [OF d(3)]
    by (auto simp: visit_ok_def well_routed_def rejected_count_def route_after_collect_def settled_def)
next
  case FORM_HYPOTHESIS
  note d = wlpD [OF form_node_does [OF status], of env w w1 s']
  have p: "patching s' = patching s" using d run FORM_HYPOTHESIS by simp
  consider (go) h where "st_status s' = RUNNING" "st_root_cause s' = st_root_cause s"
      "st_hypotheses s' = st_hypotheses s @ [open_hypothesis h]"
    | (stop) "st_status s' \<in> {INSUFFICIENT_EVIDENCE, INVESTIGATION_COMPLETE}"
    using d run FORM_HYPOTHESIS by auto
  then show ?thesis
  proof cases
    case go
    then show ?thesis
      using at FORM_HYPOTHESIS left_cong(2) [of s' s] patchingD [OF p]
      by (auto simp: visit_ok_def well_routed_def rejected_count_def open_hypothesis_def inquiry_left_def)
  next
    case stop
    then show ?thesis using FORM_HYPOTHESIS by (intro visit_stopped) (auto simp: settled_def)
  qed
next
  case VERIFY_HYPOTHESIS
  have pre: "st_root_cause s = None" "st_hypotheses s \<noteq> []" "rejected_count s < 3"
      "hy_status (last (st_hypotheses s)) \<noteq> ''REJECTED''"
    using at VERIFY_HYPOTHESIS by simp_all
  have v: "verified_from env s s' w1"
    using wlpD [OF verify_node_does [OF status pre(1,2)]] run VERIFY_HYPOTHESIS by simp
  have p: "patching s' = patching s" using v by (simp add: verified_from_def)
  have steps: "steps_left w' = steps_left w1" using same by (simp add: steps_left_def)
  consider (stop) "st_status s' \<in> {INSUFFICIENT_EVIDENCE, INVESTIGATION_COMPLETE}"
    | (again) h where "st_status s' = RUNNING" "st_root_cause s' = None" "rejected_count s' < 3" "steps_left w1"
        "st_hypotheses s' = butlast (st_hypotheses s) @ [h]" "hy_status h = ''REJECTED''"
    | (found) "st_status s' = RUNNING" "st_root_cause s' \<noteq> None"
    using v found_root [of env s'] by (auto simp: verified_from_def)
  then show ?thesis
  proof cases
    case stop
    then show ?thesis using VERIFY_HYPOTHESIS by (intro visit_stopped) (auto simp: settled_def)
  next
    case again
    have hyps: "st_hypotheses s = butlast (st_hypotheses s) @ [last (st_hypotheses s)]" using pre(2) by simp
    have "rejected_count s = length (filter (\<lambda>h. hy_status h = ''REJECTED'') (butlast (st_hypotheses s)))"
      unfolding rejected_count_def by (subst hyps) (simp add: pre(4))
    then have "rejected_count s' = Suc (rejected_count s)"
      using again(5,6) by (simp add: rejected_count_def)
    then show ?thesis
      using again VERIFY_HYPOTHESIS steps left_cong(2) [of s' s] patchingD [OF p]
      by (auto simp: visit_ok_def well_routed_def route_after_verify_def inquiry_left_def)
  next
    case found
    have "3 \<le> inquiry_left s" using pre(3) by (simp add: inquiry_left_def)
    then show ?thesis
      using found VERIFY_HYPOTHESIS left_cong(2) [of s' s] patchingD [OF p]
      by (auto simp: visit_ok_def well_routed_def route_after_verify_def)
  qed
next
  case CREATE_SANDBOX
  have d: "patching s' = patching s" "st_status s' \<in> {RUNNING, INSUFFICIENT_EVIDENCE, FAILED}"
    using wlpD [OF create_node_does, of env s w w1 s'] run CREATE_SANDBOX status by auto
  then show ?thesis
    using CREATE_SANDBOX left_cong(2) [of s' s] patchingD [OF d(1)]
    by (auto simp: visit_ok_def well_routed_def settled_def)
next
  case GENERATE_PATCH
  note d = wlpD [OF generate_node_does [OF status], of env w w1 s']
  consider (go) "st_status s' = RUNNING" "length (st_patch_attempts s') = Suc (length (st_patch_attempts s))"
      "int (length (st_patch_attempts s')) \<le> en_max_patch_attempts env"
      "at_patch_diff (last (st_patch_attempts s')) \<noteq> None"
    | (stop) "st_status s' \<in> {FAILED, NEEDS_HUMAN_INTERVENTION}"
    using d run GENERATE_PATCH by auto
  then show ?thesis
  proof cases
    case go
    then have "patched s'" by (auto simp: patched_def)
    moreover have "patching_left env s' + 2 < patching_left env s" using go by (simp add: patching_left_def)
    moreover have "0 < patching_left env s" by (simp add: patching_left_def)
    ultimately show ?thesis
      using go GENERATE_PATCH by (simp add: visit_ok_def well_routed_def route_after_patch_def)
  next
    case stop
    then show ?thesis using GENERATE_PATCH by (intro visit_stopped) (auto simp: settled_def)
  qed
next
  case RUN_TESTS
  note d = wlpD [OF run_tests_node_does [OF status], of env w w1 s']
  have ne: "st_patch_attempts s \<noteq> []" "at_patch_diff (last (st_patch_attempts s)) \<noteq> None"
    using at RUN_TESTS by (simp_all add: patched_def)
  consider (go) "st_status s' = RUNNING" "tested s' w1" "patched s'"
      "length (st_patch_attempts s') = length (st_patch_attempts s)"
    | (stop) "st_status s' = FAILED"
  proof -
    assume a: "st_status s' = RUNNING \<Longrightarrow> tested s' w1 \<Longrightarrow> patched s' \<Longrightarrow>
        length (st_patch_attempts s') = length (st_patch_attempts s) \<Longrightarrow> thesis"
      and b: "st_status s' = FAILED \<Longrightarrow> thesis"
    have "length (st_patch_attempts s') = length (st_patch_attempts s)" using d run RUN_TESTS by simp
    moreover from this have "st_patch_attempts s' \<noteq> []" using ne(1) by auto
    ultimately show thesis using d run RUN_TESTS ne a b by (auto simp: patched_def)
  qed
  then show ?thesis
  proof cases
    case go
    have "tested s' w'" using go(2) same manager_base_eq [of s' s' w' w1] by (simp add: tested_def)
    then show ?thesis
      using go RUN_TESTS left_cong(2) [OF go(4), of env] same
      by (auto simp: visit_ok_def well_routed_def route_after_tests_def patching_left_def)
  next
    case stop
    then show ?thesis using RUN_TESTS by (intro visit_stopped) (auto simp: settled_def)
  qed
next
  case REFLECT
  have d: "st_status s' = RUNNING" "length (st_patch_attempts s') = length (st_patch_attempts s)"
    using run REFLECT status by (auto simp: reflect_node_def return_io_def Let_def)
  then show ?thesis
    using REFLECT left_cong(2) [OF d(2), of env] by (simp add: visit_ok_def well_routed_def)
next
  case EXPORT_PATCH_ARTIFACT
  have e: "patched s" "wd_manager w \<noteq> None \<Longrightarrow> tested s w \<and> wd_test_ok w"
    using at EXPORT_PATCH_ARTIFACT by simp_all
  have "st_status s' = FAILED \<or> st_status s' = WAITING_APPROVAL \<and> artifact_of_tested env s'"
    using wlpD [OF export_node_does [OF status _ _ e(2)]] e(1) run EXPORT_PATCH_ARTIFACT
    by (auto simp: patched_def)
  then show ?thesis
    using EXPORT_PATCH_ARTIFACT by (auto simp: visit_ok_def well_routed_def settled_def)
next
  case WAIT_FOR_APPROVAL
  then show ?thesis using at by simp
next
  case NEEDS_HUMAN
  then show ?thesis
    using run by (auto simp: needs_human_node_def return_io_def visit_ok_def settled_def)
qed

lemma at_node_restored:
  "wd_manager w1 = wd_manager w \<Longrightarrow> wd_test_ok w1 = wd_test_ok w \<Longrightarrow> at_node nd s w1 = at_node nd s w"
  using manager_base_eq [of s s w1 w] by (cases nd) (simp_all add: tested_def)

lemma visit_guarded:
  assumes "well_routed env nd s w" and "guarded env nd s w = (w', Inr s')"
  shows "visit_ok env nd s s' w'"
  using assms(2)
proof (cases rule: guarded_cases)
  case skipped
  then have "settled env s' w'" using assms(1) by (simp add: well_routed_def)
  then show ?thesis using skipped by (intro visit_stopped) simp_all
next
  case (ran w1 w2)
  show ?thesis
  proof (cases "st_status s = RUNNING")
    case True
    then have "at_node nd s w1"
      using assms(1) at_node_restored [OF ran(2,3)] by (simp add: well_routed_def)
    then show ?thesis using visit_run [OF ran(5) True] ran(6-8) by blast
  next
    case False
    then have nd: "nd = WAIT_FOR_APPROVAL" using ran(1) by blast
    then have "s' = s" using ran(5) by (simp add: return_io_def)
    moreover have "settled env s w'" using assms(1) False by (simp add: well_routed_def settled_def)
    ultimately show ?thesis using nd by (simp add: visit_ok_def)
  qed
qed

interpretation routed: graph_variant env "well_routed env" "settled env" "edges_left env" for env
proof unfold_locales
  fix nd s w w' s'
  assume "well_routed env nd s w" "guarded env nd s w = (w', Inr s')"
  then have "visit_ok env nd s s' w'" by (rule visit_guarded)
  then show "case edge env nd s' w' of None \<Rightarrow> settled env s' w' | Some nd' \<Rightarrow> well_routed env nd' s' w'"
    by (auto simp: visit_ok_def split: option.splits)
next
  fix nd s w w' s' nd'
  assume "well_routed env nd s w" "guarded env nd s w = (w', Inr s')" "edge env nd s' w' = Some nd'"
  then show "edges_left env nd' s' < edges_left env nd s"
    using visit_guarded by (fastforce simp: visit_ok_def)
qed

lemma initial_well_routed: "well_routed env PLAN (initial_state inc run) w"
  by (simp add: well_routed_def initial_state_def rejected_count_def)

lemma initial_edges: "edges_left env PLAN (initial_state inc run) = 12 + 3 * nat (en_max_patch_attempts env)"
  by (simp add: inquiry_left_def patching_left_def initial_state_def rejected_count_def)

text \<open>
  C9. Termination. However models, tools and processes answer, a run visits at most
  \<open>13 + 3 * max_patch_attempts\<close> nodes: any larger recursion limit gives the outcome of this one, and
  when it is a state, its status is not \<open>RUNNING\<close>. LangGraph's limit of 50 is never what ends a run as
  long as \<open>max_patch_attempts\<close> is at most 12.
\<close>

theorem graph_terminates:
  assumes "bound = 13 + 3 * nat (en_max_patch_attempts env)" and "bound \<le> n"
  shows "length (trail m env PLAN (initial_state inc run) w) \<le> bound
    \<and> drive n env PLAN (initial_state inc run) w = drive bound env PLAN (initial_state inc run) w
    \<and> (en_max_patch_attempts env \<le> 12 \<longrightarrow>
         drive n env PLAN (initial_state inc run) w = drive RECURSION_LIMIT env PLAN (initial_state inc run) w)
    \<and> (\<forall>w' s'. drive n env PLAN (initial_state inc run) w \<noteq> (w', Inr s') \<or> st_status s' \<noteq> RUNNING)"
proof (intro conjI impI allI)
  have less: "edges_left env PLAN (initial_state inc run) < bound"
    using assms(1) by (simp add: initial_edges del: edges_left.simps)
  show "length (trail m env PLAN (initial_state inc run) w) \<le> bound"
    using routed.trail_bounded [OF initial_well_routed] less by (meson Suc_leI le_trans)
  show "drive n env PLAN (initial_state inc run) w = drive bound env PLAN (initial_state inc run) w"
    using routed.drive_enough [OF initial_well_routed less_le_trans [OF less assms(2)] less] .
  show "drive n env PLAN (initial_state inc run) w = drive RECURSION_LIMIT env PLAN (initial_state inc run) w"
    if "en_max_patch_attempts env \<le> 12"
  proof (rule routed.drive_enough [OF initial_well_routed less_le_trans [OF less assms(2)]])
    show "edges_left env PLAN (initial_state inc run) < RECURSION_LIMIT"
      using that by (simp add: initial_edges RECURSION_LIMIT_def del: edges_left.simps)
  qed
  show "drive n env PLAN (initial_state inc run) w \<noteq> (w', Inr s') \<or> st_status s' \<noteq> RUNNING" for w' s'
    using routed.drive_final [OF initial_well_routed] by (fastforce simp: settled_def)
qed

theorem graph_terminates_witness:
  "length (trail 1000 demo_env PLAN demo_start demo_world) \<le> 22
    \<and> drive 100 demo_env PLAN demo_start demo_world = drive 22 demo_env PLAN demo_start demo_world"
proof -
  have "en_max_patch_attempts demo_env = 3" by (simp add: demo_env_def)
  then show ?thesis
    using graph_terminates [of 22 demo_env 100 1000 demo_incident demo_agent_run demo_world]
    by (simp add: demo_start_def)
qed

section \<open>What waits for approval\<close>

text \<open>
  C10. What waits for approval has been tested. From any node in its assertion (the start of a run, or
  a checkpoint of one with or without its workspace), a run that ends in \<open>WAITING_APPROVAL\<close> carries as
  its artifact exactly the patch of its last attempt, with the hash of that patch, the test run that
  passed on it and the base commit it was tested on.
\<close>

theorem waiting_is_tested:
  assumes "well_routed env nd s w" and "drive n env nd s w = (w', Inr s')" and "st_status s' = WAITING_APPROVAL"
  shows "well_routed env PLAN (initial_state inc run) w
    \<and> (\<exists>x a. st_patch_artifact s' = Some x \<and> st_patch_attempts s' \<noteq> [] \<and> last (st_patch_attempts s') = a
         \<and> at_test_ok a \<and> at_patch_diff a = Some (xa_patch_diff x)
         \<and> xa_patch_hash x = hash_patch (en_sha env) (xa_patch_diff x)
         \<and> at_test_run_id a = Some (xa_test_run_id x) \<and> at_base_commit_sha a = Some (xa_base_commit_sha x))"
  using routed.drive_final [OF assms(1,2)] assms(3) initial_well_routed
  by (auto simp: settled_def artifact_of_tested_def)

theorem waiting_is_tested_witness:
  "\<exists>w' s' x a. drive 2 demo_env EXPORT_PATCH_ARTIFACT demo_tested demo_tested_world = (w', Inr s')
     \<and> st_patch_artifact s' = Some x \<and> last (st_patch_attempts s') = a \<and> at_test_ok a
     \<and> at_patch_diff a = Some (xa_patch_diff x) \<and> xa_patch_hash x = xa_patch_diff x"
proof -
  have "case drive 2 demo_env EXPORT_PATCH_ARTIFACT demo_tested demo_tested_world of
      (w', r) \<Rightarrow> (case r of Inl e \<Rightarrow> False | Inr s' \<Rightarrow> st_status s' = WAITING_APPROVAL)"
    by code_simp
  then obtain w' s' where run: "drive 2 demo_env EXPORT_PATCH_ARTIFACT demo_tested demo_tested_world = (w', Inr s')"
    and status: "st_status s' = WAITING_APPROVAL"
    by (auto split: prod.splits sum.splits)
  have "at_node EXPORT_PATCH_ARTIFACT demo_tested demo_tested_world" "st_status demo_tested = RUNNING"
    by code_simp+
  then have pre: "well_routed demo_env EXPORT_PATCH_ARTIFACT demo_tested demo_tested_world"
    by (simp add: well_routed_def)
  show ?thesis
    using waiting_is_tested [OF pre run status] run by (auto simp: hash_patch_def demo_env_def)
qed

section \<open>What a root cause rests on\<close>

definition supported :: "env \<Rightarrow> AgentState \<Rightarrow> RootCause \<Rightarrow> bool" where
  "supported env s rc \<longleftrightarrow>
     (\<exists>es. st_evidence s = valid_evidence (en_sha env) es (st_tool_calls s) (st_run_id s))
     \<and> cited (rc_evidence_ids rc) (st_evidence s)
     \<and> (rc_verified rc \<longrightarrow> ev_evidence_id (last (st_evidence s)) \<in> set (rc_evidence_ids rc)
          \<and> 2 \<le> card (ev_source ` {e \<in> set (st_evidence s). ev_evidence_id e \<in> set (rc_evidence_ids rc)})
          \<and> (dm_deterministic (en_decision env) \<or> rc_fault_category rc \<in> set TAXONOMY))"

definition concluded :: "env \<Rightarrow> AgentState \<Rightarrow> bool" where
  "concluded env s \<longleftrightarrow> (case st_root_cause s of None \<Rightarrow> True | Some rc \<Rightarrow> supported env s rc)"

lemma concluded_cong:
  assumes "inquiry s' = inquiry s"
  shows "concluded env s' = concluded env s"
  by (simp add: concluded_def supported_def inquiryD [OF assms] split: option.split)

lemma concluded_none: "st_root_cause s = None \<Longrightarrow> concluded env s"
  by (simp add: concluded_def)

lemma form_concluded:
  assumes "form_hypothesis_node env s w = (w1, Inr s')" and "st_status s = RUNNING" and "st_root_cause s = None"
  shows "concluded env s'"
  using wlpD [OF form_node_does [OF assms(2)] assms(1)] assms(3)
  by (auto simp: concluded_def supported_def root_cause_of_def)

lemma found_concluded:
  assumes "found env s"
  shows "concluded env s"
proof -
  obtain c es where rc: "st_root_cause s = Some (root_cause_of c True)"
    and es: "st_evidence s = valid_evidence (en_sha env) es (st_tool_calls s) (st_run_id s)"
    and a: "acceptable (dm_deterministic (en_decision env)) c (st_evidence s)"
    using assms unfolding found_def by blast
  have "supported env s (root_cause_of c True)"
    using a unfolding supported_def acceptable_def
    by (intro conjI exI [of _ es] es) (simp_all add: root_cause_of_def)
  then show ?thesis by (simp add: concluded_def rc)
qed

lemma verified_concluded: "verified_from env s s' w \<Longrightarrow> concluded env s'"
  unfolding verified_from_def using found_concluded concluded_none by blast

lemma run_concluded:
  assumes run: "run_node env nd s w = (w1, Inr s')" and status: "st_status s = RUNNING"
    and at: "at_node nd s w" and c: "concluded env s"
  shows "concluded env s'"
proof (cases nd)
  case COLLECT_EVIDENCE
  then show ?thesis using wlpD [OF collect_node_does, of env s w w1 s'] run at by (intro concluded_none) simp
next
  case FORM_HYPOTHESIS
  then show ?thesis using form_concluded run status at by simp
next
  case VERIFY_HYPOTHESIS
  then show ?thesis
    using wlpD [OF verify_node_does [OF status], of env w w1 s'] run at verified_concluded by auto
next
  case EXPORT_PATCH_ARTIFACT
  then have "inquiry s' = inquiry s"
    using wlpD [OF export_node_does [OF status], of w env w1 s'] run at by (simp add: patched_def)
  then show ?thesis using c concluded_cong by blast
next
  case PLAN
  then have "inquiry s' = inquiry s" using wlpD [OF plan_node_does, of env s w w1 s'] run by simp
  then show ?thesis using c concluded_cong by blast
next
  case CREATE_SANDBOX
  then have "inquiry s' = inquiry s" using wlpD [OF create_node_does, of env s w w1 s'] run by simp
  then show ?thesis using c concluded_cong by blast
next
  case GENERATE_PATCH
  then have "inquiry s' = inquiry s" using wlpD [OF generate_node_does [OF status], of env w w1 s'] run by simp
  then show ?thesis using c concluded_cong by blast
next
  case RUN_TESTS
  then have "inquiry s' = inquiry s" using wlpD [OF run_tests_node_does [OF status], of env w w1 s'] run by simp
  then show ?thesis using c concluded_cong by blast
next
  case REFLECT
  then have "inquiry s' = inquiry s" using run by (auto simp: reflect_node_def return_io_def Let_def inquiry_def)
  then show ?thesis using c concluded_cong by blast
next
  case WAIT_FOR_APPROVAL
  then show ?thesis using at by simp
next
  case NEEDS_HUMAN
  then have "inquiry s' = inquiry s" using run by (auto simp: needs_human_node_def return_io_def)
  then show ?thesis using c concluded_cong by blast
qed

interpretation grounded: graph_invariant env "\<lambda>nd s w. well_routed env nd s w \<and> concluded env s"
    "\<lambda>s w. concluded env s" for env
proof unfold_locales
  fix nd s w w' s'
  assume pre: "well_routed env nd s w \<and> concluded env s" and g: "guarded env nd s w = (w', Inr s')"
  have "concluded env s'"
    using g
  proof (cases rule: guarded_cases)
    case skipped
    then show ?thesis using pre by simp
  next
    case (ran w1 w2)
    show ?thesis
    proof (cases "st_status s = RUNNING")
      case True
      then have "at_node nd s w1"
        using pre at_node_restored [OF ran(2,3)] by (simp add: well_routed_def)
      then show ?thesis using run_concluded [OF ran(5) True] pre by blast
    next
      case False
      then show ?thesis using ran(1,5) pre by (auto simp: return_io_def)
    qed
  qed
  then show "case edge env nd s' w' of None \<Rightarrow> concluded env s'
      | Some nd' \<Rightarrow> well_routed env nd' s' w' \<and> concluded env s'"
    using visit_guarded [OF _ g] pre by (auto simp: visit_ok_def split: option.splits)
qed

text \<open>
  C11. What a root cause rests on. Whatever a model answers, when a run that starts without a root cause
  ends with one, every id it cites names an item of the final evidence, and each item of that evidence
  is the output of a successful call this run made; a verified root cause also cites the observation
  made to verify it, at least two different tools, and a category of the fixed taxonomy unless the
  deterministic policy concluded.
\<close>

theorem root_cause_grounded:
  assumes "well_routed env nd s w" and "st_root_cause s = None"
    and "drive n env nd s w = (w', Inr s')" and "st_root_cause s' = Some rc"
  shows "rc_evidence_ids rc \<noteq> [] \<and> set (rc_evidence_ids rc) \<subseteq> ev_evidence_id ` set (st_evidence s')
    \<and> set (st_evidence s') \<subseteq> {e. backed (en_sha env) (st_tool_calls s') (st_run_id s') e}
    \<and> (rc_verified rc \<longrightarrow> ev_evidence_id (last (st_evidence s')) \<in> set (rc_evidence_ids rc)
         \<and> 2 \<le> card (ev_source ` {e \<in> set (st_evidence s'). ev_evidence_id e \<in> set (rc_evidence_ids rc)})
         \<and> (dm_deterministic (en_decision env) \<or> rc_fault_category rc \<in> set TAXONOMY))"
proof -
  have "concluded env s'"
    using grounded.drive_final [OF _ assms(3)] assms(1,2) concluded_none by blast
  then have sup: "supported env s' rc" using assms(4) by (simp add: concluded_def)
  then obtain es where "st_evidence s' = valid_evidence (en_sha env) es (st_tool_calls s') (st_run_id s')"
    by (auto simp: supported_def)
  then have "set (st_evidence s') \<subseteq> {e. backed (en_sha env) (st_tool_calls s') (st_run_id s') e}"
    using valid_evidence_member by auto
  with sup show ?thesis by (simp add: supported_def cited_def)
qed

theorem root_cause_grounded_witness:
  "\<exists>w' s' rc. drive 1 demo_inquiry_env FORM_HYPOTHESIS demo_inquiry demo_world = (w', Inr s')
     \<and> st_root_cause s' = Some rc \<and> rc_evidence_ids rc \<noteq> []
     \<and> set (st_evidence s') \<subseteq> {e. backed (\<lambda>x. x) (st_tool_calls s') ''RUN-1'' e}"
proof -
  have "case drive 1 demo_inquiry_env FORM_HYPOTHESIS demo_inquiry demo_world of
      (w', r) \<Rightarrow> (case r of Inl e \<Rightarrow> False | Inr s' \<Rightarrow> st_root_cause s' \<noteq> None \<and> st_run_id s' = ''RUN-1'')"
    by code_simp
  then obtain w' s' rc where run: "drive 1 demo_inquiry_env FORM_HYPOTHESIS demo_inquiry demo_world = (w', Inr s')"
    and rc: "st_root_cause s' = Some rc" "st_run_id s' = ''RUN-1''"
    by (auto split: prod.splits sum.splits)
  have "at_node FORM_HYPOTHESIS demo_inquiry demo_world" "st_status demo_inquiry = RUNNING" "st_root_cause demo_inquiry = None"
    by code_simp+
  then have pre: "well_routed demo_inquiry_env FORM_HYPOTHESIS demo_inquiry demo_world" "st_root_cause demo_inquiry = None"
    by (simp_all add: well_routed_def)
  have "en_sha demo_inquiry_env = (\<lambda>x. x)" by (simp add: demo_inquiry_env_def demo_env_def)
  then show ?thesis
    using root_cause_grounded [OF pre run rc(1)] run rc by metis
qed

end
