(* ===== verification/GraphBudget.thy ===== *)
theory GraphBudget
  imports GraphFacts GraphDemo
begin

text \<open>
  The budget of tool calls over a whole run: the gateway counts executions, the state keeps the results
  of the calls, and a recovered process restores the counter from them. Only \<open>collect_evidence\<close> and
  \<open>verify_hypothesis\<close> call tools; every other node leaves gateway and calls alone.
\<close>

section \<open>Operations that leave the gateway alone\<close>

abbreviation quiet :: "'a io \<Rightarrow> bool" where
  "quiet \<equiv> keeps wd_gateway"

named_theorems quiet_intro

lemma quietD: "quiet m \<Longrightarrow> m w = (w', r) \<Longrightarrow> wd_gateway w' = wd_gateway w"
  unfolding keeps_def by (metis fst_conv)

lemma quietI: "(\<And>w w' r. m w = (w', r) \<Longrightarrow> wd_gateway w' = wd_gateway w) \<Longrightarrow> quiet m"
  unfolding keeps_def by (metis surjective_pairing)

lemma quiet_simple [quiet_intro]: "quiet (return_io x)" "quiet (raise_io e)" "quiet (ask f)" "quiet (new_id env pre)"
  by (simp_all add: keeps_def return_io_def raise_io_def ask_def new_id_def)

lemma quiet_bind [quiet_intro]:
  assumes "quiet m" and "\<And>x. quiet (f x)"
  shows "quiet (bind_io m f)"
proof (rule quietI)
  fix w w' r
  assume run: "bind_io m f w = (w', r)"
  obtain w1 r1 where m: "m w = (w1, r1)" by fastforce
  show "wd_gateway w' = wd_gateway w"
    using run quietD [OF assms(1) m] quietD [OF assms(2)] by (cases r1) (auto simp: bind_io_def m)
qed

lemma quiet_catch [quiet_intro]:
  assumes "quiet m" and "\<And>e. quiet (h e)" and "\<And>x. quiet (f x)"
  shows "quiet (catch_io m h f)"
proof (rule quietI)
  fix w w' r
  assume run: "catch_io m h f w = (w', r)"
  obtain w1 r1 where m: "m w = (w1, r1)" by fastforce
  show "wd_gateway w' = wd_gateway w"
    using run quietD [OF assms(1) m] quietD [OF assms(2)] quietD [OF assms(3)]
    by (cases r1) (auto simp: catch_io_def m)
qed

lemma quiet_if [quiet_intro]: "quiet m1 \<Longrightarrow> quiet m2 \<Longrightarrow> quiet (if c then m1 else m2)"
  by simp

lemma quiet_case_prod [quiet_intro]: "(\<And>a b. quiet (f a b)) \<Longrightarrow> quiet (case p of (a, b) \<Rightarrow> f a b)"
  by (simp split: prod.split)

lemma quiet_transaction [quiet_intro]: "quiet (transaction env op)"
  by (rule quietI) (blast dest: transaction_world)

lemma quiet_with_manager [quiet_intro]: "quiet (with_manager f)"
  by (rule quietI) (auto simp: with_manager_def split: option.splits prod.splits)

lemma quiet_apply [quiet_intro]: "quiet (apply_io env s p)"
  unfolding apply_io_def by (rule quiet_with_manager)

lemma quiet_create [quiet_intro]: "quiet (create_sandbox_node env s)"
  by (rule quietI) (auto simp: create_sandbox_node_def Let_def split: if_splits prod.splits)

lemma quiet_drop [quiet_intro]: "quiet (drop_runtime s)"
  by (simp add: keeps_def drop_runtime_def)

lemma quiet_replay [quiet_intro]: "quiet (replay_patch env s)"
  by (rule quietI) (auto simp: replay_patch_def dest: quietD [OF quiet_apply] split: if_splits)

lemma quiet_build:
  "quiet (bind_io (create_sandbox_node env s) (\<lambda>s1.
     if st_status s1 \<noteq> RUNNING then return_io (s1, False)
     else bind_io (if replay then replay_patch env s1 else return_io ()) (\<lambda>_. return_io (s1, True))))"
  by (intro quiet_intro)

lemma quiet_ensure [quiet_intro]: "quiet (ensure_workspace env replay s)"
  by (rule quietI) (auto simp: ensure_workspace_def dest: quietD [OF quiet_build] split: if_splits)

section \<open>The nodes that call no tool\<close>

lemma quiet_plan: "quiet (plan_node env s)"
  unfolding plan_node_def Let_def by (intro quiet_intro)

lemma quiet_form: "quiet (form_hypothesis_node env s)"
  unfolding form_hypothesis_node_def Let_def by (intro quiet_intro)

lemma quiet_simple_nodes: "quiet (reflect_node s)" "quiet (needs_human_node s)"
  unfolding reflect_node_def needs_human_node_def by (intro quiet_intro)+

lemma quiet_try: "quiet (try_patch env s pg)"
  unfolding try_patch_def by (intro quiet_catch quiet_apply quiet_simple) (simp add: keeps_def)

lemma quiet_propose_try: "quiet (bind_io (propose_patch env s) (try_patch env s))"
  unfolding propose_patch_def by (intro quiet_intro quiet_try)

lemma quiet_generate: "quiet (generate_patch_node env s)"
  unfolding generate_patch_node_def Let_def
proof (intro quiet_bind quiet_drop quiet_ensure quiet_case_prod)
  fix s2 ready
  show "quiet (\<lambda>w. if ready \<and> base_changed s2 w then (w, Inl (ValueError ''base changed between patch attempts''))
     else if \<not> ready then (w, Inr (s2\<lparr>st_status := FAILED, st_error := Some ''sandbox manager missing''\<rparr>))
     else if en_max_patch_attempts env < int (length (st_patch_attempts (s2\<lparr>st_patch_attempts := st_patch_attempts s2 @ [new_attempt s2]\<rparr>)))
     then (w, Inr ((needs_human (s2\<lparr>st_patch_attempts := st_patch_attempts s2 @ [new_attempt s2]\<rparr>))\<lparr>st_error := Some ''max patch attempts exceeded''\<rparr>))
     else bind_io (propose_patch env (s2\<lparr>st_patch_attempts := st_patch_attempts s2 @ [new_attempt s2]\<rparr>))
            (try_patch env (s2\<lparr>st_patch_attempts := st_patch_attempts s2 @ [new_attempt s2]\<rparr>)) w)"
    by (rule quietI) (auto dest: quietD [OF quiet_propose_try] split: if_splits)
qed

lemma quiet_tests: "quiet (tests_io env s)"
  unfolding tests_io_def by (rule quiet_with_manager)

lemma quiet_run_tests: "quiet (run_tests_node env s)"
  unfolding run_tests_node_def Let_def
  by (intro quiet_bind quiet_ensure quiet_case_prod quiet_if quiet_simple quiet_catch quiet_tests)
    (simp add: keeps_def)

lemma quiet_persist: "quiet (\<lambda>w. transaction env (op w) w)"
  by (rule quietI) (blast dest: transaction_world)

lemma quiet_export_io:
  "quiet (bind_io (with_manager f) (\<lambda>x. bind_io (\<lambda>w. transaction env (op x w) w)
     (\<lambda>pid. bind_io (with_manager g) (\<lambda>_. return_io (h x pid)))))"
  by (intro quiet_bind quiet_with_manager quiet_persist quiet_simple)

lemma quiet_export_manager: "quiet (export_with_manager env s)"
  by (rule quietI) (auto simp: export_with_manager_def dest: quietD [OF quiet_export_io] split: if_splits)

lemma quiet_export: "quiet (export_artifact_node env s)"
proof (rule quietI)
  fix w w' r
  assume run: "export_artifact_node env s w = (w', r)"
  obtain w1 r1 where t: "run_tests_node env (s\<lparr>st_workflow_state := W_EXPORT_PATCH_ARTIFACT\<rparr>) w = (w1, r1)" by fastforce
  show "wd_gateway w' = wd_gateway w"
    using run quietD [OF quiet_run_tests t]
    by (auto simp: export_artifact_node_def Let_def bind_io_def t dest: quietD [OF quiet_export_manager]
        split: if_splits sum.splits)
qed

section \<open>Charging\<close>

definition attempts_of :: "ToolResult list \<Rightarrow> int" where
  "attempts_of calls = int (sum_list (map tl_attempt_count calls))"

text \<open>The executions behind the results of a state are covered by the counter of the gateway, and by its limit.\<close>

definition charged :: "int \<Rightarrow> ToolResult list \<Rightarrow> world \<Rightarrow> bool" where
  "charged m calls w \<longleftrightarrow> (let b = gw_budget (wd_gateway w) in
     within_budget b \<and> max_tool_calls b = m \<and> attempts_of calls \<le> tool_call_count b)"

definition affordable :: "int \<Rightarrow> AgentState \<Rightarrow> world \<Rightarrow> bool" where
  "affordable m s w \<longleftrightarrow> (let b = gw_budget (wd_gateway w) in
     within_budget b \<and> max_tool_calls b = m \<and> attempts_of (st_tool_calls s) \<le> m)"

lemma charged_affordable: "charged m (st_tool_calls s) w \<Longrightarrow> affordable m s w"
  by (auto simp: charged_def affordable_def within_budget_def Let_def)

lemma restored_charged:
  assumes "affordable m s w" and "wd_gateway w1 = (wd_gateway w)\<lparr>gw_budget := restore_budget s (gw_budget (wd_gateway w))\<rparr>"
  shows "charged m (st_tool_calls s) w1"
  using assms by (auto simp: charged_def affordable_def within_budget_def restore_budget_def attempts_of_def Let_def)

lemma charged_gateway: "wd_gateway w' = wd_gateway w \<Longrightarrow> charged m calls w' = charged m calls w"
  by (simp add: charged_def)

lemma wlp_quiet: "quiet m \<Longrightarrow> (\<And>x w'. wd_gateway w' = wd_gateway w \<Longrightarrow> Q x w') \<Longrightarrow> wlp m Q w"
  by (rule wlpI) (blast dest: quietD)

lemma wlp_call_charged:
  assumes "charged m calls w" and "\<And>r w'. charged m (calls @ [r]) w' \<Longrightarrow> Q r w'"
  shows "wlp (call_tool env s sel) Q w"
proof (rule wlpI)
  fix w' r
  assume "call_tool env s sel w = (w', Inr r)"
  then obtain g ds where c: "call (en_tools env (wd_tick w) (sel_tool_name sel)) (en_jitter env (wd_tick w))
      (''TC-'' @ en_new_id env (wd_tick w)) (st_run_id s) (st_trace_id s) (sel_tool_name sel)
      (JObj (sel_arguments sel)) (wd_gateway w) = (g, ds, Inr r)" "wd_gateway w' = g"
    by (auto simp: call_tool_def Let_def split: prod.splits)
  have "charged m (calls @ [r]) w'"
    using assms(1) call_accounts [OF _ c(1)] c(2) by (simp add: charged_def attempts_of_def Let_def)
  then show "Q r w'" by (rule assms(2))
qed

lemma collect_one_charged:
  assumes "charged m calls w"
  shows "wlp (collect_one env s calls evidence a) (\<lambda>r w'. case r of (go_on, s', calls', evidence') \<Rightarrow> charged m calls' w') w"
proof -
  have tool: "wlp (call_tool env s sel) (\<lambda>r w'. wlp (f r) P w') w"
    if "\<And>r w'. charged m (calls @ [r]) w' \<Longrightarrow> wlp (f r) P w'"
    for sel and f :: "ToolResult \<Rightarrow> (bool \<times> AgentState \<times> ToolResult list \<times> EvidenceItem list) io" and P
    by (rule wlp_call_charged [OF assms]) (rule that)
  have tick: "charged m c (w'\<lparr>wd_tick := n\<rparr>) = charged m c w'" for c w' n
    by (simp add: charged_def)
  show ?thesis
    unfolding collect_one_def
    by (simp add: assms split: option.split, intro impI allI tool) (simp add: Let_def tick)
qed

lemma collect_iteration_charged:
  assumes "charged m calls w"
  shows "wlp (collect_iteration env s calls evidence) (\<lambda>r w'. case r of (go_on, s', calls', evidence') \<Rightarrow> charged m calls' w') w"
proof -
  have c: "charged m calls w1" if "record_step_io w = (w1, Inr u)" for w1 u
    using that assms by (auto simp: record_step_io_def charged_def within_budget_def record_step_def Let_def)
  have q: "quiet (choose_action env s calls evidence)"
    unfolding choose_action_def by (intro quiet_intro)
  show ?thesis
    unfolding collect_iteration_def wlp_bind
  proof (rule wlpI, rule wlp_quiet [OF q])
    fix w1 u x and w2 :: world
    assume "record_step_io w = (w1, Inr u)" "wd_gateway w2 = wd_gateway w1"
    then have "charged m calls w2" using c charged_gateway by metis
    then show "wlp (collect_one env s calls evidence x)
        (\<lambda>r w'. case r of (go_on, s', calls', evidence') \<Rightarrow> charged m calls' w') w2"
      by (rule collect_one_charged)
  qed
qed

lemma collect_node_charged:
  assumes "charged m (st_tool_calls s) w"
  shows "wlp (collect_evidence_node env s) (\<lambda>s' w'. charged m (st_tool_calls s') w') w"
proof (rule wlpI)
  fix w' s'
  assume "collect_evidence_node env s w = (w', Inr s')"
  then obtain s2 calls evidence where
      run: "collect_loop (steps_remaining w) env (s\<lparr>st_workflow_state := W_COLLECT_EVIDENCE\<rparr>) (st_tool_calls s)
        (st_evidence s) w = (w', Inr (s2, calls, evidence))"
      and s': "s' = collect_end (s2\<lparr>st_tool_calls := calls, st_evidence := evidence\<rparr>) w'"
    by (rule collect_node_run)
  have "charged m calls w'"
    using wlpD [OF collect_loop_invariant [where I = "\<lambda>s calls evidence w. charged m calls w",
        OF assms collect_iteration_charged] run] by simp
  then show "charged m (st_tool_calls s') w'"
    using collect_end_does [of "s2\<lparr>st_tool_calls := calls, st_evidence := evidence\<rparr>" w']
    by (simp add: s' inquiry_def)
qed

lemma quiet_judge: "quiet (judge env p s)"
  unfolding judge_def Let_def
  by (intro quiet_bind quiet_simple quiet_if) (simp_all add: keeps_def)

lemma judge_calls: "wlp (judge env p s) (\<lambda>s' w'. st_tool_calls s' = st_tool_calls s) w"
  by (auto simp: judge_def Let_def with_judged_def rejected_outcome_def concluded_outcome_def insufficient_def
      stop_as_def split: sum.split)

lemma judge_charged:
  assumes "charged m (st_tool_calls s) w"
  shows "wlp (judge env p s) (\<lambda>s' w'. charged m (st_tool_calls s') w') w"
proof (rule wlpI)
  fix w' s'
  assume "judge env p s w = (w', Inr s')"
  then show "charged m (st_tool_calls s') w'"
    using assms wlpD [OF judge_calls] charged_gateway [OF quietD [OF quiet_judge]] by metis
qed

lemma verify_node_charged:
  assumes "charged m (st_tool_calls s) w"
  shows "wlp (verify_hypothesis_node env s) (\<lambda>s' w'. charged m (st_tool_calls s') w') w"
proof -
  have tick: "charged m c (w'\<lparr>wd_tick := n\<rparr>) = charged m c w'" for c w' n
    by (simp add: charged_def)
  have calls: "wlp (call_tool env s1 sel) (\<lambda>r w'. wlp (f r) (\<lambda>s' w'. charged m (st_tool_calls s') w') w') w1"
    if "charged m (st_tool_calls s) w1"
      "\<And>r w'. charged m (st_tool_calls s @ [r]) w' \<Longrightarrow> wlp (f r) (\<lambda>s' w'. charged m (st_tool_calls s') w') w'"
    for s1 sel w1 and f :: "ToolResult \<Rightarrow> AgentState io"
    by (rule wlp_call_charged [OF that(1)]) (rule that(2))
  have rest: "wlp (if b then return_io (set_result k v (insufficient (s1\<lparr>st_tool_calls := cs\<rparr>)))
        else bind_io (new_id env pre) (\<lambda>eid. judge env p (with_valid_evidence env
               (s1\<lparr>st_tool_calls := cs, st_evidence := es eid\<rparr>))))
      (\<lambda>s' w'. charged m (st_tool_calls s') w') w1"
    if "charged m cs w1" for b k v s1 cs pre p es w1
    using that by (simp add: tick) (auto simp: insufficient_def stop_as_def set_result_def with_valid_evidence_def tick
        intro!: wlp_mono [OF judge_charged])
  show ?thesis
    unfolding verify_hypothesis_node_def
    using assms by (auto simp: Let_def insufficient_def stop_as_def tick intro!: calls rest split: sum.split)
qed

section \<open>The whole run\<close>

lemma quiet_node_charged:
  assumes "quiet m" and "wlp m (\<lambda>s' w'. st_tool_calls s' = st_tool_calls s) w" and "charged k (st_tool_calls s) w"
  shows "wlp m (\<lambda>s' w'. charged k (st_tool_calls s') w') w"
proof (rule wlpI)
  fix w' s'
  assume run: "m w = (w', Inr s')"
  show "charged k (st_tool_calls s') w'"
    using wlpD [OF assms(2) run] charged_gateway [OF quietD [OF assms(1) run]] assms(3) by simp
qed

lemma inquiry_calls: "inquiry s' = inquiry s \<Longrightarrow> st_tool_calls s' = st_tool_calls s"
  by (simp add: inquiry_def)

lemma export_calls:
  assumes "st_status s = RUNNING"
  shows "wlp (export_artifact_node env s) (\<lambda>s' w'. st_tool_calls s' = st_tool_calls s) w"
proof -
  have e: "st_tool_calls (exported s1 x) = st_tool_calls s1" for s1 x
    by (simp add: exported_def set_result_def stop_as_def Let_def)
  have m: "wlp (export_with_manager env s1) (\<lambda>s' w'. st_tool_calls s' = st_tool_calls s1) w1" for s1 w1
    by (auto simp: export_with_manager_def wlp_def bind_io_def return_io_def e split: prod.splits sum.splits)
  show ?thesis
  proof (rule wlpI)
    fix w' s'
    assume run: "export_artifact_node env s w = (w', Inr s')"
    let ?s = "s\<lparr>st_workflow_state := W_EXPORT_PATCH_ARTIFACT\<rparr>"
    show "st_tool_calls s' = st_tool_calls s"
    proof (cases "wd_manager w = None")
      case True
      then obtain s2 w2 where t: "run_tests_node env ?s w = (w2, Inr s2)"
        and r: "(if st_status s2 \<noteq> RUNNING \<or> \<not> wd_test_ok w2 then (w2, Inr (stop_as FAILED W_FAILED s2))
            else export_with_manager env s2 w2) = (w', Inr s')"
        using run by (auto simp: export_artifact_node_def Let_def bind_io_def split: prod.splits sum.splits)
      have "st_tool_calls s2 = st_tool_calls s"
        using wlpD [OF run_tests_node_does t] assms inquiry_calls [of s2 ?s] by simp
      then show ?thesis using r wlpD [OF m] by (auto simp: stop_as_def split: if_splits)
    next
      case False
      then show ?thesis using run wlpD [OF m] by (fastforce simp: export_artifact_node_def Let_def)
    qed
  qed
qed

lemma run_node_charged:
  assumes "st_status s = RUNNING \<or> nd = WAIT_FOR_APPROVAL" and "charged m (st_tool_calls s) w"
  shows "wlp (run_node env nd s) (\<lambda>s' w'. charged m (st_tool_calls s') w') w"
proof (cases nd)
  case PLAN
  have "wlp (plan_node env s) (\<lambda>s' w'. st_tool_calls s' = st_tool_calls s) w"
    by (rule wlp_mono [OF plan_node_does]) (auto dest: inquiry_calls)
  from quiet_node_charged [OF quiet_plan this assms(2)] show ?thesis by (simp only: PLAN run_node.simps)
next
  case COLLECT_EVIDENCE
  then show ?thesis using collect_node_charged [OF assms(2)] by simp
next
  case FORM_HYPOTHESIS
  then have run: "st_status s = RUNNING" using assms(1) by simp
  have "wlp (form_hypothesis_node env s) (\<lambda>s' w'. st_tool_calls s' = st_tool_calls s) w"
    by (rule wlp_mono [OF form_node_does [OF run]]) simp
  from quiet_node_charged [OF quiet_form this assms(2)] show ?thesis by (simp only: FORM_HYPOTHESIS run_node.simps)
next
  case VERIFY_HYPOTHESIS
  then show ?thesis using verify_node_charged [OF assms(2)] by simp
next
  case CREATE_SANDBOX
  have "wlp (create_sandbox_node env s) (\<lambda>s' w'. st_tool_calls s' = st_tool_calls s) w"
    by (rule wlp_mono [OF create_node_does]) (auto dest: inquiry_calls)
  from quiet_node_charged [OF quiet_create this assms(2)] show ?thesis by (simp only: CREATE_SANDBOX run_node.simps)
next
  case GENERATE_PATCH
  then have run: "st_status s = RUNNING" using assms(1) by simp
  have "wlp (generate_patch_node env s) (\<lambda>s' w'. st_tool_calls s' = st_tool_calls s) w"
    by (rule wlp_mono [OF generate_node_does [OF run]]) (auto dest: inquiry_calls)
  from quiet_node_charged [OF quiet_generate this assms(2)] show ?thesis by (simp only: GENERATE_PATCH run_node.simps)
next
  case RUN_TESTS
  then have run: "st_status s = RUNNING" using assms(1) by simp
  have "wlp (run_tests_node env s) (\<lambda>s' w'. st_tool_calls s' = st_tool_calls s) w"
    by (rule wlp_mono [OF run_tests_node_does [OF run]]) (auto dest: inquiry_calls)
  from quiet_node_charged [OF quiet_run_tests this assms(2)] show ?thesis by (simp only: RUN_TESTS run_node.simps)
next
  case REFLECT
  then show ?thesis using assms(2) by (simp add: reflect_node_def Let_def)
next
  case EXPORT_PATCH_ARTIFACT
  then have run: "st_status s = RUNNING" using assms(1) by simp
  from quiet_node_charged [OF quiet_export export_calls [OF run] assms(2)]
  show ?thesis by (simp only: EXPORT_PATCH_ARTIFACT run_node.simps)
next
  case WAIT_FOR_APPROVAL
  then show ?thesis using assms(2) by simp
next
  case NEEDS_HUMAN
  then show ?thesis using assms(2) by (simp add: needs_human_node_def needs_human_def stop_as_def)
qed

interpretation budgeted: graph_invariant env "\<lambda>nd. affordable m" "affordable m" for env m
proof unfold_locales
  fix nd s w w' s'
  assume a: "affordable m s w" and g: "guarded env nd s w = (w', Inr s')"
  have "affordable m s' w'"
    using g
  proof (cases rule: guarded_cases)
    case skipped
    then show ?thesis using a by simp
  next
    case (ran w1 w2)
    have "charged m (st_tool_calls s') w2"
      using wlpD [OF run_node_charged ran(5)] ran(1) restored_charged [OF a ran(4)] by blast
    then show ?thesis using charged_gateway [OF ran(8)] charged_affordable by blast
  qed
  then show "case edge env nd s' w' of None \<Rightarrow> affordable m s' w' | Some nd' \<Rightarrow> affordable m s' w'"
    by (simp split: option.split)
qed

text \<open>
  C18. The budget of a run. From any node and state whose tool calls fit into the limit, whether the
  process is the first or one that recovered a checkpoint with its own counter back at any value
  within the limit, the run ends with the executions behind all its tool calls, retries included,
  within \<open>max_tool_calls\<close>, and the gateway has not counted past it.
\<close>

theorem budget_is_kept:
  assumes "attempts_of (st_tool_calls s) \<le> max_tool_calls (gw_budget (wd_gateway w))"
    and "within_budget (gw_budget (wd_gateway w))" and "drive n env nd s w = (w', Inr s')"
  shows "attempts_of (st_tool_calls s') \<le> max_tool_calls (gw_budget (wd_gateway w))
    \<and> tool_call_count (gw_budget (wd_gateway w')) \<le> max_tool_calls (gw_budget (wd_gateway w'))
    \<and> max_tool_calls (gw_budget (wd_gateway w')) = max_tool_calls (gw_budget (wd_gateway w))"
proof -
  have "affordable (max_tool_calls (gw_budget (wd_gateway w))) s w"
    using assms(1,2) by (simp add: affordable_def Let_def)
  from budgeted.drive_final [OF this assms(3)] show ?thesis
    by (simp add: affordable_def within_budget_def Let_def)
qed

definition demo_called :: AgentState where
  "demo_called = demo_tested\<lparr>st_tool_calls := [demo_call ''TC-1'' ''read_logs'', demo_call ''TC-2'' ''read_metrics'']\<rparr>"

theorem budget_is_kept_witness:
  "\<exists>w' s'. drive 2 demo_env EXPORT_PATCH_ARTIFACT demo_called demo_tested_world = (w', Inr s')
     \<and> attempts_of (st_tool_calls demo_called) = 2 \<and> attempts_of (st_tool_calls s') \<le> 40"
proof -
  have "case drive 2 demo_env EXPORT_PATCH_ARTIFACT demo_called demo_tested_world of
      (w', r) \<Rightarrow> (case r of Inl e \<Rightarrow> False | Inr s' \<Rightarrow> True)"
    by code_simp
  then obtain w' s' where run: "drive 2 demo_env EXPORT_PATCH_ARTIFACT demo_called demo_tested_world = (w', Inr s')"
    by (auto split: prod.splits sum.splits)
  have two: "attempts_of (st_tool_calls demo_called) = 2"
    by (simp add: attempts_of_def demo_called_def demo_call_def)
  have limit: "max_tool_calls (gw_budget (wd_gateway demo_tested_world)) = 40"
      "within_budget (gw_budget (wd_gateway demo_tested_world))"
    by (simp_all add: demo_tested_world_def demo_world_def new_budget_def within_budget_def)
  have "attempts_of (st_tool_calls s') \<le> 40"
    using budget_is_kept [OF _ limit(2) run] two limit(1) by simp
  with run two show ?thesis by blast
qed

end
