(* ===== verification/LoadsProps.thy ===== *)
theory LoadsProps
  imports Loads
begin

text \<open>
  \<open>json.loads\<close> undoes \<open>json.dumps\<close>, in both layouts: the values, whatever their strings hold, come back
  as they were. The numbers first, then strings, then the nesting; the fuel of the parser is enough.
\<close>

section \<open>Digits\<close>

lemma digits_value_append: "digits_value (xs @ ys) = digits_value xs * 10 ^ length ys + digits_value ys"
proof (induction ys rule: rev_induct)
  case (snoc y ys)
  then show ?case by (simp add: digits_value_def algebra_simps flip: append_assoc)
qed (simp add: digits_value_def)

lemma digit_char: "n < 10 \<Longrightarrow> (of_char (char_of (48 + n :: nat)) :: nat) = 48 + n"
  by simp

lemma zero_char: "char_of (48::nat) = CHR ''0''"
  by code_simp

lemma zero_char_iff: "n < 10 \<Longrightarrow> char_of (48 + n :: nat) = CHR ''0'' \<longleftrightarrow> n = 0"
  using digit_char [of n] digit_char [of 0] zero_char by (metis add.right_neutral add_left_cancel zero_less_numeral)

lemma is_digit_char: "n < 10 \<Longrightarrow> is_digit (char_of (48 + n :: nat))"
  by (simp add: is_digit_def Let_def)

lemma show_nat_digits: "list_all is_digit (show_nat n)"
proof (induction n rule: show_nat.induct)
  case (1 n)
  then show ?case by (subst show_nat.simps) (simp add: is_digit_char)
qed

lemma show_nat_value: "digits_value (show_nat n) = n"
proof (induction n rule: show_nat.induct)
  case (1 n)
  then show ?case
    by (subst show_nat.simps) (simp add: digits_value_append, simp add: digits_value_def)
qed

lemma show_nat_nonempty [simp]: "show_nat n \<noteq> []" "[] \<noteq> show_nat n"
  by (subst show_nat.simps, simp)+

lemma show_nat_zero: "prefix ''0'' (show_nat n) \<longleftrightarrow> n = 0"
proof (induction n rule: show_nat.induct)
  case (1 n)
  show ?case
  proof (cases "n < 10")
    case True
    then show ?thesis using zero_char_iff [OF True] by (subst show_nat.simps) auto
  next
    case False
    then have "prefix ''0'' (show_nat (n div 10)) \<longleftrightarrow> n div 10 = 0" using 1 by simp
    moreover have "prefix ''0'' (show_nat (n div 10) @ xs) = prefix ''0'' (show_nat (n div 10))" for xs
      by (cases "show_nat (n div 10)") simp_all
    ultimately show ?thesis using False by (subst show_nat.simps) auto
  qed
qed

lemma show_nat_0 [simp]: "show_nat 0 = ''0''"
  by (subst show_nat.simps) (simp add: zero_char)

lemma show_nat_length: "n < 10 ^ k \<Longrightarrow> 0 < k \<Longrightarrow> length (show_nat n) \<le> k"
proof (induction k arbitrary: n)
  case (Suc k)
  show ?case
  proof (cases "n < 10")
    case True
    then show ?thesis by (subst show_nat.simps) simp
  next
    case False
    then have "0 < k" using Suc.prems by (cases k) auto
    then have "length (show_nat (n div 10)) \<le> k" using Suc by (simp add: div_less_iff_less_mult mult.commute)
    then show ?thesis using False by (subst show_nat.simps) simp
  qed
qed simp

lemma pad_zeros_value: "digits_value (pad_zeros k s) = digits_value s"
proof -
  have "digits_value (replicate n (CHR ''0'')) = 0" for n
    by (induction n) (simp_all add: digits_value_def fold_replicate)
  then show ?thesis by (simp add: pad_zeros_def digits_value_append)
qed

lemma pad_zeros_digits: "list_all is_digit s \<Longrightarrow> list_all is_digit (pad_zeros k s)"
  by (auto simp: pad_zeros_def list_all_iff is_digit_def)

lemma pad_zeros_length: "length s \<le> k \<Longrightarrow> length (pad_zeros k s) = k"
  by (simp add: pad_zeros_def)

section \<open>Numbers\<close>

text \<open>What may follow a number: the end, or a character that does not continue it.\<close>

definition delimited :: "string \<Rightarrow> bool" where
  "delimited s \<longleftrightarrow> (s = [] \<or> json_space (hd s) \<or> hd s \<in> {CHR '','', CHR '']'', CHR ''}''})"

lemma take_digits:
  assumes "list_all is_digit ds" and "rest = [] \<or> \<not> is_digit (hd rest)"
  shows "takeWhile is_digit (ds @ rest) = ds" "dropWhile is_digit (ds @ rest) = rest"
  using assms by (auto simp: list_all_iff takeWhile_append takeWhile_eq_Nil_iff dropWhile_append)
     (cases rest; simp)+

lemma delimited_ends:
  assumes "delimited rest"
  shows "rest = [] \<or> \<not> is_digit (hd rest)" "\<not> prefix ''.'' rest" "exponent_part rest = (None, rest)"
  using assms
  by (cases rest; auto simp: delimited_def json_space_def is_digit_def exponent_part_def Let_def split: prod.split)+

lemma whole_part_show:
  assumes "rest = [] \<or> \<not> is_digit (hd rest)"
  shows "whole_part (show_nat n @ rest) = (show_nat n, rest)"
proof (cases "n = 0")
  case False
  then have "\<not> prefix ''0'' (show_nat n @ rest)"
    using show_nat_zero [of n] by (cases "show_nat n") auto
  then show ?thesis by (simp add: whole_part_def take_digits [OF show_nat_digits assms])
qed (simp add: whole_part_def)

lemma no_sign: "\<not> prefix ''-'' (show_nat n @ rest)"
  using show_nat_digits [of n] by (cases "show_nat n") (auto simp: is_digit_def)

lemma parse_show_int:
  assumes "delimited rest"
  shows "parse_number (show_int i @ rest) = Some (JInt i, rest)"
  using delimited_ends [OF assms] no_sign [of "nat i" rest]
  by (auto simp: parse_number_def show_int_def whole_part_show decimal_part_def show_nat_value)

lemma norm_float_same: "1 \<le> k \<Longrightarrow> k = 1 \<or> \<not> 10 dvd m \<Longrightarrow> norm_float m k = JFloat m k"
  by (cases "(m, k)" rule: norm_float.cases) auto

lemma parse_show_float:
  assumes "delimited rest" and "1 \<le> k" and "k = 1 \<or> \<not> 10 dvd m"
  shows "parse_number (show_float m k @ rest) = Some (JFloat m k, rest)"
proof -
  define a where "a = nat \<bar>m\<bar>"
  define w where "w = show_nat (a div 10 ^ k)"
  define f where "f = pad_zeros k (show_nat (a mod 10 ^ k))"
  have k: "0 < k" using assms(2) by simp
  have f: "list_all is_digit f" "length f = k" "digits_value f = a mod 10 ^ k"
    using k show_nat_length [of "a mod 10 ^ k" k]
    by (simp_all add: f_def pad_zeros_digits show_nat_digits pad_zeros_length pad_zeros_value show_nat_value)
  have ne: "f \<noteq> []" using f(2) k by auto
  have whole: "whole_part (w @ ''.'' @ f @ rest) = (w, ''.'' @ f @ rest)"
    unfolding w_def by (rule whole_part_show) (simp add: is_digit_def)
  have decimal: "decimal_part (''.'' @ f @ rest) = (f, rest)"
    using ne by (simp add: decimal_part_def take_digits [OF f(1) delimited_ends(1) [OF assms(1)]])
  have "digits_value (w @ f) = a"
    by (simp add: digits_value_append f(2,3) w_def show_nat_value div_mult_mod_eq)
  then have "parse_number ((if m < 0 then ''-'' else []) @ w @ ''.'' @ f @ rest) = Some (scaled_float m (int k), rest)"
    using whole decimal ne f(2) delimited_ends(3) [OF assms(1)] no_sign [of "a div 10 ^ k" "''.'' @ f @ rest"]
    by (auto simp: parse_number_def w_def a_def)
  moreover have "show_float m k = (if m < 0 then ''-'' else []) @ w @ ''.'' @ f"
    using k by (simp add: show_float_def Let_def w_def f_def a_def)
  moreover have "scaled_float m (int k) = JFloat m k"
    using assms(2,3) by (simp add: scaled_float_def norm_float_same)
  ultimately show ?thesis by simp
qed

section \<open>Strings\<close>

lemma hex_digit_value: "n < 16 \<Longrightarrow> hex_value (hex_digit n) = Some n"
proof -
  have "list_all (\<lambda>n. hex_value (hex_digit n) = Some n) [0..<16]" by code_simp
  then show "n < 16 \<Longrightarrow> ?thesis" by (simp add: list_all_iff)
qed

text \<open>The characters the escapes are made of, as numbers and as literals.\<close>

lemma escape_letters: "of_char (CHR ''u'') = (117::nat)" "of_char (CHR ''b'') = (98::nat)" "of_char (CHR ''f'') = (102::nat)"
    "of_char (CHR ''n'') = (110::nat)" "of_char (CHR ''r'') = (114::nat)" "of_char (CHR ''t'') = (116::nat)"
  by simp_all

lemma parse_str_plain:
  "c \<noteq> char_of (34::nat) \<Longrightarrow> c \<noteq> char_of (92::nat) \<Longrightarrow> 32 \<le> (of_char c :: nat) \<Longrightarrow>
     parse_str (c # s) = cons_fst c (parse_str s)"
  by simp

lemma quote_not_backslash: "char_of (92::nat) \<noteq> char_of (34::nat)"
  by code_simp

lemma parse_str_simple:
  assumes "simple_escape d = Some x" and "d \<noteq> CHR ''u''"
  shows "parse_str (char_of (92::nat) # d # s) = cons_fst x (parse_str s)"
  using assms quote_not_backslash by simp

lemma parse_str_hex:
  assumes "hex4 a b c d = Some x"
  shows "parse_str (char_of (92::nat) # CHR ''u'' # a # b # c # d # s) = cons_fst x (parse_str s)"
  using assms quote_not_backslash by (simp del: hex4.simps)

lemma escape_simple:
  "list_all (\<lambda>n. \<exists>d. escape_char (char_of n) = [char_of (92::nat), d] \<and> d \<noteq> CHR ''u'' \<and> simple_escape d = Some (char_of n))
     [34, 92, 10, 13, 9, 12, 8 :: nat]"
proof -
  have "list_all (\<lambda>n. case escape_char (char_of n) of
       [b, d] \<Rightarrow> b = char_of (92::nat) \<and> d \<noteq> CHR ''u'' \<and> simple_escape d = Some (char_of n) | _ \<Rightarrow> False)
     [34, 92, 10, 13, 9, 12, 8 :: nat]" by code_simp
  then show ?thesis by (rule list.pred_mono_strong) (auto split: list.splits)
qed

lemma parse_str_escaped: "parse_str (escape_char c @ s) = cons_fst c (parse_str s)"
proof -
  define n where "n = (of_char c :: nat)"
  have c: "c = char_of n" and lt: "n < 256" by (simp_all add: n_def)
  consider (simple) "n \<in> set [34, 92, 10, 13, 9, 12, 8]"
    | (plain) "n \<noteq> 34" "n \<noteq> 92" "32 \<le> n" "n \<le> 126"
    | (hex) "n \<notin> set [34, 92, 10, 13, 9, 12, 8]" "\<not> (32 \<le> n \<and> n \<le> 126)"
    by auto
  then show ?thesis
  proof cases
    case simple
    then obtain d where "escape_char c = [char_of (92::nat), d]" "d \<noteq> CHR ''u''" "simple_escape d = Some c"
      using escape_simple unfolding list_all_iff c by blast
    then show ?thesis using parse_str_simple [of d c s] by (simp del: parse_str.simps)
  next
    case plain
    then have "escape_char c = [c]" by (simp add: escape_char_def n_def [symmetric] Let_def)
    moreover have "c \<noteq> char_of (34::nat)" "c \<noteq> char_of (92::nat)"
      using plain(1,2) by (auto simp: n_def)
    ultimately show ?thesis using plain(3) parse_str_plain [of c s] by (simp del: parse_str.simps add: n_def)
  next
    case hex
    have "escape_char c = [char_of (92::nat)] @ ''u00'' @ [hex_digit (n div 16), hex_digit (n mod 16)]"
      using hex by (simp add: escape_char_def n_def [symmetric] Let_def)
    moreover have "hex_value (CHR ''0'') = Some 0" by code_simp
    then have "hex4 (CHR ''0'') (CHR ''0'') (hex_digit (n div 16)) (hex_digit (n mod 16)) = Some c"
      using lt hex_digit_value [of "n div 16"] hex_digit_value [of "n mod 16"] by (simp add: c)
    ultimately show ?thesis using parse_str_hex by (simp del: parse_str.simps hex4.simps)
  qed
qed

lemma parse_dumps_str: "parse_str (concat (map escape_char s) @ char_of (34::nat) # rest) = Some (s, rest)"
proof (induction s)
  case (Cons c s)
  have "parse_str (concat (map escape_char (c # s)) @ char_of (34::nat) # rest)
      = cons_fst c (parse_str (concat (map escape_char s) @ char_of (34::nat) # rest))"
    using parse_str_escaped [of c "concat (map escape_char s) @ char_of (34::nat) # rest"]
    by (simp del: parse_str.simps)
  then show ?case by (simp only: Cons.IH) (simp add: cons_fst_def)
qed simp

section \<open>Nested values\<close>

fun canonical :: "json \<Rightarrow> bool" where
  "canonical (JFloat m k) = (1 \<le> k \<and> (k = 1 \<or> \<not> 10 dvd m))"
| "canonical (JList xs) = (\<forall>x \<in> set xs. canonical x)"
| "canonical (JObj kvs) = (distinct (map fst kvs) \<and> (\<forall>kv \<in> set kvs. canonical (snd kv)))"
| "canonical v = True"

text \<open>The fuel a value needs; its text is longer.\<close>

fun fuel :: "json \<Rightarrow> nat" where
  "fuel (JList xs) = Suc (sum_list (map (\<lambda>x. Suc (fuel x)) xs))"
| "fuel (JObj kvs) = Suc (sum_list (map (\<lambda>kv. Suc (fuel (snd kv))) kvs))"
| "fuel v = 1"

lemma join_length:
  assumes "sep \<noteq> []"
  shows "sum_list (map length xs) + length xs \<le> Suc (length (join sep xs))"
  using assms
proof (induction sep xs rule: join.induct)
  case (3 sep x y ys)
  then have "1 \<le> length sep" by (cases sep) auto
  then show ?case using 3 by simp
qed simp_all

lemma render_length: "fuel v \<le> length (render brk gap l v)"
proof (induction v arbitrary: l rule: fuel.induct)
  case (1 xs)
  have "sum_list (map (\<lambda>x. Suc (fuel x)) xs) \<le> sum_list (map (\<lambda>x. Suc (length (render brk gap (Suc l) x))) xs)"
    using 1 by (intro sum_list_mono) simp
  also have "\<dots> = sum_list (map length (map (render brk gap (Suc l)) xs)) + length xs"
    by (induction xs) simp_all
  also have "\<dots> \<le> Suc (length (join ('','' @ gap (Suc l)) (map (render brk gap (Suc l)) xs)))"
    using join_length [of "'','' @ gap (Suc l)" "map (render brk gap (Suc l)) xs"] by simp
  finally show ?case by auto
next
  case (2 kvs)
  let ?f = "\<lambda>kv. dumps_str (fst kv) @ '': '' @ render brk gap (Suc l) (snd kv)"
  have "sum_list (map (\<lambda>kv. Suc (fuel (snd kv))) kvs) \<le> sum_list (map (\<lambda>kv. Suc (length (?f kv))) kvs)"
    using 2 by (intro sum_list_mono) (simp add: le_SucI trans_le_add2)
  also have "\<dots> = sum_list (map length (map ?f kvs)) + length kvs"
    by (induction kvs) simp_all
  also have "\<dots> \<le> Suc (length (join ('','' @ gap (Suc l)) (map ?f kvs)))"
    using join_length [of "'','' @ gap (Suc l)" "map ?f kvs"] by simp
  finally show ?case by auto
qed (simp_all add: show_int_def Suc_le_eq show_float_def Let_def dumps_str_def)

section \<open>Loads undoes dumps\<close>

definition starts :: "string \<Rightarrow> bool" where
  "starts s \<longleftrightarrow> s \<noteq> [] \<and> \<not> json_space (hd s) \<and> hd s \<noteq> CHR '']'' \<and> hd s \<noteq> CHR ''}''"

lemma skip_spaces: "list_all json_space ws \<Longrightarrow> s = [] \<or> \<not> json_space (hd s) \<Longrightarrow> skip_space (ws @ s) = s"
  by (induction ws) (auto simp: skip_space_def dropWhile_eq_self_iff)

lemma starts_append: "starts s \<Longrightarrow> starts (s @ t)"
  by (auto simp: starts_def)

lemma starts_dumps_str [simp]: "starts (dumps_str x @ t)"
proof -
  have "\<not> json_space (char_of (34::nat))" "char_of (34::nat) \<noteq> CHR '']''" "char_of (34::nat) \<noteq> CHR ''}''" by code_simp+
  then show ?thesis by (simp add: dumps_str_def starts_def)
qed

lemma skip_starts_only: "list_all json_space ws \<Longrightarrow> starts s \<Longrightarrow> skip_space (ws @ s) = s"
  by (rule skip_spaces) (auto simp: starts_def)

lemma skip_starts: "list_all json_space ws \<Longrightarrow> starts s \<Longrightarrow> skip_space (ws @ s @ t) = s @ t"
  by (rule skip_spaces) (auto simp: starts_def)

lemma skip_token:
  "list_all json_space ws \<Longrightarrow> \<not> json_space c \<Longrightarrow> skip_space (ws @ c # s) = c # s"
  "\<not> json_space c \<Longrightarrow> skip_space (c # s) = c # s"
  by (rule skip_spaces, simp_all) (simp add: skip_space_def)

lemma tokens: "\<not> json_space (CHR '','')" "\<not> json_space (CHR '']'')" "\<not> json_space (CHR ''}'')" "\<not> json_space (CHR '':'')"
    "json_space (CHR '' '')"
  by (simp_all add: json_space_def)

lemma delimited_token: "c \<in> {CHR '','', CHR '']'', CHR ''}''} \<Longrightarrow> list_all json_space ws \<Longrightarrow> delimited (ws @ c # s)"
  by (cases ws) (auto simp: delimited_def)

lemma elements_back:
  assumes "\<And>x m rest. x \<in> set xs \<Longrightarrow> fuel x \<le> m \<Longrightarrow> delimited rest \<Longrightarrow> parse_value m (f x @ rest) = Some (x, rest)"
    and "\<And>x. x \<in> set xs \<Longrightarrow> starts (f x)"
    and "list_all json_space g" and "list_all json_space ws" and "xs \<noteq> []"
    and "sum_list (map (\<lambda>x. Suc (fuel x)) xs) \<le> n"
  shows "parse_elements n acc (join ('','' @ g) (map f xs) @ ws @ '']'' @ rest) = Some (JList (acc @ xs), rest)"
  using assms
proof (induction xs arbitrary: n acc)
  case (Cons x xs)
  obtain m where n: "n = Suc m" and m: "fuel x \<le> m" "sum_list (map (\<lambda>x. Suc (fuel x)) xs) \<le> m"
    using Cons.prems(6) by (cases n) auto
  show ?case
  proof (cases xs)
    case Nil
    have "parse_value m (f x @ ws @ '']'' @ rest) = Some (x, ws @ '']'' @ rest)"
      using Cons.prems(1) m(1) delimited_token [OF _ Cons.prems(4)] by simp
    then show ?thesis using skip_token(1) [OF Cons.prems(4) tokens(2)] by (simp add: n Nil)
  next
    case (Cons y ys)
    let ?t = "join ('','' @ g) (map f xs) @ ws @ '']'' @ rest"
    have j: "join ('','' @ g) (map f (x # xs)) @ ws @ '']'' @ rest = f x @ CHR '','' # g @ ?t"
      by (simp add: Cons)
    have v: "parse_value m (f x @ CHR '','' # g @ ?t) = Some (x, CHR '','' # g @ ?t)"
      using Cons.prems(1) m(1) delimited_token [of "CHR '',''" "[]"] by simp
    have "starts ?t" using Cons.prems(2) by (cases ys) (auto simp: Cons starts_append)
    then have s: "skip_space (g @ ?t) = ?t"
      by (rule skip_starts_only [OF Cons.prems(3)])
    have "parse_elements m (acc @ [x]) ?t = Some (JList (acc @ x # xs), rest)"
      using Cons.IH [of m "acc @ [x]"] Cons.prems Cons m(2) by simp
    then show ?thesis unfolding j n using v s skip_token(2) [OF tokens(1)] by (simp del: append.simps add: append_Cons)
  qed
qed simp

lemma members_back:
  assumes "\<And>kv m rest. kv \<in> set kvs \<Longrightarrow> fuel (snd kv) \<le> m \<Longrightarrow> delimited rest \<Longrightarrow>
      parse_value m (f (snd kv) @ rest) = Some (snd kv, rest)"
    and "\<And>kv. kv \<in> set kvs \<Longrightarrow> starts (f (snd kv))"
    and "list_all json_space g" and "list_all json_space ws" and "kvs \<noteq> []"
    and "sum_list (map (\<lambda>kv. Suc (fuel (snd kv))) kvs) \<le> n" and "distinct (map fst (acc @ kvs))"
  shows "parse_members n acc (join ('','' @ g) (map (\<lambda>kv. dumps_str (fst kv) @ '': '' @ f (snd kv)) kvs) @ ws @ ''}'' @ rest)
     = Some (JObj (acc @ kvs), rest)"
  using assms
proof (induction kvs arbitrary: n acc)
  case (Cons kv kvs)
  let ?h = "\<lambda>kv. dumps_str (fst kv) @ '': '' @ f (snd kv)"
  obtain k v where kv: "kv = (k, v)" by fastforce
  obtain m where n: "n = Suc m" and m: "fuel v \<le> m" "sum_list (map (\<lambda>kv. Suc (fuel (snd kv))) kvs) \<le> m"
    using Cons.prems(6) by (cases n) (auto simp: kv)
  have new: "dict_set k v acc = acc @ [(k, v)]" if "k \<notin> set (map fst acc)" for acc
    using that by (induction acc) auto
  have set: "dict_set k v acc = acc @ [(k, v)]" by (rule new) (use Cons.prems(7) kv in auto)
  have start: "starts (f v)" using Cons.prems(2) [of kv] by (simp add: kv)
  have key: "parse_members (Suc m) acc (?h kv @ t) = (case parse_value m (f v @ t) of
       None \<Rightarrow> None
     | Some (v, t) \<Rightarrow> (case skip_space t of
          [] \<Rightarrow> None
        | e # u \<Rightarrow> if e = CHR ''}'' then Some (JObj (dict_set k v acc), u)
             else if e = CHR '','' then parse_members m (dict_set k v acc) (skip_space u) else None))" for t
  proof -
    have "parse_str (concat (map escape_char k) @ char_of (34::nat) # '': '' @ f v @ t) = Some (k, '': '' @ f v @ t)"
      by (rule parse_dumps_str)
    moreover have "skip_space ('' '' @ f v @ t) = f v @ t"
      by (rule skip_starts) (simp_all add: tokens start)
    ultimately show ?thesis
      using skip_token(2) [OF tokens(4), of "'' '' @ f v @ t"] by (simp add: kv dumps_str_def)
  qed
  show ?case
  proof (cases kvs)
    case Nil
    have "parse_value m (f v @ ws @ ''}'' @ rest) = Some (v, ws @ ''}'' @ rest)"
      using Cons.prems(1) [of kv] m(1) delimited_token [OF _ Cons.prems(4)] by (simp add: kv)
    then show ?thesis
      using key [of "ws @ ''}'' @ rest"] skip_token(1) [OF Cons.prems(4) tokens(3)] by (simp add: n Nil kv set)
  next
    case (Cons kv2 kvs2)
    let ?t = "join ('','' @ g) (map ?h kvs) @ ws @ ''}'' @ rest"
    have j: "join ('','' @ g) (map ?h (kv # kvs)) @ ws @ ''}'' @ rest = ?h kv @ CHR '','' # g @ ?t"
      by (simp add: Cons)
    have v: "parse_value m (f v @ CHR '','' # g @ ?t) = Some (v, CHR '','' # g @ ?t)"
      using Cons.prems(1) [of kv] m(1) delimited_token [of "CHR '',''" "[]"] by (simp add: kv)
    have "starts ?t" by (cases kvs2) (auto simp: Cons starts_append)
    then have s: "skip_space (g @ ?t) = ?t"
      by (rule skip_starts_only [OF Cons.prems(3)])
    have "parse_members m (acc @ [(k, v)]) ?t = Some (JObj (acc @ kv # kvs), rest)"
      using Cons.IH [of m "acc @ [(k, v)]"] Cons.prems Cons m(2) by (simp add: kv)
    then show ?thesis
      unfolding j n key using v s skip_token(2) [OF tokens(1)] by (simp del: append.simps add: append_Cons set)
  qed
qed simp

lemma show_starts: "starts (show_nat n)"
  using show_nat_digits [of n] by (cases "show_nat n") (auto simp: starts_def json_space_def is_digit_def)

lemma atom_starts: "fuel v = 1 \<Longrightarrow> starts (dumps v) \<or> (\<exists>xs. v = JList xs) \<or> (\<exists>kvs. v = JObj kvs)"
proof (cases v)
  case (JStr s)
  show ?thesis using starts_dumps_str [of s "[]"] by (simp add: JStr)
qed (auto simp: show_int_def show_float_def Let_def starts_append show_starts, simp_all add: starts_def json_space_def)

lemma render_starts: "starts (render brk gap l v)"
proof (cases v)
  case (JList xs)
  then show ?thesis by (simp add: starts_def json_space_def)
next
  case (JObj kvs)
  then show ?thesis by (simp add: starts_def json_space_def)
qed (use atom_starts [of v] in auto)

lemma atom_chars: "CHR ''['' \<noteq> char_of (34::nat)" "CHR ''{'' \<noteq> char_of (34::nat)" "char_of (34::nat) \<noteq> CHR ''[''"
    "char_of (34::nat) \<noteq> CHR ''{''" "CHR ''-'' \<noteq> char_of (34::nat)" "CHR ''n'' \<noteq> char_of (34::nat)"
    "CHR ''t'' \<noteq> char_of (34::nat)" "CHR ''f'' \<noteq> char_of (34::nat)"
  by code_simp+

lemma digit_not_bracket: "is_digit c \<Longrightarrow> c \<noteq> char_of (34::nat) \<and> c \<noteq> CHR ''['' \<and> c \<noteq> CHR ''{'' \<and> c \<notin> {CHR ''n'', CHR ''t'', CHR ''f''}"
  by (auto simp: is_digit_def)

text \<open>A number is read by \<open>parse_number\<close>: it starts with a digit or a sign.\<close>

lemma parse_value_number:
  assumes "s \<noteq> []" and "is_digit (hd s) \<or> hd s = CHR ''-''"
  shows "parse_value (Suc n) s = parse_number s"
proof -
  obtain c t where s: "s = c # t" using assms(1) by (cases s) auto
  have "c \<noteq> char_of (34::nat)" "c \<noteq> CHR ''[''" "c \<noteq> CHR ''{''" "c \<notin> {CHR ''n'', CHR ''t'', CHR ''f''}"
    using assms(2) digit_not_bracket [of c] atom_chars(5) by (auto simp: s)
  then show ?thesis by (auto simp: s parse_atom_def literals_def)
qed

lemma show_nat_head: "is_digit (hd (show_nat n @ s))"
  using show_nat_digits [of n] by (cases "show_nat n") auto

lemma space_break: "list_all json_space (line_break n l)"
  by (auto simp: line_break_def json_space_def list_all_iff)

lemma parse_leaf:
  assumes "canonical v" and "0 < n" and "delimited rest" and "\<nexists>xs. v = JList xs" and "\<nexists>kvs. v = JObj kvs"
  shows "parse_value n (dumps v @ rest) = Some (v, rest)"
proof -
  obtain n' where n: "n = Suc n'" using assms(2) by (cases n) auto
  show ?thesis
  proof (cases v)
    case (JBool b)
    then show ?thesis using atom_chars by (cases b) (auto simp: n parse_atom_def literals_def)
  next
    case (JInt i)
    have "parse_value n (show_int i @ rest) = parse_number (show_int i @ rest)"
      unfolding n using show_nat_head [where s = "[]"]
      by (intro parse_value_number) (simp_all add: show_int_def show_nat_head)
    then show ?thesis using parse_show_int [OF assms(3)] by (simp add: JInt)
  next
    case (JFloat m k)
    have "parse_value n (show_float m k @ rest) = parse_number (show_float m k @ rest)"
      unfolding n using show_nat_head [where s = "[]"]
      by (intro parse_value_number) (simp_all add: show_float_def Let_def show_nat_head)
    then show ?thesis using parse_show_float [OF assms(3)] assms(1) by (simp add: JFloat)
  next
    case (JStr s)
    then show ?thesis using parse_dumps_str [of s rest] by (simp add: n dumps_str_def)
  qed (use assms(4,5) atom_chars in \<open>auto simp: n parse_atom_def literals_def\<close>)
qed

lemma parse_render:
  assumes "\<And>l. list_all json_space (brk l)" and "\<And>l. list_all json_space (gap l)"
    and "canonical v" and "fuel v \<le> n" and "delimited rest"
  shows "parse_value n (render brk gap l v @ rest) = Some (v, rest)"
  using assms(3-5)
proof (induction v arbitrary: l n rest rule: canonical.induct)
  case (2 xs)
  then obtain n' where n: "n = Suc n'" and m: "sum_list (map (\<lambda>x. Suc (fuel x)) xs) \<le> n'" by (cases n) auto
  show ?case
  proof (cases "xs = []")
    case True
    then show ?thesis by (simp add: n atom_chars skip_space_def json_space_def)
  next
    case False
    let ?t = "join ('','' @ gap (Suc l)) (map (render brk gap (Suc l)) xs) @ brk l @ '']'' @ rest"
    have t: "starts ?t" using False by (cases xs rule: remdups_adj.cases) (auto simp: starts_append render_starts)
    have "skip_space (brk (Suc l) @ ?t) = ?t" by (rule skip_starts_only [OF assms(1) t])
    moreover have "parse_elements n' [] ?t = Some (JList ([] @ xs), rest)"
      by (rule elements_back) (use 2 m False assms in \<open>auto simp: render_starts\<close>)
    moreover obtain d u where "?t = d # u" "d \<noteq> CHR '']''" using t by (cases ?t) (auto simp: starts_def)
    ultimately show ?thesis using False atom_chars by (simp add: n)
  qed
next
  case (3 kvs)
  then obtain n' where n: "n = Suc n'" and m: "sum_list (map (\<lambda>kv. Suc (fuel (snd kv))) kvs) \<le> n'" by (cases n) auto
  show ?case
  proof (cases "kvs = []")
    case True
    then show ?thesis by (simp add: n atom_chars skip_space_def json_space_def)
  next
    case False
    let ?f = "\<lambda>kv. dumps_str (fst kv) @ '': '' @ render brk gap (Suc l) (snd kv)"
    let ?t = "join ('','' @ gap (Suc l)) (map ?f kvs) @ brk l @ ''}'' @ rest"
    have t: "starts ?t" using False by (cases kvs rule: remdups_adj.cases) (auto simp: starts_append)
    have "skip_space (brk (Suc l) @ ?t) = ?t" by (rule skip_starts_only [OF assms(1) t])
    moreover have "parse_members n' [] ?t = Some (JObj ([] @ kvs), rest)"
      by (rule members_back) (use 3 m False assms in \<open>auto simp: render_starts\<close>)
    moreover obtain d u where "?t = d # u" "d \<noteq> CHR ''}''" using t by (cases ?t) (auto simp: starts_def)
    ultimately show ?thesis using False atom_chars by (simp add: n)
  qed
qed (simp_all only: render.simps, rule_tac [!] parse_leaf, simp_all)

lemma loads_render:
  assumes "\<And>l. list_all json_space (brk l)" and "\<And>l. list_all json_space (gap l)" and "canonical v"
  shows "loads (render brk gap l v) = Some v"
proof -
  have "skip_space (render brk gap l v) = render brk gap l v"
    using skip_starts_only [of "[]" "render brk gap l v"] render_starts by simp
  moreover have "parse_value (2 * length (render brk gap l v) + 2) (render brk gap l v @ []) = Some (v, [])"
    by (rule parse_render [OF assms]) (use render_length [of v brk gap l] in \<open>auto simp: delimited_def\<close>)
  ultimately show ?thesis by (simp add: loads_def skip_space_def)
qed

lemma loads_dumps: "canonical v \<Longrightarrow> loads (dumps v) = Some v"
  unfolding dumps_render [of v 0] by (rule loads_render) (simp_all add: tokens)

lemma loads_dumps_indent: "canonical v \<Longrightarrow> loads (dumps_indent n v) = Some v"
  unfolding dumps_indent_def by (rule loads_render) (rule space_break)+

end
