(* ===== verification/SandboxProps.thy ===== *)
theory SandboxProps
  imports Sandbox LoadsProps
begin

text \<open>
  What the workspace guarantees: an accepted path stays inside the repository and names nothing
  sensitive, a patch changes exactly the files it declares whatever \<open>git\<close> does, tests of a
  protected environment run in a container without network and their verdict is about unchanged
  content, and a new workspace holds no secret and no link of its source.
\<close>

section \<open>Paths\<close>

text \<open>
  The directory reached by following a path, component by component, from the root of the
  repository; \<open>None\<close> when it leaves the repository.
\<close>

fun walk :: "string list \<Rightarrow> string list \<Rightarrow> string list option" where
  "walk dir [] = Some dir"
| "walk dir (c # cs) =
     (if c = [] \<or> c = ''.'' then walk dir cs
      else if c = ''..'' then (case dir of [] \<Rightarrow> None | d # ds \<Rightarrow> walk (butlast dir) cs)
      else walk (dir @ [c]) cs)"

lemma walk_plain: "list_all (\<lambda>c. c \<noteq> [] \<and> c \<noteq> ''.'' \<and> c \<noteq> ''..'') cs \<Longrightarrow> walk dir cs = Some (dir @ cs)"
  by (induction cs arbitrary: dir) auto

lemma check_parts_links:
  "check_parts repo pcs = Inr u \<Longrightarrow> (part, cand) \<in> set pcs \<Longrightarrow> cand \<notin> set (rp_links repo)"
  by (induction repo pcs rule: check_parts.induct) (auto split: if_splits)

lemma validate_patch_path_Inr:
  assumes "validate_patch_path repo raw = Inr p"
  shows "p = normalize_slashes raw" and "\<not> unsafe_path p" and "\<not> sensitive_path p"
    and "check_parts repo (zip (path_parts p) (path_prefixes (path_parts p))) = Inr ()"
  using assms by (auto simp: validate_patch_path_def Let_def split: if_splits sum.splits)

lemma py_split_no_sep: "part \<in> set (py_split c s) \<Longrightarrow> c \<notin> set part"
proof (induction s arbitrary: part)
  case (Cons x s)
  then show ?case by (cases "py_split c s") (auto split: if_splits)
qed simp

lemma join_py_split: "join [c] (py_split c s) = s"
proof (induction s)
  case (Cons x s)
  obtain q qs where q: "py_split c s = q # qs" using py_split_nonempty by (cases "py_split c s") auto
  show ?case using Cons by (cases qs) (simp_all add: q)
qed simp

lemma length_path_prefixes [simp]: "length (path_prefixes parts) = length parts"
  by (simp add: path_prefixes_def del: upt_Suc)

lemma prefix_checked:
  assumes "q \<in> set (path_prefixes parts)"
  shows "\<exists>part. (part, q) \<in> set (zip parts (path_prefixes parts))"
proof -
  obtain i where "i < length (path_prefixes parts)" "path_prefixes parts ! i = q"
    using assms by (auto simp: in_set_conv_nth)
  then show ?thesis by (auto simp: in_set_zip intro!: exI [of _ "parts ! i"] exI [of _ i])
qed

text \<open>
  An accepted patch path. Following it from the root of the repository descends through exactly
  its components, so it cannot leave the repository; no component is a sensitive name, and neither
  the file nor a directory on the way is a link.
\<close>

theorem validate_patch_path_safe:
  assumes "validate_patch_path repo raw = Inr p"
  shows "walk [] (path_parts p) = Some (path_parts p) \<and> join ''/'' (path_parts p) = p
    \<and> \<not> prefix ''/'' p \<and> CHR '':'' \<notin> set p
    \<and> list_all (\<lambda>part. \<not> sensitive_part part) (path_parts (py_lower (normalize_slashes p)))
    \<and> set (path_prefixes (path_parts p)) \<inter> set (rp_links repo) = {}"
proof -
  note v = validate_patch_path_Inr [OF assms]
  have "list_all (\<lambda>c. c \<noteq> [] \<and> c \<noteq> ''.'' \<and> c \<noteq> ''..'') (path_parts p)"
    using v(2) by (auto simp: unsafe_path_def list_all_iff list_ex_iff)
  then have "walk [] (path_parts p) = Some (path_parts p)" by (simp add: walk_plain)
  moreover have "set (path_prefixes (path_parts p)) \<inter> set (rp_links repo) = {}"
    using prefix_checked check_parts_links [OF v(4)] by blast
  moreover have "join ''/'' (path_parts p) = p" unfolding path_parts_def by (rule join_py_split)
  ultimately show ?thesis
    using v(2,3) by (auto simp: unsafe_path_def sensitive_path_def list_all_iff list_ex_iff)
qed

definition demo_repo :: Repo where
  "demo_repo = \<lparr>rp_files = [(''app.py'', ''limit = 1''), (''tests/t.py'', ''ok'')], rp_links = [''current'']\<rparr>"

lemma demo_path: "validate_patch_path demo_repo ''tests/t.py'' = Inr ''tests/t.py''"
  by code_simp

theorem validate_patch_path_safe_witness:
  "walk [] (path_parts ''tests/t.py'') = Some (path_parts ''tests/t.py'')
   \<and> validate_patch_path demo_repo ''tests/../../x'' = Inl (ValueError ''unsafe patch path: tests/../../x'')"
proof -
  have "validate_patch_path demo_repo ''tests/../../x'' = Inl (ValueError ''unsafe patch path: tests/../../x'')"
    by code_simp
  then show ?thesis using validate_patch_path_safe [OF demo_path] by blast
qed

section \<open>A patch changes what it declares\<close>

lemma edit_paths_valid:
  "edit_paths repo vs = Inr ps \<Longrightarrow> p \<in> set ps \<Longrightarrow> \<exists>q. validate_patch_path repo p = Inr q"
  by (induction repo vs arbitrary: ps rule: edit_paths.induct) (auto split: option.splits sum.splits)

lemma numstat_paths_valid:
  "numstat_paths repo recs = Inr ps \<Longrightarrow> p \<in> set ps \<Longrightarrow> \<exists>q. validate_patch_path repo p = Inr q"
  by (induction repo recs arbitrary: ps rule: numstat_paths.induct)
    (auto split: option.splits sum.splits prod.splits if_splits)

lemma patch_paths_valid:
  assumes "patch_paths numstat repo patch = Inr ps" and "p \<in> ps"
  shows "\<exists>q. validate_patch_path repo p = Inr q"
  using assms
  by (auto simp: patch_paths_def split: if_splits option.splits sum.splits json.splits list.splits
      dest: edit_paths_valid numstat_paths_valid)

lemma workspace_snapshot_Inr:
  "workspace_snapshot repo = Inr s \<longleftrightarrow> rp_links repo = [] \<and> s = rp_files repo"
  by (auto simp: workspace_snapshot_def)

lemma apply_patch_Inr:
  assumes "apply_patch numstat applied patch repo = (repo', Inr ())"
  shows "\<exists>paths. patch_paths numstat repo patch = Inr paths
     \<and> changed_paths (rp_files repo) (rp_files repo') = paths \<and> rp_links repo = [] \<and> rp_links repo' = []"
  using assms
  by (auto simp: apply_patch_def workspace_snapshot_Inr split: sum.splits prod.splits if_splits)

lemma changed_iff: "map_of a p \<noteq> map_of b p \<longleftrightarrow> p \<in> changed_paths a b"
proof
  assume *: "map_of a p \<noteq> map_of b p"
  then have "p \<in> fst ` set a \<union> fst ` set b" by (metis Un_iff map_of_eq_None_iff)
  with * show "p \<in> changed_paths a b" by (simp add: changed_paths_def)
qed (simp add: changed_paths_def)

text \<open>
  C15. Confinement. When \<open>apply_patch\<close> succeeds, whatever \<open>git\<close> did and whatever the patch was, the
  files whose content differs are exactly the paths declared to the validator, each of them an
  accepted path and none of them sensitive; no link exists before or after.
\<close>

theorem apply_patch_confined:
  assumes "apply_patch numstat applied patch repo = (repo', Inr ())"
  shows "rp_links repo' = [] \<and> patch_paths numstat repo patch
           = Inr {p. map_of (rp_files repo) p \<noteq> map_of (rp_files repo') p}
    \<and> (\<forall>p. map_of (rp_files repo) p = map_of (rp_files repo') p
         \<or> (\<exists>q. validate_patch_path repo p = Inr q) \<and> \<not> sensitive_path (normalize_slashes p))"
proof -
  obtain paths where p: "patch_paths numstat repo patch = Inr paths"
      "changed_paths (rp_files repo) (rp_files repo') = paths" "rp_links repo' = []"
    using apply_patch_Inr [OF assms] by blast
  have "map_of (rp_files repo) p = map_of (rp_files repo') p
         \<or> (\<exists>q. validate_patch_path repo p = Inr q) \<and> \<not> sensitive_path (normalize_slashes p)" for p
  proof (cases "p \<in> paths")
    case True
    then obtain q where q: "validate_patch_path repo p = Inr q" using patch_paths_valid [OF p(1)] by blast
    have "\<not> sensitive_path (normalize_slashes p)"
      using validate_patch_path_Inr(1,3) [OF q] by blast
    with q show ?thesis by blast
  next
    case False
    then show ?thesis using p(2) changed_iff by blast
  qed
  moreover have "paths = {p. map_of (rp_files repo) p \<noteq> map_of (rp_files repo') p}"
    using p(2) by (simp add: changed_iff)
  ultimately show ?thesis using p(1,3) by blast
qed

definition demo_edit :: json where
  "demo_edit = JObj [(''type'', JStr ''simple_replace''),
     (''edits'', JList [JObj [(''path'', JStr ''app.py''), (''find'', JStr ''1''), (''replace'', JStr ''50'')]])]"

definition demo_text :: string where
  "demo_text = dumps demo_edit"

lemma demo_loads: "loads demo_text = Some demo_edit"
  unfolding demo_text_def by (rule loads_dumps) (simp add: demo_edit_def)

definition plain_repo :: Repo where
  "plain_repo = \<lparr>rp_files = [(''app.py'', ''limit = 1''), (''tests/t.py'', ''ok'')], rp_links = []\<rparr>"

definition patched_repo :: Repo where
  "patched_repo = \<lparr>rp_files = [(''app.py'', ''limit = 50''), (''tests/t.py'', ''ok'')], rp_links = []\<rparr>"

lemma demo_simple: "simple_replace demo_text
    = Some (JList [JObj [(''path'', JStr ''app.py''), (''find'', JStr ''1''), (''replace'', JStr ''50'')]])"
  by (simp add: simple_replace_def demo_loads, simp add: demo_edit_def)

lemma demo_edit_paths: "edit_paths plain_repo
    [JObj [(''path'', JStr ''app.py''), (''find'', JStr ''1''), (''replace'', JStr ''50'')]] = Inr [''app.py'']"
  by code_simp

lemma demo_patch_paths: "patch_paths (\<lambda>_ _. None) plain_repo demo_text = Inr {''app.py''}"
proof -
  have "length (concat (map (\<lambda>c. if (of_char c :: nat) < 128 then [c] else [c, c]) demo_text)) \<le> 200"
      "CHR 0x00 \<notin> set demo_text"
    by code_simp+
  then have "\<not> (1000000 < length (concat (map (\<lambda>c. if (of_char c :: nat) < 128 then [c] else [c, c]) demo_text))
      \<or> CHR 0x00 \<in> set demo_text)" by simp
  then show ?thesis unfolding patch_paths_def demo_simple by (simp add: demo_edit_paths del: edit_paths.simps)
qed

lemma demo_write: "write_patch (\<lambda>_ _. None) demo_text plain_repo = (patched_repo, Inr ())"
proof -
  have "apply_edits [JObj [(''path'', JStr ''app.py''), (''find'', JStr ''1''), (''replace'', JStr ''50'')]] plain_repo
      = (patched_repo, Inr ())" "prefix ''{'' (dropWhile is_space demo_text)"
    by code_simp+
  then show ?thesis by (simp add: write_patch_def demo_loads) (simp add: demo_edit_def)
qed

lemma demo_changed: "changed_paths (rp_files plain_repo) (rp_files patched_repo) = {''app.py''}"
  by code_simp

lemma demo_apply:
  "apply_patch (\<lambda>_ _. None) (\<lambda>_ _. None) demo_text plain_repo = (patched_repo, Inr ())"
proof -
  have "workspace_snapshot plain_repo = Inr (rp_files plain_repo)"
      "workspace_snapshot patched_repo = Inr (rp_files patched_repo)"
    by (simp_all add: workspace_snapshot_def plain_repo_def patched_repo_def)
  then show ?thesis by (simp add: apply_patch_def demo_patch_paths demo_write demo_changed)
qed

theorem apply_patch_confined_witness:
  "patch_paths (\<lambda>_ _. None) plain_repo demo_text
     = Inr {p. map_of (rp_files plain_repo) p \<noteq> map_of (rp_files patched_repo) p}
   \<and> map_of (rp_files plain_repo) ''app.py'' \<noteq> map_of (rp_files patched_repo) ''app.py''"
proof -
  have "map_of (rp_files plain_repo) ''app.py'' \<noteq> map_of (rp_files patched_repo) ''app.py''" by code_simp
  then show ?thesis using apply_patch_confined [OF demo_apply] by blast
qed

section \<open>Running the tests\<close>

text \<open>The tests ran: every guard passed, and what the process did is on record.\<close>

lemma run_tests_cases:
  assumes "run_tests_async st proc python container root run_id profile m = (m', cmds, r)"
  obtains (refused) e where "m' = m" "cmds = []" "r = Inl e"
  | (ran) cmd ws before repo1 r1 repo2 where
      "map_of ALLOWED_TEST_COMMANDS profile = Some cmd" "map_of (sm_workspaces m) run_id = Some ws"
      "profile = ''pytest_fault'' \<Longrightarrow> ws_fault_check ws" "unprotected st \<or> ss_sandbox_enabled st"
      "ss_sandbox_enabled st \<Longrightarrow> ss_sandbox_network st = ''none''"
      "before = rp_files (ws_repo ws)" "rp_links (ws_repo ws) = []"
      "proc (run_command st python container root run_id profile cmd) (ws_repo ws) = (repo1, r1)"
      "after_tests st container proc (run_command st python container root run_id profile cmd) repo1
         (test_verdict st (run_command st python container root run_id profile cmd) before repo1 r1)
         = (repo2, cmds, r)"
      "m' = put_workspace run_id (ws\<lparr>ws_repo := repo2\<rparr>) m"
  using assms
  by (auto simp: run_tests_async_def Let_def workspace_snapshot_Inr
      split: option.splits if_splits sum.splits prod.splits)

lemma after_tests_commands:
  "after_tests st container proc cmd repo r = (repo', cmds, res) \<Longrightarrow>
     cmds = (if ss_sandbox_enabled st then [cmd, [''docker'', ''rm'', ''-f'', container]] else [cmd])
     \<and> (\<forall>x. res = Inr x \<longrightarrow> r = Inr x)"
  by (auto simp: after_tests_def Let_def split: if_splits prod.splits sum.splits)

definition isolated :: "string \<Rightarrow> string list list \<Rightarrow> bool" where
  "isolated container cmds \<longleftrightarrow> (\<exists>flags cmd. cmds =
     [[''docker'', ''run'', ''--rm'', ''--name'', container] @ flags @ cmd, [''docker'', ''rm'', ''-f'', container]]
     \<and> sublist [''--network'', ''none''] flags \<and> sublist [''--cap-drop'', ''ALL''] flags
     \<and> sublist [''--read-only''] flags
     \<and> (\<exists>profile. map_of ALLOWED_TEST_COMMANDS profile = Some cmd))"

lemma docker_isolated:
  assumes "map_of ALLOWED_TEST_COMMANDS profile = Some cmd"
  shows "isolated container
    [docker_command st container root run_id profile cmd, [''docker'', ''rm'', ''-f'', container]]"
proof -
  define post where "post = [''--security-opt'', ''no-new-privileges'', ''--memory'', ''512m'', ''--cpus'', ''1.0'',
      ''--pids-limit'', ''128'']"
  define rest where "rest = [''--tmpfs'', ''/tmp:rw,nosuid,nodev,size=128m'',
      ''-e'', ''PYTHONDONTWRITEBYTECODE=1'', ''-e'', ''PYTEST_ADDOPTS=-p no:cacheprovider'',
      ''-e'', ''PYTHONPATH=/workspace''] @ (if profile = ''pytest_fault'' then [''-v'', root @ ''/checks:/checks:ro''] else [])
      @ [''-v'', root @ ''/repo:/workspace:ro'', ''-w'', ''/workspace'', ss_sandbox_image st]"
  define label where "label = [''--label'', ''incidentpilot.run_id='' @ run_id]"
  define user where "user = [''--user'', ''65534:65534'']"
  define flags where "flags = label @ [''--network'', ''none''] @ user @ [''--cap-drop'', ''ALL''] @ post
      @ [''--read-only''] @ rest"
  have "docker_command st container root run_id profile cmd
      = [''docker'', ''run'', ''--rm'', ''--name'', container] @ flags @ cmd"
    by (simp add: docker_command_def flags_def label_def user_def post_def rest_def)
  moreover have "sublist [''--network'', ''none''] flags" unfolding flags_def sublist_def by blast
  moreover have "sublist [''--cap-drop'', ''ALL''] flags"
    unfolding flags_def sublist_def by (metis append_assoc)
  moreover have "sublist [''--read-only''] flags"
    unfolding flags_def sublist_def by (metis append_assoc)
  ultimately show ?thesis using assms unfolding isolated_def by blast
qed

text \<open>
  C38. Isolation. Outside development and test, whatever the processes do, \<open>run_tests_async\<close> executes
  nothing or exactly one allow-listed test command in a container without network, capabilities or a
  writable root, followed by the removal of that container, also when the tests raised.
\<close>

theorem run_tests_isolated:
  assumes "\<not> unprotected st"
    and "run_tests_async st proc python container root run_id profile m = (m', cmds, r)"
  shows "cmds = [] \<and> m' = m \<and> (\<exists>e. r = Inl e) \<or> isolated container cmds"
  using assms(2)
proof (cases rule: run_tests_cases)
  case refused
  then show ?thesis by simp
next
  case (ran cmd ws before repo1 r1 repo2)
  then have on: "ss_sandbox_enabled st" using assms(1) by simp
  then show ?thesis
    using ran(9) docker_isolated [OF ran(1)] by (auto dest: after_tests_commands simp: run_command_def)
qed

text \<open>
  The verdict. A result is only returned for an allow-listed profile in a workspace whose files the
  test run left unchanged, with the fault oracle present when the profile needs it; the verdict is
  positive exactly when the process exited with zero.
\<close>

theorem run_tests_verdict:
  assumes "run_tests_async st proc python container root run_id profile m = (m', cmds, Inr res)"
  shows "\<exists>cmd ws repo1 out err. map_of ALLOWED_TEST_COMMANDS profile = Some cmd
    \<and> map_of (sm_workspaces m) run_id = Some ws \<and> (profile \<noteq> ''pytest_fault'' \<or> ws_fault_check ws)
    \<and> proc (sr_command res) (ws_repo ws) = (repo1, Inr (sr_exit_code res, out, err))
    \<and> changed_paths (rp_files (ws_repo ws)) (rp_files repo1) = {} \<and> rp_links repo1 = []
    \<and> (sr_ok res \<longleftrightarrow> sr_exit_code res = 0)"
  using assms
proof (cases rule: run_tests_cases)
  case refused
  then show ?thesis by simp
next
  case (ran cmd ws before repo1 r1 repo2)
  let ?full = "run_command st python container root run_id profile cmd"
  have "test_verdict st ?full before repo1 r1 = Inr res"
    using after_tests_commands [OF ran(9)] by blast
  then obtain code out err where r1: "r1 = Inr (code, out, err)"
    and "changed_paths before (rp_files repo1) = {}" "rp_links repo1 = []"
    and "res = \<lparr>sr_ok = (code = 0), sr_exit_code = code, sr_stdout = out, sr_stderr = err,
            sr_command = ?full, sr_mode = (if ss_sandbox_enabled st then ''docker'' else ''local'')\<rparr>"
    by (auto simp: test_verdict_def workspace_snapshot_Inr split: sum.splits prod.splits if_splits)
  then show ?thesis using ran(1,2,3,6,8) by auto
qed

definition demo_settings :: SandboxSettings where
  "demo_settings = \<lparr>ss_environment = ''production'', ss_sandbox_enabled = True, ss_sandbox_network = ''none'',
     ss_sandbox_image = ''incidentpilot-sandbox:py312'', ss_sandbox_fault_type = []\<rparr>"

definition demo_manager :: SandboxManager where
  "demo_manager = put_workspace ''RUN-1'' \<lparr>ws_repo = plain_repo, ws_fault_check = False\<rparr> new_manager"

definition demo_process :: process where
  "demo_process cmd repo = (repo, Inr (0, ''1 passed'', []))"

definition demo_result :: SandboxResult where
  "demo_result = \<lparr>sr_ok = True, sr_exit_code = 0, sr_stdout = ''1 passed'', sr_stderr = [],
     sr_command = docker_command demo_settings ''c1'' ''/tmp/w'' ''RUN-1'' ''pytest_regression''
       [''python'', ''-m'', ''pytest'', ''-q'', ''--tb=short'', ''tests/test_regression.py''],
     sr_mode = ''docker''\<rparr>"

lemma demo_run: "run_tests_async demo_settings demo_process ''python3'' ''c1'' ''/tmp/w'' ''RUN-1'' ''pytest_regression''
    demo_manager = (demo_manager, [sr_command demo_result, [''docker'', ''rm'', ''-f'', ''c1'']], Inr demo_result)"
  by (simp add: run_tests_async_def ALLOWED_TEST_COMMANDS_def demo_manager_def put_workspace_def new_manager_def
      demo_settings_def unprotected_def plain_repo_def workspace_snapshot_def demo_process_def after_tests_def
      test_verdict_def changed_paths_def run_command_def demo_result_def Let_def)

theorem run_tests_isolated_witness:
  "isolated ''c1'' [sr_command demo_result, [''docker'', ''rm'', ''-f'', ''c1'']]"
  using run_tests_isolated [OF _ demo_run] by (simp add: demo_settings_def unprotected_def)

theorem run_tests_verdict_witness:
  "\<exists>repo1 out err. demo_process (sr_command demo_result) plain_repo = (repo1, Inr (0, out, err)) \<and> sr_ok demo_result"
  using run_tests_verdict [OF demo_run]
  by (auto simp: demo_manager_def put_workspace_def new_manager_def demo_result_def)

section \<open>A new workspace\<close>

lemma put_workspace_get [simp]:
  "map_of (sm_workspaces (put_workspace rid ws m)) = (map_of (sm_workspaces m))(rid \<mapsto> ws)"
  by (simp add: put_workspace_def)

lemma put_base_get [simp]:
  "sm_workspaces (put_base rid s m) = sm_workspaces m"
  "base_commit_sha rid (put_base rid s m) = s"
  "base_commit_sha rid (put_workspace rid ws m) = base_commit_sha rid m"
  by (simp_all add: put_base_def base_commit_sha_def put_workspace_def)

lemma map_of_del_key: "map_of (del_key k d) k' = (if k' = k then None else map_of d k')"
  by (induction d) (auto simp: del_key_def)

lemma destroy_workspace_get:
  "map_of (sm_workspaces (destroy_workspace rid m)) rid' =
     (if rid' = rid then None else map_of (sm_workspaces m) rid')"
  by (simp add: destroy_workspace_def map_of_del_key)

definition base_of :: "git_state \<Rightarrow> string" where
  "base_of g = (case gs_head g of None \<Rightarrow> ''UNVERSIONED'' | Some s \<Rightarrow> if gs_dirty g then ''UNVERSIONED'' else s)"

lemma finish_workspace_Inr:
  assumes "finish_workspace st git rid repo m = (m', Inr ())"
  shows "(unprotected st \<or> gs_head git = None \<or> \<not> gs_dirty git) \<and> base_commit_sha rid m' = base_of git
    \<and> map_of (sm_workspaces m') rid = Some \<lparr>ws_repo = repo, ws_fault_check = ss_sandbox_fault_type st \<noteq> []\<rparr>
    \<and> (\<forall>rid'. rid' = rid \<or> map_of (sm_workspaces m') rid' = map_of (sm_workspaces m) rid')"
  using assms
  by (auto simp: finish_workspace_def Let_def base_of_def split: if_splits option.splits)

text \<open>
  A new workspace of a directory holds exactly the files of the source that are on no sensitive,
  linked or generated path, and no link; in a protected environment the source is then clean at the
  recorded base commit, and the workspaces of other runs are as before.
\<close>

theorem create_workspace_contents:
  assumes "create_workspace st git (SourceDir src) rid m = (m', Inr ())"
  shows "\<exists>ws. map_of (sm_workspaces m') rid = Some ws \<and> rp_links (ws_repo ws) = []
    \<and> set (rp_files (ws_repo ws)) = {(p, c) \<in> set (rp_files src).
         list_all (\<lambda>n. \<not> sensitive_path n \<and> \<not> excluded_name n) (path_parts p)
         \<and> set (path_prefixes (path_parts p)) \<inter> set (rp_links src) = {}}
    \<and> base_commit_sha rid m' = base_of git \<and> (unprotected st \<or> gs_head git = None \<or> \<not> gs_dirty git)
    \<and> (\<forall>rid'. rid' = rid \<or> map_of (sm_workspaces m') rid' = map_of (sm_workspaces m) rid')"
proof -
  have f: "finish_workspace st git rid (copy_tree src) (destroy_workspace rid m) = (m', Inr ())"
    using assms by (simp add: create_workspace_def)
  have "set (rp_files (copy_tree src)) = {(p, c) \<in> set (rp_files src).
         list_all (\<lambda>n. \<not> sensitive_path n \<and> \<not> excluded_name n) (path_parts p)
         \<and> set (path_prefixes (path_parts p)) \<inter> set (rp_links src) = {}}"
    by (auto simp: copy_tree_def copied_def list_all_iff list_ex_iff excluded_name_def)
  moreover have "rp_links (copy_tree src) = []" by (simp add: copy_tree_def)
  moreover have "rid' = rid \<or> map_of (sm_workspaces m') rid' = map_of (sm_workspaces m) rid'" for rid'
    using finish_workspace_Inr [OF f] destroy_workspace_get [of rid m rid'] by metis
  ultimately show ?thesis using finish_workspace_Inr [OF f] by auto
qed

definition demo_source :: Repo where
  "demo_source = \<lparr>rp_files = [(''app.py'', ''limit = 1''), (''.env'', ''KEY=1''), (''current/x.py'', ''y'')],
     rp_links = [''current'']\<rparr>"

definition demo_git :: git_state where
  "demo_git = \<lparr>gs_head = Some ''0a1b'', gs_dirty = False\<rparr>"

lemma demo_create: "\<exists>m'. create_workspace demo_settings demo_git (SourceDir demo_source) ''RUN-1'' new_manager
    = (m', Inr ())"
  by (simp add: create_workspace_def finish_workspace_def demo_settings_def demo_git_def Let_def)

theorem create_workspace_contents_witness:
  "copy_tree demo_source = \<lparr>rp_files = [(''app.py'', ''limit = 1'')], rp_links = []\<rparr>
   \<and> (\<exists>m' ws. map_of (sm_workspaces m') ''RUN-1'' = Some ws \<and> rp_links (ws_repo ws) = []
        \<and> base_commit_sha ''RUN-1'' m' = ''0a1b'')"
proof -
  obtain m' where "create_workspace demo_settings demo_git (SourceDir demo_source) ''RUN-1'' new_manager = (m', Inr ())"
    using demo_create by blast
  from create_workspace_contents [OF this]
  have "\<exists>m' ws. map_of (sm_workspaces m') ''RUN-1'' = Some ws \<and> rp_links (ws_repo ws) = []
        \<and> base_commit_sha ''RUN-1'' m' = ''0a1b''"
    by (auto simp: base_of_def demo_git_def)
  moreover have "copy_tree demo_source = \<lparr>rp_files = [(''app.py'', ''limit = 1'')], rp_links = []\<rparr>" by code_simp
  ultimately show ?thesis by blast
qed

section \<open>Patches as text\<close>



lemma edit_of_json: "ed_find e \<noteq> [] \<Longrightarrow> edit_of (edit_json e) = Some e"
  by (cases e) (auto simp: edit_of_def edit_json_def)



end
