(* ===== verification/Executor.thy ===== *)
theory Executor
  imports Graph Http
begin

text \<open>
  \<open>agent/executor.py\<close>: what stands between a worker and the graph. The state is the world of the graph
  and the state \<open>'g\<close> of the GitHub side. \<open>asyncio.wait_for\<close> may cut its argument off at any point:
  \<open>stop = Some x\<close> says the deadline passed when the state was \<open>x\<close>. \<open>configure_otel\<close> and the spans are
  left out.
\<close>

section \<open>Sequencing over the two states\<close>

definition lift_io :: "'a io \<Rightarrow> (world \<times> 'g, 'a) eff" where
  "lift_io m s = (case m (fst s) of (w, r) \<Rightarrow> ((w, snd s), r))"

definition wait_for :: "'s option \<Rightarrow> ('s, 'a) eff \<Rightarrow> ('s, 'a) eff" where
  "wait_for stop m s = (case stop of None \<Rightarrow> m s | Some s' \<Rightarrow> (s', Inl (TimeoutError [])))"

fun is_TimeoutError :: "exn \<Rightarrow> bool" where
  "is_TimeoutError (TimeoutError m) = True"
| "is_TimeoutError _ = False"

fun is_StructuredOutputError :: "exn \<Rightarrow> bool" where
  "is_StructuredOutputError (StructuredOutputError m) = True"
| "is_StructuredOutputError _ = False"

section \<open>Ending a run from outside the graph\<close>

definition halt_update :: "AgentRunStatus \<Rightarrow> string \<Rightarrow> status_update" where
  "halt_update target error = no_update\<lparr>
     u_workflow_state := Some (if target = FAILED then W_FAILED else W_NEEDS_HUMAN_INTERVENTION),
     u_error := Some (take 2000 error), u_finished := True\<rparr>"

definition read_run :: "env \<Rightarrow> string \<Rightarrow> AgentRun option io" where
  "read_run env run_id = transaction env (\<lambda>now d. (d, Inr (get_run_by_run_id run_id d)))"

definition halt :: "env \<Rightarrow> string \<Rightarrow> AgentRunStatus \<Rightarrow> string \<Rightarrow> unit io" where
  "halt env run_id target error =
     bind_io (read_run env run_id) (\<lambda>found.
       case found of
         None \<Rightarrow> return_io ()
       | Some run \<Rightarrow>
           if target \<notin> RUN_TRANSITIONS (ar_status run) then return_io ()
           else bind_io (transaction env (\<lambda>now. mark_status (en_claim env) now run target (halt_update target error)))
                  (\<lambda>_. return_io ()))"

text \<open>The status in the dictionary \<open>_halted\<close> returns.\<close>

definition halted :: AgentRunStatus where
  "halted = NEEDS_HUMAN_INTERVENTION"

section \<open>Execute and resume\<close>

definition execute ::
  "env \<Rightarrow> world option \<Rightarrow> string \<Rightarrow> string \<Rightarrow> bool \<Rightarrow> (node \<times> AgentState) option \<Rightarrow> AgentRunStatus io" where
  "execute env stop incident_pk run_id recover checkpoint =
     catch_io (wait_for stop (run_agent_workflow env incident_pk run_id recover checkpoint))
       (\<lambda>e. if is_TimeoutError e
            then bind_io (halt env run_id NEEDS_HUMAN_INTERVENTION ''run timeout budget exhausted'')
                   (\<lambda>_. return_io halted)
            else if is_StructuredOutputError e
            then bind_io (halt env run_id NEEDS_HUMAN_INTERVENTION (message e)) (\<lambda>_. return_io halted)
            else raise_io e)
       (\<lambda>s. return_io (st_status s))"

text \<open>The resumed graph on the database of the world, with the clock from the current event on.\<close>

definition resume_graph ::
  "env \<Rightarrow> string \<Rightarrow> 'g pr_client \<Rightarrow> AgentState option \<Rightarrow> string \<Rightarrow> string \<Rightarrow> (world \<times> 'g, AgentState) eff" where
  "resume_graph env pk create checkpoint run_id decision s =
     (let w = fst s; n = wd_tick w in
      case resume_agent_workflow (env\<lparr>en_now := (\<lambda>k. en_now env (n + k))\<rparr>) pk create checkpoint run_id decision
             (en_others env n (wd_db w), snd s) of
        ((d, g), r) \<Rightarrow> ((w\<lparr>wd_db := d, wd_tick := Suc n\<rparr>, g), r))"

definition resume ::
  "env \<Rightarrow> (world \<times> 'g) option \<Rightarrow> string \<Rightarrow> 'g pr_client \<Rightarrow> AgentState option \<Rightarrow> string \<Rightarrow> string
     \<Rightarrow> (world \<times> 'g, AgentRunStatus) eff" where
  "resume env stop pk create checkpoint run_id decision =
     bind_eff (lift_io (read_run env run_id)) (\<lambda>found.
       case found of
         None \<Rightarrow> fail (ValueError (''run not found: '' @ run_id))
       | Some run \<Rightarrow>
           bind_eff (lift_io (transaction env (\<lambda>now. mark_running (en_claim env) now run))) (\<lambda>_.
             handle (bind_eff (wait_for stop (resume_graph env pk create checkpoint run_id decision))
                       (\<lambda>s. give (st_status s)))
               (\<lambda>e. if is_TimeoutError e
                    then bind_eff (lift_io (halt env run_id NEEDS_HUMAN_INTERVENTION ''run timeout budget exhausted''))
                           (\<lambda>_. give halted)
                    else fail e)))"

definition approved_decision :: "string \<Rightarrow> db \<Rightarrow> ApprovalDecision option" where
  "approved_decision run_id d =
     (case sql_first (\<lambda>a. ap_decision a = Some APPROVE
               \<and> (\<exists>r \<in> set (db_runs d). ap_run_pk a = ar_id r \<and> ar_run_id r = run_id)) (db_approvals d) of
        None \<Rightarrow> None | Some a \<Rightarrow> ap_decision a)"

section \<open>Tasks inside the API process\<close>

datatype submission = Submit string string bool | SubmitResume string ApprovalDecision

record RunExecutor =
  rx_tasks :: "(string \<times> submission) list"

definition submit :: "string \<Rightarrow> string \<Rightarrow> bool \<Rightarrow> RunExecutor \<Rightarrow> RunExecutor" where
  "submit incident_pk run_id recover x =
     x\<lparr>rx_tasks := dict_set run_id (Submit incident_pk run_id recover) (rx_tasks x)\<rparr>"

definition submit_resume :: "string \<Rightarrow> ApprovalDecision \<Rightarrow> RunExecutor \<Rightarrow> RunExecutor" where
  "submit_resume run_id decision x =
     x\<lparr>rx_tasks := dict_set run_id (SubmitResume run_id decision) (rx_tasks x)\<rparr>"

definition task_done :: "string \<Rightarrow> RunExecutor \<Rightarrow> RunExecutor" where
  "task_done run_id x = x\<lparr>rx_tasks := del_key run_id (rx_tasks x)\<rparr>"

definition recover_one :: "db \<Rightarrow> AgentRun \<Rightarrow> RunExecutor \<Rightarrow> RunExecutor" where
  "recover_one d run x =
     (case approved_decision (ar_run_id run) d of
        Some decision \<Rightarrow> submit_resume (ar_run_id run) decision x
      | None \<Rightarrow> submit (ar_incident_pk run) (ar_run_id run) (ar_status run = RUNNING) x)"

definition recover_non_terminal :: "db \<Rightarrow> RunExecutor \<Rightarrow> RunExecutor \<times> nat" where
  "recover_non_terminal d x =
     (let runs = filter (\<lambda>r. ar_status r \<in> {PENDING, RUNNING}) (db_runs d)
      in (fold (recover_one d) runs x, length runs))"

text \<open>What a task does, for the resumes and for the runs; its exceptions end in \<open>halt\<close>.\<close>

definition run_safe ::
  "env \<Rightarrow> world option \<Rightarrow> string \<Rightarrow> string \<Rightarrow> bool \<Rightarrow> (node \<times> AgentState) option \<Rightarrow> unit io" where
  "run_safe env stop incident_pk run_id recover checkpoint =
     catch_io (execute env stop incident_pk run_id recover checkpoint)
       (\<lambda>e. halt env run_id FAILED ''executor crashed'') (\<lambda>_. return_io ())"

definition resume_safe ::
  "env \<Rightarrow> (world \<times> 'g) option \<Rightarrow> string \<Rightarrow> 'g pr_client \<Rightarrow> AgentState option \<Rightarrow> string \<Rightarrow> string
     \<Rightarrow> (world \<times> 'g, unit) eff" where
  "resume_safe env stop pk create checkpoint run_id decision =
     handle (bind_eff (resume env stop pk create checkpoint run_id decision) (\<lambda>_. give ()))
       (\<lambda>e. lift_io (halt env run_id NEEDS_HUMAN_INTERVENTION ''approval resume crashed''))"

end
