(* ===== verification/Worker.thy ===== *)
theory Worker
  imports Executor
begin

text \<open>
  \<open>worker.py\<close>: the worker that polls the queue, executes a claim under a heartbeat and decides what a
  failure means. Metrics, logging, signals and the cancellation at shutdown are left out.
\<close>

record WorkerSettings =
  wk_worker_concurrency :: nat
  wk_job_lease_seconds :: int
  wk_job_heartbeat_seconds :: int
  wk_max_job_attempts :: nat

section \<open>Polling\<close>

text \<open>
  One iteration of the loop of \<open>run\<close>: the sweep, then claims until the worker is full or the queue gives
  nothing. \<open>locked\<close> are the rows other transactions hold (\<open>SKIP LOCKED\<close>), \<open>now\<close> the clock, both per query;
  \<open>free\<close> counts the places of the worker that are left.
\<close>

fun claim_up_to ::
  "nat \<Rightarrow> WorkerSettings \<Rightarrow> string \<Rightarrow> (nat \<Rightarrow> string set) \<Rightarrow> (nat \<Rightarrow> time) \<Rightarrow> db \<Rightarrow> db \<times> ClaimedRun list" where
  "claim_up_to 0 st wid locked now d = (d, [])"
| "claim_up_to (Suc free) st wid locked now d =
     (case claim_next_run (locked free) wid (wk_job_lease_seconds st) (wk_max_job_attempts st) (now free) None d of
        (d', None) \<Rightarrow> (d', [])
      | (d', Some c) \<Rightarrow> (case claim_up_to free st wid locked now d' of (d'', cs) \<Rightarrow> (d'', c # cs)))"

definition poll ::
  "WorkerSettings \<Rightarrow> string \<Rightarrow> (nat \<Rightarrow> string set) \<Rightarrow> time \<Rightarrow> (nat \<Rightarrow> time) \<Rightarrow> nat \<Rightarrow> db \<Rightarrow> db \<times> ClaimedRun list" where
  "poll st wid locked sweep now active d =
     (case expire_exhausted_runs (wk_max_job_attempts st) sweep d of
        (d', expired) \<Rightarrow> claim_up_to (wk_worker_concurrency st - active) st wid locked now d')"

section \<open>The heartbeat\<close>

text \<open>
  A beat: the transactions of others since the last one, the database clock at the renewal, whether the
  renewal was committed, the exception the session raised, and the clock of the loop afterwards.
\<close>

record beat =
  bt_others :: "db \<Rightarrow> db"
  bt_now :: time
  bt_committed :: bool
  bt_error :: "exn option"
  bt_time :: time

datatype heartbeat_end = Beating time | Lost_lease | Raised exn

text \<open>\<open>SQLAlchemyError\<close> and \<open>OSError\<close>.\<close>

fun transient :: "exn \<Rightarrow> bool" where
  "transient (IntegrityError m) = True"
| "transient (TimeoutError m) = True"
| "transient (ConnectionError m) = True"
| "transient (PermissionError m) = True"
| "transient (FileNotFoundError m) = True"
| "transient _ = False"

definition tolerance :: "WorkerSettings \<Rightarrow> time" where
  "tolerance st = max 0 (seconds (wk_job_lease_seconds st - wk_job_heartbeat_seconds st))"

fun heartbeat ::
  "WorkerSettings \<Rightarrow> string \<Rightarrow> string \<Rightarrow> nat option \<Rightarrow> beat list \<Rightarrow> time \<Rightarrow> db \<Rightarrow> db \<times> heartbeat_end" where
  "heartbeat st wid run_id ac [] confirmed d = (d, Beating confirmed)"
| "heartbeat st wid run_id ac (b # bs) confirmed d =
     (let d0 = bt_others b d;
          (d1, owned) = renew_lease run_id wid (wk_job_lease_seconds st) (bt_now b) ac d0
      in case bt_error b of
           Some e \<Rightarrow>
             (let d2 = (if bt_committed b then d1 else d0)
              in if transient e \<and> bt_time b - confirmed < tolerance st
                 then heartbeat st wid run_id ac bs confirmed d2
                 else (d2, Raised e))
         | None \<Rightarrow>
             if owned then heartbeat st wid run_id ac bs (bt_time b) d1 else (d1, Lost_lease))"

section \<open>Executing a claim\<close>

definition resume_or_execute ::
  "env \<Rightarrow> (world \<times> 'g) option \<Rightarrow> string \<Rightarrow> 'g pr_client \<Rightarrow> (node \<times> AgentState) option \<Rightarrow> ClaimedRun
     \<Rightarrow> (world \<times> 'g, AgentRunStatus) eff" where
  "resume_or_execute env stop pk create checkpoint claim =
     bind_eff (lift_io (transaction env (\<lambda>now d. (d, Inr (approved_decision (cl_run_id claim) d))))) (\<lambda>decision.
       case decision of
         Some dec \<Rightarrow> resume env stop pk create (map_option snd checkpoint) (cl_run_id claim) (decision_value dec)
       | None \<Rightarrow> lift_io (execute env (map_option fst stop) (cl_incident_pk claim) (cl_run_id claim)
                   (cl_recover claim) checkpoint))"

text \<open>\<open>type(exc).__name__\<close>\<close>

fun exn_name :: "exn \<Rightarrow> string" where
  "exn_name (ValueError m) = ''ValueError''"
| "exn_name (TypeError m) = ''TypeError''"
| "exn_name (RuntimeError m) = ''RuntimeError''"
| "exn_name (LostLeaseError m) = ''LostLeaseError''"
| "exn_name (QueueFullError m) = ''QueueFullError''"
| "exn_name (ApprovalConflict m) = ''ApprovalConflict''"
| "exn_name (StructuredOutputError m) = ''StructuredOutputError''"
| "exn_name (IntegrityError m) = ''IntegrityError''"
| "exn_name (TimeoutError m) = ''TimeoutError''"
| "exn_name (ConnectionError m) = ''ConnectionError''"
| "exn_name (PermissionError m) = ''PermissionError''"
| "exn_name (FileNotFoundError m) = ''FileNotFoundError''"
| "exn_name (HTTPException c m) = ''HTTPException''"
| "exn_name (HTTPStatusError c m) = ''HTTPStatusError''"
| "exn_name (HttpxTimeoutException m) = ''TimeoutException''"
| "exn_name (HttpxNetworkError m) = ''NetworkError''"
| "exn_name (OtherError m) = ''Exception''"

text \<open>\<open>min(30.0, 2.0 ** max(0, attempt_count - 1))\<close> seconds.\<close>

definition backoff :: "nat \<Rightarrow> time" where
  "backoff n = seconds (min 30 (2 ^ (n - 1)))"

text \<open>What the worker writes when the attempt raised.\<close>

definition give_up :: "env \<Rightarrow> ClaimedRun \<Rightarrow> exn \<Rightarrow> unit io" where
  "give_up env claim e =
     bind_io (read_run env (cl_run_id claim)) (\<lambda>found.
       case found of
         None \<Rightarrow> return_io ()
       | Some run \<Rightarrow>
           bind_io (transaction env (\<lambda>now. mark_status (en_claim env) now run NEEDS_HUMAN_INTERVENTION
                      (halt_update NEEDS_HUMAN_INTERVENTION (message e))))
             (\<lambda>_. return_io ()))"

definition retry_later :: "WorkerSettings \<Rightarrow> env \<Rightarrow> string \<Rightarrow> ClaimedRun \<Rightarrow> exn \<Rightarrow> unit io" where
  "retry_later st env wid claim e = transaction env (\<lambda>now d.
     (fst (retry_claim (cl_run_id claim) wid (wk_max_job_attempts st) (exn_name e)
             (backoff (cl_attempt_count claim)) (Some (cl_attempt_count claim)) now d), Inr ()))"

definition on_failure :: "WorkerSettings \<Rightarrow> env \<Rightarrow> string \<Rightarrow> ClaimedRun \<Rightarrow> exn \<Rightarrow> unit io" where
  "on_failure st env wid claim e =
     (if is_ValueError e \<or> is_TypeError e then give_up env claim e else retry_later st env wid claim e)"

definition on_success :: "env \<Rightarrow> string \<Rightarrow> ClaimedRun \<Rightarrow> unit io" where
  "on_success env wid claim = transaction env (\<lambda>now d.
     (fst (release_claim (cl_run_id claim) wid (Some (cl_attempt_count claim)) d), Inr ()))"

text \<open>
  \<open>race = Some (x, e)\<close>: the heartbeat ended first, with the state then being \<open>x\<close>, by the exception \<open>e\<close>
  or because the lease was lost. The execution is cancelled, so its result does not count.
\<close>

definition attempt_result ::
  "('s \<times> exn option) option \<Rightarrow> ('s, 'a) eff \<Rightarrow> ('s, 'a) eff" where
  "attempt_result race exec s =
     (case race of
        None \<Rightarrow> exec s
      | Some (s', e) \<Rightarrow>
          (s', Inl (case e of None \<Rightarrow> RuntimeError ''lease ownership lost during execution'' | Some x \<Rightarrow> x)))"

definition execute_claim ::
  "WorkerSettings \<Rightarrow> env \<Rightarrow> string \<Rightarrow> ((world \<times> 'g) \<times> exn option) option \<Rightarrow> (world \<times> 'g) option \<Rightarrow> string
     \<Rightarrow> 'g pr_client \<Rightarrow> (node \<times> AgentState) option \<Rightarrow> ClaimedRun \<Rightarrow> (world \<times> 'g, unit) eff" where
  "execute_claim st env0 wid race stop pk create checkpoint claim =
     (let env = env0\<lparr>en_claim := Some claim\<rparr> in
      handle (bind_eff (attempt_result race (resume_or_execute env stop pk create checkpoint claim))
                (\<lambda>_. lift_io (on_success env wid claim)))
        (\<lambda>e. lift_io (on_failure st env wid claim e)))"

end
