(* ===== verification/WorkerProps.thy ===== *)
theory WorkerProps
  imports Worker JobProps GraphDemo
begin

text \<open>
  What the worker guarantees about its lease: while the heartbeat goes on, the lease in the database
  outlives the next beat; when an attempt is over, its claim owns nothing; and what a failure does to
  the run depends only on the kind of the exception and on the attempts that are left.
\<close>

section \<open>The heartbeat\<close>










definition demo_worker :: WorkerSettings where
  "demo_worker = \<lparr>wk_worker_concurrency = 2, wk_job_lease_seconds = 60, wk_job_heartbeat_seconds = 15,
     wk_max_job_attempts = 3\<rparr>"



section \<open>Whose attempt is over\<close>

text \<open>The claim fails the fence from time \<open>t\<close> on.\<close>

definition disowned :: "ClaimedRun \<Rightarrow> time \<Rightarrow> db \<Rightarrow> bool" where
  "disowned claim t d \<longleftrightarrow> (\<forall>u. t \<le> u \<longrightarrow> fence (Some claim) u (cl_run_id claim) d \<noteq> Inr ())"

lemma disownedI:
  assumes "\<And>u x. t \<le> u \<Longrightarrow> x \<in> set (db_runs d) \<Longrightarrow> \<not> fence_matches claim (cl_run_id claim) u x"
  shows "disowned claim t d"
  unfolding disowned_def
proof (intro allI impI)
  fix u assume "t \<le> u"
  then have "rowcount (fence_matches claim (cl_run_id claim) u) (db_runs d) = 0" using assms by simp
  then have "rowcount (fence_matches claim (cl_run_id claim) u) (db_runs d) \<noteq> 1" by linarith
  then show "fence (Some claim) u (cl_run_id claim) d \<noteq> Inr ()" by (simp add: fence_def)
qed

text \<open>What a transaction finds: the constraints hold, and a primary key belongs to one run id.\<close>

definition sound_db :: "(string \<Rightarrow> string) \<Rightarrow> db \<Rightarrow> bool" where
  "sound_db key d \<longleftrightarrow> schema_ok d \<and> (\<forall>r \<in> set (db_runs d). ar_run_id r = key (ar_id r))"

lemma transaction_eq:
  "transaction env op w = (w', res) \<Longrightarrow> \<exists>d. op (en_now env (wd_tick w)) (en_others env (wd_tick w) (wd_db w)) = (d, res)
     \<and> w' = w\<lparr>wd_db := d, wd_tick := Suc (wd_tick w)\<rparr>"
  by (auto simp: transaction_def Let_def split: prod.splits)

lemma success_disowns:
  assumes "on_success env (cl_worker_id claim) claim w = (w', res)"
  shows "disowned claim (en_now env (wd_tick w' - 1)) (wd_db w')"
proof -
  let ?d = "en_others env (wd_tick w) (wd_db w)"
  let ?p = "release_matches (cl_run_id claim) (cl_worker_id claim) (Some (cl_attempt_count claim))"
  have w': "db_runs (wd_db w') = sql_update ?p clear_lease (db_runs ?d)" "wd_tick w' = Suc (wd_tick w)"
    using transaction_eq [OF assms [unfolded on_success_def]] by (auto simp: release_claim_def)
  have "\<not> fence_matches claim (cl_run_id claim) u (if ?p y then clear_lease y else y)" for u y
    by (auto simp: fence_matches_def release_matches_def attempt_matches_def row_simps)
  then show ?thesis by (auto intro!: disownedI simp: w' in_sql_update)
qed

lemma retry_disowns:
  assumes "retry_later st env (cl_worker_id claim) claim e w = (w', res)"
    and "schema_ok (en_others env (wd_tick w) (wd_db w))"
  shows "disowned claim (en_now env (wd_tick w' - 1)) (wd_db w')"
proof -
  let ?d = "en_others env (wd_tick w) (wd_db w)" and ?t = "en_now env (wd_tick w)"
  let ?p = "release_matches (cl_run_id claim) (cl_worker_id claim) (Some (cl_attempt_count claim))"
  let ?ret = "retry_claim (cl_run_id claim) (cl_worker_id claim) (wk_max_job_attempts st) (exn_name e)
    (backoff (cl_attempt_count claim)) (Some (cl_attempt_count claim)) ?t ?d"
  have w': "wd_db w' = fst ?ret" "wd_tick w' = Suc (wd_tick w)"
    using transaction_eq [OF assms(1) [unfolded retry_later_def]] by auto
  have m: "fence_matches claim (cl_run_id claim) u x \<Longrightarrow> ?p x" for u x
    by (simp add: fence_matches_def release_matches_def attempt_matches_def)
  have uniq: "x \<in> set (db_runs ?d) \<Longrightarrow> y \<in> set (db_runs ?d) \<Longrightarrow> ?p x \<Longrightarrow> ?p y \<Longrightarrow> x = y" for x y
    using distinct_key_eq [OF schema_runs(2) [OF assms(2)]] by (simp add: release_matches_def)
  have "disowned claim ?t (fst ?ret)"
  proof (cases "sql_first ?p (db_runs ?d)")
    case None
    then have "fst ?ret = ?d" by (simp add: retry_claim_def)
    then show ?thesis using m None by (intro disownedI) (auto simp: sql_first_None)
  next
    case (Some r)
    have r: "r \<in> set (db_runs ?d)" "?p r" using sql_first_Some [OF Some] by simp_all
    show ?thesis
    proof (rule disownedI, rule notI)
      fix u x
      assume u: "?t \<le> u" and x: "x \<in> set (db_runs (fst ?ret))" and f: "fence_matches claim (cl_run_id claim) u x"
      from x consider (kept) "x \<in> set (db_runs ?d)" "ar_status r \<noteq> RUNNING \<or> ar_lease_expires_at r = None
            \<or> col_le (ar_lease_expires_at r) ?t"
        | (other) "x \<in> set (db_runs ?d)" "ar_id x \<noteq> ar_id r"
        | (new) y where "x = retry_values (wk_max_job_attempts st) (exn_name e) (backoff (cl_attempt_count claim)) ?t y"
        by (auto simp: retry_claim_def Some in_sql_update split: if_splits)
      then show False
      proof cases
        case kept
        then have "x = r" using uniq r m [OF f] by blast
        with kept f u show False by (cases "ar_lease_expires_at r") (auto simp: fence_matches_def)
      next
        case other
        then show False using uniq r m [OF f] by blast
      next
        case new
        then show False using f by (simp add: fence_matches_def row_simps)
      qed
    qed
  qed
  then show ?thesis by (simp add: w')
qed

lemma give_up_disowns:
  assumes "give_up env claim e w = (w', Inr ())" and "\<And>n d. sound_db key (en_others env n d)"
  shows "disowned claim (en_now env (wd_tick w' - 1)) (wd_db w')"
proof -
  let ?d = "en_others env (wd_tick w) (wd_db w)"
  let ?w = "w\<lparr>wd_db := ?d, wd_tick := Suc (wd_tick w)\<rparr>"
  have rd: "read_run env (cl_run_id claim) w = (?w, Inr (get_run_by_run_id (cl_run_id claim) ?d))"
    by (simp add: read_run_def transaction_def Let_def)
  show ?thesis
  proof (cases "get_run_by_run_id (cl_run_id claim) ?d")
    case None
    then have "w' = ?w" using assms(1) by (simp add: give_up_def bind_io_def rd return_io_def)
    with None show ?thesis
      by (auto intro!: disownedI simp: get_run_by_run_id_def sql_first_None fence_matches_def)
  next
    case (Some run)
    let ?d1 = "en_others env (Suc (wd_tick w)) ?d" and ?t = "en_now env (Suc (wd_tick w))"
    let ?u = "halt_update NEEDS_HUMAN_INTERVENTION (message e)"
    obtain d2 r2 where ms: "mark_status (en_claim env) ?t run NEEDS_HUMAN_INTERVENTION ?u ?d1 = (d2, Inr r2)"
      and w': "wd_db w' = d2" "wd_tick w' = Suc (Suc (wd_tick w))"
      using assms(1) Some
      by (auto simp: give_up_def bind_io_def rd return_io_def transaction_def Let_def split: prod.splits sum.splits)
    have s: "schema_ok ?d1" using assms(2) by (simp add: sound_db_def)
    obtain r where r: "get_run (ar_id run) ?d1 = Some r" "r2 = status_values NEEDS_HUMAN_INTERVENTION ?u ?t r"
        "get_run (ar_id run) d2 = Some r2"
      by (rule mark_status_Inr [OF s ms])
    have s2: "schema_ok d2" using s ms by (auto intro: runs_only_schema evolve_intros runs_only_intros)
    have "ar_run_id run = cl_run_id claim" "ar_run_id run = key (ar_id run)"
      using get_run_by_run_idD [OF Some] assms(2) [of "wd_tick w" "wd_db w"] by (auto simp: sound_db_def)
    moreover have "ar_run_id r = key (ar_id run)"
      using r(1) assms(2) [of "Suc (wd_tick w)" ?d] by (simp add: sound_db_def get_run_iff)
    ultimately have "r2 \<in> set (db_runs d2)" "ar_run_id r2 = cl_run_id claim"
      using r get_run_iff [OF s2] by (simp_all add: row_simps)
    then have "x \<in> set (db_runs d2) \<Longrightarrow> fence_matches claim (cl_run_id claim) u x \<Longrightarrow> x = r2" for u x
      using distinct_key_eq [OF schema_runs(2) [OF s2]] by (simp add: fence_matches_def)
    moreover have "ar_status r2 \<noteq> RUNNING" using r(2) by (simp add: row_simps)
    ultimately show ?thesis by (auto intro!: disownedI simp: w' fence_matches_def)
  qed
qed

text \<open>
  C16. An attempt that is over owns nothing. However the execution ended and whatever others did
  meanwhile, when \<open>_execute_claim\<close> returns normally its claim fails the fence from then on: a later
  write by a straggler of that attempt is refused, and the run is free for the queue or finished.
\<close>

theorem execute_claim_disowns:
  assumes "execute_claim st env (cl_worker_id claim) race stop pk create checkpoint claim s = (s', Inr ())"
    and "\<And>n d. sound_db key (en_others env n d)"
  shows "disowned claim (en_now env (wd_tick (fst s') - 1)) (wd_db (fst s'))"
proof -
  let ?env = "env\<lparr>en_claim := Some claim\<rparr>"
  have o: "\<And>n d. sound_db key (en_others ?env n d)" using assms(2) by simp
  obtain w' g where s': "s' = (w', g)" by (cases s') auto
  consider (ok) w where "on_success ?env (cl_worker_id claim) claim w = (w', Inr ())"
    | (bad) e w where "on_failure st ?env (cl_worker_id claim) claim e w = (w', Inr ())"
    using assms(1) s'
    by (auto simp: execute_claim_def Let_def handle_def bind_eff_def lift_io_def split: prod.splits sum.splits)
  then show ?thesis
  proof cases
    case ok
    then show ?thesis using success_disowns s' by fastforce
  next
    case bad
    then show ?thesis
      using give_up_disowns [OF _ o] retry_disowns [of st ?env claim e w w' "Inr ()"] o s'
      by (fastforce simp: on_failure_def sound_db_def split: if_splits)
  qed
qed

text \<open>An attempt that fails with a transient error on the run \<open>claim1\<close> holds.\<close>

definition demo_worker_env :: env where
  "demo_worker_env = demo_env\<lparr>en_claim := Some claim1, en_now := (\<lambda>n. 1000000 + int n),
     en_others := (\<lambda>n d. demo_claimed)\<rparr>"

theorem execute_claim_disowns_witness:
  "\<exists>s'. execute_claim demo_worker demo_worker_env ''w1'' (Some ((demo_world, ()), Some (ConnectionError ''down'')))
       None ''pk'' (\<lambda>q a g. (g, refused_result)) None claim1 (demo_world, ()) = (s', Inr ())
     \<and> disowned claim1 2000000 (wd_db (fst s'))"
proof -
  let ?ex = "execute_claim demo_worker demo_worker_env ''w1'' (Some ((demo_world, ()), Some (ConnectionError ''down'')))
       None ''pk'' (\<lambda>q a g. (g, refused_result)) None claim1 (demo_world, ())"
  obtain s' where run: "?ex = (s', Inr ())" and tick: "wd_tick (fst s') = 1"
    by (simp add: execute_claim_def handle_def bind_eff_def attempt_result_def lift_io_def on_failure_def
        retry_later_def transaction_def Let_def demo_world_def)
  have s: "schema_ok demo_claimed" using reachable_schema [OF demo_sys1_reachable] by (simp add: demo_sys1_def)
  have o: "sound_db (\<lambda>_. ''run-1'') (en_others demo_worker_env n d)" for n d
    using s by (simp add: sound_db_def demo_worker_env_def) (simp add: demo_claimed_eq claim_values_def new_run_def)
  have w: "cl_worker_id claim1 = ''w1''" by (simp add: claim1_def)
  have "disowned claim1 (en_now demo_worker_env (wd_tick (fst s') - 1)) (wd_db (fst s'))"
    by (rule execute_claim_disowns [OF _ o]) (simp only: w, rule run)
  then have "disowned claim1 1000000 (wd_db (fst s'))" by (simp add: tick demo_worker_env_def)
  then show ?thesis using run by (intro exI [of _ s'] conjI) (simp_all add: disowned_def)
qed

section \<open>What a failure does\<close>

lemma backoff_bounds: "seconds 1 \<le> backoff n \<and> backoff n \<le> seconds 30"
  by (simp add: backoff_def seconds_def)

text \<open>The row of the run as the failure handler finds it.\<close>

definition owned_row :: "env \<Rightarrow> nat \<Rightarrow> ClaimedRun \<Rightarrow> AgentRun \<Rightarrow> db \<Rightarrow> bool" where
  "owned_row env n claim r d \<longleftrightarrow> schema_ok d \<and> get_run_by_run_id (cl_run_id claim) d = Some r
     \<and> fence_matches claim (cl_run_id claim) (en_now env n) r"

lemma retry_later_row:
  assumes "owned_row env (wd_tick w) claim r (en_others env (wd_tick w) (wd_db w))"
  shows "\<exists>w'. retry_later st env (cl_worker_id claim) claim e w = (w', Inr ())
    \<and> get_run_by_run_id (cl_run_id claim) (wd_db w') = Some (retry_values (wk_max_job_attempts st) (exn_name e)
        (backoff (cl_attempt_count claim)) (en_now env (wd_tick w)) r)"
proof -
  let ?d = "en_others env (wd_tick w) (wd_db w)"
  let ?p = "release_matches (cl_run_id claim) (cl_worker_id claim) (Some (cl_attempt_count claim))"
  have s: "schema_ok ?d" and r: "r \<in> set (db_runs ?d)" "get_run_by_run_id (cl_run_id claim) ?d = Some r"
    and f: "fence_matches claim (cl_run_id claim) (en_now env (wd_tick w)) r"
    using assms get_run_by_run_idD by (auto simp: owned_row_def)
  have hit: "sql_first ?p (db_runs ?d) = Some r"
    by (rule sql_first_unique [OF schema_runs(2) [OF s]])
      (use r f in \<open>auto simp: release_matches_def attempt_matches_def fence_matches_def\<close>)
  obtain x where live: "ar_lease_expires_at r = Some x" "\<not> x \<le> en_now env (wd_tick w)"
    using f by (cases "ar_lease_expires_at r") (auto simp: fence_matches_def)
  show ?thesis
    using hit live f r(2)
      retry_upd.lookup_after [where p = "\<lambda>x. ar_id x = ar_id r" and rows = "db_runs ?d"]
    by (simp add: retry_later_def transaction_def Let_def retry_claim_def fence_matches_def get_run_by_run_id_def
        split: prod.split)
qed

lemma give_up_row:
  assumes "en_claim env = Some claim"
    and "owned_row env (wd_tick w) claim r (en_others env (wd_tick w) (wd_db w))"
    and "owned_row env (Suc (wd_tick w)) claim r
      (en_others env (Suc (wd_tick w)) (en_others env (wd_tick w) (wd_db w)))"
  shows "\<exists>w'. give_up env claim e w = (w', Inr ())
    \<and> get_run_by_run_id (cl_run_id claim) (wd_db w') = Some (status_values NEEDS_HUMAN_INTERVENTION
        (halt_update NEEDS_HUMAN_INTERVENTION (message e)) (en_now env (Suc (wd_tick w))) r)"
proof -
  let ?d = "en_others env (wd_tick w) (wd_db w)" and ?t = "en_now env (Suc (wd_tick w))"
  let ?d1 = "en_others env (Suc (wd_tick w)) ?d" and ?u = "halt_update NEEDS_HUMAN_INTERVENTION (message e)"
  let ?p = "\<lambda>x. ar_id x = ar_id r \<and> ar_status x = ar_status r"
  have g: "get_run_by_run_id (cl_run_id claim) ?d = Some r" "get_run_by_run_id (cl_run_id claim) ?d1 = Some r"
    and s: "schema_ok ?d1" and f: "fence_matches claim (cl_run_id claim) ?t r"
    using assms(2,3) by (simp_all add: owned_row_def)
  have rid: "ar_run_id r = cl_run_id claim" using get_run_by_run_idD [OF g(1)] by simp
  have fence: "fence (en_claim env) ?t (ar_run_id r) ?d1 = Inr ()"
    using f g(2) by (auto simp: assms(1) rid fence_claim_iff [OF s])
  have status: "ar_status r = RUNNING" using f by (simp add: fence_matches_def)
  have pk: "get_run (ar_id r) ?d1 = Some r"
    using g(2) by (simp add: get_run_iff [OF s] get_run_by_run_id_iff [OF s])
  have ms: "mark_status (en_claim env) ?t r NEEDS_HUMAN_INTERVENTION ?u ?d1
      = (?d1\<lparr>db_runs := sql_update ?p (status_values NEEDS_HUMAN_INTERVENTION ?u ?t) (db_runs ?d1)\<rparr>,
         Inr (status_values NEEDS_HUMAN_INTERVENTION ?u ?t r))"
    using mark_status_run [OF s fence, of NEEDS_HUMAN_INTERVENTION ?u] pk status
    by (simp add: terminal_simps)
  show ?thesis
    using g status_upd.lookup_after [where p = ?p and rows = "db_runs ?d1"] ms
    by (simp add: give_up_def read_run_def bind_io_def transaction_def Let_def return_io_def get_run_by_run_id_def)
qed

text \<open>
  C24. What a failure does. On a run its claim still owns, a \<open>ValueError\<close> or \<open>TypeError\<close> ends the run at
  once for a human, with the message and whatever attempts are left; any other exception puts it
  back into the queue, to be claimed between 1 and 30 seconds later, until its attempts are used up.
  Either way the run is free of its lease.
\<close>

theorem failure_decides_run:
  assumes "en_claim env = Some claim"
    and "owned_row env (wd_tick w) claim r (en_others env (wd_tick w) (wd_db w))"
    and "owned_row env (Suc (wd_tick w)) claim r
      (en_others env (Suc (wd_tick w)) (en_others env (wd_tick w) (wd_db w)))"
  shows "\<exists>w' r'. on_failure st env (cl_worker_id claim) claim e w = (w', Inr ())
    \<and> get_run_by_run_id (cl_run_id claim) (wd_db w') = Some r' \<and> ar_worker_id r' = None
    \<and> ar_attempt_count r' = cl_attempt_count claim
    \<and> (if is_ValueError e \<or> is_TypeError e
       then ar_status r' = NEEDS_HUMAN_INTERVENTION \<and> ar_error r' = Some (take 2000 (message e))
         \<and> ar_finished_at r' \<noteq> None
       else if wk_max_job_attempts st \<le> cl_attempt_count claim
       then ar_status r' = NEEDS_HUMAN_INTERVENTION \<and> ar_failure_category r' = Some (exn_name e)
       else ar_status r' = PENDING \<and> ar_failure_category r' = Some (exn_name e)
         \<and> (\<exists>delay. seconds 1 \<le> delay \<and> delay \<le> seconds 30
              \<and> ar_next_attempt_at r' = Some (en_now env (wd_tick w) + delay)))"
proof -
  have n: "ar_attempt_count r = cl_attempt_count claim"
    using assms(2) by (simp add: owned_row_def fence_matches_def)
  show ?thesis
  proof (cases "is_ValueError e \<or> is_TypeError e")
    case True
    then show ?thesis
      using give_up_row [OF assms, of e] n
      by (auto simp: on_failure_def row_simps halt_update_def status_values_def no_update_def clear_lease_def)
  next
    case False
    let ?r = "retry_values (wk_max_job_attempts st) (exn_name e) (backoff (cl_attempt_count claim)) (en_now env (wd_tick w)) r"
    obtain w' where w': "retry_later st env (cl_worker_id claim) claim e w = (w', Inr ())"
        "get_run_by_run_id (cl_run_id claim) (wd_db w') = Some ?r"
      using retry_later_row [OF assms(2)] by blast
    show ?thesis
      using False w' n backoff_bounds [of "cl_attempt_count claim"]
      by (intro exI [of _ w'] exI [of _ ?r]) (simp add: on_failure_def retry_values_def clear_lease_def Let_def)
  qed
qed

theorem failure_decides_run_witness:
  "\<exists>w' r'. on_failure demo_worker demo_worker_env ''w1'' claim1 (ConnectionError ''down'') demo_world = (w', Inr ())
     \<and> get_run_by_run_id ''run-1'' (wd_db w') = Some r' \<and> ar_status r' = PENDING"
proof -
  let ?r = "claim_values ''w1'' 60 0 (new_run ''p'' ''run-1'' ''i'' ''tr'' 0)"
  have s: "schema_ok demo_claimed" using reachable_schema [OF demo_sys1_reachable] by (simp add: demo_sys1_def)
  have g: "get_run_by_run_id ''run-1'' demo_claimed = Some ?r"
    by (simp add: get_run_by_run_id_def demo_claimed_eq sql_first_def row_simps new_run_def)
  have o: "n \<le> 1 \<Longrightarrow> owned_row demo_worker_env n claim1 ?r demo_claimed" for n
    using s g by (simp add: owned_row_def claim1_def fence_matches_def demo_worker_env_def claim_values_def
        new_run_def seconds_def)
  have e: "en_claim demo_worker_env = Some claim1" "\<And>n d. en_others demo_worker_env n d = demo_claimed"
    "wd_tick demo_world = 0"
    by (simp_all add: demo_worker_env_def demo_world_def)
  have "\<exists>w' r'. on_failure demo_worker demo_worker_env (cl_worker_id claim1) claim1 (ConnectionError ''down'') demo_world
       = (w', Inr ()) \<and> get_run_by_run_id (cl_run_id claim1) (wd_db w') = Some r' \<and> ar_status r' = PENDING"
    using failure_decides_run [OF e(1), of demo_world ?r demo_worker "ConnectionError ''down''"] o
    by (auto simp: e(2,3) demo_worker_def claim1_def)
  then show ?thesis by (simp add: claim1_def)
qed

section \<open>What reaches the executor\<close>

lemma catch_io_cases:
  "catch_io m h f w = (w', Inl e) \<Longrightarrow>
     (\<exists>w1 e1. m w = (w1, Inl e1) \<and> h e1 w1 = (w', Inl e)) \<or> (\<exists>w1 x. m w = (w1, Inr x) \<and> f x w1 = (w', Inl e))"
  by (auto simp: catch_io_def split: prod.splits sum.splits)

lemma graph_raises: "execute_graph env c s w = (w', Inl e) \<Longrightarrow> is_LostLeaseError e"
  using catch_io_cases [of "run_with_langgraph env c s"]
  by (fastforce simp: execute_graph_def raise_io_def return_io_def split: if_splits)

text \<open>The exceptions of the transactions of a workflow.\<close>

fun store_error :: "exn \<Rightarrow> bool" where
  "store_error (LostLeaseError m) = True"
| "store_error (RuntimeError m) = True"
| "store_error (IntegrityError m) = True"
| "store_error (OtherError m) = True"
| "store_error e = False"

lemma lost_store_error: "is_LostLeaseError e \<Longrightarrow> store_error e"
  by (cases e) simp_all

lemma fence_store_error: "fence cc t rid d = Inl e \<Longrightarrow> store_error e"
  using fence_error by fastforce

lemma refreshed_store_error: "refreshed run d = Inl e \<Longrightarrow> store_error e"
  by (auto simp: refreshed_def split: option.splits)

lemmas store_errors = fence_store_error refreshed_store_error

lemma mark_running_error: "mark_running cc t run d = (d', Inl e) \<Longrightarrow> store_error e"
  by (auto simp: mark_running_def Let_def intro: store_errors split: sum.splits if_splits)

lemma mark_status_error: "mark_status cc t run s u d = (d', Inl e) \<Longrightarrow> store_error e"
  by (auto simp: mark_status_def Let_def intro: store_errors split: sum.splits if_splits)

lemma persist_outcome_error: "persist_outcome sha cc t pk run p n ats d = (d', Inl e) \<Longrightarrow> store_error e"
  by (auto simp: persist_outcome_def Let_def intro: store_errors split: sum.splits if_splits)

lemma transaction_error:
  "transaction env op w = (w', Inl e) \<Longrightarrow> \<exists>d d'. op (en_now env (wd_tick w)) d = (d', Inl e)"
  using transaction_eq by fastforce

lemma bind_io_error:
  "bind_io m f w = (w', Inl e) \<Longrightarrow> m w = (w', Inl e) \<or> (\<exists>w1 x. m w = (w1, Inr x) \<and> f x w1 = (w', Inl e))"
  by (auto simp: bind_io_def split: prod.splits sum.splits)

lemma save_outcome_error:
  assumes "save_outcome env run s w = (w', Inl e)"
  shows "store_error e"
  using bind_io_error [OF assms [unfolded save_outcome_def]]
  by (auto dest!: transaction_error bind_io_error intro: persist_outcome_error mark_status_error simp: return_io_def)

lemma workflow_error:
  assumes "run_agent_workflow env ipk rid recover c w = (w', Inl e)"
  shows "store_error e \<or> e = ValueError ''incident or run not found''"
proof -
  consider "e = ValueError ''incident or run not found''"
    | inc run where "bind_io (transaction env (\<lambda>now. mark_running (en_claim env) now run))
        (\<lambda>run1. bind_io (execute_graph env (if recover then c else None) (initial_state inc run1))
          (save_outcome env run1)) w = (w', Inl e)"
    using assms by (auto simp: run_agent_workflow_def split: option.splits)
  then show ?thesis
    by cases (auto dest!: bind_io_error transaction_error graph_raises
        intro: mark_running_error save_outcome_error lost_store_error)
qed

text \<open>
  C39. The structured-output branch of the executor is dead. \<open>_execute_graph\<close> turns every exception but a
  lost lease into a failed state, so no \<open>StructuredOutputError\<close> of a model ever reaches
  \<open>RunExecutor.execute\<close>: the method equals the one without that branch, and the promised hand-over to a
  human of such a run never happens.
\<close>

theorem execute_without_structured_branch:
  "execute env stop ipk rid recover c =
     catch_io (wait_for stop (run_agent_workflow env ipk rid recover c))
       (\<lambda>e. if is_TimeoutError e
            then bind_io (halt env rid NEEDS_HUMAN_INTERVENTION ''run timeout budget exhausted'') (\<lambda>_. return_io halted)
            else raise_io e)
       (\<lambda>s. return_io (st_status s))"
proof
  fix w
  show "execute env stop ipk rid recover c w = catch_io (wait_for stop (run_agent_workflow env ipk rid recover c))
       (\<lambda>e. if is_TimeoutError e
            then bind_io (halt env rid NEEDS_HUMAN_INTERVENTION ''run timeout budget exhausted'') (\<lambda>_. return_io halted)
            else raise_io e)
       (\<lambda>s. return_io (st_status s)) w"
  proof (cases "\<exists>w' e. wait_for stop (run_agent_workflow env ipk rid recover c) w = (w', Inl e)
      \<and> is_StructuredOutputError e")
    case True
    then obtain w' e where "run_agent_workflow env ipk rid recover c w = (w', Inl e)" "is_StructuredOutputError e"
      by (auto simp: wait_for_def split: option.splits)
    then have False using workflow_error by (cases e) fastforce+
    then show ?thesis ..
  next
    case False
    then show ?thesis
      by (auto simp: execute_def catch_io_def split: prod.splits sum.splits)
  qed
qed

end
