(* ===== verification/Api.thy ===== *)
theory Api
  imports Executor Approvals
begin

text \<open>
  \<open>api/auth.py\<close> and the routes of \<open>api/app.py\<close>: who may see and do what. A route is a function of the
  settings, the \<open>Authorization\<close> header and the state of the process; between any two of its queries others
  may change the database. An \<open>HTTPException\<close> carries status and detail. Response models drop columns
  and are left out; of evidence and tool calls, whose rows are not kept, the rows are a parameter.
\<close>

section \<open>Principals\<close>

record Principal =
  p_subject :: string
  p_role :: string

definition forbid :: "bool \<Rightarrow> string \<Rightarrow> exn + unit" where
  "forbid b detail = (if b then Inl (HTTPException 403 detail) else Inr ())"

definition require_role :: "string set \<Rightarrow> Principal \<Rightarrow> exn + unit" where
  "require_role roles p = forbid (p_role p \<notin> roles \<and> p_role p \<noteq> ''admin'') ''role is not permitted''"

definition access_owner :: "string option \<Rightarrow> Principal \<Rightarrow> exn + unit" where
  "access_owner owner p =
     (if p_role p = ''initiator'' \<and> owner \<noteq> Some (p_subject p)
      then Inl (HTTPException 403 ''resource belongs to another user'')
      else forbid (owner = None \<and> p_role p \<noteq> ''admin'') ''legacy resource requires administrator'')"

definition ROLES :: "string set" where
  "ROLES = {''initiator'', ''reviewer'', ''approver'', ''admin''}"

text \<open>\<open>header.partition(" ")\<close>: the scheme and what follows the first space.\<close>

definition header_parts :: "string \<Rightarrow> string \<times> string" where
  "header_parts header = (takeWhile (\<lambda>c. c \<noteq> CHR '' '') header, tl (dropWhile (\<lambda>c. c \<noteq> CHR '' '') header))"

type_synonym identity = "(string \<times> string) list"

definition identity_principal :: "identity \<Rightarrow> Principal option" where
  "identity_principal i =
     (case (str_or (map_of i ''subject'') None, map_of i ''role'') of
        (Some s, Some r) \<Rightarrow> if r \<in> ROLES then Some \<lparr>p_subject = s, p_role = r\<rparr> else None
      | _ \<Rightarrow> None)"

fun find_token :: "(string \<times> identity) list \<Rightarrow> string \<Rightarrow> Principal option" where
  "find_token [] token = None"
| "find_token ((configured, i) # rest) token =
     (if token = configured
      then (case identity_principal i of Some p \<Rightarrow> Some p | None \<Rightarrow> find_token rest token)
      else find_token rest token)"

definition authenticate :: "(string \<times> identity) list \<Rightarrow> string \<Rightarrow> exn + Principal" where
  "authenticate api_tokens header =
     (let (scheme, token) = header_parts header;
          found = (if py_lower scheme = ''bearer'' \<and> token \<noteq> [] then find_token api_tokens token else None)
      in case found of Some p \<Rightarrow> Inr p | None \<Rightarrow> Inl (HTTPException 401 ''valid bearer credential required''))"

section \<open>The process\<close>

record ApiSettings =
  as_environment :: string
  as_api_tokens :: "(string \<times> identity) list"
  as_embedded_worker_enabled :: bool
  as_max_queued_runs :: nat
  as_llm_enabled :: bool
  as_llm_api_key :: string
  as_github_integration_enabled :: bool
  as_sandbox_enabled :: bool

record api_env =
  ae_others :: "nat \<Rightarrow> db \<Rightarrow> db"
  ae_ids :: fresh_ids
  ae_wall :: time
  ae_sha :: "string \<Rightarrow> string"
  ae_approval_pk :: string

record api_state =
  api_db :: db
  api_queries :: nat
  api_executor :: RunExecutor

type_synonym 'a route = "(api_state, 'a) eff"

definition of_result :: "exn + 'a \<Rightarrow> 'a route" where
  "of_result r s = (s, r)"

definition query :: "api_env \<Rightarrow> (db \<Rightarrow> db \<times> (exn + 'a)) \<Rightarrow> 'a route" where
  "query env f s = (case f (ae_others env (api_queries s) (api_db s)) of
     (d, r) \<Rightarrow> (s\<lparr>api_db := d, api_queries := Suc (api_queries s)\<rparr>, r))"

definition fetch :: "api_env \<Rightarrow> (db \<Rightarrow> 'a) \<Rightarrow> 'a route" where
  "fetch env f = query env (\<lambda>d. (d, Inr (f d)))"

definition in_background :: "(RunExecutor \<Rightarrow> RunExecutor) \<Rightarrow> unit route" where
  "in_background f s = (s\<lparr>api_executor := f (api_executor s)\<rparr>, Inr ())"

definition only_if :: "bool \<Rightarrow> unit route \<Rightarrow> unit route" where
  "only_if b m = (if b then m else give ())"

text \<open>The guard of \<open>create_app\<close>, and what the start of the process schedules.\<close>

definition create_app :: "ApiSettings \<Rightarrow> exn + unit" where
  "create_app st =
     (if as_embedded_worker_enabled st \<and> as_environment st \<notin> {''development'', ''test''}
      then Inl (ValueError ''protected environment requires separate durable workers'') else Inr ())"

definition lifespan :: "ApiSettings \<Rightarrow> unit route" where
  "lifespan st = only_if (as_embedded_worker_enabled st)
     (\<lambda>s. (s\<lparr>api_executor := fst (recover_non_terminal (api_db s) (api_executor s))\<rparr>, Inr ()))"

section \<open>Routes\<close>

definition not_found :: "string \<Rightarrow> 'a route" where
  "not_found what = fail (HTTPException 404 (what @ '' not found''))"

definition authorize_run :: "api_env \<Rightarrow> AgentRun \<Rightarrow> Principal \<Rightarrow> Incident option route" where
  "authorize_run env run p =
     bind_eff (fetch env (get_incident (ar_incident_pk run))) (\<lambda>incident.
       bind_eff (of_result (access_owner (Option.bind incident inc_owner_id) p)) (\<lambda>_. give incident))"

text \<open>The run of a request, after its owner was checked.\<close>

definition owned_run :: "api_env \<Rightarrow> string \<Rightarrow> Principal \<Rightarrow> (AgentRun \<times> Incident option) route" where
  "owned_run env run_id p =
     bind_eff (fetch env (get_run_by_run_id run_id)) (\<lambda>found.
       case found of
         None \<Rightarrow> not_found ''run''
       | Some run \<Rightarrow> bind_eff (authorize_run env run p) (\<lambda>incident. give (run, incident)))"

definition run_rows :: "api_env \<Rightarrow> string \<Rightarrow> Principal \<Rightarrow> (AgentRun \<Rightarrow> db \<Rightarrow> 'a) \<Rightarrow> 'a route" where
  "run_rows env run_id p f =
     bind_eff (owned_run env run_id p) (\<lambda>(run, incident). fetch env (f run))"

definition create_incident :: "ApiSettings \<Rightarrow> api_env \<Rightarrow> IncidentData \<Rightarrow> Principal \<Rightarrow> (Incident \<times> AgentRun) route" where
  "create_incident st env body p =
     bind_eff (of_result (require_role {''initiator''} p)) (\<lambda>_.
     bind_eff (case str_or (d_incident_id body) None of
         None \<Rightarrow> give None
       | Some i \<Rightarrow> fetch env (get_incident_by_incident_id i)) (\<lambda>existing.
     if existing \<noteq> None
     then fail (HTTPException 409 (''incident_id already exists: '' @ the (d_incident_id body)))
     else
       bind_eff (handle (query env (create_incident_and_run (ae_ids env) (ae_wall env)
                            (body\<lparr>d_owner_id := Some (p_subject p)\<rparr>) (as_max_queued_runs st)))
                  (\<lambda>e. case e of QueueFullError m \<Rightarrow> fail (HTTPException 429 m) | _ \<Rightarrow> fail e)) (\<lambda>(incident, run).
       bind_eff (only_if (as_embedded_worker_enabled st)
                  (in_background (submit (inc_id incident) (ar_run_id run) False))) (\<lambda>_.
       give (incident, run)))))"

definition get_incident_route :: "api_env \<Rightarrow> string \<Rightarrow> Principal \<Rightarrow> Incident route" where
  "get_incident_route env incident_id p =
     bind_eff (fetch env (get_incident_by_incident_id incident_id)) (\<lambda>found.
       case found of
         None \<Rightarrow> not_found ''incident''
       | Some incident \<Rightarrow> bind_eff (of_result (access_owner (inc_owner_id incident) p)) (\<lambda>_. give incident))"

definition get_run_route :: "api_env \<Rightarrow> string \<Rightarrow> Principal \<Rightarrow> (AgentRun \<times> string) route" where
  "get_run_route env run_id p =
     bind_eff (owned_run env run_id p) (\<lambda>(run, incident).
       case incident of
         None \<Rightarrow> fail (OtherError ''AttributeError: incident_id'')
       | Some i \<Rightarrow> give (run, inc_incident_id i))"

record ApprovalRequest =
  aq_decision :: ApprovalDecision
  aq_reason :: string
  aq_patch_artifact_id :: "string option"
  aq_patch_hash :: "string option"

definition submit_approval :: "ApiSettings \<Rightarrow> api_env \<Rightarrow> string \<Rightarrow> ApprovalRequest \<Rightarrow> Principal \<Rightarrow> Approval route" where
  "submit_approval st env run_id body p =
     bind_eff (of_result (require_role {''approver''} p)) (\<lambda>_.
     bind_eff (owned_run env run_id p) (\<lambda>(run, _).
     if ar_status run \<noteq> WAITING_APPROVAL
     then fail (HTTPException 409 (''run is not waiting for approval (status='' @ run_status_value (ar_status run) @ '')''))
     else
       bind_eff (handle (query env (decide (ae_sha env) (ae_approval_pk env) (ae_wall env) run (aq_decision body)
                            (p_subject p) (aq_reason body) (aq_patch_artifact_id body) (aq_patch_hash body)))
                  (\<lambda>e. case e of ApprovalConflict m \<Rightarrow> fail (HTTPException 409 m) | _ \<Rightarrow> fail e)) (\<lambda>(approval, run').
       bind_eff (fetch env (get_incident (ar_incident_pk run'))) (\<lambda>found.
       bind_eff (case found of
           None \<Rightarrow> give ()
         | Some incident \<Rightarrow>
             query env (\<lambda>d. (update_incident_for_decision incident (aq_decision body) d, Inr ()))) (\<lambda>_.
       bind_eff (only_if (aq_decision body = APPROVE \<and> as_embedded_worker_enabled st)
                  (in_background (submit_resume (ar_run_id run') (aq_decision body)))) (\<lambda>_.
       give approval))))))"

section \<open>Dispatch\<close>

datatype request =
    Post_incident IncidentData
  | Get_incident string
  | Get_run string
  | Get_evidence string
  | Get_tool_calls string
  | Get_patch_artifacts string
  | Get_tests string
  | Get_approval string
  | Post_approval string ApprovalRequest
  | Get_runtime
  | Get_metrics

datatype response =
    Accepted Incident AgentRun
  | Incident_body Incident
  | Run_body AgentRun string
  | Json_rows "json list"
  | Artifact_rows "PatchArtifact list"
  | Test_rows "TestRun list"
  | Approval_body "Approval option"
  | Runtime_body "(string \<times> json) list"
  | Metrics_body

definition runtime_body :: "ApiSettings \<Rightarrow> Principal \<Rightarrow> (string \<times> json) list" where
  "runtime_body st p =
     [(''model'', JStr (if as_llm_enabled st \<and> as_llm_api_key st \<noteq> [] then ''real'' else ''fake'')),
      (''github'', JStr (if as_github_integration_enabled st then ''real-enabled'' else ''mock'')),
      (''sandbox'', JStr (if as_sandbox_enabled st then ''docker'' else ''local'')),
      (''role'', JStr (p_role p))]"

definition responding :: "('a \<Rightarrow> response) \<Rightarrow> 'a route \<Rightarrow> response route" where
  "responding f m = bind_eff m (\<lambda>x. give (f x))"

fun route :: "ApiSettings \<Rightarrow> api_env \<Rightarrow> (request \<Rightarrow> AgentRun \<Rightarrow> json list) \<Rightarrow> request \<Rightarrow> Principal \<Rightarrow> response route" where
  "route st env rows (Post_incident body) p = responding (\<lambda>(i, r). Accepted i r) (create_incident st env body p)"
| "route st env rows (Get_incident i) p = responding Incident_body (get_incident_route env i p)"
| "route st env rows (Get_run i) p = responding (\<lambda>(r, n). Run_body r n) (get_run_route env i p)"
| "route st env rows (Get_evidence i) p =
     responding Json_rows (run_rows env i p (\<lambda>run d. rows (Get_evidence i) run))"
| "route st env rows (Get_tool_calls i) p =
     responding Json_rows (run_rows env i p (\<lambda>run d. rows (Get_tool_calls i) run))"
| "route st env rows (Get_patch_artifacts i) p =
     responding Artifact_rows (run_rows env i p (\<lambda>run d. filter (\<lambda>a. pa_run_pk a = ar_id run) (db_artifacts d)))"
| "route st env rows (Get_tests i) p =
     responding Test_rows (run_rows env i p (\<lambda>run d. filter (\<lambda>t. tr_run_pk t = ar_id run) (db_test_runs d)))"
| "route st env rows (Get_approval i) p =
     responding Approval_body (run_rows env i p (\<lambda>run d. sql_first (\<lambda>a. ap_run_pk a = ar_id run) (db_approvals d)))"
| "route st env rows (Post_approval i body) p =
     responding (\<lambda>a. Approval_body (Some a)) (submit_approval st env i body p)"
| "route st env rows Get_runtime p = give (Runtime_body (runtime_body st p))"
| "route st env rows Get_metrics p =
     bind_eff (of_result (require_role {''reviewer'', ''approver''} p)) (\<lambda>_. give Metrics_body)"

definition api :: "ApiSettings \<Rightarrow> api_env \<Rightarrow> (request \<Rightarrow> AgentRun \<Rightarrow> json list) \<Rightarrow> string \<Rightarrow> request \<Rightarrow> response route" where
  "api st env rows header rq =
     bind_eff (of_result (authenticate (as_api_tokens st) header)) (route st env rows rq)"

end
