(* ===== verification/ApiProps.thy ===== *)
theory ApiProps
  imports Api
begin

text \<open>
  Access control of the API: what a response proves about its caller, and which requests can change
  anything. \<open>seen env s k\<close> is the database the \<open>k\<close>-th query of a request that writes nothing finds.
\<close>

fun seen :: "api_env \<Rightarrow> api_state \<Rightarrow> nat \<Rightarrow> db" where
  "seen env s 0 = ae_others env (api_queries s) (api_db s)"
| "seen env s (Suc k) = ae_others env (api_queries s + Suc k) (seen env s k)"

definition read_state :: "api_env \<Rightarrow> api_state \<Rightarrow> nat \<Rightarrow> api_state" where
  "read_state env s k = (case k of 0 \<Rightarrow> s
     | Suc j \<Rightarrow> s\<lparr>api_db := seen env s j, api_queries := api_queries s + k\<rparr>)"

text \<open>Who may see a resource of this owner.\<close>

definition entitled :: "Principal \<Rightarrow> string option \<Rightarrow> bool" where
  "entitled p owner \<longleftrightarrow> (p_role p = ''admin'' \<or> owner \<noteq> None) \<and> (p_role p = ''initiator'' \<longrightarrow> owner = Some (p_subject p))"

lemma access_owner_iff: "access_owner owner p = Inr () \<longleftrightarrow> entitled p owner"
  by (auto simp: access_owner_def forbid_def entitled_def)

lemma access_owner_error: "access_owner owner p = Inl e \<Longrightarrow> \<exists>m. e = HTTPException 403 m"
  by (auto simp: access_owner_def forbid_def split: if_splits)

lemma require_role_iff: "require_role roles p = Inr () \<longleftrightarrow> p_role p \<in> insert ''admin'' roles"
  by (auto simp: require_role_def forbid_def)

lemma find_token_role: "find_token ts token = Some p \<Longrightarrow> p_role p \<in> ROLES"
  by (induction ts token rule: find_token.induct)
    (auto simp: identity_principal_def split: if_splits option.splits)

lemma authenticate_role: "authenticate ts header = Inr p \<Longrightarrow> p_role p \<in> ROLES"
  by (auto simp: authenticate_def Let_def intro: find_token_role split: prod.splits option.splits if_splits)

lemmas route_defs = bind_eff_def give_def fail_def of_result_def fetch_def query_def responding_def

lemma owned_run_eq:
  "owned_run env rid p s = (case get_run_by_run_id rid (seen env s 0) of
      None \<Rightarrow> (read_state env s 1, Inl (HTTPException 404 ''run not found''))
    | Some run \<Rightarrow> (read_state env s 2,
        let inc = get_incident (ar_incident_pk run) (seen env s 1) in
        case access_owner (Option.bind inc inc_owner_id) p of Inl e \<Rightarrow> Inl e | Inr _ \<Rightarrow> Inr (run, inc)))"
  by (simp add: owned_run_def authorize_run_def route_defs not_found_def read_state_def Let_def numeral_2_eq_2
      split: option.split sum.split)

fun run_of :: "request \<Rightarrow> string option" where
  "run_of (Get_run i) = Some i"
| "run_of (Get_evidence i) = Some i"
| "run_of (Get_tool_calls i) = Some i"
| "run_of (Get_patch_artifacts i) = Some i"
| "run_of (Get_tests i) = Some i"
| "run_of (Get_approval i) = Some i"
| "run_of (Post_approval i body) = Some i"
| "run_of _ = None"

fun allowed_roles :: "request \<Rightarrow> string set" where
  "allowed_roles (Post_incident body) = {''initiator'', ''admin''}"
| "allowed_roles (Post_approval i body) = {''approver'', ''admin''}"
| "allowed_roles Get_metrics = {''reviewer'', ''approver'', ''admin''}"
| "allowed_roles _ = ROLES"

fun is_post :: "request \<Rightarrow> bool" where
  "is_post (Post_incident body) = True"
| "is_post (Post_approval i body) = True"
| "is_post _ = False"

text \<open>The owner of what the request is about, as the request reads it, lets the principal in.\<close>

definition run_entitled :: "api_env \<Rightarrow> api_state \<Rightarrow> string \<Rightarrow> Principal \<Rightarrow> bool" where
  "run_entitled env s rid p \<longleftrightarrow> (\<exists>run. get_run_by_run_id rid (seen env s 0) = Some run
     \<and> entitled p (Option.bind (get_incident (ar_incident_pk run) (seen env s 1)) inc_owner_id))"

definition subject_entitled :: "api_env \<Rightarrow> api_state \<Rightarrow> request \<Rightarrow> Principal \<Rightarrow> bool" where
  "subject_entitled env s rq p \<longleftrightarrow>
     (\<forall>rid. run_of rq = Some rid \<longrightarrow> run_entitled env s rid p)
     \<and> (\<forall>i. rq = Get_incident i \<longrightarrow> (\<exists>inc. get_incident_by_incident_id i (seen env s 0) = Some inc
          \<and> entitled p (inc_owner_id inc)))"

definition answer_ok :: "api_env \<Rightarrow> api_state \<Rightarrow> request \<Rightarrow> Principal \<Rightarrow> api_state \<times> (exn + 'a) \<Rightarrow> bool" where
  "answer_ok env s rq p res \<longleftrightarrow>
     (\<forall>x. snd res = Inr x \<longrightarrow> p_role p \<in> allowed_roles rq \<and> subject_entitled env s rq p)
     \<and> ((\<exists>c m. snd res = Inl (HTTPException c m)) \<or> \<not> is_post rq \<longrightarrow> (\<exists>k. fst res = read_state env s k))"

lemma read_state_0: "s = read_state env s 0"
  by (simp add: read_state_def)

lemma read_state_query:
  "ae_others env (api_queries (read_state env s k)) (api_db (read_state env s k)) = seen env s k"
  "(read_state env s k)\<lparr>api_db := seen env s k, api_queries := Suc (api_queries (read_state env s k))\<rparr>
     = read_state env s (Suc k)"
  by (cases k; simp add: read_state_def)+

lemma fetch_read: "fetch env f (read_state env s k) = (read_state env s (Suc k), Inr (f (seen env s k)))"
  using read_state_query [of env s k] by (simp add: fetch_def query_def)

lemma fetch_first: "fetch env f s = (read_state env s 1, Inr (f (seen env s 0)))"
  using fetch_read [of env f s 0] by (simp flip: read_state_0)

lemma owned_run_cases:
  obtains (refused) c m k where "owned_run env rid p s = (read_state env s k, Inl (HTTPException c m))"
  | (open_run) run inc where "owned_run env rid p s = (read_state env s 2, Inr (run, inc))" "run_entitled env s rid p"
proof (cases "get_run_by_run_id rid (seen env s 0)")
  case None
  then show ?thesis using refused by (simp add: owned_run_eq)
next
  case (Some run)
  let ?o = "access_owner (Option.bind (get_incident (ar_incident_pk run) (seen env s 1)) inc_owner_id) p"
  show ?thesis
  proof (cases ?o)
    case (Inl e)
    then obtain m where "e = HTTPException 403 m" using access_owner_error by blast
    then show ?thesis using refused Inl Some by (simp add: owned_run_eq Let_def)
  next
    case (Inr u)
    then have "entitled p (Option.bind (get_incident (ar_incident_pk run) (seen env s 1)) inc_owner_id)"
      by (simp flip: access_owner_iff)
    then show ?thesis using open_run Inr Some by (simp add: owned_run_eq Let_def run_entitled_def)
  qed
qed

lemma run_rows_ok:
  assumes "run_of rq = Some rid" and "\<not> is_post rq" and "p_role p \<in> allowed_roles rq"
    and "\<And>i. rq \<noteq> Get_incident i"
  shows "answer_ok env s rq p (responding f (run_rows env rid p g) s)"
proof (cases rule: owned_run_cases [of env rid p s])
  case (refused c m k)
  then show ?thesis
    using assms by (auto simp: answer_ok_def run_rows_def responding_def bind_eff_def)
next
  case (open_run run inc)
  then show ?thesis
    using assms
    by (auto simp: answer_ok_def run_rows_def responding_def bind_eff_def give_def fetch_read subject_entitled_def)
qed

lemma decide_refused_reads:
  assumes "decide sha pk wall run dec actor reason aid ph d = (d', Inl (ApprovalConflict m))"
  shows "d' = d"
  using assms
  by (auto simp: decide_def Let_def refreshed_def split: sum.splits if_splits option.splits)

lemma create_refused_reads: "create_incident_and_run ids wall body mq d = (d', Inl e) \<Longrightarrow> d' = d"
  by (auto simp: create_incident_and_run_def Let_def split: if_splits)

lemma decide_error:
  "decide sha pk wall run dec actor reason aid ph d = (d', Inl e) \<Longrightarrow> (\<exists>m. e = ApprovalConflict m) \<or> (\<exists>m. e = OtherError m)"
  using validated_artifact_error
  by (fastforce simp: decide_def Let_def refreshed_def split: sum.splits if_splits option.splits)

lemma create_error:
  "create_incident_and_run ids wall body mq d = (d', Inl e) \<Longrightarrow> (\<exists>m. e = QueueFullError m) \<or> (\<exists>m. e = IntegrityError m)"
  by (auto simp: create_incident_and_run_def Let_def split: if_splits)

lemma query_read:
  "query env f (read_state env s k) = (case f (seen env s k) of (d, r) \<Rightarrow>
     ((read_state env s (Suc k))\<lparr>api_db := d\<rparr>, r))"
proof -
  have "(read_state env s (Suc k))\<lparr>api_db := d\<rparr>
      = (read_state env s k)\<lparr>api_db := d, api_queries := Suc (api_queries (read_state env s k))\<rparr>" for d
    by (cases k) (simp_all add: read_state_def)
  then show ?thesis by (simp add: query_def read_state_query split: prod.split)
qed

lemma read_state_db: "(read_state env s (Suc k))\<lparr>api_db := seen env s k\<rparr> = read_state env s (Suc k)"
  by (simp add: read_state_def)

lemma post_approval_ok: "answer_ok env s (Post_approval i body) p (route st env rows (Post_approval i body) p s)"
proof (cases "require_role {''approver''} p")
  case (Inl e)
  then show ?thesis
    using read_state_0 by (auto simp: answer_ok_def submit_approval_def route_defs)
next
  case (Inr u)
  then have role: "p_role p \<in> {''admin'', ''approver''}" by (simp add: require_role_iff)
  show ?thesis
  proof (cases rule: owned_run_cases [of env i p s])
    case (refused c m k)
    then show ?thesis
      using Inr by (auto simp: answer_ok_def submit_approval_def route_defs)
  next
    case (open_run run inc)
    have sub: "subject_entitled env s (Post_approval i body) p"
      using open_run(2) by (simp add: subject_entitled_def)
    obtain d r where dec: "decide (ae_sha env) (ae_approval_pk env) (ae_wall env) run (aq_decision body)
        (p_subject p) (aq_reason body) (aq_patch_artifact_id body) (aq_patch_hash body) (seen env s 2) = (d, r)"
      by fastforce
    have q: "query env (decide (ae_sha env) (ae_approval_pk env) (ae_wall env) run (aq_decision body)
        (p_subject p) (aq_reason body) (aq_patch_artifact_id body) (aq_patch_hash body)) (read_state env s 2)
        = ((read_state env s 3)\<lparr>api_db := d\<rparr>, r)"
      by (simp only: query_read dec prod.case) simp
    show ?thesis
    proof (cases "ar_status run = WAITING_APPROVAL")
      case False
      then show ?thesis
        using Inr open_run(1) role sub by (auto simp: answer_ok_def submit_approval_def route_defs)
    next
      case True
      show ?thesis
      proof (cases r)
        case (Inl e)
        then have "e = ApprovalConflict m \<Longrightarrow> d = seen env s 2" for m using decide_refused_reads dec by blast
        then have "e = ApprovalConflict m \<Longrightarrow> (read_state env s 3)\<lparr>api_db := d\<rparr> = read_state env s 3" for m
          using read_state_db [of env s 2] by simp
        then show ?thesis
          using Inr open_run(1) q True decide_error [OF dec [unfolded Inl]] Inl
          by (auto simp: answer_ok_def submit_approval_def bind_eff_def fail_def of_result_def responding_def handle_def)
      next
        case r: (Inr x)
        have "\<exists>s' y. submit_approval st env i body p s = (s', Inr y)"
          using Inr open_run(1) q True r
          by (cases x) (auto simp: submit_approval_def bind_eff_def give_def of_result_def handle_def fetch_def query_def
              in_background_def only_if_def split: option.split prod.split)
        then show ?thesis using role sub by (auto simp: answer_ok_def responding_def bind_eff_def give_def)
      qed
    qed
  qed
qed

lemma post_incident_ok: "answer_ok env s (Post_incident body) p (route st env rows (Post_incident body) p s)"
proof (cases "require_role {''initiator''} p")
  case (Inl e)
  then show ?thesis
    using read_state_0 by (auto simp: answer_ok_def create_incident_def route_defs)
next
  case (Inr u)
  then have role: "p_role p \<in> {''admin'', ''initiator''}" by (simp add: require_role_iff)
  define ex where "ex = (case str_or (d_incident_id body) None of
         None \<Rightarrow> give None
       | Some i \<Rightarrow> fetch env (get_incident_by_incident_id i))"
  obtain k x where ex: "ex s = (read_state env s k, Inr x)"
  proof (cases "str_or (d_incident_id body) None")
    case None
    then have "ex s = (s, Inr None)" by (simp add: ex_def give_def)
    then show ?thesis using that [of 0 None] read_state_0 [of s env] by metis
  next
    case (Some i)
    then show ?thesis using that [of 1] by (simp add: ex_def fetch_first)
  qed
  show ?thesis
  proof (cases x)
    case (Some i)
    then show ?thesis
      using Inr ex by (auto simp: answer_ok_def create_incident_def route_defs simp flip: ex_def)
  next
    case None
    let ?op = "create_incident_and_run (ae_ids env) (ae_wall env) (body\<lparr>d_owner_id := Some (p_subject p)\<rparr>)
      (as_max_queued_runs st)"
    obtain d r where dec: "?op (seen env s k) = (d, r)" by fastforce
    have q: "query env ?op (read_state env s k) = ((read_state env s (Suc k))\<lparr>api_db := d\<rparr>, r)"
      by (simp only: query_read dec prod.case)
    show ?thesis
    proof (cases r)
      case (Inl e)
      then have "(read_state env s (Suc k))\<lparr>api_db := d\<rparr> = read_state env s (Suc k)"
        using create_refused_reads dec read_state_db by metis
      then show ?thesis
        using Inr ex None q create_error [OF dec [unfolded Inl]] Inl
        by (auto simp: answer_ok_def create_incident_def bind_eff_def fail_def of_result_def responding_def handle_def
            simp flip: ex_def)
    next
      case r: (Inr y)
      have "\<exists>s' y. create_incident st env body p s = (s', Inr y)"
        using Inr ex None q r
        by (cases y) (auto simp: create_incident_def bind_eff_def give_def of_result_def handle_def
            in_background_def only_if_def simp flip: ex_def)
      then show ?thesis using role by (auto simp: answer_ok_def responding_def bind_eff_def give_def subject_entitled_def split: prod.split)
    qed
  qed
qed

lemma get_incident_ok:
  assumes "p_role p \<in> ROLES"
  shows "answer_ok env s (Get_incident i) p (route st env rows (Get_incident i) p s)"
proof (cases "get_incident_by_incident_id i (seen env s 0)")
  case None
  then show ?thesis
    by (auto simp: answer_ok_def get_incident_route_def responding_def bind_eff_def fetch_first not_found_def fail_def)
next
  case (Some inc)
  then show ?thesis
    using assms access_owner_iff [of "inc_owner_id inc" p]
    by (cases "access_owner (inc_owner_id inc) p")
      (auto simp: answer_ok_def get_incident_route_def responding_def bind_eff_def fetch_first of_result_def give_def
        subject_entitled_def)
qed

lemma get_run_ok:
  assumes "p_role p \<in> ROLES"
  shows "answer_ok env s (Get_run i) p (route st env rows (Get_run i) p s)"
proof (cases rule: owned_run_cases [of env i p s])
  case (refused c m k)
  then show ?thesis by (auto simp: answer_ok_def get_run_route_def responding_def bind_eff_def)
next
  case (open_run run inc)
  then show ?thesis
    using assms
    by (auto simp: answer_ok_def get_run_route_def responding_def bind_eff_def fail_def give_def subject_entitled_def
        split: option.split)
qed

lemma route_ok:
  assumes "p_role p \<in> ROLES"
  shows "answer_ok env s rq p (route st env rows rq p s)"
proof (cases rq)
  case Get_runtime
  then show ?thesis
    using assms read_state_0 by (auto simp: answer_ok_def give_def subject_entitled_def)
next
  case Get_metrics
  then show ?thesis
    using read_state_0 require_role_iff [of "{''reviewer'', ''approver''}" p]
    by (cases "require_role {''reviewer'', ''approver''} p")
      (auto simp: answer_ok_def bind_eff_def of_result_def give_def subject_entitled_def)
qed (use assms in \<open>auto intro!: post_incident_ok post_approval_ok get_incident_ok get_run_ok run_rows_ok
      simp del: route.simps simp: route.simps(4-8)\<close>)

text \<open>
  C12. Access control. Whatever others do meanwhile, a request that is answered comes from a configured
  token whose role may make it, and the owner recorded for its run or incident lets that principal in:
  an initiator sees own resources only, resources without an owner are for the administrator. A read, and
  every request that is refused with an HTTP error, writes nothing and starts nothing.
\<close>

theorem api_access_controlled:
  assumes "api st env rows header rq s = (s', res)"
  shows "(\<forall>x. res = Inr x \<longrightarrow> (\<exists>p. authenticate (as_api_tokens st) header = Inr p
      \<and> p_role p \<in> allowed_roles rq \<and> subject_entitled env s rq p))
    \<and> ((\<exists>c m. res = Inl (HTTPException c m)) \<or> \<not> is_post rq \<longrightarrow> (\<exists>k. s' = read_state env s k))"
proof (cases "authenticate (as_api_tokens st) header")
  case (Inl e)
  then show ?thesis
    using assms read_state_0 by (auto simp: api_def bind_eff_def of_result_def)
next
  case (Inr p)
  then have "route st env rows rq p s = (s', res)"
    using assms by (simp add: api_def bind_eff_def of_result_def)
  then show ?thesis
    using route_ok [OF authenticate_role [OF Inr], of env s rq st rows] Inr by (simp add: answer_ok_def)
qed

definition demo_settings :: ApiSettings where
  "demo_settings = \<lparr>as_environment = ''production'',
     as_api_tokens = [(''t1'', [(''subject'', ''ann''), (''role'', ''initiator'')])], as_embedded_worker_enabled = False,
     as_max_queued_runs = 100, as_llm_enabled = False, as_llm_api_key = [], as_github_integration_enabled = False,
     as_sandbox_enabled = True\<rparr>"

definition demo_ids :: fresh_ids where
  "demo_ids = \<lparr>f_incident_pk = ''i'', f_incident_id = ''INC-1'', f_run_pk = ''p'', f_run_id = ''RUN-1'', f_trace_id = ''T''\<rparr>"

definition demo_api_env :: api_env where
  "demo_api_env = \<lparr>ae_others = (\<lambda>n d. d), ae_ids = demo_ids, ae_wall = 0, ae_sha = (\<lambda>x. x), ae_approval_pk = ''ap''\<rparr>"

definition demo_body :: IncidentData where
  "demo_body = \<lparr>d_incident_id = None, d_title = ''Slow'', d_service = ''orders-api'', d_severity = None,
     d_symptom = ''p95'', d_start_time = None, d_repository = None, d_environment = None, d_payload = [],
     d_owner_id = Some ''ann''\<rparr>"

definition demo_api :: api_state where
  "demo_api = \<lparr>api_db = fst (create_incident_and_run demo_ids 0 demo_body 100 empty_db), api_queries = 0,
     api_executor = \<lparr>rx_tasks = []\<rparr>\<rparr>"

theorem api_access_controlled_witness:
  "\<exists>s' x p. api demo_settings demo_api_env (\<lambda>_ _. []) ''Bearer t1'' (Get_run ''RUN-1'') demo_api = (s', Inr x)
     \<and> p_subject p = ''ann'' \<and> run_entitled demo_api_env demo_api ''RUN-1'' p"
proof -
  have "case api demo_settings demo_api_env (\<lambda>_ _. []) ''Bearer t1'' (Get_run ''RUN-1'') demo_api of
      (s', r) \<Rightarrow> (case r of Inl e \<Rightarrow> False | Inr x \<Rightarrow> True)"
    by code_simp
  then obtain s' x where run: "api demo_settings demo_api_env (\<lambda>_ _. []) ''Bearer t1'' (Get_run ''RUN-1'') demo_api = (s', Inr x)"
    by (auto split: prod.splits sum.splits)
  have auth: "authenticate (as_api_tokens demo_settings) ''Bearer t1'' = Inr \<lparr>p_subject = ''ann'', p_role = ''initiator''\<rparr>"
    by code_simp
  have "run_entitled demo_api_env demo_api ''RUN-1'' \<lparr>p_subject = ''ann'', p_role = ''initiator''\<rparr>"
    using api_access_controlled [OF run] auth by (auto simp: subject_entitled_def)
  then show ?thesis
    using run by (intro exI [of _ s'] exI [of _ x] exI [of _ "\<lparr>p_subject = ''ann'', p_role = ''initiator''\<rparr>"]) simp
qed

end
