(* ===== verification/Provider.thy ===== *)
theory Provider
  imports ToolData
begin

text \<open>
  \<open>llm/provider.py\<close>: the boundary to a language model. What the HTTP endpoint answers to the \<open>n\<close>-th
  request is the parameter \<open>post\<close>, and pydantic's \<open>model_validate_json\<close> the parameter \<open>validate\<close>; a
  schema is its JSON text. The state counts the requests, because a model call may answer anything each
  time, and keeps the token totals and the seconds slept.
\<close>

definition RETRY_ATTEMPTS :: nat where
  "RETRY_ATTEMPTS = 3"

record LLMMessage =
  lm_role :: string
  lm_content :: string

record LLMResponse =
  lr_content :: json
  lr_provider :: string
  lr_model :: string
  lr_usage :: "(string \<times> json) list"

section \<open>Strings\<close>

definition fence_mark :: string where
  "fence_mark = replicate 3 (char_of (96::nat))"

definition after_newline :: "string \<Rightarrow> string" where
  "after_newline s = (if CHR 0x0A \<in> set s then tl (dropWhile (\<lambda>c. c \<noteq> CHR 0x0A) s) else s)"

text \<open>\<open>s.rsplit("```", 1)[0]\<close>: everything before the last fence, if there is one.\<close>

fun before_last_fence :: "string \<Rightarrow> string option" where
  "before_last_fence [] = None"
| "before_last_fence (c # s) = (case before_last_fence s of
     Some p \<Rightarrow> Some (c # p)
   | None \<Rightarrow> if prefix fence_mark (c # s) then Some [] else None)"

definition unfence :: "string \<Rightarrow> string" where
  "unfence content =
     (if prefix fence_mark content
      then (case before_last_fence (after_newline content) of None \<Rightarrow> after_newline content | Some p \<Rightarrow> p)
      else content)"

definition newline :: string where
  "newline = [CHR 0x0A]"

definition repair_message :: "string \<Rightarrow> exn \<Rightarrow> LLMMessage" where
  "repair_message content error = \<lparr>lm_role = ''user'',
     lm_content = ''The previous output was invalid. Return only schema-valid JSON.'' @ newline
       @ ''Validation error: '' @ take 600 (message error) @ newline
       @ ''Previous output: '' @ take 2000 content\<rparr>"

definition schema_instruction :: "string \<Rightarrow> string" where
  "schema_instruction schema = ''Return only one JSON object matching this JSON Schema: '' @ schema"

definition structured_system :: "string option \<Rightarrow> string \<Rightarrow> string" where
  "structured_system system schema =
     py_strip ((case system of None \<Rightarrow> [] | Some s \<Rightarrow> s) @ newline @ schema_instruction schema)"

section \<open>Structured output\<close>

text \<open>
  The loop over the three tries, for any \<open>complete\<close> of the messages: \<open>left\<close> counts them. A reply whose
  content is no string has no \<open>strip\<close>.
\<close>

fun structured_loop ::
  "nat \<Rightarrow> (LLMMessage list \<Rightarrow> 's \<Rightarrow> 's \<times> (exn + LLMResponse)) \<Rightarrow> (string \<Rightarrow> exn + 'a) \<Rightarrow> LLMMessage list
     \<Rightarrow> LLMMessage list \<Rightarrow> 's \<Rightarrow> 's \<times> (exn + 'a)" where
  "structured_loop 0 complete validate messages repair s =
     (s, Inl (StructuredOutputError ''structured output invalid after 3 attempts''))"
| "structured_loop (Suc left) complete validate messages repair s =
     (case complete repair s of
        (s', Inl e) \<Rightarrow> (s', Inl e)
      | (s', Inr r) \<Rightarrow>
          (case lr_content r of
             JStr text \<Rightarrow>
               (let content = unfence (py_strip text) in
                case validate content of
                  Inr x \<Rightarrow> (s', Inr x)
                | Inl e \<Rightarrow>
                    if is_ValueError e \<or> is_TypeError e
                    then structured_loop left complete validate messages (messages @ [repair_message content e]) s'
                    else (s', Inl e))
           | _ \<Rightarrow> (s', Inl (OtherError ''AttributeError: strip''))))"

section \<open>The fake provider\<close>

record FakeLLMProvider =
  fp_model :: string
  fp_responses :: "string list"
  fp_calls :: nat

definition new_fake_provider :: FakeLLMProvider where
  "new_fake_provider = \<lparr>fp_model = ''fake-model-v1'', fp_responses = [], fp_calls = 0\<rparr>"

definition enqueue :: "string \<Rightarrow> FakeLLMProvider \<Rightarrow> FakeLLMProvider" where
  "enqueue response p = p\<lparr>fp_responses := fp_responses p @ [response]\<rparr>"

definition fake_complete :: "LLMMessage list \<Rightarrow> FakeLLMProvider \<Rightarrow> FakeLLMProvider \<times> (exn + LLMResponse)" where
  "fake_complete messages p =
     (let p1 = p\<lparr>fp_calls := fp_calls p + 1\<rparr>;
          (content, p2) = (case fp_responses p of
             r # rs \<Rightarrow> (r, p1\<lparr>fp_responses := rs\<rparr>)
           | [] \<Rightarrow> (''FAKE_RESPONSE:'' @ take 200 (if messages = [] then [] else lm_content (last messages)), p1))
      in (p2, Inr \<lparr>lr_content = JStr content, lr_provider = ''fake'', lr_model = fp_model p,
                lr_usage = [(''prompt_tokens'', JInt 0), (''completion_tokens'', JInt 0), (''total_tokens'', JInt 0)]\<rparr>))"

definition fake_complete_structured ::
  "(string \<Rightarrow> exn + 'a) \<Rightarrow> LLMMessage list \<Rightarrow> FakeLLMProvider \<Rightarrow> FakeLLMProvider \<times> (exn + 'a)" where
  "fake_complete_structured validate messages = structured_loop 3 fake_complete validate messages messages"

section \<open>The OpenAI-compatible provider\<close>

record OpenAICompatibleProvider =
  op_base_url :: string
  op_api_key :: string
  op_model :: string
  op_usage_totals :: "(int \<times> int \<times> int) option"
  op_posts :: nat
  op_slept :: nat

text \<open>\<open>base_url.rstrip("/")\<close>\<close>

definition new_openai_provider :: "string \<Rightarrow> string \<Rightarrow> string \<Rightarrow> OpenAICompatibleProvider" where
  "new_openai_provider base_url api_key model = \<lparr>
     op_base_url = rev (dropWhile (\<lambda>c. c = CHR ''/'') (rev base_url)), op_api_key = api_key, op_model = model,
     op_usage_totals = None, op_posts = 0, op_slept = 0\<rparr>"

definition message_json :: "LLMMessage \<Rightarrow> json" where
  "message_json m = JObj [(''role'', JStr (lm_role m)), (''content'', JStr (lm_content m))]"

definition payload_messages :: "string option \<Rightarrow> LLMMessage list \<Rightarrow> LLMMessage list" where
  "payload_messages system messages =
     (case str_or system None of None \<Rightarrow> [] | Some s \<Rightarrow> [\<lparr>lm_role = ''system'', lm_content = s\<rparr>]) @ messages"

definition context_size :: "LLMMessage list \<Rightarrow> nat" where
  "context_size ms = sum_list (map (\<lambda>m. length (lm_content m)) ms)"

definition request_payload ::
  "string \<Rightarrow> LLMMessage list \<Rightarrow> json option \<Rightarrow> int option \<Rightarrow> (string \<times> json) list" where
  "request_payload model ms response_format max_tokens =
     (let p = [(''max_tokens'', JInt 4096), (''model'', JStr model), (''messages'', JList (map message_json ms)),
               (''temperature'', JFloat 0 1)];
          p1 = (case response_format of None \<Rightarrow> p | Some f \<Rightarrow> dict_set ''response_format'' f p)
      in (case max_tokens of None \<Rightarrow> p1 | Some n \<Rightarrow> dict_set ''max_tokens'' (JInt n) p1))"

text \<open>\<open>httpx.TransportError\<close> carries no response; an \<open>HTTPStatusError\<close> below 500 is final.\<close>

fun worth_retrying :: "exn \<Rightarrow> bool" where
  "worth_retrying (HttpxTimeoutException m) = True"
| "worth_retrying (HttpxNetworkError m) = True"
| "worth_retrying (HTTPStatusError code m) = (500 \<le> code)"
| "worth_retrying e = False"

text \<open>The requests of one completion; \<open>attempt\<close> runs from 1.\<close>

fun post_loop ::
  "nat \<Rightarrow> nat \<Rightarrow> (nat \<Rightarrow> exn + json) \<Rightarrow> OpenAICompatibleProvider \<Rightarrow> OpenAICompatibleProvider \<times> (exn + json)" where
  "post_loop 0 attempt post p = (p, Inl (OtherError ''unreachable''))"
| "post_loop (Suc left) attempt post p =
     (let p1 = p\<lparr>op_posts := op_posts p + 1\<rparr> in
      case post (op_posts p) of
        Inr data \<Rightarrow> (p1, Inr data)
      | Inl e \<Rightarrow>
          if attempt = RETRY_ATTEMPTS \<or> \<not> worth_retrying e then (p1, Inl e)
          else post_loop left (attempt + 1) post (p1\<lparr>op_slept := op_slept p1 + attempt\<rparr>))"

text \<open>\<open>v.get(k)\<close> and \<open>v.get(k) or default\<close>; a value that is no dictionary has no \<open>get\<close>.\<close>

fun json_get :: "string \<Rightarrow> json \<Rightarrow> exn + json" where
  "json_get k (JObj d) = Inr (case map_of d k of None \<Rightarrow> JNull | Some v \<Rightarrow> v)"
| "json_get k _ = Inl (OtherError ''AttributeError: get'')"

definition get_or :: "string \<Rightarrow> json \<Rightarrow> json \<Rightarrow> exn + json" where
  "get_or k d v = (case json_get k v of Inl e \<Rightarrow> Inl e | Inr x \<Rightarrow> Inr (if truthy x then x else d))"

fun first_choice :: "json \<Rightarrow> exn + json" where
  "first_choice (JList (x # xs)) = Inr x"
| "first_choice _ = Inl (OtherError ''choices[0]'')"

definition reply_content :: "json \<Rightarrow> exn + json" where
  "reply_content data =
     (case get_or ''choices'' (JList []) data of
        Inl e \<Rightarrow> Inl e
      | Inr choices \<Rightarrow>
          if \<not> truthy choices then Inr (JStr [])
          else (case first_choice choices of
                  Inl e \<Rightarrow> Inl e
                | Inr choice \<Rightarrow>
                    (case get_or ''message'' (JObj []) choice of
                       Inl e \<Rightarrow> Inl e
                     | Inr m \<Rightarrow> get_or ''content'' (JStr []) m)))"

text \<open>\<open>isinstance(v, int)\<close>, which holds of booleans too.\<close>

fun int_value :: "json \<Rightarrow> int option" where
  "int_value (JInt i) = Some i"
| "int_value (JBool b) = Some (if b then 1 else 0)"
| "int_value _ = None"

definition token_counts :: "(string \<times> json) list \<Rightarrow> (int \<times> int \<times> int) option" where
  "token_counts usage =
     (case (Option.bind (map_of usage ''prompt_tokens'') int_value,
            Option.bind (map_of usage ''completion_tokens'') int_value,
            Option.bind (map_of usage ''total_tokens'') int_value) of
        (Some a, Some b, Some c) \<Rightarrow> Some (a, b, c) | _ \<Rightarrow> None)"

definition add_usage :: "(string \<times> json) list \<Rightarrow> OpenAICompatibleProvider \<Rightarrow> OpenAICompatibleProvider" where
  "add_usage usage p =
     (case token_counts usage of
        None \<Rightarrow> p
      | Some (a, b, c) \<Rightarrow>
          (case op_usage_totals p of
             None \<Rightarrow> p\<lparr>op_usage_totals := Some (a, b, c)\<rparr>
           | Some (x, y, z) \<Rightarrow> p\<lparr>op_usage_totals := Some (x + a, y + b, z + c)\<rparr>))"

definition usage_entry :: "(string \<times> json) list \<Rightarrow> string \<Rightarrow> string \<times> json" where
  "usage_entry usage k = (k, case map_of usage k of None \<Rightarrow> JNull | Some v \<Rightarrow> v)"

definition openai_complete ::
  "(nat \<Rightarrow> (string \<times> json) list \<Rightarrow> exn + json) \<Rightarrow> string option \<Rightarrow> json option \<Rightarrow> int option \<Rightarrow> LLMMessage list
     \<Rightarrow> OpenAICompatibleProvider \<Rightarrow> OpenAICompatibleProvider \<times> (exn + LLMResponse)" where
  "openai_complete post system response_format max_tokens messages p =
     (let ms = payload_messages system messages in
      if 40000 < context_size ms then (p, Inl (ValueError ''LLM context budget exceeded''))
      else
        (case post_loop RETRY_ATTEMPTS 1 (\<lambda>n. post n (request_payload (op_model p) ms response_format max_tokens)) p of
           (p1, Inl e) \<Rightarrow> (p1, Inl e)
         | (p1, Inr data) \<Rightarrow>
             (case reply_content data of
                Inl e \<Rightarrow> (p1, Inl e)
              | Inr content \<Rightarrow>
                  (case get_or ''usage'' (JObj []) data of
                     Inl e \<Rightarrow> (p1, Inl e)
                   | Inr (JObj usage) \<Rightarrow>
                       (add_usage usage p1,
                        Inr \<lparr>lr_content = content, lr_provider = ''openai-compatible'', lr_model = op_model p,
                             lr_usage = map (usage_entry usage) [''prompt_tokens'', ''completion_tokens'', ''total_tokens'']\<rparr>)
                   | Inr _ \<Rightarrow> (p1, Inl (OtherError ''AttributeError: get''))))))"

definition openai_complete_structured ::
  "(nat \<Rightarrow> (string \<times> json) list \<Rightarrow> exn + json) \<Rightarrow> string \<Rightarrow> (string \<Rightarrow> exn + 'a) \<Rightarrow> string option
     \<Rightarrow> LLMMessage list \<Rightarrow> OpenAICompatibleProvider \<Rightarrow> OpenAICompatibleProvider \<times> (exn + 'a)" where
  "openai_complete_structured post schema validate system messages =
     structured_loop 3
       (openai_complete post (Some (structured_system system schema)) (Some (JObj [(''type'', JStr ''json_object'')]))
          (Some 16384))
       validate messages messages"

section \<open>Choosing the provider\<close>

datatype llm_provider = Fake_provider FakeLLMProvider | OpenAI_provider OpenAICompatibleProvider

definition build_llm_provider ::
  "bool \<Rightarrow> string \<Rightarrow> string \<Rightarrow> string \<Rightarrow> string \<Rightarrow> exn + llm_provider" where
  "build_llm_provider enabled provider_name base_url api_key model =
     (if \<not> enabled then Inr (Fake_provider new_fake_provider)
      else if api_key = [] then Inl (ValueError ''LLM enabled but API key missing; fake fallback is disabled'')
      else if provider_name \<noteq> ''openai-compatible''
      then Inl (ValueError (''unsupported LLM provider: '' @ provider_name))
      else Inr (OpenAI_provider (new_openai_provider base_url api_key model)))"

section \<open>Bounds and results\<close>

lemma post_loop_bounds:
  "post_loop RETRY_ATTEMPTS 1 post p = (p', r) \<Longrightarrow> op_posts p < op_posts p' \<and> op_posts p' \<le> op_posts p + 3
     \<and> op_slept p' \<le> op_slept p + 3"
  by (auto simp: RETRY_ATTEMPTS_def numeral_3_eq_3 Let_def split: sum.splits if_splits)

lemma post_loop_outcome:
  "post_loop RETRY_ATTEMPTS 1 post p = (p', r) \<Longrightarrow> \<exists>n. op_posts p \<le> n \<and> op_posts p' = Suc n \<and> r = post n
     \<and> (\<forall>k. op_posts p \<le> k \<and> k < n \<longrightarrow> (\<exists>e. post k = Inl e \<and> worth_retrying e))
     \<and> (\<forall>e. r = Inl e \<and> worth_retrying e \<longrightarrow> n = op_posts p + 2)"
  by (auto simp: RETRY_ATTEMPTS_def numeral_3_eq_3 Let_def less_Suc_eq split: sum.splits if_splits)

lemma add_usage_counts [simp]: "op_posts (add_usage u p) = op_posts p" "op_slept (add_usage u p) = op_slept p"
  by (auto simp: add_usage_def split: option.splits)

definition spent :: "nat \<Rightarrow> OpenAICompatibleProvider \<Rightarrow> OpenAICompatibleProvider \<Rightarrow> bool" where
  "spent n p p' \<longleftrightarrow> op_posts p' \<le> op_posts p + 3 * n \<and> op_slept p' \<le> op_slept p + 3 * n"

lemma openai_complete_spent: "openai_complete post system f n ms p = (p', r) \<Longrightarrow> spent 1 p p'"
  using post_loop_bounds
  by (fastforce simp: openai_complete_def spent_def Let_def split: if_splits prod.splits sum.splits json.splits)

text \<open>
  What the loop returns: a value the schema accepted, the error of a completion, or after three refused
  replies its own.
\<close>

definition exhausted :: exn where
  "exhausted = StructuredOutputError ''structured output invalid after 3 attempts''"

lemma structured_loop_result:
  assumes "structured_loop n complete validate ms repair s = (s', r)"
  shows "(\<forall>x. r = Inr x \<longrightarrow> (\<exists>text. validate (unfence (py_strip text)) = Inr x))
    \<and> (\<forall>e. r = Inl e \<longrightarrow> e = exhausted \<or> (\<exists>q s0 s1. complete q s0 = (s1, Inl e))
         \<or> e = OtherError ''AttributeError: strip''
         \<or> (\<exists>c. validate c = Inl e \<and> \<not> is_ValueError e \<and> \<not> is_TypeError e))"
  using assms
proof (induction n arbitrary: repair s)
  case 0
  then show ?case by (auto simp: exhausted_def)
next
  case (Suc n)
  then show ?case by (fastforce simp: Let_def split: prod.splits sum.splits json.splits if_splits)
qed

lemma structured_loop_spent:
  assumes "structured_loop n complete validate ms repair p = (p', r)"
    and "\<And>q p p' x. complete q p = (p', x) \<Longrightarrow> spent 1 p p'"
  shows "spent n p p'"
  using assms(1)
proof (induction n arbitrary: repair p)
  case 0
  then show ?case by (simp add: spent_def)
next
  case (Suc n)
  obtain p1 x where c: "complete repair p = (p1, x)" by fastforce
  have s: "spent 1 p p1" using assms(2) c by blast
  show ?case
  proof (cases "p' = p1")
    case True
    then show ?thesis using s by (simp add: spent_def)
  next
    case False
    then obtain repair' where "structured_loop n complete validate ms repair' p1 = (p', r)"
      using Suc.prems by (auto simp: c Let_def split: sum.splits json.splits if_splits)
    then show ?thesis using Suc.IH s by (fastforce simp: spent_def)
  qed
qed

lemma openai_complete_error:
  assumes "openai_complete post system f n ms p = (p', Inl e)"
  shows "e = ValueError ''LLM context budget exceeded'' \<or> (\<exists>m. e = OtherError m)
    \<or> (\<exists>k q. post k q = Inl e \<and> (worth_retrying e \<longrightarrow> op_posts p' = op_posts p + 3))"
proof -
  consider (big) "e = ValueError ''LLM context budget exceeded''"
    | (posted) q where "post_loop RETRY_ATTEMPTS 1 (\<lambda>k. post k q) p = (p', Inl e)"
    | (shape) "\<exists>m. e = OtherError m"
    using assms
    by (auto simp: openai_complete_def Let_def reply_content_def get_or_def
        split: if_splits prod.splits sum.splits json.splits elim!: json_get.elims first_choice.elims)
  then show ?thesis
  proof cases
    case posted
    then show ?thesis using post_loop_outcome [OF posted] by fastforce
  qed auto
qed

text \<open>
  C40. A structured request is bounded and typed. Whatever the endpoint answers, it ends after at most nine
  posts and nine seconds of back-off; a value it returns is one the schema accepted of a reply; and an
  exception is the refusal of the context budget, a reply of the wrong shape, the error of a post, what
  validation raised beyond a refusal, or \<open>StructuredOutputError\<close>.
\<close>

theorem structured_request_bounded:
  assumes "openai_complete_structured post schema validate system messages p = (p', r)"
  shows "op_posts p' \<le> op_posts p + 9 \<and> op_slept p' \<le> op_slept p + 9
    \<and> (\<forall>x. r = Inr x \<longrightarrow> (\<exists>text. validate (unfence (py_strip text)) = Inr x))
    \<and> (\<forall>e. r = Inl e \<longrightarrow> e = exhausted \<or> e = ValueError ''LLM context budget exceeded'' \<or> (\<exists>m. e = OtherError m)
         \<or> (\<exists>k q. post k q = Inl e)
         \<or> (\<exists>c. validate c = Inl e \<and> \<not> is_ValueError e \<and> \<not> is_TypeError e))"
proof -
  have "spent 3 p p'"
    by (rule structured_loop_spent [OF assms [unfolded openai_complete_structured_def] openai_complete_spent])
  then show ?thesis
    using structured_loop_result [OF assms [unfolded openai_complete_structured_def]] openai_complete_error
    unfolding spent_def by fastforce
qed

text \<open>A reply that is no JSON, then after a time-out one that is.\<close>

definition demo_post :: "nat \<Rightarrow> (string \<times> json) list \<Rightarrow> exn + json" where
  "demo_post n q = (if n = 1 then Inl (HttpxTimeoutException []) else
     Inr (JObj [(''choices'', JList [JObj [(''message'', JObj [(''content'',
       JStr (if n < 2 then ''no'' else ''{}''))])]])]))"

definition demo_validate :: "string \<Rightarrow> exn + unit" where
  "demo_validate s = (if s = ''{}'' then Inr () else Inl (ValueError ''not JSON''))"

lemma context_size_payload:
  "context_size (payload_messages (Some s) ms) \<le> length s + sum_list (map (\<lambda>m. length (lm_content m)) ms)"
  by (cases s) (simp_all add: context_size_def payload_messages_def)

lemma repair_length: "length (lm_content (repair_message c e)) \<le> 2720"
  by (simp add: repair_message_def newline_def)

lemma length_strip: "length (py_strip s) \<le> length s"
  unfolding py_strip_def by (metis dual_order.trans length_dropWhile_le length_rev)

lemma system_length: "length (structured_system None schema) \<le> length schema + 100"
  unfolding structured_system_def by (rule order_trans [OF length_strip]) (simp add: newline_def schema_instruction_def)

lemma demo_fits:
  "\<not> 40000 < context_size (payload_messages (Some (structured_system None ''{}'')) [\<lparr>lm_role = ''user'', lm_content = ''plan''\<rparr>])"
  "\<not> 40000 < context_size (payload_messages (Some (structured_system None ''{}''))
      [\<lparr>lm_role = ''user'', lm_content = ''plan''\<rparr>, repair_message c e])"
  using context_size_payload [of "structured_system None ''{}''" "[\<lparr>lm_role = ''user'', lm_content = ''plan''\<rparr>]"]
    context_size_payload [of "structured_system None ''{}''" "[\<lparr>lm_role = ''user'', lm_content = ''plan''\<rparr>, repair_message c e]"]
    system_length [of "''{}''"] repair_length [of c e]
  by simp_all

lemma demo_contents: "unfence (py_strip ''no'') = ''no''"
  "unfence (py_strip ''{}'') = ''{}''"
  by (simp_all add: py_strip_def is_space_def unfence_def fence_mark_def numeral_3_eq_3)

lemma demo_runs:
  "\<exists>p'. openai_complete_structured demo_post ''{}'' demo_validate None [\<lparr>lm_role = ''user'', lm_content = ''plan''\<rparr>]
       (new_openai_provider ''http://llm/'' ''k'' ''m'') = (p', Inr ())"
  by (simp add: openai_complete_structured_def numeral_3_eq_3 openai_complete_def Let_def demo_fits
      RETRY_ATTEMPTS_def demo_post_def new_openai_provider_def reply_content_def get_or_def demo_contents
      demo_validate_def add_usage_def token_counts_def)

theorem structured_request_bounded_witness:
  "\<exists>p'. openai_complete_structured demo_post ''{}'' demo_validate None [\<lparr>lm_role = ''user'', lm_content = ''plan''\<rparr>]
       (new_openai_provider ''http://llm/'' ''k'' ''m'') = (p', Inr ())
     \<and> op_posts p' \<le> 9"
proof -
  have "op_posts (new_openai_provider ''http://llm/'' ''k'' ''m'') = 0" by (simp add: new_openai_provider_def)
  then show ?thesis using demo_runs structured_request_bounded by fastforce
qed

end
