(* ===== verification/SqlGuard.thy ===== *)
theory SqlGuard
  imports Sandbox
begin

text \<open>
  \<open>tools/sql_guard.py\<close>: what a query must be before it reaches the database. \<open>sqlglot\<close> is a parameter:
  its trees are the type \<open>'n\<close>, and the record holds what the guard reads of them. \<open>find_all\<close> and \<open>find\<close>
  search the nodes of \<open>walk\<close>, as the library documents. Upper case is that of ASCII: no other letter
  turns into one of the names compared with.
\<close>

record 'n sql_ast =
  sq_parse :: "string \<Rightarrow> exn + 'n option list"
  sq_walk :: "'n \<Rightarrow> 'n list"
  sq_isa :: "string \<Rightarrow> 'n \<Rightarrow> bool"
  sq_type :: "'n \<Rightarrow> string"
  sq_name :: "'n \<Rightarrow> string"
  sq_catalog :: "'n \<Rightarrow> string"
  sq_db :: "'n \<Rightarrow> string"
  sq_alias_or_name :: "'n \<Rightarrow> string"
  sq_table :: "'n \<Rightarrow> string"
  sq_parent :: "'n \<Rightarrow> 'n option"
  sq_arg :: "string \<Rightarrow> 'n \<Rightarrow> bool"
  sq_has_arg :: "string \<Rightarrow> 'n \<Rightarrow> bool"
  sq_datatype :: "'n \<Rightarrow> string"
  sq_sql_name :: "'n \<Rightarrow> string"
  sq_expressions :: "'n \<Rightarrow> 'n list"
  sq_this :: "'n \<Rightarrow> 'n option"
  sq_int_literal :: "'n \<Rightarrow> int option"
  sq_limit :: "int \<Rightarrow> 'n \<Rightarrow> 'n"
  sq_sql :: "'n \<Rightarrow> string"

definition ALLOWED_STATEMENT_TYPES :: "string list" where
  "ALLOWED_STATEMENT_TYPES = [''Select'', ''Union'', ''Except'', ''Intersect'']"

definition FORBIDDEN_NODES :: "string list" where
  "FORBIDDEN_NODES = [''Insert'', ''Update'', ''Delete'', ''Drop'', ''Alter'', ''Create'', ''Grant'',
     ''TruncateTable'', ''Truncate'', ''Copy'', ''Command'']"

definition FORBIDDEN_KEYWORDS :: "string list" where
  "FORBIDDEN_KEYWORDS = [''insert'', ''update'', ''delete'', ''drop'', ''alter'', ''truncate'', ''create'',
     ''grant'', ''revoke'', ''copy'', ''call'', ''do'', ''vacuum'', ''reindex'', ''cluster'', ''refresh'',
     ''execute'', ''prepare'', ''listen'', ''notify'']"

definition FORBIDDEN_FUNCTIONS :: "string list" where
  "FORBIDDEN_FUNCTIONS = [''pg_sleep'', ''pg_read_file'', ''pg_read_binary_file'', ''pg_ls_dir'', ''pg_stat_file'',
     ''dblink'', ''dblink_exec'', ''lo_import'', ''lo_export'', ''set_config'', ''current_setting'']"

definition ALLOWED_SCHEMA :: "(string \<times> string list) list" where
  "ALLOWED_SCHEMA = [(''orders'', [''id'', ''customer_id'', ''status'', ''total_cents'', ''created_at'']),
     (''order_items'', [''id'', ''order_id'', ''sku'', ''qty'', ''price_cents'']), (''customers'', [''id''])]"

definition ALLOWED_FUNCTIONS :: "string list" where
  "ALLOWED_FUNCTIONS = [''COUNT'', ''SUM'', ''MIN'', ''MAX'', ''AVG'', ''COALESCE'', ''NULLIF'', ''CAST'', ''LOWER'',
     ''UPPER'', ''LENGTH'', ''ABS'']"

definition hard_forbidden :: "string list" where
  "hard_forbidden = [''insert'', ''update'', ''delete'', ''drop'', ''alter'', ''truncate'', ''create'', ''grant'',
     ''revoke'']"

definition CAST_TYPES :: "string list" where
  "CAST_TYPES = [''INT'', ''BIGINT'', ''SMALLINT'', ''TEXT'', ''VARCHAR'', ''BOOLEAN'', ''FLOAT'', ''DOUBLE'',
     ''DECIMAL'', ''TIMESTAMP'', ''TIMESTAMPTZ'', ''DATE'']"

text \<open>\<open>SQLValidationError\<close> is a \<open>ValueError\<close>.\<close>

definition sql_error :: "string \<Rightarrow> exn + 'a" where
  "sql_error m = Inl (ValueError m)"

definition find_all :: "'n sql_ast \<Rightarrow> string \<Rightarrow> 'n \<Rightarrow> 'n list" where
  "find_all q k tree = filter (sq_isa q k) (sq_walk q tree)"

section \<open>The checks, in the order of the code\<close>

definition keyword_hit :: "string \<Rightarrow> string option" where
  "keyword_hit query =
     (let stripped = join '' '' (py_words (py_lower query)) in
      find (\<lambda>kw. (contains ('' '' @ kw @ '' '') ('' '' @ stripped @ '' '') \<or> prefix (kw @ '' '') stripped)
              \<and> kw \<in> set hard_forbidden) FORBIDDEN_KEYWORDS)"

definition allowed_table :: "'n sql_ast \<Rightarrow> 'n \<Rightarrow> bool" where
  "allowed_table q t \<longleftrightarrow> sq_catalog q t = [] \<and> sq_db q t \<in> {[], ''public''}
     \<and> map_of ALLOWED_SCHEMA (sq_name q t) \<noteq> None"

definition columns_of :: "string option \<Rightarrow> string list" where
  "columns_of table = (case Option.bind table (map_of ALLOWED_SCHEMA) of None \<Rightarrow> [] | Some cs \<Rightarrow> cs)"

definition allowed_column :: "'n sql_ast \<Rightarrow> 'n list \<Rightarrow> 'n \<Rightarrow> bool" where
  "allowed_column q tables c \<longleftrightarrow>
     sq_name q c \<in> set (if sq_table q c \<noteq> []
       then columns_of (map_of (rev (map (\<lambda>t. (sq_alias_or_name q t, sq_name q t)) tables)) (sq_table q c))
       else concat (map (\<lambda>t. columns_of (Some (sq_name q t))) tables))"

definition node_error :: "'n sql_ast \<Rightarrow> 'n \<Rightarrow> string option" where
  "node_error q n =
     (if list_ex (\<lambda>k. sq_isa q k n) FORBIDDEN_NODES then Some (''forbidden statement node: '' @ sq_type q n)
      else if sq_arg q ''into'' n \<or> sq_arg q ''locks'' n \<or> sq_arg q ''lock'' n
      then Some ''SELECT INTO or locking SELECT is forbidden''
      else if sq_isa q ''Dot'' n \<and> find_all q ''Func'' n \<noteq> [] then Some ''schema-qualified functions are forbidden''
      else if sq_isa q ''DataType'' n \<and> sq_datatype q n \<notin> set CAST_TYPES then Some ''cast type is not allowlisted''
      else
        (let function = py_upper_ascii (if sq_isa q ''Anonymous'' n then sq_name q n else sq_sql_name q n) in
         if sq_isa q ''Func'' n \<and> function \<notin> set ALLOWED_FUNCTIONS then Some (''function not allowlisted: '' @ function)
         else if sq_isa q ''Anonymous'' n \<and> py_lower (sq_name q n) \<in> set FORBIDDEN_FUNCTIONS
         then Some (''forbidden function: '' @ py_lower (sq_name q n))
         else None))"

fun first_error :: "('n \<Rightarrow> string option) \<Rightarrow> 'n list \<Rightarrow> exn + unit" where
  "first_error f [] = Inr ()"
| "first_error f (n # ns) = (case f n of Some m \<Rightarrow> sql_error m | None \<Rightarrow> first_error f ns)"

definition allowed_statement :: "'n sql_ast \<Rightarrow> 'n \<Rightarrow> bool" where
  "allowed_statement q tree \<longleftrightarrow>
     (let allowed = (\<lambda>n. list_ex (\<lambda>k. sq_isa q k n) ALLOWED_STATEMENT_TYPES) in
      allowed tree \<or> sq_isa q ''With'' tree \<and> list_ex allowed (sq_expressions q tree)
      \<or> sq_isa q ''Subquery'' tree \<and> (case sq_this q tree of None \<Rightarrow> False | Some n \<Rightarrow> allowed n))"

definition limit_ok :: "'n sql_ast \<Rightarrow> 'n \<Rightarrow> bool" where
  "limit_ok q n \<longleftrightarrow> (case sq_int_literal q n of None \<Rightarrow> False | Some i \<Rightarrow> 1 \<le> i \<and> i \<le> 100)"

record sql_verdict =
  sv_statement_type :: string
  sv_query :: string

definition check_tree :: "'n sql_ast \<Rightarrow> 'n \<Rightarrow> exn + sql_verdict" where
  "check_tree q tree =
     (let tables = find_all q ''Table'' tree in
      if 200 < length (sq_walk q tree) then sql_error ''query too complex''
      else if find_all q ''CTE'' tree \<noteq> [] \<or> find_all q ''With'' tree \<noteq> [] then sql_error ''CTE queries are unsupported''
      else if 4 < length tables then sql_error ''too many table references''
      else if \<not> list_all (allowed_table q) tables then sql_error ''table or schema is not allowlisted''
      else if \<not> list_all (allowed_column q tables) (find_all q ''Column'' tree) then sql_error ''unknown or forbidden column''
      else if \<not> list_all (\<lambda>s. case sq_parent q s of None \<Rightarrow> False | Some p \<Rightarrow> sq_isa q ''Count'' p) (find_all q ''Star'' tree)
      then sql_error ''wildcard projections are forbidden''
      else case first_error (node_error q) (sq_walk q tree) of
        Inl e \<Rightarrow> Inl e
      | Inr _ \<Rightarrow>
          if sq_has_arg q ''into'' tree then sql_error ''SELECT INTO is forbidden''
          else if sq_arg q ''locks'' tree \<or> sq_arg q ''lock'' tree then sql_error ''locking SELECT is forbidden''
          else if \<not> allowed_statement q tree then sql_error (''statement type not allowed: '' @ sq_type q tree)
          else if \<not> list_all (limit_ok q) (find_all q ''Limit'' tree)
          then sql_error ''LIMIT must be an integer between 1 and 100''
          else Inr \<lparr>sv_statement_type = sq_type q tree,
            sv_query = sq_sql q (if sq_has_arg q ''limit'' tree then tree else sq_limit q 100 tree)\<rparr>)"

definition validate_readonly_sql :: "'n sql_ast \<Rightarrow> string \<Rightarrow> exn + sql_verdict" where
  "validate_readonly_sql q query =
     (if py_strip query = [] then sql_error ''empty query''
      else if 8192 < int (length query) then sql_error ''query too long''
      else case keyword_hit query of
        Some kw \<Rightarrow> sql_error (''forbidden keyword: '' @ kw)
      | None \<Rightarrow>
          (case sq_parse q query of
             Inl e \<Rightarrow> sql_error (''sql parse error: '' @ message e)
           | Inr [] \<Rightarrow> sql_error ''no statements parsed''
           | Inr [None] \<Rightarrow> sql_error ''empty statement''
           | Inr [Some tree] \<Rightarrow> check_tree q tree
           | Inr _ \<Rightarrow> sql_error ''multiple statements are not allowed''))"

end
