(* ===== verification/OpsServer.thy ===== *)
theory OpsServer
  imports SqlGuard Http
begin

text \<open>
  \<open>ops_mcp/ops_readonly/server.py\<close>: the read-only tools behind MCP. What the tools look at is the record
  \<open>ops_env\<close>: the environment variables, the reference repository and the log directory as they are on
  disk, and as functions the HTTP endpoint of the metrics, \<open>git\<close>, the decoding of bytes and the database.
  Text of a file is a character per code point, of a log file a character per byte.
\<close>

record 'n ops_env =
  oe_repo :: string
  oe_resolve :: "string \<Rightarrow> string"
  oe_tree :: "Repo option"
  oe_logs_path :: string
  oe_log_bytes :: "string option"
  oe_metrics_file :: "string option"
  oe_http_metrics :: "exn + response"
  oe_decode :: "string \<Rightarrow> string"
  oe_git :: "string list \<Rightarrow> exn + string"
  oe_sql :: "'n sql_ast"
  oe_db_url :: string

definition SOURCE_WINDOW_CHARS :: nat where
  "SOURCE_WINDOW_CHARS = 3200"

definition error_dict :: "string \<Rightarrow> (string \<times> json) list \<Rightarrow> json" where
  "error_dict m rest = JObj ((''error'', JStr m) # rest)"

text \<open>\<open>json.dumps\<close> escapes what is not ASCII, so the UTF-8 length of its result is its length.\<close>

definition safe_tool ::
  "((string \<times> json) list \<Rightarrow> exn + json) \<Rightarrow> (string \<times> json) list \<Rightarrow> exn + json" where
  "safe_tool f kwargs =
     (if 16000 < int (length (dumps (JList [JList [], JObj kwargs])))
      then Inr (error_dict ''tool input limit exceeded'' [])
      else case f kwargs of
        Inl e \<Rightarrow> Inl e
      | Inr result \<Rightarrow>
          if 64000 < int (length (dumps result)) then Inr (error_dict ''tool output limit exceeded'' [])
          else Inr (redact0 result))"

definition resolve_reference_repo :: "'n ops_env \<Rightarrow> string \<Rightarrow> exn + string" where
  "resolve_reference_repo env repository =
     (let configured = oe_resolve env (oe_repo env) in
      if prefix ''/'' repository \<and> oe_resolve env repository \<noteq> configured
      then Inl (ValueError ''repository is outside the configured reference repository'')
      else Inr configured)"

definition read_json_file :: "string option \<Rightarrow> json \<Rightarrow> json" where
  "read_json_file body dflt = (case body of
     None \<Rightarrow> dflt
   | Some s \<Rightarrow> (case loads s of None \<Rightarrow> dflt | Some v \<Rightarrow> v))"

section \<open>Metrics\<close>

definition live_metrics :: "'n ops_env \<Rightarrow> json \<Rightarrow> exn + json option" where
  "live_metrics env window =
     (case oe_http_metrics env of
        Inl e \<Rightarrow> Inl e
      | Inr r \<Rightarrow>
          if fst r \<noteq> 200 then Inr None
          else (case response_json r of
                  Inl e \<Rightarrow> Inl e
                | Inr (JObj d) \<Rightarrow>
                    Inr (Some (JObj (dict_set ''window'' window (dict_set ''source'' (JStr ''reference_orders_api_http'') d))))
                | Inr v \<Rightarrow> Inl (TypeError ''TypeError'')))"

definition cached_metrics :: "'n ops_env \<Rightarrow> json \<Rightarrow> json \<Rightarrow> string \<Rightarrow> exn + json" where
  "cached_metrics env service window http_error =
     (case read_json_file (oe_metrics_file env) (JObj []) of
        JObj cached \<Rightarrow> Inr (JObj (dict_set ''error'' (JStr http_error)
          (dict_merge [(''service'', service), (''window'', window), (''source'', JStr ''reference_logs_cache'')] cached)))
      | v \<Rightarrow> Inl (TypeError ''TypeError''))"

definition read_metrics :: "'n ops_env \<Rightarrow> json \<Rightarrow> json \<Rightarrow> exn + json" where
  "read_metrics env service window =
     (case live_metrics env window of
        Inr (Some data) \<Rightarrow> Inr data
      | Inr None \<Rightarrow> cached_metrics env service window ''metrics source unavailable''
      | Inl e \<Rightarrow> cached_metrics env service window (message e))"

section \<open>Logs\<close>

text \<open>The last 128,000 bytes, without a partial first line.\<close>

definition log_tail :: "string \<Rightarrow> string" where
  "log_tail bytes =
     (let start = nat (int (length bytes) - 128000) in
      if 0 < start then drop 1 (dropWhile (\<lambda>c. c \<noteq> CHR 0x0A) (drop start bytes)) else bytes)"

fun parse_lines :: "string list \<Rightarrow> json list" where
  "parse_lines [] = []"
| "parse_lines (raw # rest) =
     (let line = py_strip raw in
      if line = [] then parse_lines rest
      else case loads line of None \<Rightarrow> parse_lines rest | Some v \<Rightarrow> v # parse_lines rest)"

definition is_fault_marker :: "json \<Rightarrow> exn + bool" where
  "is_fault_marker v =
     (case dict_get ''path'' JNull v of
        Inl e \<Rightarrow> Inl e
      | Inr p \<Rightarrow>
          if p \<noteq> JStr ''/admin/fault'' then Inr False
          else (case dict_get ''method'' JNull v of Inl e \<Rightarrow> Inl e | Inr m \<Rightarrow> Inr (m = JStr ''POST'')))"

text \<open>The search from the last line; the list is reversed, so the index is the length of the rest.\<close>

fun last_marker :: "json list \<Rightarrow> exn + nat option" where
  "last_marker [] = Inr None"
| "last_marker (v # earlier) =
     (case is_fault_marker v of
        Inl e \<Rightarrow> Inl e
      | Inr b \<Rightarrow> if b then Inr (Some (length earlier)) else last_marker earlier)"

text \<open>\<open>int(x or 0)\<close>; a string is parsed after \<open>strip\<close>, without the underscores Python allows.\<close>

fun py_int :: "json \<Rightarrow> exn + int" where
  "py_int (JInt i) = Inr i"
| "py_int (JBool b) = Inr (if b then 1 else 0)"
| "py_int (JFloat m k) = Inr (if 0 \<le> m then m div 10 ^ k else - ((- m) div 10 ^ k))"
| "py_int (JStr s) =
     (let t = py_strip s; d = (if prefix ''-'' t \<or> prefix ''+'' t then tl t else t) in
      if d = [] \<or> \<not> list_all is_digit d then Inl (ValueError ''invalid literal for int()'')
      else Inr (if prefix ''-'' t then - int (digits_value d) else int (digits_value d)))"
| "py_int v = Inl (TypeError ''TypeError'')"

definition has_error :: "json \<Rightarrow> exn + bool" where
  "has_error v =
     (case v of
        JObj d \<Rightarrow>
          if get_truthy ''error'' d \<or> get_truthy ''error_type'' d then Inr True
          else (case py_int (case map_of d ''status'' of Some s \<Rightarrow> if truthy s then s else JInt 0 | None \<Rightarrow> JInt 0) of
                  Inl e \<Rightarrow> Inl e | Inr i \<Rightarrow> Inr (500 \<le> i))
      | _ \<Rightarrow> Inl (OtherError ''AttributeError''))"

fun count_errors :: "json list \<Rightarrow> exn + nat" where
  "count_errors [] = Inr 0"
| "count_errors (v # vs) =
     (case has_error v of
        Inl e \<Rightarrow> Inl e
      | Inr b \<Rightarrow> (case count_errors vs of Inl e \<Rightarrow> Inl e | Inr n \<Rightarrow> Inr (if b then Suc n else n)))"

definition log_answer :: "json \<Rightarrow> json \<Rightarrow> nat \<Rightarrow> json list \<Rightarrow> (string \<times> json) list" where
  "log_answer service window errors events =
     [(''service'', service), (''window'', window), (''count'', JInt (int (length events))),
      (''error_count'', JInt (int errors)), (''events'', JList events)]"

definition read_logs :: "'n ops_env \<Rightarrow> json \<Rightarrow> json \<Rightarrow> int \<Rightarrow> exn + json" where
  "read_logs env service window limit =
     (if \<not> (1 \<le> limit \<and> limit \<le> 50) then Inr (error_dict ''limit must be between 1 and 50'' [])
      else
        let lines = (case oe_log_bytes env of
              None \<Rightarrow> [] | Some b \<Rightarrow> parse_lines (split_lines (oe_decode env (log_tail b)))) in
        if lines = [] then
          Inr (JObj (log_answer service window 0 []
            @ [(''error'', JStr ''structured log source unavailable''), (''source'', JStr (oe_logs_path env @ ''/orders.jsonl''))]))
        else (case last_marker (rev lines) of
          Inl e \<Rightarrow> Inl e
        | Inr found \<Rightarrow>
            (let start = (case found of Some i \<Rightarrow> i | None \<Rightarrow> length lines - nat limit);
                 selected = last_n (nat limit) (drop start lines) in
             case count_errors selected of
               Inl e \<Rightarrow> Inl e
             | Inr errors \<Rightarrow> Inr (JObj (log_answer service window errors selected)))))"

section \<open>Git\<close>

text \<open>\<open>s.split(c, n)\<close>.\<close>

fun split_max :: "nat \<Rightarrow> char \<Rightarrow> string \<Rightarrow> string list" where
  "split_max 0 c s = [s]"
| "split_max (Suc n) c s =
     (if c \<in> set s then takeWhile (\<lambda>x. x \<noteq> c) s # split_max n c (tl (dropWhile (\<lambda>x. x \<noteq> c) s)) else [s])"

definition commit_entry :: "string \<Rightarrow> string \<Rightarrow> string \<Rightarrow> string \<Rightarrow> json" where
  "commit_entry sha msg author date = JObj [(''sha'', JStr sha), (''message'', JStr msg),
     (''author'', JStr author), (''date'', JStr date)]"

fun parse_commits :: "string list \<Rightarrow> json list" where
  "parse_commits [] = []"
| "parse_commits (line # rest) =
     (case split_max 3 (CHR ''|'') line of
        [a, b, c, d] \<Rightarrow> commit_entry a b c d # parse_commits rest
      | _ \<Rightarrow> parse_commits rest)"

definition git_log_args :: "int \<Rightarrow> string list" where
  "git_log_args limit = [''log'', ''-n'' @ show_int (max 1 (min limit 50)), ''--pretty=format:%H|%s|%an|%ci'']"

definition inspect_git_history :: "'n ops_env \<Rightarrow> string \<Rightarrow> int \<Rightarrow> exn + json" where
  "inspect_git_history env repository limit =
     (case resolve_reference_repo env repository of
        Inl e \<Rightarrow> Inr (error_dict (message e) [(''repository'', JStr repository)])
      | Inr repo \<Rightarrow>
          if oe_tree env = None
          then Inr (JObj [(''repository'', JStr repo), (''commits'', JList []), (''source'', JStr ''missing_repo'')])
          else (case oe_git env (git_log_args limit) of
                  Inl e \<Rightarrow> Inr (JObj [(''repository'', JStr repo), (''commits'', JList []), (''error'', JStr (message e))])
                | Inr out \<Rightarrow> Inr (JObj [(''repository'', JStr repo), (''commits'', JList (parse_commits (split_lines out)))])))"

definition is_hex :: "char \<Rightarrow> bool" where
  "is_hex c \<longleftrightarrow> (let n = of_char c :: nat in 48 \<le> n \<and> n \<le> 57 \<or> 65 \<le> n \<and> n \<le> 70 \<or> 97 \<le> n \<and> n \<le> 102)"

definition commit_sha_ok :: "string \<Rightarrow> bool" where
  "commit_sha_ok s \<longleftrightarrow> s = ''HEAD'' \<or> list_all is_hex s \<and> 7 \<le> length s \<and> length s \<le> 64"

definition inspect_git_diff :: "'n ops_env \<Rightarrow> string \<Rightarrow> string \<Rightarrow> exn + json" where
  "inspect_git_diff env repository commit_sha =
     (case resolve_reference_repo env repository of
        Inl e \<Rightarrow> Inr (error_dict (message e) [(''repository'', JStr repository)])
      | Inr repo \<Rightarrow>
          if \<not> commit_sha_ok commit_sha then Inr (error_dict ''invalid commit sha'' [(''commit_sha'', JStr commit_sha)])
          else if oe_tree env = None
          then Inr (JObj [(''repository'', JStr repo), (''diff'', JStr []), (''error'', JStr ''repo missing'')])
          else (case oe_git env [''show'', ''--stat'', ''--patch'', commit_sha] of
                  Inl e \<Rightarrow> Inr (JObj [(''repository'', JStr repo), (''commit_sha'', JStr commit_sha), (''error'', JStr (message e))])
                | Inr diff \<Rightarrow> Inr (JObj [(''repository'', JStr repo), (''commit_sha'', JStr commit_sha),
                    (''diff'', JStr (take 20000 diff))])))"

section \<open>Source code\<close>

text \<open>\<open>splitlines(keepends=True)\<close> of a text.\<close>

fun keep_lines :: "string \<Rightarrow> string list" where
  "keep_lines [] = []"
| "keep_lines (c # cs) =
     (if c = CHR 0x0D \<and> prefix [CHR 0x0A] cs then [c, CHR 0x0A] # keep_lines (tl cs)
      else if is_line_break c then [c] # keep_lines cs
      else (case keep_lines cs of [] \<Rightarrow> [[c]] | l # ls \<Rightarrow> (c # l) # ls))"

definition utf8_size :: "string \<Rightarrow> int" where
  "utf8_size s = int (length (concat (map (\<lambda>c. if (of_char c :: nat) < 128 then [c] else [c, c]) s)))"

text \<open>The parts of \<open>Path(path)\<close> but for the root.\<close>

definition pure_parts :: "string \<Rightarrow> string list" where
  "pure_parts path = filter (\<lambda>p. p \<noteq> [] \<and> p \<noteq> ''.'') (py_split (CHR ''/'') path)"

definition secret_part :: "string \<Rightarrow> bool" where
  "secret_part part \<longleftrightarrow> part = ''.env'' \<or> prefix ''.env.'' part \<or> contains ''credential'' part
     \<or> contains ''secret'' part \<or> part = ''.git''"

text \<open>The loop that fills the window; \<open>used\<close> counts its characters.\<close>

fun window_loop :: "bool \<Rightarrow> nat \<Rightarrow> string list \<Rightarrow> string list" where
  "window_loop started used [] = []"
| "window_loop started used (line # rest) =
     (if started \<and> SOURCE_WINDOW_CHARS < used + length line then []
      else line # window_loop True (used + length line) rest)"

definition source_window :: "string \<Rightarrow> string list \<Rightarrow> int \<Rightarrow> json" where
  "source_window path all_lines first_line =
     (let total = int (length all_lines) in
      if total < first_line then
        JObj [(''path'', JStr path), (''content'', JStr []), (''start_line'', JInt first_line),
          (''end_line'', JInt total), (''total_lines'', JInt total), (''has_more'', JBool False)]
      else
        let window = window_loop False 0 (drop (nat (first_line - 1)) all_lines) in
        JObj [(''path'', JStr path), (''content'', JStr (concat window)), (''start_line'', JInt first_line),
          (''end_line'', JInt (first_line + int (length window) - 1)), (''total_lines'', JInt total),
          (''has_more'', JBool (first_line - 1 + int (length window) < total))])"

definition read_source_code :: "'n ops_env \<Rightarrow> string \<Rightarrow> string \<Rightarrow> json \<Rightarrow> exn + json" where
  "read_source_code env repository path start_line =
     (case resolve_reference_repo env repository of
        Inl e \<Rightarrow> Inr (error_dict (message e) [(''repository'', JStr repository), (''path'', JStr path)])
      | Inr base \<Rightarrow>
          if sensitive_path path \<or> list_ex (\<lambda>p. secret_part (py_lower p)) (pure_parts path)
          then Inr (error_dict ''sensitive source path forbidden'' [(''path'', JStr path)])
          else
            let repo = (case oe_tree env of None \<Rightarrow> \<lparr>rp_files = [], rp_links = []\<rparr> | Some r \<Rightarrow> r) in
            (case validate_patch_path repo path of
               Inl e \<Rightarrow> Inr (error_dict (message e) [])
             | Inr p \<Rightarrow>
                 let full = base @ ''/'' @ p in
                 (case map_of (rp_files repo) p of
                    None \<Rightarrow>
                      if list_ex (\<lambda>f. prefix (p @ ''/'') (fst f)) (rp_files repo)
                      then Inr (error_dict ''source must be a bounded regular file'' [])
                      else Inr (error_dict ''file not found'' [(''path'', JStr full)])
                  | Some raw \<Rightarrow>
                      if 50000 < utf8_size raw then Inr (error_dict ''source must be a bounded regular file'' [])
                      else (case py_int start_line of
                        Inl e \<Rightarrow> Inr (error_dict ''start_line must be a positive integer'' [(''path'', JStr path)])
                      | Inr first_line \<Rightarrow>
                          if first_line < 1
                          then Inr (error_dict ''start_line must be a positive integer'' [(''path'', JStr path)])
                          else Inr (source_window full (keep_lines (universal_newlines raw)) first_line)))))"

section \<open>The database\<close>

text \<open>
  A statement answers with the column names, when it has a result, and the rows. The session keeps the
  state \<open>'s\<close> of the server and, for the theorems, the statements sent so far with
  their answers. The connection is read-only;
  the commit on leaving it is left out.
\<close>

type_synonym sql_result = "string list option \<times> json list list"

record 's pg =
  pg_state :: 's
  pg_log :: "(string \<times> (exn + sql_result)) list"

record 's pg_server =
  ps_connect :: "'s \<Rightarrow> 's \<times> (exn + unit)"
  ps_run :: "string \<Rightarrow> 's \<Rightarrow> 's \<times> (exn + sql_result)"

definition pg_execute :: "'s pg_server \<Rightarrow> string \<Rightarrow> ('s pg, sql_result) eff" where
  "pg_execute srv stmt p =
     (case ps_run srv stmt (pg_state p) of (st, r) \<Rightarrow> (p\<lparr>pg_state := st, pg_log := pg_log p @ [(stmt, r)]\<rparr>, r))"

definition pg_connect :: "'s pg_server \<Rightarrow> ('s pg, unit) eff" where
  "pg_connect srv p = (case ps_connect srv (pg_state p) of (st, r) \<Rightarrow> (p\<lparr>pg_state := st\<rparr>, r))"

definition quote_sql :: "string \<Rightarrow> string" where
  "quote_sql s = [char_of (39::nat)] @ s @ [char_of (39::nat)]"

definition ROLE_QUERY :: string where
  "ROLE_QUERY = ''SELECT rolsuper, rolcreaterole, rolcreatedb, rolreplication, rolbypassrls FROM pg_roles WHERE rolname = current_user''"

definition READ_ONLY_QUERY :: string where
  "READ_ONLY_QUERY = ''SHOW default_transaction_read_only''"

definition PRIVILEGE_QUERY :: string where
  "PRIVILEGE_QUERY = ''SELECT has_table_privilege(current_user, c.oid, '' @ quote_sql ''INSERT,UPDATE,DELETE,TRUNCATE,TRIGGER''
     @ '') FROM pg_class c JOIN pg_namespace n ON n.oid = c.relnamespace WHERE n.nspname = '' @ quote_sql ''public''
     @ '' AND c.relkind IN ('' @ quote_sql ''r'' @ '','' @ quote_sql ''p'' @ '')''"

definition SESSION_SETTINGS :: "string list" where
  "SESSION_SETTINGS = [''SET statement_timeout = '' @ quote_sql ''5s'', ''SET LOCAL lock_timeout = '' @ quote_sql ''1s'',
     ''SET LOCAL search_path = pg_catalog, public'', ''SET LOCAL work_mem = '' @ quote_sql ''4MB'']"

text \<open>\<open>cur.fetchone()[0]\<close> and \<open>row[0]\<close>.\<close>

definition first_column :: "json list \<Rightarrow> exn + json" where
  "first_column row = (case row of [] \<Rightarrow> Inl (OtherError ''tuple index out of range'') | v # _ \<Rightarrow> Inr v)"

definition role_ok :: "json list list \<Rightarrow> bool" where
  "role_ok rows = (case rows of [] \<Rightarrow> False | role # _ \<Rightarrow> \<not> list_ex truthy role)"

definition read_only_on :: "json list list \<Rightarrow> exn + bool" where
  "read_only_on rows = (case rows of
     [] \<Rightarrow> Inl (TypeError ''TypeError'')
   | row # _ \<Rightarrow> (case first_column row of Inl e \<Rightarrow> Inl e | Inr v \<Rightarrow> Inr (v = JStr ''on'')))"

fun any_first :: "json list list \<Rightarrow> exn + bool" where
  "any_first [] = Inr False"
| "any_first (row # rows) =
     (case first_column row of Inl e \<Rightarrow> Inl e | Inr v \<Rightarrow> if truthy v then Inr True else any_first rows)"

definition row_dict :: "string list \<Rightarrow> json list \<Rightarrow> json" where
  "row_dict cols row = JObj (dict_merge [] (zip cols row))"

definition readonly_session :: "'s pg_server \<Rightarrow> ('s pg, unit) eff" where
  "readonly_session srv =
     bind_eff (pg_connect srv) (\<lambda>_.
     bind_eff (pg_execute srv ROLE_QUERY) (\<lambda>role.
     bind_eff (pg_execute srv READ_ONLY_QUERY) (\<lambda>setting.
     bind_eff (if \<not> role_ok (snd role) then give False else lift_sum (read_only_on (snd setting))) (\<lambda>dedicated.
     bind_eff (ensure dedicated (PermissionError ''dedicated readonly database role required'')) (\<lambda>_.
     bind_eff (pg_execute srv PRIVILEGE_QUERY) (\<lambda>privileges.
     bind_eff (lift_sum (any_first (snd privileges))) (\<lambda>writes.
     bind_eff (ensure (\<not> writes) (PermissionError ''database role has write privileges'')) (\<lambda>_.
     bind_eff (map_eff (pg_execute srv) SESSION_SETTINGS) (\<lambda>_. give ())))))))))"

definition run_query :: "'s pg_server \<Rightarrow> string \<Rightarrow> ('s pg, json) eff" where
  "run_query srv query =
     bind_eff (readonly_session srv) (\<lambda>_.
     bind_eff (pg_execute srv query) (\<lambda>result.
     give (JObj [(''query'', JStr query),
       (''rows'', JList (case fst result of None \<Rightarrow> [] | Some cols \<Rightarrow> map (row_dict cols) (take 100 (snd result)))),
       (''source'', JStr ''reference_postgres'')])))"

definition query_database_readonly ::
  "'n ops_env \<Rightarrow> 's pg_server \<Rightarrow> string \<Rightarrow> 's pg \<Rightarrow> 's pg \<times> json" where
  "query_database_readonly env srv query p =
     (case validate_readonly_sql (oe_sql env) query of
        Inl e \<Rightarrow> (p, error_dict (message e) [(''query'', JStr query), (''validated'', JBool False)])
      | Inr v \<Rightarrow>
          if prefix ''postgresql'' (oe_db_url env) then
            (case run_query srv (sv_query v) p of
               (p', Inl e) \<Rightarrow> (p', error_dict (message e) [(''query'', JStr (sv_query v)), (''source'', JStr ''reference_postgres'')])
             | (p', Inr result) \<Rightarrow> (p', result))
          else (p, error_dict ''REFERENCE_DB_URL must point to the readonly PostgreSQL account''
                  [(''query'', JStr (sv_query v)), (''rows'', JList []), (''source'', JStr ''unavailable'')]))"

end
