(* ===== verification/McpAdapter.thy ===== *)
theory McpAdapter
  imports FakeTools Http Loads SqlGuard
begin

text \<open>
  \<open>tools/mcp_adapter.py\<close>: the client side of the read-only tools. A session is a function: the call of a
  tool raises, or answers with the flag \<open>isError\<close> and the texts of its content blocks (\<open>None\<close> for a block
  without text).
\<close>

type_synonym mcp_session = "string \<Rightarrow> (string \<times> json) list \<Rightarrow> exn + bool \<times> string option list"

record MCPReadonlyAdapter =
  ad_live :: bool
  ad_session :: "mcp_session option"

definition new_adapter :: "bool option \<Rightarrow> (string \<times> string) list \<Rightarrow> MCPReadonlyAdapter" where
  "new_adapter live environ =
     \<lparr>ad_live = (case live of
        Some b \<Rightarrow> b
      | None \<Rightarrow> py_lower (case map_of environ ''MCP_LIVE'' of Some s \<Rightarrow> s | None \<Rightarrow> ''false'') = ''true''),
      ad_session = None\<rparr>"

section \<open>The environment of the server process\<close>

record McpSettings =
  mc_repo_path :: string
  mc_logs_path :: string
  mc_orders_api_url :: string
  mc_db_url :: string

definition ALLOWED_ENV :: "string list" where
  "ALLOWED_ENV = [''PATH'', ''PYTHONPATH'', ''SYSTEMROOT'', ''WINDIR'', ''TEMP'', ''TMP'', ''REFERENCE_REPO_PATH'',
     ''REFERENCE_LOGS_PATH'', ''REFERENCE_ORDERS_API_URL'', ''REFERENCE_DB_URL'']"

definition settings_env :: "McpSettings \<Rightarrow> (string \<times> string) list" where
  "settings_env st = [(''REFERENCE_REPO_PATH'', mc_repo_path st), (''REFERENCE_LOGS_PATH'', mc_logs_path st),
     (''REFERENCE_ORDERS_API_URL'', mc_orders_api_url st), (''REFERENCE_DB_URL'', mc_db_url st)]"

definition server_environment :: "McpSettings option \<Rightarrow> (string \<times> string) list \<Rightarrow> (string \<times> string) list" where
  "server_environment settings environ =
     (let kept = filter (\<lambda>kv. py_upper_ascii (fst kv) \<in> set ALLOWED_ENV) environ in
      case settings of None \<Rightarrow> kept | Some st \<Rightarrow> dict_merge kept (settings_env st))"

text \<open>\<open>start\<close> is the server started with an environment; it may fail.\<close>

definition connect ::
  "((string \<times> string) list \<Rightarrow> exn + mcp_session) \<Rightarrow> McpSettings option \<Rightarrow> (string \<times> string) list
     \<Rightarrow> MCPReadonlyAdapter \<Rightarrow> MCPReadonlyAdapter \<times> (exn + unit)" where
  "connect start settings environ ad =
     (if \<not> ad_live ad then (ad, Inr ())
      else case start (server_environment settings environ) of
        Inl e \<Rightarrow> (ad, Inl e)
      | Inr session \<Rightarrow> (ad\<lparr>ad_session := Some session\<rparr>, Inr ()))"

definition disconnect :: "MCPReadonlyAdapter \<Rightarrow> MCPReadonlyAdapter" where
  "disconnect ad = ad\<lparr>ad_session := None\<rparr>"

section \<open>Calling a tool\<close>

fun texts_of :: "string option list \<Rightarrow> string list" where
  "texts_of [] = []"
| "texts_of (Some (c # cs) # bs) = (c # cs) # texts_of bs"
| "texts_of (_ # bs) = texts_of bs"

definition mcp_payload :: "string \<Rightarrow> string \<Rightarrow> exn + json" where
  "mcp_payload name body =
     (case loads body of
        None \<Rightarrow> Inl (ValueError ''MCP returned malformed JSON'')
      | Some (JObj []) \<Rightarrow> Inl (ValueError ''MCP returned an empty payload'')
      | Some (JObj d) \<Rightarrow>
          (case map_of d ''error'' of
             None \<Rightarrow> Inr (JObj d)
           | Some v \<Rightarrow>
               if truthy v then Inl (ValueError (''MCP '' @ name @ '' failed: '' @ take 300 (py_str v))) else Inr (JObj d))
      | Some _ \<Rightarrow> Inl (ValueError ''MCP returned a non-object payload''))"

definition live_call :: "mcp_session \<Rightarrow> string \<Rightarrow> (string \<times> json) list \<Rightarrow> exn + json" where
  "live_call session name arguments =
     (case session name arguments of
        Inl e \<Rightarrow> Inl e
      | Inr (is_error, blocks) \<Rightarrow>
          if is_error then Inl (ValueError ''MCP tool signaled isError'')
          else (case texts_of blocks of
                  [body] \<Rightarrow> mcp_payload name body
                | _ \<Rightarrow> Inl (ValueError ''MCP must return one complete JSON result'')))"

definition MCP_TOOLS :: "string list" where
  "MCP_TOOLS = [''read_metrics'', ''read_logs'', ''inspect_git_history'', ''inspect_git_diff'', ''read_source_code'',
     ''query_database_readonly'']"

text \<open>The fake backend with its default fault, behind the guard of the queries.\<close>

definition query_guard :: "'n sql_ast \<Rightarrow> json \<Rightarrow> exn + unit" where
  "query_guard q v = (case v of
     JStr s \<Rightarrow> (case validate_readonly_sql q s of Inl e \<Rightarrow> Inl e | Inr _ \<Rightarrow> Inr ())
   | _ \<Rightarrow> Inl (OtherError ''AttributeError''))"

definition offline_tool :: "'n sql_ast \<Rightarrow> string \<Rightarrow> (string \<times> json) list \<Rightarrow> exn + json" where
  "offline_tool q name arguments =
     (if name \<notin> set MCP_TOOLS then Inr (JObj [(''error'', JStr (''unknown mcp tool: '' @ name))])
      else fake_handler (query_guard q) ''slow_database_query'' name 0 arguments)"

definition mcp_call_tool ::
  "'n sql_ast \<Rightarrow> MCPReadonlyAdapter \<Rightarrow> string \<Rightarrow> (string \<times> json) list \<Rightarrow> exn + json" where
  "mcp_call_tool q ad name arguments =
     (case (ad_live ad, ad_session ad) of
        (True, Some session) \<Rightarrow> live_call session name arguments
      | (True, None) \<Rightarrow> Inl (RuntimeError ''MCP live adapter is not connected; fake fallback is disabled'')
      | (False, _) \<Rightarrow> offline_tool q name arguments)"

section \<open>Registration\<close>

text \<open>The parameters of each handler with their defaults, in the order they are passed on.\<close>

definition mcp_parameters :: "string \<Rightarrow> (string \<times> json) list" where
  "mcp_parameters name =
     (if name = ''read_metrics'' \<or> name = ''read_logs''
      then [(''service'', JStr ''orders-api''), (''window'', JStr ''incident'')]
      else if name = ''inspect_git_history'' then [(''repository'', JStr []), (''limit'', JInt 10)]
      else if name = ''inspect_git_diff'' then [(''repository'', JStr []), (''commit_sha'', JStr ''HEAD'')]
      else if name = ''read_source_code''
      then [(''path'', JStr ''app.py''), (''repository'', JStr []), (''start_line'', JInt 1)]
      else [(''query'', JStr ''SELECT 1'')])"

definition mcp_handler :: "'n sql_ast \<Rightarrow> MCPReadonlyAdapter \<Rightarrow> string \<Rightarrow> handler" where
  "mcp_handler q ad name n args =
     (if \<not> fst ` set args \<subseteq> fst ` set (mcp_parameters name) then Inl (TypeError ''unexpected keyword argument'')
      else mcp_call_tool q ad name (map (\<lambda>(k, d). (k, arg_or k d args)) (mcp_parameters name)))"

definition mcp_spec :: "string \<Rightarrow> (string \<times> string) list \<Rightarrow> string list \<Rightarrow> ToolSpec" where
  "mcp_spec name props req = \<lparr>ts_name = name, ts_category = ''readonly_external'', ts_timeout = (300, 1),
     ts_max_retries = 1, ts_required = req, ts_properties = map (\<lambda>(k, t). (k, Some t)) props,
     ts_additional = Some False\<rparr>"

definition mcp_specs :: "ToolSpec list" where
  "mcp_specs =
     [mcp_spec ''read_metrics'' [(''service'', ''string''), (''window'', ''string'')] [''service''],
      mcp_spec ''read_logs'' [(''service'', ''string''), (''window'', ''string'')] [''service''],
      mcp_spec ''inspect_git_history'' [(''repository'', ''string''), (''limit'', ''integer'')] [],
      mcp_spec ''inspect_git_diff'' [(''repository'', ''string''), (''commit_sha'', ''string'')] [],
      mcp_spec ''read_source_code'' [(''path'', ''string''), (''repository'', ''string''),
        (''start_line'', ''integer'')] [''path''],
      mcp_spec ''query_database_readonly'' [(''query'', ''string'')] [''query'']]"

definition register_mcp_readonly_tools :: "ToolRegistry \<Rightarrow> ToolRegistry" where
  "register_mcp_readonly_tools reg = fold register mcp_specs reg"

end
