(* ===== verification/OpsProps.thy ===== *)
theory OpsProps
  imports OpsServer McpAdapter LoadsProps GatewayProps
begin

text \<open>
  Facts of the read-only tools: what the SQL guard lets through, when a query reaches the database, that
  the windows of a source file make up the file, and what the MCP adapter hands to the gateway.
\<close>

section \<open>The SQL guard\<close>








definition demo_ast :: "string sql_ast" where
  "demo_ast = \<lparr>sq_parse = (\<lambda>_. Inr [Some ''s'']), sq_walk = (\<lambda>n. if n = ''s'' then [''s'', ''t'', ''c''] else [n]),
     sq_isa = (\<lambda>k n. (k, n) \<in> {(''Select'', ''s''), (''Table'', ''t''), (''Column'', ''c'')}), sq_type = (\<lambda>_. ''Select''),
     sq_name = (\<lambda>n. if n = ''t'' then ''orders'' else ''id''), sq_catalog = (\<lambda>_. []), sq_db = (\<lambda>_. []),
     sq_alias_or_name = (\<lambda>_. ''o''), sq_table = (\<lambda>_. ''o''), sq_parent = (\<lambda>_. None), sq_arg = (\<lambda>_ _. False),
     sq_has_arg = (\<lambda>_ _. False), sq_datatype = (\<lambda>_. []), sq_sql_name = (\<lambda>_. []), sq_expressions = (\<lambda>_. []),
     sq_this = (\<lambda>_. None), sq_int_literal = (\<lambda>_. None), sq_limit = (\<lambda>i n. ''l''),
     sq_sql = (\<lambda>n. if n = ''l'' then ''SELECT o.id FROM orders AS o LIMIT 100'' else [])\<rparr>"



section \<open>A query reaches the database\<close>

definition session_setup :: "string list" where
  "session_setup = [ROLE_QUERY, READ_ONLY_QUERY, PRIVILEGE_QUERY] @ SESSION_SETTINGS"

lemma pg_execute_log: "pg_execute srv stmt p = (p', r) \<Longrightarrow> pg_log p' = pg_log p @ [(stmt, r)]"
  by (auto simp: pg_execute_def split: prod.splits)

lemma pg_connect_log: "pg_connect srv p = (p', r) \<Longrightarrow> pg_log p' = pg_log p"
  by (auto simp: pg_connect_def split: prod.splits)

text \<open>What a computation sends: a prefix of \<open>ds\<close>, and all of it when it returns.\<close>

definition emits :: "string list \<Rightarrow> ('s pg, 'a) eff \<Rightarrow> bool" where
  "emits ds m \<longleftrightarrow> (\<forall>p p' r. m p = (p', r) \<longrightarrow>
     (\<exists>es. prefix es ds \<and> map fst (pg_log p') = map fst (pg_log p) @ es)
     \<and> (\<forall>x. r = Inr x \<longrightarrow> map fst (pg_log p') = map fst (pg_log p) @ ds))"

lemma emits_pure: "emits [] (give x)" "emits [] (lift_sum r)" "emits [] (ensure b e)"
  by (simp_all add: emits_def give_def lift_sum_def ensure_def)

lemma emits_connect: "emits [] (pg_connect srv)"
  by (auto simp: emits_def dest!: pg_connect_log)

lemma emits_execute: "emits [stmt] (pg_execute srv stmt)"
  by (auto simp: emits_def dest!: pg_execute_log)

lemma emits_bind:
  assumes m: "emits ds m" and f: "\<And>x. emits es (f x)"
  shows "emits (ds @ es) (bind_eff m f)"
  unfolding emits_def
proof (intro allI impI)
  fix p p' r
  assume b: "bind_eff m f p = (p', r)"
  obtain p1 r1 where r1: "m p = (p1, r1)" by fastforce
  show "(\<exists>fs. prefix fs (ds @ es) \<and> map fst (pg_log p') = map fst (pg_log p) @ fs)
     \<and> (\<forall>x. r = Inr x \<longrightarrow> map fst (pg_log p') = map fst (pg_log p) @ ds @ es)"
  proof (cases r1)
    case (Inl e)
    then have "p' = p1" "r = Inl e" using b r1 by (auto simp: bind_eff_def)
    then show ?thesis using m r1 unfolding emits_def by (metis prefix_prefix sum.distinct(1))
  next
    case (Inr x)
    then have "f x p1 = (p', r)" using b r1 by (auto simp: bind_eff_def)
    moreover have "map fst (pg_log p1) = map fst (pg_log p) @ ds"
      using m r1 Inr unfolding emits_def by blast
    ultimately show ?thesis using f [of x] unfolding emits_def by fastforce
  qed
qed

lemma emits_bind0: "emits [] m \<Longrightarrow> (\<And>x. emits es (f x)) \<Longrightarrow> emits es (bind_eff m f)"
  using emits_bind [of "[]"] by auto

lemma emits_then: "emits [d] m \<Longrightarrow> (\<And>x. emits es (f x)) \<Longrightarrow> emits (d # es) (bind_eff m f)"
  using emits_bind [of "[d]"] by auto

lemma emits_map: "emits stmts (map_eff (pg_execute srv) stmts)"
proof (induction stmts)
  case (Cons stmt stmts)
  have "emits (stmts @ []) (bind_eff (map_eff (pg_execute srv) stmts) (\<lambda>ys. give (y # ys)))" for y
    by (rule emits_bind [OF Cons emits_pure(1)])
  then show ?case
    by (auto intro!: emits_then emits_execute)
qed (simp add: emits_pure)

lemma readonly_session_emits: "emits session_setup (readonly_session srv)"
proof -
  have settings: "emits SESSION_SETTINGS (bind_eff (map_eff (pg_execute srv) SESSION_SETTINGS) (\<lambda>_. give ()))"
    using emits_bind [OF emits_map [of SESSION_SETTINGS srv] emits_pure(1)] by simp
  have dedicated: "emits [] (if b then give False else lift_sum x)" for b x
    by (simp add: emits_pure)
  show ?thesis
    unfolding session_setup_def readonly_session_def append_Cons append_Nil
    by (rule emits_bind0 [OF emits_connect], rule emits_then [OF emits_execute], rule emits_then [OF emits_execute],
        rule emits_bind0 [OF dedicated], rule emits_bind0 [OF emits_pure(3)], rule emits_then [OF emits_execute],
        rule emits_bind0 [OF emits_pure(2)], rule emits_bind0 [OF emits_pure(3)], rule settings)
qed

lemma map_execute_Inr:
  "map_eff (pg_execute srv) stmts p = (p', Inr xs) \<Longrightarrow>
     length xs = length stmts \<and> pg_log p' = pg_log p @ zip stmts (map Inr xs)"
  by (induction stmts arbitrary: p xs) (fastforce dest!: pg_execute_log)+

lemma readonly_session_Inr:
  assumes "readonly_session srv p = (p', Inr u)"
  obtains role setting privileges answers where
    "pg_log p' = pg_log p @ [(ROLE_QUERY, Inr role), (READ_ONLY_QUERY, Inr setting), (PRIVILEGE_QUERY, Inr privileges)]
       @ zip SESSION_SETTINGS (map Inr answers)"
    and "role_ok (snd role)" and "read_only_on (snd setting) = Inr True" and "any_first (snd privileges) = Inr False"
proof -
  obtain p0 p1 p2 p3 role setting privileges answers where
    s: "pg_connect srv p = (p0, Inr ())" "pg_execute srv ROLE_QUERY p0 = (p1, Inr role)"
      "pg_execute srv READ_ONLY_QUERY p1 = (p2, Inr setting)"
      "role_ok (snd role)" "read_only_on (snd setting) = Inr True"
      "pg_execute srv PRIVILEGE_QUERY p2 = (p3, Inr privileges)" "any_first (snd privileges) = Inr False"
      "map_eff (pg_execute srv) SESSION_SETTINGS p3 = (p', Inr answers)"
    using assms by (auto simp: readonly_session_def split: if_splits)
  show ?thesis
    using that [OF _ s(4,5,7)] pg_connect_log [OF s(1)] pg_execute_log [OF s(2)] pg_execute_log [OF s(3)]
      pg_execute_log [OF s(6)] map_execute_Inr [OF s(8)]
    by simp
qed

text \<open>
  C26. When a query reaches the database. The tool sends nothing for a query the guard refuses. Otherwise
  it sends the statements of the session one after the other, in order, and stops at the first that fails;
  the guarded query, never the text it was given, follows only when all of them were answered, the role has
  none of the five administrative rights, its transactions are read-only by default, and it holds no write
  privilege on any table.
\<close>

theorem query_needs_readonly_role:
  "let p' = fst (query_database_readonly env srv query p) in
    (case validate_readonly_sql (oe_sql env) query of
      Inl e \<Rightarrow> p' = p
    | Inr v \<Rightarrow>
        (\<exists>es. prefix es session_setup \<and> map fst (pg_log p') = map fst (pg_log p) @ es)
        \<or> (\<exists>role setting privileges answers result.
             pg_log p' = pg_log p
               @ [(ROLE_QUERY, Inr role), (READ_ONLY_QUERY, Inr setting), (PRIVILEGE_QUERY, Inr privileges)]
               @ zip SESSION_SETTINGS (map Inr answers) @ [(sv_query v, result)]
             \<and> role_ok (snd role) \<and> read_only_on (snd setting) = Inr True
             \<and> any_first (snd privileges) = Inr False))"
proof (cases "validate_readonly_sql (oe_sql env) query")
  case (Inl e)
  then show ?thesis by (auto simp: query_database_readonly_def)
next
  case (Inr v)
  show ?thesis
  proof (cases "prefix ''postgresql'' (oe_db_url env)")
    case False
    then show ?thesis using Inr by (auto simp: query_database_readonly_def intro!: exI [of _ "[]"])
  next
    case True
    define p' where "p' = fst (query_database_readonly env srv query p)"
    have p': "p' = fst (run_query srv (sv_query v) p)"
      using Inr True by (auto simp: p'_def query_database_readonly_def split: prod.splits sum.splits)
    obtain p1 r1 where s: "readonly_session srv p = (p1, r1)" by fastforce
    show ?thesis
    proof (cases r1)
      case r1: (Inl e)
      then show ?thesis
        using s p' Inr readonly_session_emits [of srv] unfolding p'_def [symmetric] Let_def
        by (auto simp: run_query_def bind_eff_def emits_def)
    next
      case r1: (Inr u)
      obtain p2 r2 where q: "pg_execute srv (sv_query v) p1 = (p2, r2)" by fastforce
      have "p' = p2"
        using q p' s r1 by (auto simp: run_query_def bind_eff_def give_def split: sum.splits)
      obtain role setting privileges answers where
          "pg_log p1 = pg_log p @ [(ROLE_QUERY, Inr role), (READ_ONLY_QUERY, Inr setting), (PRIVILEGE_QUERY, Inr privileges)]
             @ zip SESSION_SETTINGS (map Inr answers)"
          "role_ok (snd role)" "read_only_on (snd setting) = Inr True" "any_first (snd privileges) = Inr False"
        by (rule readonly_session_Inr [OF s [unfolded r1]])
      then show ?thesis
        unfolding p'_def [symmetric] Let_def Inr sum.case \<open>p' = p2\<close> pg_execute_log [OF q]
        by (intro disjI2 exI conjI) simp_all
    qed
  qed
qed

section \<open>Reading a source file window by window\<close>





lemma window_loop_next:
  assumes "length (window_loop True used ls) < length ls"
  shows "SOURCE_WINDOW_CHARS < used + length (concat (window_loop True used ls))
    + length (ls ! length (window_loop True used ls))"
  using assms
proof (induction ls arbitrary: used)
  case (Cons l ls)
  show ?case
    using Cons.prems Cons.IH [of "used + length l"] by (auto simp: add.assoc)
qed simp











section \<open>The history of the repository\<close>

text \<open>One line of \<open>git log --pretty=format:%H|%s|%an|%ci\<close>.\<close>

definition log_line :: "string \<times> string \<times> string \<times> string \<Rightarrow> string" where
  "log_line c = (case c of (sha, msg, author, date) \<Rightarrow> sha @ ''|'' @ msg @ ''|'' @ author @ ''|'' @ date)"

lemma split_max_first: "c \<notin> set a \<Longrightarrow> split_max (Suc n) c (a @ c # b) = a # split_max n c b"
proof -
  assume "c \<notin> set a"
  then have "takeWhile (\<lambda>x. x \<noteq> c) (a @ c # b) = a" and "dropWhile (\<lambda>x. x \<noteq> c) (a @ c # b) = c # b"
    by (induction a) auto
  then show ?thesis by simp
qed

lemma parse_log_line:
  assumes "CHR ''|'' \<notin> set sha" and "CHR ''|'' \<notin> set msg" and "CHR ''|'' \<notin> set author"
  shows "parse_commits (log_line (sha, msg, author, date) # rest) = commit_entry sha msg author date # parse_commits rest"
proof -
  have "split_max 3 (CHR ''|'') (log_line (sha, msg, author, date)) = [sha, msg, author, date]"
    using assms split_max_first [of "CHR ''|''" sha 2] split_max_first [of "CHR ''|''" msg 1]
      split_max_first [of "CHR ''|''" author 0]
    by (simp add: log_line_def numeral_3_eq_3 numeral_2_eq_2 del: split_max.simps(2))
  then show ?thesis by simp
qed

text \<open>
  Lines of commits none of whose identifiers, subjects and authors holds a bar come back as they were. A
  bar in a subject shifts the fields: the rest of the subject is reported as the author.
\<close>

theorem history_roundtrip:
  assumes "\<And>sha msg author date. (sha, msg, author, date) \<in> set commits \<Longrightarrow>
      CHR ''|'' \<notin> set sha \<and> CHR ''|'' \<notin> set msg \<and> CHR ''|'' \<notin> set author"
  shows "parse_commits (map log_line commits) = map (\<lambda>(sha, msg, author, date). commit_entry sha msg author date) commits"
  using assms
proof (induction commits)
  case (Cons c commits)
  obtain sha msg author date where c: "c = (sha, msg, author, date)" by (cases c)
  show ?case
    using Cons parse_log_line [of sha msg author date "map log_line commits"] unfolding c by fastforce
qed simp

lemma history_bar_shifts:
  assumes "CHR ''|'' \<notin> set sha" and "CHR ''|'' \<notin> set m1" and "CHR ''|'' \<notin> set m2"
  shows "parse_commits [log_line (sha, m1 @ ''|'' @ m2, author, date)] = [commit_entry sha m1 m2 (author @ ''|'' @ date)]"
  using parse_log_line [OF assms, of "author @ ''|'' @ date" "[]"] by (simp add: log_line_def)

section \<open>What the adapter hands to the gateway\<close>

lemma texts_of_nonempty: "body \<in> set (texts_of blocks) \<Longrightarrow> body \<noteq> []"
  by (induction blocks rule: texts_of.induct) auto

lemma mcp_payload_Inr:
  assumes "mcp_payload name body = Inr v"
  shows "\<exists>d. v = JObj d \<and> d \<noteq> [] \<and> \<not> get_truthy ''error'' d \<and> loads body = Some (JObj d)"
  using assms
  by (auto simp: mcp_payload_def get_truthy_def split: option.splits json.splits list.splits if_splits)

text \<open>
  C28. The live adapter. It never answers from the fake backend: without a session every call raises. With
  one, a call returns only what its server answered: one text, the JSON of a non-empty object without a
  true \<open>error\<close>; everything else raises. So an object the server serialized comes back unchanged.
\<close>

theorem mcp_live_answers:
  assumes "ad_live ad"
  shows "case mcp_call_tool q ad name args of
      Inl e \<Rightarrow> (ad_session ad = None \<and> e = RuntimeError ''MCP live adapter is not connected; fake fallback is disabled'')
        \<or> (\<exists>session. ad_session ad = Some session
             \<and> (session name args = Inl e \<or> (\<exists>m. e = ValueError m \<and> session name args \<noteq> Inl e)))
    | Inr v \<Rightarrow> (\<exists>session d blocks body. ad_session ad = Some session \<and> session name args = Inr (False, blocks)
        \<and> texts_of blocks = [body] \<and> loads body = Some v \<and> v = JObj d \<and> d \<noteq> [] \<and> \<not> get_truthy ''error'' d
        \<and> (\<forall>sent n. canonical sent \<longrightarrow> body = dumps_indent n sent \<longrightarrow> v = sent))"
proof (cases "ad_session ad")
  case None
  then show ?thesis using assms by (simp add: mcp_call_tool_def)
next
  case (Some session)
  have c: "mcp_call_tool q ad name args = live_call session name args"
    using assms Some by (simp add: mcp_call_tool_def)
  show ?thesis
  proof (cases "live_call session name args")
    case (Inl e)
    have "session name args = Inl e \<or> (\<exists>m. e = ValueError m \<and> session name args \<noteq> Inl e)"
      using Inl
      by (auto simp: live_call_def mcp_payload_def split: sum.splits prod.splits list.splits option.splits json.splits if_splits)
    then show ?thesis using c Inl Some by simp
  next
    case (Inr v)
    obtain blocks body where s: "session name args = Inr (False, blocks)" "texts_of blocks = [body]"
        "mcp_payload name body = Inr v"
      using Inr by (auto simp: live_call_def split: sum.splits prod.splits list.splits if_splits)
    obtain d where d: "v = JObj d" "d \<noteq> []" "\<not> get_truthy ''error'' d" "loads body = Some (JObj d)"
      using mcp_payload_Inr [OF s(3)] by blast
    have "canonical sent \<longrightarrow> body = dumps_indent n sent \<longrightarrow> v = sent" for sent n
      using d loads_dumps_indent by auto
    then show ?thesis
      using c Inr Some s d by fastforce
  qed
qed

definition demo_session :: mcp_session where
  "demo_session name args = Inr (False, [Some (dumps_indent 2 (JObj [(''rows'', JList [])]))])"

theorem mcp_live_answers_witness:
  "case mcp_call_tool demo_ast \<lparr>ad_live = True, ad_session = Some demo_session\<rparr> ''read_logs'' [] of
     Inl e \<Rightarrow> \<exists>m. e = ValueError m | Inr v \<Rightarrow> (\<exists>d. v = JObj d \<and> d \<noteq> [] \<and> \<not> get_truthy ''error'' d)"
  using mcp_live_answers [where ad = "\<lparr>ad_live = True, ad_session = Some demo_session\<rparr>" and q = demo_ast
      and name = "''read_logs''" and args = "[]"]
  by (auto simp: demo_session_def split: sum.splits)

section \<open>Cached telemetry is no evidence\<close>








end
