(* ===== verification/Scoring.thy ===== *)
theory Scoring
  imports Evidence Http Sandbox
begin

text \<open>
  \<open>eval/scoring.py\<close>, the types of \<open>benchmarks/fault_cases.py\<close> and \<open>_score_root_cause\<close> of
  \<open>eval/harness.py\<close>: how a root cause of the agent is compared with the ground truth of a fault case. The
  root cause of a run is a JSON dictionary; \<open>sha\<close> is the digest of \<open>valid_evidence\<close>. The shares of hits
  are compared as fractions.
\<close>

section \<open>Fault cases\<close>

record FaultGroundTruth =
  gt_fault_category :: string
  gt_affected_component :: string
  gt_root_cause :: string
  gt_causal_facts :: "string list"
  gt_injection_evidence :: "(string \<times> json) list option"

record FaultCase =
  fc_id :: string
  fc_title :: string
  fc_category :: string
  fc_fault_type :: string
  fc_difficulty :: string
  fc_params :: "(string \<times> json) list"
  fc_incident :: "(string \<times> json) list"
  fc_ground_truth :: FaultGroundTruth
  fc_expected_evidence_sources :: "string list"
  fc_expected_fix_behavior :: "(string \<times> json) list"

text \<open>
  The fields of a model as \<open>pydantic\<close> reads them: a string field takes only a string, a missing field its
  default. The texts of a \<open>ValidationError\<close>, which is a \<open>ValueError\<close>, are shortened to the field.
\<close>

definition str_field :: "string \<Rightarrow> string option \<Rightarrow> (string \<times> json) list \<Rightarrow> exn + string" where
  "str_field k dflt d = (case map_of d k of
     Some (JStr s) \<Rightarrow> Inr s
   | Some _ \<Rightarrow> Inl (ValueError k)
   | None \<Rightarrow> (case dflt of Some s \<Rightarrow> Inr s | None \<Rightarrow> Inl (ValueError k)))"

definition dict_field :: "string \<Rightarrow> (string \<times> json) list \<Rightarrow> exn + (string \<times> json) list" where
  "dict_field k d = (case map_of d k of
     Some (JObj v) \<Rightarrow> Inr v | Some _ \<Rightarrow> Inl (ValueError k) | None \<Rightarrow> Inr [])"

fun strings_of :: "json list \<Rightarrow> string list option" where
  "strings_of [] = Some []"
| "strings_of (JStr s # vs) = map_option ((#) s) (strings_of vs)"
| "strings_of (_ # vs) = None"

definition strs_field :: "string \<Rightarrow> json \<Rightarrow> (string \<times> json) list \<Rightarrow> exn + string list" where
  "strs_field k dflt d = (case (case map_of d k of Some v \<Rightarrow> v | None \<Rightarrow> dflt) of
     JList vs \<Rightarrow> (case strings_of vs of Some ss \<Rightarrow> Inr ss | None \<Rightarrow> Inl (ValueError k))
   | _ \<Rightarrow> Inl (ValueError k))"

definition bind_sum :: "exn + 'a \<Rightarrow> ('a \<Rightarrow> exn + 'b) \<Rightarrow> exn + 'b" where
  "bind_sum r f = (case r of Inl e \<Rightarrow> Inl e | Inr x \<Rightarrow> f x)"

definition ground_truth_of :: "json option \<Rightarrow> exn + FaultGroundTruth" where
  "ground_truth_of v = (case v of
     Some (JObj d) \<Rightarrow>
       bind_sum (str_field ''fault_category'' None d) (\<lambda>category.
       bind_sum (str_field ''affected_component'' None d) (\<lambda>component.
       bind_sum (str_field ''root_cause'' None d) (\<lambda>cause.
       bind_sum (strs_field ''causal_facts'' JNull d) (\<lambda>facts.
       if facts = [] then Inl (ValueError ''causal_facts'')
       else bind_sum (case map_of d ''injection_evidence'' of
           None \<Rightarrow> Inr None | Some JNull \<Rightarrow> Inr None | Some (JObj i) \<Rightarrow> Inr (Some i)
         | Some _ \<Rightarrow> Inl (ValueError ''injection_evidence'')) (\<lambda>injection.
       Inr \<lparr>gt_fault_category = category, gt_affected_component = component, gt_root_cause = cause,
         gt_causal_facts = facts, gt_injection_evidence = injection\<rparr>)))))
   | _ \<Rightarrow> Inl (ValueError ''ground_truth''))"

definition case_of :: "(string \<times> json) list \<Rightarrow> exn + FaultCase" where
  "case_of d =
     bind_sum (str_field ''id'' None d) (\<lambda>i.
     bind_sum (str_field ''title'' None d) (\<lambda>title.
     bind_sum (str_field ''category'' None d) (\<lambda>category.
     bind_sum (str_field ''fault_type'' None d) (\<lambda>fault_type.
     bind_sum (str_field ''difficulty'' (Some ''medium'') d) (\<lambda>difficulty.
     bind_sum (dict_field ''params'' d) (\<lambda>params.
     bind_sum (dict_field ''incident'' d) (\<lambda>incident.
     bind_sum (ground_truth_of (map_of d ''ground_truth'')) (\<lambda>truth.
     bind_sum (strs_field ''expected_evidence_sources'' (JList []) d) (\<lambda>sources.
     bind_sum (dict_field ''expected_fix_behavior'' d) (\<lambda>fix_behavior.
     Inr \<lparr>fc_id = i, fc_title = title, fc_category = category, fc_fault_type = fault_type,
       fc_difficulty = difficulty, fc_params = params, fc_incident = incident, fc_ground_truth = truth,
       fc_expected_evidence_sources = sources, fc_expected_fix_behavior = fix_behavior\<rparr>))))))))))"

definition not_registered :: "string \<Rightarrow> exn + 'a" where
  "not_registered fault_type =
     Inl (ValueError (''fault_type '' @ [char_of (39::nat)] @ fault_type @ [char_of (39::nat)] @ '' is not registered''))"

definition validate_registered :: "FaultCase \<Rightarrow> exn + unit" where
  "validate_registered c =
     (if fc_fault_type c \<in> set REGISTERED_FAULT_TYPES then Inr () else not_registered (fc_fault_type c))"

text \<open>
  \<open>yaml\<close> is \<open>yaml.safe_load\<close>. A list or a dictionary as the type is unhashable: the test of membership
  raises a \<open>TypeError\<close>.
\<close>

fun hashable :: "json \<Rightarrow> bool" where
  "hashable (JList _) = False"
| "hashable (JObj _) = False"
| "hashable _ = True"

definition load_fault_case :: "(string \<Rightarrow> exn + json) \<Rightarrow> string \<Rightarrow> exn + FaultCase" where
  "load_fault_case yaml body =
     bind_sum (yaml body) (\<lambda>data.
       let fault_type = (case data of JObj d \<Rightarrow> (case map_of d ''fault_type'' of Some v \<Rightarrow> v | None \<Rightarrow> JNull) | _ \<Rightarrow> JNull) in
       if \<not> hashable fault_type then Inl (TypeError ''TypeError'')
       else if fault_type \<notin> JStr ` set REGISTERED_FAULT_TYPES then not_registered (py_str fault_type)
       else bind_sum (case_of (dict_items data)) (\<lambda>c.
         bind_sum (validate_registered c) (\<lambda>_. Inr c)))"

text \<open>A directory is the names and the texts of its files.\<close>

fun load_files :: "(string \<Rightarrow> exn + json) \<Rightarrow> string list \<Rightarrow> exn + FaultCase list" where
  "load_files yaml [] = Inr []"
| "load_files yaml (body # bodies) =
     bind_sum (load_fault_case yaml body) (\<lambda>c.
     bind_sum (load_files yaml bodies) (\<lambda>cs. Inr (c # cs)))"

definition load_fault_cases :: "(string \<Rightarrow> exn + json) \<Rightarrow> (string \<times> string) list \<Rightarrow> exn + FaultCase list" where
  "load_fault_cases yaml directory =
     load_files yaml (map snd (sort_key fst (filter (\<lambda>f. ends_with ''.yaml'' (fst f)) directory)))"

section \<open>Scores\<close>

definition CATEGORY_ALIASES :: "(string \<times> string list) list" where
  "CATEGORY_ALIASES =
     [(''database_performance'', [''n_plus_one_query'', ''slow_database_query'', ''missing_database_index'', ''missing_index'']),
      (''application_bug'', [''null_exception'', ''null_handling_regression'']),
      (''dependency'', [''dependency_timeout'', ''upstream_timeout'']),
      (''data_contract'', [''schema_mismatch'', ''schema_compatibility'']),
      (''configuration'', [''incorrect_timeout_configuration'', ''timeout_configuration'']),
      (''code_regression'', [''bad_query_refactor'', ''query_regression''])]"

definition category_matches :: "string \<Rightarrow> string \<Rightarrow> bool" where
  "category_matches expected observed \<longleftrightarrow>
     expected \<noteq> [] \<and> observed \<noteq> []
     \<and> (expected = observed
        \<or> observed \<in> set (case map_of CATEGORY_ALIASES expected of None \<Rightarrow> [] | Some aliases \<Rightarrow> aliases))"

text \<open>\<open>str(d.get(k) or "")\<close> and \<open>d.get(k) or []\<close>, as the list a loop goes over.\<close>

definition value_or :: "string \<Rightarrow> json \<Rightarrow> (string \<times> json) list \<Rightarrow> json" where
  "value_or k dflt d = (case map_of d k of Some v \<Rightarrow> if truthy v then v else dflt | None \<Rightarrow> dflt)"

definition text_of :: "string \<Rightarrow> (string \<times> json) list \<Rightarrow> string" where
  "text_of k d = py_str (value_or k (JStr []) d)"

definition items_of :: "string \<Rightarrow> (string \<times> json) list \<Rightarrow> exn + json list" where
  "items_of k d = iterate (value_or k (JList []) d)"

definition component_tokens :: "string \<Rightarrow> string list" where
  "component_tokens component =
     filter (\<lambda>t. 3 < length t) (py_words (replace_char (CHR ''-'') (CHR '' '') (replace_char (CHR ''/'') (CHR '' '') component)))"

definition component_ok :: "string \<Rightarrow> string \<Rightarrow> string \<Rightarrow> bool" where
  "component_ok gt_comp agent_comp agent_stmt \<longleftrightarrow>
     list_ex (\<lambda>t. contains t agent_comp \<or> contains t agent_stmt) (component_tokens gt_comp)"

definition fact_hit :: "string \<Rightarrow> string list \<Rightarrow> string \<Rightarrow> bool" where
  "fact_hit agent_stmt agent_facts gt_fact \<longleftrightarrow>
     list_ex (\<lambda>t. contains t agent_stmt \<or> list_ex (contains t) agent_facts)
       (filter (\<lambda>t. 4 < length t) (py_words gt_fact))"

definition facts_ok :: "string \<Rightarrow> string list \<Rightarrow> string list \<Rightarrow> bool" where
  "facts_ok agent_stmt agent_facts gt_facts \<longleftrightarrow>
     length gt_facts \<le> 2 * length (filter (fact_hit agent_stmt agent_facts) gt_facts)"

text \<open>The cited ids: \<open>ids\<close> and, when there are any, the members of \<open>set(ids)\<close>.\<close>

definition cited_ids :: "(string \<times> json) list \<Rightarrow> json" where
  "cited_ids rc = value_or ''evidence_ids'' (value_or ''supporting_evidence_ids'' (JList []) rc) rc"

definition id_set :: "json \<Rightarrow> exn + json list" where
  "id_set ids =
     (if \<not> truthy ids then Inr []
      else bind_sum (iterate ids) (\<lambda>xs. if list_all hashable xs then Inr xs else Inl (TypeError ''TypeError'')))"

definition evidence_bound :: "json list \<Rightarrow> EvidenceItem list \<Rightarrow> bool" where
  "evidence_bound ids valid \<longleftrightarrow> ids \<noteq> [] \<and> set ids \<subseteq> JStr ` ev_evidence_id ` set valid"

definition reaches :: "string \<Rightarrow> string list \<Rightarrow> EvidenceItem \<Rightarrow> bool" where
  "reaches expected_path markers e \<longleftrightarrow>
     (let observed = normalize_slashes (text_of ''path'' (ev_result e)); content = text_of ''content'' (ev_result e) in
      (expected_path = [] \<or> observed = expected_path \<or> ends_with (''/'' @ expected_path) observed)
      \<and> list_all (\<lambda>m. contains m content) markers)"

text \<open>One item for each cited id; of two items with an id the later one stands.\<close>

definition cited_items :: "json list \<Rightarrow> EvidenceItem list \<Rightarrow> EvidenceItem list" where
  "cited_items ids valid =
     map snd (dict_merge [] (map (\<lambda>e. (ev_evidence_id e, e)) (filter (\<lambda>e. JStr (ev_evidence_id e) \<in> set ids) valid)))"

definition citations_reach_injection :: "FaultGroundTruth \<Rightarrow> json list \<Rightarrow> EvidenceItem list \<Rightarrow> exn + bool" where
  "citations_reach_injection gt ids valid =
     (let injection = (case gt_injection_evidence gt of Some d \<Rightarrow> d | None \<Rightarrow> []) in
      bind_sum (items_of ''markers'' injection) (\<lambda>ms.
      let markers = map py_str ms in
      if ids = [] \<or> markers = [] then Inr False
      else Inr (list_ex (reaches (text_of ''path'' injection) markers) (cited_items ids valid))))"

record scores =
  sc_category_ok :: bool
  sc_component_ok :: bool
  sc_causal_facts_ok :: bool
  sc_evidence_bound :: bool
  sc_injection_hit :: bool
  sc_causal_facts_match :: bool
  sc_structured_ok :: bool

definition score_structured_root_cause ::
  "(string \<Rightarrow> string) \<Rightarrow> FaultGroundTruth \<Rightarrow> (string \<times> json) list \<Rightarrow> EvidenceItem list \<Rightarrow> ToolResult list
     \<Rightarrow> string \<Rightarrow> exn + scores" where
  "score_structured_root_cause sha gt rc evidence calls run_id =
     bind_sum (items_of ''causal_facts'' rc) (\<lambda>fs.
     let agent_facts = map (\<lambda>f. py_lower (py_str f)) fs;
         agent_stmt = py_lower (py_str (value_or ''summary'' (value_or ''statement'' (JStr []) rc) rc));
         category = category_matches (py_lower (gt_fault_category gt)) (py_lower (text_of ''fault_category'' rc));
         component = component_ok (py_lower (gt_affected_component gt)) (py_lower (text_of ''affected_component'' rc)) agent_stmt;
         facts = facts_ok agent_stmt agent_facts (map py_lower (gt_causal_facts gt));
         valid = valid_evidence sha evidence calls run_id in
     bind_sum (id_set (cited_ids rc)) (\<lambda>ids.
     bind_sum (citations_reach_injection gt ids valid) (\<lambda>injection.
     let bound = evidence_bound ids valid in
     Inr \<lparr>sc_category_ok = category, sc_component_ok = component, sc_causal_facts_ok = facts,
       sc_evidence_bound = bound, sc_injection_hit = injection, sc_causal_facts_match = facts,
       sc_structured_ok = category \<and> component \<and> facts \<and> bound\<rparr>)))"

section \<open>The fallback on keywords\<close>

definition is_alpha :: "char \<Rightarrow> bool" where
  "is_alpha c = (let n = of_char c :: nat in
     is_letter c \<or> n \<in> {170, 181, 186} \<or> 192 \<le> n \<and> n \<noteq> 215 \<and> n \<noteq> 247)"

definition cause_tokens :: "string \<Rightarrow> string list" where
  "cause_tokens expected = remdups (filter (\<lambda>t. 4 < length t \<and> list_all is_alpha t) (py_words expected))"

definition keyword_overlap :: "string \<Rightarrow> string \<Rightarrow> bool" where
  "keyword_overlap expected summary =
     (let tokens = cause_tokens expected in
      expected \<noteq> [] \<and> summary \<noteq> [] \<and> tokens \<noteq> []
      \<and> 35 * length tokens \<le> 100 * length (filter (\<lambda>t. contains t summary) tokens))"

definition score_root_cause :: "(string \<Rightarrow> string) \<Rightarrow> FaultGroundTruth \<Rightarrow> string \<Rightarrow> exn + bool" where
  "score_root_cause sha gt summary =
     bind_sum (score_structured_root_cause sha gt [(''summary'', JStr summary), (''evidence_ids'', JList [])] [] [] []) (\<lambda>s.
     Inr (sc_structured_ok s \<or> keyword_overlap (py_lower (gt_root_cause gt)) (py_lower summary)))"

end
