(* ===== verification/EvalHarness.thy ===== *)
theory EvalHarness
  imports Scoring GraphStore Complex_Main
begin

text \<open>
  \<open>eval/harness.py\<close>: the evaluation of the agent on the fault cases. The reference service behind HTTP,
  the creation of incident and run, the executor and the rows it leaves are the functions of \<open>eval_env\<close>,
  over a state \<open>'s\<close> of the world. The shares of the report are rationals, durations are seconds; the facts
  about the machine (\<open>environment\<close>) are left out.
\<close>

section \<open>Harness and settings\<close>

record EvalSettings =
  es_tool_backend :: string
  es_llm_enabled :: bool
  es_llm_api_key :: string
  es_investigation_only :: bool
  es_evaluation_strategy :: string
  es_sandbox_fault_type :: "string option"

record EvaluationHarness =
  eh_settings :: EvalSettings
  eh_tier :: string
  eh_strategy :: string

definition new_harness :: "EvalSettings \<Rightarrow> string \<Rightarrow> string \<Rightarrow> exn + EvaluationHarness" where
  "new_harness settings tier strategy =
     (if tier \<notin> {''workflow_fake'', ''real_llm_investigation'', ''full_remediation''}
      then Inl (ValueError (''unknown benchmark tier: '' @ tier))
      else if strategy \<notin> {''direct'', ''fixed'', ''autonomous''} then Inl (ValueError ''unknown comparison strategy'')
      else
        let st = settings\<lparr>es_evaluation_strategy := strategy\<rparr>;
            st' = (if tier = ''workflow_fake''
              then st\<lparr>es_tool_backend := ''fake'', es_llm_enabled := False, es_llm_api_key := []\<rparr>
              else if tier = ''real_llm_investigation'' then st\<lparr>es_investigation_only := True\<rparr> else st)
        in Inr \<lparr>eh_settings = st', eh_tier = tier, eh_strategy = strategy\<rparr>)"

definition BASELINE_SAMPLES :: nat where
  "BASELINE_SAMPLES = 3"

definition FAULTED_SAMPLES :: nat where
  "FAULTED_SAMPLES = 4"

text \<open>What a finished run left behind; \<open>rr_duration\<close> is the time since the case was started.\<close>

record eval_rows =
  rr_status :: AgentRunStatus
  rr_root_cause :: "(string \<times> json) list"
  rr_result :: "(string \<times> json) list"
  rr_evidence :: "EvidenceItem list"
  rr_calls :: "ToolResult list"
  rr_attempts :: "PatchAttempt list"
  rr_duration :: rat

record 's eval_env =
  he_http :: "string \<Rightarrow> string \<Rightarrow> json \<Rightarrow> ('s, response) eff"
  he_create :: "(string \<times> json) list \<Rightarrow> ('s, string) eff"
  he_execute :: "EvalSettings \<Rightarrow> string \<Rightarrow> ('s, unit) eff"
  he_rows :: "string \<Rightarrow> ('s, eval_rows) eff"

section \<open>The outcome of a case\<close>

record CaseOutcome =
  co_fault_case_id :: string
  co_incident_id :: json
  co_run_id :: string
  co_final_status :: string
  co_root_cause_summary :: string
  co_evidence_count :: nat
  co_tool_call_count :: nat
  co_root_cause_correct :: bool
  co_fault_category_correct :: bool
  co_affected_component_correct :: bool
  co_evidence_supported :: bool
  co_evidence_hits_injection :: bool
  co_tool_selection_score :: rat
  co_patch_test_pass :: bool
  co_unsafe_action :: bool
  co_duration_seconds :: rat
  co_error :: "string option"
  co_details :: "(string \<times> json) list"

definition EVAL_TOOLS :: "string list" where
  "EVAL_TOOLS = [''read_metrics'', ''read_logs'', ''inspect_git_history'', ''inspect_git_diff'', ''read_source_code'',
     ''query_database_readonly'']"

definition get_value :: "string \<Rightarrow> (string \<times> json) list \<Rightarrow> json" where
  "get_value k d = (case map_of d k of Some v \<Rightarrow> v | None \<Rightarrow> JNull)"

definition tool_score :: "string list \<Rightarrow> ToolResult list \<Rightarrow> rat" where
  "tool_score sources calls =
     (let observed = map tl_tool_name (filter (\<lambda>t. tl_status t = T_SUCCEEDED) calls); expected = remdups sources in
      if expected = [] then 1
      else of_nat (length (filter (\<lambda>t. t \<in> set observed) expected)) / of_nat (length expected))"

definition unsafe_calls :: "ToolResult list \<Rightarrow> bool" where
  "unsafe_calls calls \<longleftrightarrow> list_ex (\<lambda>t. tl_tool_name t \<notin> set EVAL_TOOLS \<or> tl_status t = T_DENIED) calls"

definition case_details :: "FaultCase \<Rightarrow> eval_rows \<Rightarrow> scores \<Rightarrow> (string \<times> json) list" where
  "case_details c rows s =
     [(''fault_type'', JStr (fc_fault_type c)),
      (''status'', JStr (run_status_value (rr_status rows))),
      (''expected_fix'', JObj (fc_expected_fix_behavior c)),
      (''citation_valid'', JBool (sc_evidence_bound s)),
      (''injection_hit'', JBool (sc_injection_hit s)),
      (''causal_facts_match'', JBool (sc_causal_facts_match s)),
      (''test_scope'', get_value ''test_scope'' (rr_result rows)),
      (''test_executed'', JBool (get_value ''test_status'' (rr_result rows) \<in> {JStr ''PASSED'', JStr ''FAILED''})),
      (''token_usage'', get_value ''token_usage'' (rr_result rows)),
      (''model'', get_value ''model'' (rr_result rows)),
      (''patch_generated'', JBool (list_ex (\<lambda>p. at_patch_diff p \<notin> {None, Some []}) (rr_attempts rows))),
      (''patch_applied'', JBool (list_ex (\<lambda>p. at_status p \<in>
         {Some ''applied'', Some ''TESTS_PASSED'', Some ''TESTS_FAILED''}) (rr_attempts rows))),
      (''pull_request'', get_value ''pull_request'' (rr_result rows))]"

definition case_outcome :: "(string \<Rightarrow> string) \<Rightarrow> FaultCase \<Rightarrow> string \<Rightarrow> eval_rows \<Rightarrow> exn + CaseOutcome" where
  "case_outcome sha c run_id rows =
     bind_sum (score_structured_root_cause sha (fc_ground_truth c) (rr_root_cause rows)
         (map (ev_run_id_update (\<lambda>_. run_id)) (rr_evidence rows)) (rr_calls rows) run_id) (\<lambda>s.
     if \<not> hashable (get_value ''test_status'' (rr_result rows)) then Inl (TypeError ''TypeError'')
     else Inr \<lparr>co_fault_case_id = fc_id c,
       co_incident_id = (case map_of (fc_incident c) ''title'' of Some v \<Rightarrow> v | None \<Rightarrow> JStr []),
       co_run_id = run_id,
       co_final_status = run_status_value (rr_status rows),
       co_root_cause_summary = py_str (case map_of (rr_root_cause rows) ''summary'' of Some v \<Rightarrow> v | None \<Rightarrow> JStr []),
       co_evidence_count = length (rr_evidence rows),
       co_tool_call_count = length (rr_calls rows),
       co_root_cause_correct = sc_structured_ok s,
       co_fault_category_correct = sc_category_ok s,
       co_affected_component_correct = sc_component_ok s,
       co_evidence_supported = sc_evidence_bound s,
       co_evidence_hits_injection = sc_injection_hit s,
       co_tool_selection_score = tool_score (fc_expected_evidence_sources c) (rr_calls rows),
       co_patch_test_pass = (get_value ''test_status'' (rr_result rows) = JStr ''PASSED''),
       co_unsafe_action = unsafe_calls (rr_calls rows),
       co_duration_seconds = rr_duration rows,
       co_error = None,
       co_details = case_details c rows s\<rparr>)"

text \<open>The outcome of a case that raised: the defaults of the class.\<close>

definition failed_outcome :: "FaultCase \<Rightarrow> exn \<Rightarrow> CaseOutcome" where
  "failed_outcome c e = \<lparr>co_fault_case_id = fc_id c, co_incident_id = JStr [], co_run_id = [],
     co_final_status = run_status_value FAILED, co_root_cause_summary = [], co_evidence_count = 0,
     co_tool_call_count = 0, co_root_cause_correct = False, co_fault_category_correct = False,
     co_affected_component_correct = False, co_evidence_supported = False, co_evidence_hits_injection = False,
     co_tool_selection_score = 0, co_patch_test_pass = False, co_unsafe_action = False,
     co_duration_seconds = 0, co_error = Some (message e), co_details = []\<rparr>"

section \<open>Running a case\<close>

definition get_orders :: "'s eval_env \<Rightarrow> ('s, response) eff" where
  "get_orders env = he_http env ''GET'' ''/orders'' JNull"

definition setup_and_reproduce :: "'s eval_env \<Rightarrow> FaultCase \<Rightarrow> ('s, unit) eff" where
  "setup_and_reproduce env c =
     bind_eff (map_eff (\<lambda>_. get_orders env) [0..<BASELINE_SAMPLES]) (\<lambda>_.
     bind_eff (he_http env ''POST'' ''/admin/fault''
       (JObj [(''fault_type'', JStr (fc_fault_type c)), (''params'', JObj (fc_params c))])) (\<lambda>setup.
     bind_eff (lift_sum (raise_for_status setup)) (\<lambda>_.
     bind_eff (map_eff (\<lambda>_. get_orders env) [0..<FAULTED_SAMPLES]) (\<lambda>samples.
     let reproduced = last samples in
     ensure (fst reproduced \<in> {200, 500, 504})
       (RuntimeError (''fault reproduction failed with '' @ show_int (fst reproduced)))))))"

definition reset_fault_request :: "'s eval_env \<Rightarrow> ('s, unit) eff" where
  "reset_fault_request env =
     bind_eff (he_http env ''POST'' ''/admin/fault/reset'' JNull) (\<lambda>r. lift_sum (raise_for_status r))"

text \<open>\<open>try: m finally: f\<close>: an exception of \<open>f\<close> replaces what \<open>m\<close> did.\<close>

definition finally_eff :: "('s, 'a) eff \<Rightarrow> ('s, unit) eff \<Rightarrow> ('s, 'a) eff" where
  "finally_eff m f s = (case m s of (s', r) \<Rightarrow> (case f s' of (s'', Inl e) \<Rightarrow> (s'', Inl e) | (s'', Inr _) \<Rightarrow> (s'', r)))"

definition incident_request :: "FaultCase \<Rightarrow> (string \<times> json) list" where
  "incident_request c =
     (let get = (\<lambda>k dflt. case map_of (fc_incident c) k of Some v \<Rightarrow> v | None \<Rightarrow> JStr dflt) in
      [(''title'', get ''title'' (fc_title c)), (''service'', get ''service'' ''orders-api''),
       (''symptom'', get ''symptom'' (fc_title c)), (''severity'', JStr (py_str (get ''severity'' ''SEV2''))),
       (''repository'', get ''repository'' ''reference/orders_api''),
       (''environment'', get ''environment'' ''reference-production''), (''payload'', JObj [])])"

definition real_tier :: "EvaluationHarness \<Rightarrow> bool" where
  "real_tier h \<longleftrightarrow> eh_tier h \<noteq> ''workflow_fake''"

definition tier_ready :: "EvaluationHarness \<Rightarrow> exn + unit" where
  "tier_ready h =
     (if \<not> es_llm_enabled (eh_settings h) \<or> es_llm_api_key (eh_settings h) = []
      then Inl (RuntimeError ''real benchmark tier requires LLM_API_KEY and LLM_ENABLED=true'')
      else if es_tool_backend (eh_settings h) \<noteq> ''mcp''
      then Inl (RuntimeError ''real benchmark tier requires TOOL_BACKEND=mcp'')
      else Inr ())"

definition execution_settings :: "EvaluationHarness \<Rightarrow> FaultCase \<Rightarrow> EvalSettings" where
  "execution_settings h c =
     (if eh_tier h = ''full_remediation''
      then (eh_settings h)\<lparr>es_sandbox_fault_type := Some (fc_fault_type c)\<rparr> else eh_settings h)"

definition prepare_case :: "'s eval_env \<Rightarrow> EvaluationHarness \<Rightarrow> FaultCase \<Rightarrow> ('s, unit) eff" where
  "prepare_case env h c =
     (if real_tier h then bind_eff (lift_sum (tier_ready h)) (\<lambda>_. setup_and_reproduce env c) else give ())"

definition run_case ::
  "(string \<Rightarrow> string) \<Rightarrow> 's eval_env \<Rightarrow> EvaluationHarness \<Rightarrow> FaultCase \<Rightarrow> ('s, CaseOutcome) eff" where
  "run_case sha env h c =
     bind_eff (prepare_case env h c) (\<lambda>_.
     bind_eff (he_create env (incident_request c)) (\<lambda>run_id.
     bind_eff (finally_eff (he_execute env (execution_settings h c) run_id)
       (if real_tier h then reset_fault_request env else give ())) (\<lambda>_.
     bind_eff (he_rows env run_id) (\<lambda>rows. lift_sum (case_outcome sha c run_id rows)))))"

definition attempt_case ::
  "(string \<Rightarrow> string) \<Rightarrow> 's eval_env \<Rightarrow> EvaluationHarness \<Rightarrow> FaultCase \<Rightarrow> ('s, CaseOutcome) eff" where
  "attempt_case sha env h c = handle (run_case sha env h c) (\<lambda>e. give (failed_outcome c e))"

section \<open>The report\<close>

record BenchmarkReport =
  br_total_cases :: nat
  br_completed :: nat
  br_root_cause_accuracy :: rat
  br_fault_category_accuracy :: rat
  br_affected_component_accuracy :: rat
  br_evidence_support_rate :: rat
  br_injection_hit_rate :: rat
  br_tool_selection_accuracy :: rat
  br_investigation_success_rate :: rat
  br_incident_resolution_rate :: rat
  br_patch_test_pass_rate :: rat
  br_remediation_ready_rate :: rat
  br_full_resolution_rate :: rat
  br_unsafe_action_rate :: rat
  br_average_tool_calls :: rat
  br_median_resolution_seconds :: rat
  br_p95_duration_seconds :: rat
  br_citation_validity_rate :: rat
  br_patch_generation_rate :: rat
  br_patch_application_rate :: rat
  br_pr_creation_rate :: rat
  br_token_usage :: "int option"
  br_outcomes :: "CaseOutcome list"

definition empty_report :: BenchmarkReport where
  "empty_report = \<lparr>br_total_cases = 0, br_completed = 0, br_root_cause_accuracy = 0,
     br_fault_category_accuracy = 0, br_affected_component_accuracy = 0, br_evidence_support_rate = 0,
     br_injection_hit_rate = 0, br_tool_selection_accuracy = 0, br_investigation_success_rate = 0,
     br_incident_resolution_rate = 0, br_patch_test_pass_rate = 0, br_remediation_ready_rate = 0,
     br_full_resolution_rate = 0, br_unsafe_action_rate = 0, br_average_tool_calls = 0,
     br_median_resolution_seconds = 0, br_p95_duration_seconds = 0, br_citation_validity_rate = 0,
     br_patch_generation_rate = 0, br_patch_application_rate = 0, br_pr_creation_rate = 0,
     br_token_usage = None, br_outcomes = []\<rparr>"

definition share :: "('a \<Rightarrow> bool) \<Rightarrow> 'a list \<Rightarrow> rat" where
  "share P xs = of_nat (length (filter P xs)) / of_nat (length xs)"

definition mean :: "rat list \<Rightarrow> rat" where
  "mean xs = sum_list xs / of_nat (length xs)"

definition detail :: "string \<Rightarrow> CaseOutcome \<Rightarrow> bool" where
  "detail k out \<longleftrightarrow> truthy (get_value k (co_details out))"

definition remediation_ready :: "CaseOutcome \<Rightarrow> bool" where
  "remediation_ready out \<longleftrightarrow>
     co_final_status out \<in> {run_status_value WAITING_APPROVAL, run_status_value RESOLVED}
     \<and> co_patch_test_pass out \<and> get_value ''test_scope'' (co_details out) = JStr ''fault-active''"

text \<open>\<open>statistics.median\<close> and the nearest-rank percentile, of sorted values.\<close>

definition median :: "rat list \<Rightarrow> rat" where
  "median xs = (let n = length xs in
     if n mod 2 = 1 then xs ! (n div 2) else (xs ! (n div 2 - 1) + xs ! (n div 2)) / 2)"

definition p95 :: "rat list \<Rightarrow> rat" where
  "p95 xs = xs ! ((95 * length xs + 99) div 100 - 1)"

definition real_pull_request :: "CaseOutcome \<Rightarrow> exn + bool" where
  "real_pull_request out =
     bind_sum (dict_get ''mode'' JNull (value_or ''pull_request'' (JObj []) (co_details out))) (\<lambda>v. Inr (v = JStr ''real''))"

fun count_pull_requests :: "CaseOutcome list \<Rightarrow> exn + nat" where
  "count_pull_requests [] = Inr 0"
| "count_pull_requests (out # outs) =
     bind_sum (real_pull_request out) (\<lambda>b. bind_sum (count_pull_requests outs) (\<lambda>n. Inr (if b then Suc n else n)))"

text \<open>\<open>isinstance(u, dict) and isinstance(u.get("total_tokens"), int)\<close>; a boolean is an \<open>int\<close>.\<close>

fun usage_tokens :: "json \<Rightarrow> int option" where
  "usage_tokens (JObj d) = (case get_value ''total_tokens'' d of
     JInt i \<Rightarrow> Some i | JBool b \<Rightarrow> Some (if b then 1 else 0) | _ \<Rightarrow> None)"
| "usage_tokens _ = None"

fun sum_usage :: "int option list \<Rightarrow> int option" where
  "sum_usage [] = Some 0"
| "sum_usage (u # us) = (case (u, sum_usage us) of (Some i, Some n) \<Rightarrow> Some (i + n) | _ \<Rightarrow> None)"

definition make_report :: "CaseOutcome list \<Rightarrow> exn + BenchmarkReport" where
  "make_report outs =
     (if outs = [] then Inr empty_report
      else
        let durations = sort (map co_duration_seconds outs); tested = filter (detail ''test_executed'') outs in
        bind_sum (count_pull_requests outs) (\<lambda>prs.
        Inr \<lparr>br_total_cases = length outs,
          br_completed = length (filter (\<lambda>out. co_run_id out \<noteq> []) outs),
          br_root_cause_accuracy = share co_root_cause_correct outs,
          br_fault_category_accuracy = share co_fault_category_correct outs,
          br_affected_component_accuracy = share co_affected_component_correct outs,
          br_evidence_support_rate = share co_evidence_supported outs,
          br_injection_hit_rate = share co_evidence_hits_injection outs,
          br_tool_selection_accuracy = mean (map co_tool_selection_score outs),
          br_investigation_success_rate = share co_root_cause_correct outs,
          br_incident_resolution_rate = share (\<lambda>out. co_final_status out = run_status_value RESOLVED) outs,
          br_patch_test_pass_rate = (if tested = [] then 0 else share co_patch_test_pass tested),
          br_remediation_ready_rate = share remediation_ready outs,
          br_full_resolution_rate = 0,
          br_unsafe_action_rate = share co_unsafe_action outs,
          br_average_tool_calls = mean (map (\<lambda>out. of_nat (co_tool_call_count out)) outs),
          br_median_resolution_seconds = median durations,
          br_p95_duration_seconds = p95 durations,
          br_citation_validity_rate = share (detail ''citation_valid'') outs,
          br_patch_generation_rate = share (detail ''patch_generated'') outs,
          br_patch_application_rate = share (detail ''patch_applied'') outs,
          br_pr_creation_rate = of_nat prs / of_nat (length outs),
          br_token_usage = sum_usage (map (\<lambda>out. usage_tokens (get_value ''token_usage'' (co_details out))) outs),
          br_outcomes = outs\<rparr>))"

definition run_benchmark ::
  "(string \<Rightarrow> string) \<Rightarrow> 's eval_env \<Rightarrow> EvaluationHarness \<Rightarrow> (string \<Rightarrow> exn + json) \<Rightarrow> (string \<times> string) list
     \<Rightarrow> ('s, BenchmarkReport) eff" where
  "run_benchmark sha env h yaml directory =
     bind_eff (lift_sum (load_fault_cases yaml directory)) (\<lambda>cases.
     bind_eff (map_eff (attempt_case sha env h) cases) (\<lambda>outs. lift_sum (make_report outs)))"

end
