(* ===== verification/OrdersApi.thy ===== *)
theory OrdersApi
  imports OpsServer Complex_Main
begin

text \<open>
  The reference service \<open>reference/orders_api\<close> (\<open>app.py\<close>, \<open>faults.py\<close>, \<open>metrics.py\<close>): the orders listing with its
  injected faults, the counters and the structured log the agent investigates. The fault, the counters and
  the log are process state, threaded through every request; \<open>oa_slept\<close> sums up what \<open>time.sleep\<close> waited, in
  seconds. The tables are SQLite's, in the order of their rows. A histogram keeps the number of its
  observations. A request to set a fault carries its \<open>params\<close> as an object; the body of the answer to an
  invalid query parameter is shortened.
\<close>

section \<open>Tables\<close>

record Customer =
  cu_id :: int
  cu_name :: string

record OrderItem =
  oi_id :: int
  oi_order_id :: int
  oi_sku :: string
  oi_qty :: int
  oi_price_cents :: int

record Order =
  or_id :: int
  or_customer_id :: int
  or_status :: string
  or_total_cents :: int
  or_created_at :: string

record OrderOut =
  oo_id :: int
  oo_customer_id :: int
  oo_status :: string
  oo_total_cents :: int
  oo_created_at :: string
  oo_items :: "json list"

record orders_db =
  od_customers :: "Customer list"
  od_orders :: "Order list"
  od_items :: "OrderItem list"

definition next_id :: "int list \<Rightarrow> int" where
  "next_id ids = 1 + fold max ids 0"

definition add_order :: "(int \<Rightarrow> string) \<Rightarrow> int \<Rightarrow> orders_db \<Rightarrow> orders_db" where
  "add_order now i d =
     (let oid = next_id (map or_id (od_orders d)) in
      d\<lparr>od_orders := od_orders d @ [\<lparr>or_id = oid, or_customer_id = (if i mod 2 \<noteq> 0 then 1 else 2),
           or_status = ''created'', or_total_cents = i * 1000, or_created_at = now i\<rparr>],
        od_items := od_items d @ [\<lparr>oi_id = next_id (map oi_id (od_items d)), oi_order_id = oid,
           oi_sku = ''SKU-'' @ show_int i, oi_qty = 1, oi_price_cents = 1000\<rparr>]\<rparr>)"

definition seed :: "(int \<Rightarrow> string) \<Rightarrow> orders_db \<Rightarrow> orders_db" where
  "seed now d =
     (if od_customers d \<noteq> [] then d
      else fold (add_order now) [1, 2, 3, 4, 5, 6, 7]
        (d\<lparr>od_customers := [\<lparr>cu_id = 1, cu_name = ''alice''\<rparr>, \<lparr>cu_id = 2, cu_name = ''bob''\<rparr>]\<rparr>))"

section \<open>Faults\<close>

record fault_state =
  fs_fault_type :: "string option"
  fs_params :: "(string \<times> json) list"
  fs_case_id :: json

definition no_fault :: fault_state where
  "no_fault = \<lparr>fs_fault_type = None, fs_params = [], fs_case_id = JNull\<rparr>"

text \<open>\<open>float(v)\<close>; a string is read in the notation of JSON, with a sign.\<close>

fun py_float :: "json \<Rightarrow> exn + json" where
  "py_float (JInt i) = Inr (norm_float i 0)"
| "py_float (JFloat m k) = Inr (JFloat m k)"
| "py_float (JBool b) = Inr (norm_float (if b then 1 else 0) 0)"
| "py_float (JStr s) =
     (let t = py_strip s in
      case parse_number (if prefix ''+'' t \<and> \<not> prefix ''+-'' t then tl t else t) of
        Some (JInt i, []) \<Rightarrow> Inr (norm_float i 0)
      | Some (v, []) \<Rightarrow> Inr v
      | _ \<Rightarrow> Inl (ValueError ''could not convert string to float''))"
| "py_float v = Inl (TypeError ''TypeError'')"

definition param :: "string \<Rightarrow> json \<Rightarrow> (string \<times> json) list \<Rightarrow> json" where
  "param k dflt params = (case map_of params k of Some v \<Rightarrow> v | None \<Rightarrow> dflt)"

type_synonym fault_handler = "(string \<times> json) list \<Rightarrow> exn + (string \<times> json) list"

definition entry :: "string \<Rightarrow> exn + json \<Rightarrow> exn + (string \<times> json) list" where
  "entry k r = (case r of Inl e \<Rightarrow> Inl e | Inr v \<Rightarrow> Inr [(k, v)])"

definition float_fault :: "string \<Rightarrow> json \<Rightarrow> fault_handler" where
  "float_fault k dflt params = entry k (py_float (param k dflt params))"

definition plain_fault :: "string \<Rightarrow> json \<Rightarrow> fault_handler" where
  "plain_fault k dflt params = Inr [(k, param k dflt params)]"

definition RESPONSE_FAULTS :: "string list" where
  "RESPONSE_FAULTS = [''pagination_off_by_one'', ''duplicate_orders'', ''missing_items'', ''wrong_customer'',
     ''wrong_total'', ''reversed_orders'', ''hidden_orders'', ''invalid_status'', ''inflated_price'']"

definition HANDLERS :: "(string \<times> fault_handler) list" where
  "HANDLERS =
     [(''n_plus_one_query'', float_fault ''per_row_delay'' (JFloat 5 2)),
      (''slow_database_query'', float_fault ''delay_seconds'' (JFloat 5 1)),
      (''null_exception'', plain_fault ''error_message'' (JStr ''null pointer in order serializer'')),
      (''missing_index'', float_fault ''per_row_delay'' (JFloat 3 2)),
      (''dependency_timeout'', float_fault ''delay_seconds'' (JFloat 12 1)),
      (''schema_mismatch'', plain_fault ''missing_field'' (JStr ''total_cents'')),
      (''incorrect_configuration'', \<lambda>params.
         entry ''max_limit'' (case py_int (param ''max_limit'' (JInt 1) params) of Inl e \<Rightarrow> Inl e | Inr i \<Rightarrow> Inr (JInt i))),
      (''bad_query_refactor'', float_fault ''per_row_delay'' (JFloat 4 2)),
      (''connection_pool_exhaustion'', float_fault ''delay_seconds'' (JFloat 8 1)),
      (''cache_failure'', float_fault ''per_row_delay'' (JFloat 2 2)),
      (''bad_code_commit'', plain_fault ''error_message'' (JStr ''regression in serializer''))]
     @ map (\<lambda>name. (name, \<lambda>params. Inr params)) RESPONSE_FAULTS"

definition apply_fault ::
  "string \<Rightarrow> (string \<times> json) list \<Rightarrow> json \<Rightarrow> (fault_state, json) eff" where
  "apply_fault fault_type params case_id fs =
     (case map_of HANDLERS fault_type of
        None \<Rightarrow> (fs, Inl (ValueError (''unknown/unregistered fault_type: '' @ fault_type)))
      | Some setup \<Rightarrow> (case setup params of
          Inl e \<Rightarrow> (fs, Inl e)
        | Inr resolved \<Rightarrow>
            (\<lparr>fs_fault_type = Some fault_type, fs_params = resolved, fs_case_id = case_id\<rparr>,
             Inr (JObj [(''fault_type'', JStr fault_type), (''params'', JObj resolved), (''case_id'', case_id)]))))"

section \<open>Counters\<close>

record metrics =
  mt_requests :: "((string \<times> string \<times> string) \<times> nat) list"
  mt_errors :: "((string \<times> string) \<times> nat) list"
  mt_durations :: "(string \<times> nat) list"
  mt_db :: "(string \<times> nat) list"

definition reset_metrics :: metrics where
  "reset_metrics = \<lparr>mt_requests = [], mt_errors = [], mt_durations = [], mt_db = []\<rparr>"

fun bump :: "'k \<Rightarrow> ('k \<times> nat) list \<Rightarrow> ('k \<times> nat) list" where
  "bump k [] = [(k, 1)]"
| "bump k ((k', n) # rest) = (if k' = k then (k', Suc n) # rest else (k', n) # bump k rest)"

definition observe_request :: "string \<Rightarrow> string \<Rightarrow> int \<Rightarrow> metrics \<Rightarrow> metrics" where
  "observe_request endpoint http_method status m =
     (let m' = m\<lparr>mt_requests := bump (http_method, endpoint, show_int status) (mt_requests m),
                mt_durations := bump endpoint (mt_durations m)\<rparr> in
      if 400 \<le> status then m'\<lparr>mt_errors := bump (endpoint, ''http_'' @ show_int status) (mt_errors m')\<rparr> else m')"

definition observe_db :: "string \<Rightarrow> metrics \<Rightarrow> metrics" where
  "observe_db operation m = m\<lparr>mt_db := bump operation (mt_db m)\<rparr>"

section \<open>The state of the service\<close>

record orders_app =
  oa_db :: orders_db
  oa_fault :: fault_state
  oa_metrics :: metrics
  oa_slept :: rat
  oa_log :: "string list"

type_synonym 'a orders_eff = "(orders_app, 'a) eff"

definition put_metrics :: "(metrics \<Rightarrow> metrics) \<Rightarrow> unit orders_eff" where
  "put_metrics f st = (st\<lparr>oa_metrics := f (oa_metrics st)\<rparr>, Inr ())"

definition put_log :: "string list \<Rightarrow> unit orders_eff" where
  "put_log lines st = (st\<lparr>oa_log := oa_log st @ lines\<rparr>, Inr ())"

fun seconds_of :: "json \<Rightarrow> rat" where
  "seconds_of (JFloat m k) = of_int m / 10 ^ k"
| "seconds_of _ = 0"

text \<open>\<open>time.sleep(float(v))\<close>.\<close>

definition sleep_for :: "json \<Rightarrow> unit orders_eff" where
  "sleep_for v =
     bind_eff (lift_sum (py_float v)) (\<lambda>f st.
       if seconds_of f < 0 then (st, Inl (ValueError ''sleep length must be non-negative''))
       else (st\<lparr>oa_slept := oa_slept st + seconds_of f\<rparr>, Inr ()))"

section \<open>The listing\<close>

definition DELAY_FAULTS :: "string list" where
  "DELAY_FAULTS = [''slow_database_query'', ''dependency_timeout'', ''connection_pool_exhaustion'']"

definition ROW_FAULTS :: "string list" where
  "ROW_FAULTS = [''n_plus_one_query'', ''missing_index'', ''bad_query_refactor'', ''cache_failure'']"

definition sql_limit :: "int \<Rightarrow> 'a list \<Rightarrow> 'a list" where
  "sql_limit n xs = (if n < 0 then xs else take (nat n) xs)"

text \<open>\<open>xs[:n]\<close>.\<close>

definition slice_to :: "int \<Rightarrow> 'a list \<Rightarrow> 'a list" where
  "slice_to n xs = (if n < 0 then take (nat (int (length xs) + n)) xs else take (nat n) xs)"

definition items_of_order :: "orders_db \<Rightarrow> int \<Rightarrow> json list" where
  "items_of_order d oid =
     map (\<lambda>it. JObj [(''sku'', JStr (oi_sku it)), (''qty'', JInt (oi_qty it)), (''price_cents'', JInt (oi_price_cents it))])
       (filter (\<lambda>it. oi_order_id it = oid) (od_items d))"

definition order_out :: "orders_db \<Rightarrow> Order \<Rightarrow> OrderOut" where
  "order_out d ord = \<lparr>oo_id = or_id ord, oo_customer_id = or_customer_id ord, oo_status = or_status ord,
     oo_total_cents = or_total_cents ord, oo_created_at = or_created_at ord,
     oo_items = items_of_order d (or_id ord)\<rparr>"

text \<open>The body of the loop over the orders.\<close>

definition load_order :: "string \<Rightarrow> (string \<times> json) list \<Rightarrow> orders_db \<Rightarrow> Order \<Rightarrow> OrderOut orders_eff" where
  "load_order ftype params d ord =
     bind_eff (put_metrics (observe_db ''select_items_per_order'')) (\<lambda>_.
     bind_eff (if ftype \<in> set ROW_FAULTS then sleep_for (param ''per_row_delay'' (JFloat 3 2) params) else give ()) (\<lambda>_.
     bind_eff (ensure (ftype \<noteq> ''schema_mismatch'')
       (OtherError (''missing field '' @ py_str (param ''missing_field'' JNull params)))) (\<lambda>_.
     give (order_out d ord))))"

definition respond :: "string \<Rightarrow> OrderOut list \<Rightarrow> OrderOut list" where
  "respond ftype result =
     (if ftype = ''pagination_off_by_one'' then butlast result
      else if ftype = ''duplicate_orders'' then result @ result
      else if ftype = ''missing_items'' then map (oo_items_update (\<lambda>_. [])) result
      else if ftype = ''wrong_customer'' then map (oo_customer_id_update (\<lambda>_. 999)) result
      else if ftype = ''wrong_total'' then map (oo_total_cents_update (\<lambda>_. - 1)) result
      else if ftype = ''reversed_orders'' then rev result
      else if ftype = ''hidden_orders'' then []
      else if ftype = ''invalid_status'' then map (oo_status_update (\<lambda>_. ''unknown'')) result
      else if ftype = ''inflated_price'' then map (oo_total_cents_update (\<lambda>t. t * 100)) result
      else result)"

text \<open>What happens between the query and the loop: the delay, the two exceptions and the page.\<close>

definition fault_gate :: "string \<Rightarrow> (string \<times> json) list \<Rightarrow> Order list \<Rightarrow> (Order list) orders_eff" where
  "fault_gate ftype params orders =
     bind_eff (if ftype \<in> set DELAY_FAULTS then sleep_for (param ''delay_seconds'' (JFloat 5 1) params) else give ()) (\<lambda>_.
     bind_eff (ensure (ftype \<noteq> ''bad_code_commit'')
       (ValueError (py_str (param ''error_message'' (JStr ''serializer regression'') params)))) (\<lambda>_.
     bind_eff (ensure (ftype \<noteq> ''null_exception'')
       (RuntimeError (py_str (param ''error_message'' (JStr ''null pointer in order serializer'') params)))) (\<lambda>_.
     if ftype = ''incorrect_configuration''
     then bind_eff (lift_sum (py_int (param ''max_limit'' (JInt 1) params))) (\<lambda>n. give (slice_to n orders))
     else give orders)))"

definition load_orders :: "int \<Rightarrow> (OrderOut list) orders_eff" where
  "load_orders limit st =
     (let d = oa_db st; ftype = (case fs_fault_type (oa_fault st) of Some t \<Rightarrow> t | None \<Rightarrow> []);
          params = fs_params (oa_fault st) in
      bind_eff (put_metrics (observe_db ''select_orders'')) (\<lambda>_.
      bind_eff (fault_gate ftype params (sql_limit limit (od_orders d))) (\<lambda>orders.
      bind_eff (map_eff (load_order ftype params d) orders) (\<lambda>result.
      give (respond ftype result)))) st)"

section \<open>Requests\<close>

datatype orders_request =
    Health
  | PrometheusMetrics
  | MetricsJson
  | SetFault json "(string \<times> json) list" json
  | ResetFault
  | ListOrders int
  | GetOrder int

fun req_method :: "orders_request \<Rightarrow> string" where
  "req_method (SetFault t p c) = ''POST''"
| "req_method ResetFault = ''POST''"
| "req_method _ = ''GET''"

fun req_path :: "orders_request \<Rightarrow> string" where
  "req_path Health = ''/health''"
| "req_path PrometheusMetrics = ''/metrics''"
| "req_path MetricsJson = ''/metrics/json''"
| "req_path (SetFault t p c) = ''/admin/fault''"
| "req_path ResetFault = ''/admin/fault/reset''"
| "req_path (ListOrders n) = ''/orders''"
| "req_path (GetOrder i) = ''/orders/'' @ show_int i"

text \<open>What a request takes from outside: its latency, the id and the traceback an error is logged with, and
  the samples of the client library.\<close>

record request_info =
  ri_latency_ms :: json
  ri_request_id :: string
  ri_traceback :: "exn \<Rightarrow> string list"
  ri_samples :: "metrics \<Rightarrow> json"

definition order_json :: "OrderOut \<Rightarrow> json" where
  "order_json out = JObj [(''id'', JInt (oo_id out)), (''customer_id'', JInt (oo_customer_id out)),
     (''status'', JStr (oo_status out)), (''total_cents'', JInt (oo_total_cents out)),
     (''created_at'', JStr (oo_created_at out)), (''items'', JList (oo_items out))]"

definition problem :: "int \<Rightarrow> string \<Rightarrow> response" where
  "problem status detail = (status, Some (JObj [(''detail'', JStr detail)]))"

text \<open>\<open>type(exc).__name__\<close> of what the listing raises: of the other exceptions it has only the \<open>KeyError\<close>.\<close>

fun type_name :: "exn \<Rightarrow> string" where
  "type_name (ValueError m) = ''ValueError''"
| "type_name (TypeError m) = ''TypeError''"
| "type_name (RuntimeError m) = ''RuntimeError''"
| "type_name _ = ''KeyError''"

definition error_event :: "request_info \<Rightarrow> exn \<Rightarrow> json" where
  "error_event info e = JObj [(''event'', JStr ''orders_list_error''), (''error_type'', JStr (type_name e)),
     (''request_id'', JStr (ri_request_id info))]"

definition list_orders :: "request_info \<Rightarrow> int \<Rightarrow> response orders_eff" where
  "list_orders info limit =
     (if 200 < limit then give (problem 422 ''limit'')
      else handle (bind_eff (load_orders limit) (\<lambda>result. give (200, Some (JList (map order_json result)))))
        (\<lambda>e. bind_eff (put_log (dumps (error_event info e) # ri_traceback info e)) (\<lambda>_.
          give (problem 500 ''orders listing failed''))))"

definition get_order :: "int \<Rightarrow> response orders_eff" where
  "get_order oid st =
     (st, Inr (case sql_first (\<lambda>ord. or_id ord = oid) (od_orders (oa_db st)) of
        None \<Rightarrow> problem 404 ''order not found''
      | Some ord \<Rightarrow> (200, Some (order_json (order_out (oa_db st) ord)))))"

text \<open>The counters are reset before the fault is looked up.\<close>

definition set_fault :: "json \<Rightarrow> (string \<times> json) list \<Rightarrow> json \<Rightarrow> response orders_eff" where
  "set_fault fault_type params case_id =
     (if \<not> truthy fault_type then give (problem 400 ''fault_type required'')
      else bind_eff (put_metrics (\<lambda>_. reset_metrics)) (\<lambda>_ st.
        case fault_type of
          JStr t \<Rightarrow> (case apply_fault t params case_id (oa_fault st) of
            (fs, Inr v) \<Rightarrow> (st\<lparr>oa_fault := fs\<rparr>, Inr (200, Some v))
          | (fs, Inl e) \<Rightarrow> (st, if is_ValueError e then Inr (problem 400 (message e)) else Inl e))
        | JList _ \<Rightarrow> (st, Inl (TypeError ''TypeError''))
        | JObj _ \<Rightarrow> (st, Inl (TypeError ''TypeError''))
        | v \<Rightarrow> (st, Inr (problem 400 (''unknown/unregistered fault_type: '' @ py_str v)))))"

definition reset_fault :: "response orders_eff" where
  "reset_fault st = (st\<lparr>oa_fault := no_fault\<rparr>, Inr (200, Some (JObj [(''status'', JStr ''reset'')])))"

fun handler_of :: "request_info \<Rightarrow> orders_request \<Rightarrow> response orders_eff" where
  "handler_of info Health = give (200, Some (JObj [(''status'', JStr ''ok'')]))"
| "handler_of info PrometheusMetrics = give (200, None)"
| "handler_of info MetricsJson = (\<lambda>st. (st, Inr (200, Some (JObj [(''service'', JStr ''orders-api''),
     (''metrics'', ri_samples info (oa_metrics st)), (''source'', JStr ''prometheus_client_registry'')]))))"
| "handler_of info (SetFault t p c) = set_fault t p c"
| "handler_of info ResetFault = reset_fault"
| "handler_of info (ListOrders n) = list_orders info n"
| "handler_of info (GetOrder i) = get_order i"

definition request_event :: "request_info \<Rightarrow> orders_request \<Rightarrow> int \<Rightarrow> json" where
  "request_event info req status = JObj [(''event'', JStr ''http_request''), (''path'', JStr (req_path req)),
     (''method'', JStr (req_method req)), (''status'', JInt status), (''latency_ms'', ri_latency_ms info)]"

text \<open>The middleware around a handler; an exception that leaves the handler is a response 500 of the server.\<close>

definition serve :: "request_info \<Rightarrow> orders_request \<Rightarrow> orders_app \<Rightarrow> orders_app \<times> response" where
  "serve info req st =
     (case handler_of info req st of (st', r) \<Rightarrow>
        let resp = (case r of Inl e \<Rightarrow> (500, None) | Inr v \<Rightarrow> v) in
        (st'\<lparr>oa_metrics := observe_request (req_path req) (req_method req) (fst resp) (oa_metrics st'),
             oa_log := oa_log st' @ [dumps (request_event info req (fst resp))]\<rparr>, resp))"

fun serve_all :: "(request_info \<times> orders_request) list \<Rightarrow> orders_app \<Rightarrow> orders_app \<times> response list" where
  "serve_all [] st = (st, [])"
| "serve_all ((info, req) # reqs) st =
     (case serve info req st of (st', r) \<Rightarrow> case serve_all reqs st' of (st'', rs) \<Rightarrow> (st'', r # rs))"

end
