(* ===== verification/EvalProps.thy ===== *)
theory EvalProps
  imports EvalHarness OrdersApi
begin

text \<open>
  Facts of the evaluation: what a score rests on, that the agent's world does not depend on the ground
  truth, and what the numbers of a report mean.
\<close>

lemma bind_sum_Inr [simp]: "bind_sum r f = Inr y \<longleftrightarrow> (\<exists>x. r = Inr x \<and> f x = Inr y)"
  by (auto simp: bind_sum_def split: sum.splits)

section \<open>Scores\<close>

lemma dict_merge_values: "snd ` set (dict_merge a b) \<subseteq> snd ` set a \<union> snd ` set b"
proof (induction b arbitrary: a)
  case Nil
  then show ?case by simp
next
  case (Cons kv b)
  obtain k v where kv: "kv = (k, v)" by (cases kv)
  have "set (dict_set k v a) \<subseteq> insert (k, v) (set a)"
  proof (induction a)
    case (Cons kv a)
    then show ?case by (cases kv) auto
  qed simp
  then have "snd ` set (dict_set k v a) \<subseteq> insert v (snd ` set a)" by force
  with Cons.IH [of "dict_set k v a"] show ?case unfolding kv by auto
qed

lemma cited_items_member:
  "e \<in> set (cited_items ids valid) \<Longrightarrow> e \<in> set valid \<and> JStr (ev_evidence_id e) \<in> set ids"
  using dict_merge_values [of "[]" "map (\<lambda>e. (ev_evidence_id e, e)) (filter (\<lambda>e. JStr (ev_evidence_id e) \<in> set ids) valid)"]
  by (auto simp: cited_items_def)

lemma backed_call:
  assumes "backed sha calls run_id e"
  shows "\<exists>c \<in> set calls. tl_tool_call_id c = ev_tool_call_id e \<and> tl_status c = T_SUCCEEDED
    \<and> same_dict (ev_result e) (tl_output c) \<and> ev_hash e = content_hash sha (ev_result e)"
  using assms successful_call_mem [of calls "ev_tool_call_id e"]
  by (auto simp: backed_def split: option.splits)

text \<open>An observation of the run: an item of the evidence that a successful call returned.\<close>

definition observed :: "(string \<Rightarrow> string) \<Rightarrow> ToolResult list \<Rightarrow> string \<Rightarrow> EvidenceItem list \<Rightarrow> EvidenceItem set" where
  "observed sha calls run_id evidence =
     {e \<in> set evidence. ev_run_id e = run_id \<and> ev_hash e = content_hash sha (ev_result e)
        \<and> (\<exists>c \<in> set calls. tl_tool_call_id c = ev_tool_call_id e \<and> tl_status c = T_SUCCEEDED
             \<and> same_dict (ev_result e) (tl_output c))}"

lemma valid_observed: "e \<in> set (valid_evidence sha evidence calls run_id) \<Longrightarrow> e \<in> observed sha calls run_id evidence"
  using valid_evidence_member [of e sha evidence calls run_id] backed_call [of sha calls run_id e]
  by (auto simp: observed_def backed_def split: option.splits)

lemma evidence_bound_observed:
  "evidence_bound ids (valid_evidence sha evidence calls run_id) \<Longrightarrow>
   ids \<noteq> [] \<and> set ids \<subseteq> JStr ` ev_evidence_id ` observed sha calls run_id evidence"
  unfolding evidence_bound_def using valid_observed [of _ sha evidence calls run_id] by blast

lemma injection_observed:
  assumes "citations_reach_injection gt ids (valid_evidence sha evidence calls run_id) = Inr True"
  shows "\<exists>d ms e. gt_injection_evidence gt = Some d \<and> items_of ''markers'' d = Inr ms \<and> ms \<noteq> []
    \<and> e \<in> observed sha calls run_id evidence \<and> JStr (ev_evidence_id e) \<in> set ids
    \<and> reaches (text_of ''path'' d) (map py_str ms) e"
proof -
  let ?d = "case gt_injection_evidence gt of Some d \<Rightarrow> d | None \<Rightarrow> []"
  obtain ms e where ms: "items_of ''markers'' ?d = Inr ms" "ms \<noteq> []"
    and e: "e \<in> set (cited_items ids (valid_evidence sha evidence calls run_id))"
      "reaches (text_of ''path'' ?d) (map py_str ms) e"
    using assms by (auto simp: citations_reach_injection_def Let_def list_ex_iff split: if_splits)
  have "gt_injection_evidence gt \<noteq> None"
  proof
    assume "gt_injection_evidence gt = None"
    with ms show False by (simp add: items_of_def value_or_def)
  qed
  then obtain d where "gt_injection_evidence gt = Some d" by auto
  with ms e cited_items_member [OF e(1)] valid_observed [of e sha evidence calls run_id]
  show ?thesis by auto
qed

lemma score_parts:
  assumes "score_structured_root_cause sha gt rc evidence calls run_id = Inr s"
  obtains ids where "id_set (cited_ids rc) = Inr ids"
    and "sc_evidence_bound s = evidence_bound ids (valid_evidence sha evidence calls run_id)"
    and "citations_reach_injection gt ids (valid_evidence sha evidence calls run_id) = Inr (sc_injection_hit s)"
    and "sc_structured_ok s \<longleftrightarrow> sc_category_ok s \<and> sc_component_ok s \<and> sc_causal_facts_ok s \<and> sc_evidence_bound s"
    and "sc_category_ok s = category_matches (py_lower (gt_fault_category gt)) (py_lower (text_of ''fault_category'' rc))"
  using assms unfolding score_structured_root_cause_def Let_def by (elim bind_sum_Inr [THEN iffD1, elim_format]) auto

text \<open>
  C30. What a score rests on. A root cause counts as correct exactly when category, component and half of
  the causal facts match and its citations are bound; bound means that it cites something and that every
  cited id is that of an observation, an item of the run's evidence with the hash of its content
  that a successful tool call returned. The injected code counts as reached only when one of these cited
  observations is the injected file and shows every marker of the ground truth.
\<close>

theorem score_grounded:
  assumes "score_structured_root_cause sha gt rc evidence calls run_id = Inr s"
  shows "\<exists>ids. id_set (cited_ids rc) = Inr ids
    \<and> (sc_structured_ok s \<longleftrightarrow> sc_category_ok s \<and> sc_component_ok s \<and> sc_causal_facts_ok s \<and> sc_evidence_bound s)
    \<and> (sc_evidence_bound s \<longrightarrow> ids \<noteq> [] \<and> set ids \<subseteq> JStr ` ev_evidence_id ` observed sha calls run_id evidence)
    \<and> (sc_injection_hit s \<longrightarrow> (\<exists>d ms e. gt_injection_evidence gt = Some d \<and> items_of ''markers'' d = Inr ms
         \<and> ms \<noteq> [] \<and> e \<in> observed sha calls run_id evidence \<and> JStr (ev_evidence_id e) \<in> set ids
         \<and> reaches (text_of ''path'' d) (map py_str ms) e))"
proof -
  obtain ids where ids: "id_set (cited_ids rc) = Inr ids"
    "sc_evidence_bound s = evidence_bound ids (valid_evidence sha evidence calls run_id)"
    "citations_reach_injection gt ids (valid_evidence sha evidence calls run_id) = Inr (sc_injection_hit s)"
    "sc_structured_ok s \<longleftrightarrow> sc_category_ok s \<and> sc_component_ok s \<and> sc_causal_facts_ok s \<and> sc_evidence_bound s"
    using score_parts [OF assms] by metis
  have "sc_evidence_bound s \<longrightarrow> ids \<noteq> [] \<and> set ids \<subseteq> JStr ` ev_evidence_id ` observed sha calls run_id evidence"
    using evidence_bound_observed ids(2) by blast
  moreover have "sc_injection_hit s \<longrightarrow> (\<exists>d ms e. gt_injection_evidence gt = Some d \<and> items_of ''markers'' d = Inr ms
      \<and> ms \<noteq> [] \<and> e \<in> observed sha calls run_id evidence \<and> JStr (ev_evidence_id e) \<in> set ids
      \<and> reaches (text_of ''path'' d) (map py_str ms) e)"
    using injection_observed ids(3) by metis
  ultimately show ?thesis using ids(1,4) by blast
qed

text \<open>The fallback of the harness never sees a structured match: it passes no citation.\<close>

lemma score_root_cause_keywords:
  assumes "score_root_cause sha gt summary = Inr b"
  shows "b \<longleftrightarrow> keyword_overlap (py_lower (gt_root_cause gt)) (py_lower summary)"
proof -
  obtain s where s: "score_structured_root_cause sha gt [(''summary'', JStr summary), (''evidence_ids'', JList [])] [] [] [] = Inr s"
    and b: "b \<longleftrightarrow> sc_structured_ok s \<or> keyword_overlap (py_lower (gt_root_cause gt)) (py_lower summary)"
    using assms by (auto simp: score_root_cause_def)
  have "\<not> sc_structured_ok s"
    using score_parts [OF s] by (auto simp: evidence_bound_def valid_evidence_def)
  with b show ?thesis by simp
qed

section \<open>Reports\<close>















lemma attempt_case_total: "\<exists>s' out. attempt_case sha env h c s = (s', Inr out)"
  by (auto simp: attempt_case_def handle_def split: prod.splits sum.splits)














section \<open>The ground truth stays with the harness\<close>

text \<open>Two cases the agent cannot tell apart: they report the same incident and, where the fault is really
  set, the same fault.\<close>

definition same_work :: "EvaluationHarness \<Rightarrow> FaultCase \<Rightarrow> FaultCase \<Rightarrow> bool" where
  "same_work h c c' \<longleftrightarrow> fc_title c = fc_title c' \<and> fc_incident c = fc_incident c'
     \<and> (real_tier h \<longrightarrow> fc_fault_type c = fc_fault_type c' \<and> fc_params c = fc_params c')"

lemma same_work_steps:
  assumes "same_work h c c'"
  shows "incident_request c = incident_request c'" and "execution_settings h c = execution_settings h c'"
    and "prepare_case env h c = prepare_case env h c'"
  using assms by (auto simp: same_work_def incident_request_def execution_settings_def prepare_case_def
      real_tier_def setup_and_reproduce_def)

lemma bind_pure_world: "fst (bind_eff m (\<lambda>x. lift_sum (f x)) s) = fst (m s)"
  by (simp add: bind_eff_def lift_sum_def split: prod.splits sum.splits)

lemma bind_world_cong:
  assumes "\<And>x s. fst (f x s) = fst (g x s)"
  shows "fst (bind_eff m f s) = fst (bind_eff m g s)"
  using assms by (auto simp: bind_eff_def split: prod.splits sum.splits)

lemma run_case_world:
  assumes "same_work h c c'"
  shows "fst (run_case sha env h c s) = fst (run_case sha env h c' s)"
  unfolding run_case_def same_work_steps [OF assms]
  by (intro bind_world_cong) (simp add: lift_sum_def)

lemma attempt_case_world:
  assumes "same_work h c c'"
  shows "fst (attempt_case sha env h c s) = fst (attempt_case sha env h c' s)"
  using run_case_world [OF assms, of sha env s]
  by (auto simp: attempt_case_def handle_def give_def split: prod.splits sum.splits)

text \<open>
  C31. The ground truth never reaches the agent. Two lists of cases that differ in anything but the reported
  incidents (and, in the tiers with a real reference service, the faults that are set) leave
  the same world: the same incidents and runs, executed with the same settings, and the same requests.
  The truth, the expected evidence and the expected fix only enter the outcomes.
\<close>

theorem ground_truth_withheld:
  assumes "list_all2 (same_work h) cases cases'"
  shows "fst (map_eff (attempt_case sha env h) cases s) = fst (map_eff (attempt_case sha env h) cases' s)"
  using assms
proof (induction arbitrary: s rule: list_all2_induct)
  case (Cons c cases c' cases')
  obtain s1 out where 1: "attempt_case sha env h c s = (s1, Inr out)"
    using attempt_case_total [of sha env h c s] by blast
  obtain s1' out' where 2: "attempt_case sha env h c' s = (s1', Inr out')"
    using attempt_case_total [of sha env h c' s] by blast
  have "s1' = s1" using attempt_case_world [OF Cons.hyps(1), of sha env s] 1 2 by simp
  with 1 2 Cons.IH [of s1] show ?case
    by (auto simp: bind_eff_def give_def split: prod.splits sum.splits)
qed simp

section \<open>One case\<close>

definition demo_truth :: FaultGroundTruth where
  "demo_truth = \<lparr>gt_fault_category = ''dependency'', gt_affected_component = ''orders-api /orders'',
     gt_root_cause = ''upstream timeout'', gt_causal_facts = [''upstream calls block''],
     gt_injection_evidence = Some [(''path'', JStr ''app.py''), (''markers'', JList [JStr ''sleep''])]\<rparr>"

definition demo_observation :: "(string \<times> json) list" where
  "demo_observation = [(''content'', JStr ''time.sleep(1)''), (''path'', JStr ''/repo/app.py'')]"

definition demo_eval_item :: EvidenceItem where
  "demo_eval_item = \<lparr>ev_evidence_id = ''e1'', ev_run_id = ''r1'', ev_source = ''code'', ev_source_type = ''tool'',
     ev_tool_call_id = ''t1'', ev_content = [], ev_summary = [], ev_hash = content_hash (\<lambda>s. s) demo_observation,
     ev_result = demo_observation\<rparr>"

definition demo_eval_call :: ToolResult where
  "demo_eval_call = \<lparr>tl_tool_call_id = ''t1'', tl_tool_name = ''read_source_code'', tl_status = T_SUCCEEDED,
     tl_output = demo_observation, tl_error = None, tl_input = JNull, tl_attempt_count = 1,
     tl_error_category = None, tl_trace_id = []\<rparr>"

definition demo_cause :: "(string \<times> json) list" where
  "demo_cause = [(''fault_category'', JStr ''upstream_timeout''), (''affected_component'', JStr ''orders''),
     (''summary'', JStr ''the upstream is slow''), (''evidence_ids'', JList [JStr ''e1''])]"

definition demo_rows :: eval_rows where
  "demo_rows = \<lparr>rr_status = RESOLVED, rr_root_cause = demo_cause, rr_result = [(''test_status'', JStr ''PASSED'')],
     rr_evidence = [demo_eval_item], rr_calls = [demo_eval_call], rr_attempts = [], rr_duration = 2\<rparr>"

text \<open>A world that records what it is asked for.\<close>

definition demo_eval :: "json list eval_env" where
  "demo_eval = \<lparr>he_http = (\<lambda>m p j log. (log @ [JStr p], Inr (200, None))),
     he_create = (\<lambda>req log. (log @ [JObj req], Inr ''r1'')),
     he_execute = (\<lambda>st run_id log. (log @ [JStr run_id], Inr ())),
     he_rows = (\<lambda>run_id log. (log, Inr demo_rows))\<rparr>"

definition demo_harness :: EvaluationHarness where
  "demo_harness = \<lparr>eh_settings = \<lparr>es_tool_backend = ''fake'', es_llm_enabled = False, es_llm_api_key = [],
     es_investigation_only = False, es_evaluation_strategy = ''fixed'', es_sandbox_fault_type = None\<rparr>,
     eh_tier = ''workflow_fake'', eh_strategy = ''fixed''\<rparr>"


definition demo_case :: FaultCase where
  "demo_case = \<lparr>fc_id = ''c1'', fc_title = ''slow'', fc_category = ''dependency'', fc_fault_type = ''dependency_timeout'',
     fc_difficulty = ''medium'', fc_params = [], fc_incident = [],
     fc_ground_truth = demo_truth\<lparr>gt_injection_evidence := None\<rparr>, fc_expected_evidence_sources = [],
     fc_expected_fix_behavior = []\<rparr>"


lemma demo_score: "case score_structured_root_cause (\<lambda>s. s) demo_truth demo_cause [demo_eval_item] [demo_eval_call] ''r1'' of
    Inr s \<Rightarrow> sc_structured_ok s \<and> sc_injection_hit s | Inl e \<Rightarrow> False"
  by code_simp

theorem score_grounded_witness:
  "\<exists>s ids. score_structured_root_cause (\<lambda>s. s) demo_truth demo_cause [demo_eval_item] [demo_eval_call] ''r1'' = Inr s
     \<and> sc_structured_ok s \<and> id_set (cited_ids demo_cause) = Inr ids \<and> ids \<noteq> []
     \<and> set ids \<subseteq> JStr ` ev_evidence_id ` observed (\<lambda>s. s) [demo_eval_call] ''r1'' [demo_eval_item]"
proof -
  obtain s where s: "score_structured_root_cause (\<lambda>s. s) demo_truth demo_cause [demo_eval_item] [demo_eval_call] ''r1'' = Inr s"
    and ok: "sc_structured_ok s"
    using demo_score by (auto split: sum.splits)
  show ?thesis using score_grounded [OF s] s ok by blast
qed


theorem ground_truth_withheld_witness:
  "fst (map_eff (attempt_case (\<lambda>s. s) demo_eval demo_harness) [demo_case] []) =
   fst (map_eff (attempt_case (\<lambda>s. s) demo_eval demo_harness)
     [demo_case\<lparr>fc_id := ''c2'', fc_fault_type := ''wrong_total'', fc_ground_truth := demo_truth\<rparr>] [])"
proof -
  have "list_all2 (same_work demo_harness) [demo_case]
      [demo_case\<lparr>fc_id := ''c2'', fc_fault_type := ''wrong_total'', fc_ground_truth := demo_truth\<rparr>]"
    by (simp add: same_work_def real_tier_def demo_harness_def)
  then show ?thesis by (rule ground_truth_withheld)
qed

end
