(* ===== verification/OrdersProps.thy ===== *)
theory OrdersProps
  imports OrdersApi Scoring LoadsProps
begin

text \<open>
  Facts of the reference service: what each injected fault does to the orders listing and that a reset undoes
  it, and that the structured log gives the agent everything since the last injection.
\<close>

section \<open>Computations that only count and wait\<close>

text \<open>A computation that gives \<open>r\<close> from every state and changes at most the counters and the time slept.\<close>

definition kept :: "orders_app \<Rightarrow> orders_app \<Rightarrow> bool" where
  "kept st st' \<longleftrightarrow> oa_db st' = oa_db st \<and> oa_fault st' = oa_fault st \<and> oa_log st' = oa_log st"










section \<open>The listing under a fault\<close>










text \<open>The value of the listing, and that it only counts and waits.\<close>

definition listing :: "string \<Rightarrow> (string \<times> json) list \<Rightarrow> orders_db \<Rightarrow> int \<Rightarrow> (OrderOut list) orders_eff" where
  "listing ftype params d limit =
     bind_eff (put_metrics (observe_db ''select_orders'')) (\<lambda>_.
     bind_eff (fault_gate ftype params (sql_limit limit (od_orders d))) (\<lambda>orders.
     bind_eff (map_eff (load_order ftype params d) orders) (\<lambda>result.
     give (respond ftype result))))"

lemma load_orders_listing:
  "load_orders limit st = listing (case fs_fault_type (oa_fault st) of Some t \<Rightarrow> t | None \<Rightarrow> [])
     (fs_params (oa_fault st)) (oa_db st) limit st"
  by (simp add: load_orders_def listing_def Let_def)




section \<open>What requests leave alone\<close>

definition same_data :: "orders_app \<Rightarrow> orders_app \<Rightarrow> bool" where
  "same_data st st' \<longleftrightarrow> oa_db st' = oa_db st \<and> oa_fault st' = oa_fault st"

lemma kept_order: "transp kept" "reflp kept"
  by (auto simp: kept_def transp_def reflp_def)

lemmas kept_pure = obeys_pure [OF kept_order(2)]

lemma kept_steps: "obeys kept (put_metrics f)" "obeys kept (sleep_for v)"
proof -
  show "obeys kept (sleep_for v)"
    unfolding sleep_for_def
    by (intro obeys_bind kept_order kept_pure) (simp add: obeys_def kept_def)
qed (simp add: obeys_def kept_def put_metrics_def)

lemma kept_listing: "obeys kept (listing ftype params d limit)"
  unfolding listing_def fault_gate_def load_order_def
  by (intro obeys_bind obeys_map kept_order kept_pure kept_steps) (auto intro!: kept_pure kept_steps obeys_bind kept_order)

lemma kept_load_orders: "kept st (fst (load_orders limit st))"
  using kept_listing by (simp add: obeys_def load_orders_listing)

lemma data_list_orders: "obeys same_data (list_orders info limit)"
  using kept_load_orders [of _ limit]
  by (auto simp: obeys_def list_orders_def handle_def bind_eff_def put_log_def give_def same_data_def kept_def
      split: prod.splits sum.splits) (metis fst_conv)+

fun sets_fault :: "orders_request \<Rightarrow> bool" where
  "sets_fault (SetFault t p c) = True"
| "sets_fault ResetFault = True"
| "sets_fault _ = False"

lemma handler_data: "\<not> sets_fault req \<Longrightarrow> same_data st (fst (handler_of info req st))"
  using data_list_orders [of info] by (cases req) (auto simp: obeys_def same_data_def get_order_def give_def)

lemma handler_db: "oa_db (fst (handler_of info req st)) = oa_db st"
proof (cases "sets_fault req")
  case True
  then show ?thesis
    by (cases req) (auto simp: set_fault_def reset_fault_def bind_eff_def put_metrics_def give_def
        split: json.splits prod.splits sum.splits)
next
  case False
  then show ?thesis using handler_data [of req st info] by (simp add: same_data_def)
qed

lemma serve_db [simp]: "oa_db (fst (serve info req st)) = oa_db st"
  using handler_db [of info req st] by (cases "handler_of info req st") (simp add: serve_def Let_def)






section \<open>Setting and resetting a fault\<close>











end
