(* ===== verification/IncidentWindow.thy ===== *)
theory IncidentWindow
  imports OrdersProps OpsProps
begin

text \<open>
  The structured log between the two servers: what the reference service writes, one line of JSON per
  request and per failed listing, and what \<open>read_logs\<close> of the operations server makes of it.
\<close>

section \<open>What a request logs\<close>










section \<open>Reading the lines back\<close>
















section \<open>The window of the incident\<close>



















end
