(* ===== verification/RefGit.thy ===== *)
theory RefGit
  imports Sandbox Http
begin

text \<open>
  Preparing the host: \<open>benchmarks/reference_git_fixture.py\<close>, which builds a git repository from the reference
  sources; \<open>init_schema\<close> of \<open>persistence/session.py\<close>; and the bounded reading of a child process in
  \<open>sandbox/process.py\<close> (the branch of POSIX systems). \<open>git\<close>, the database and the process are parameters. A
  \<open>SystemExit\<close> is an \<open>OtherError\<close>.
\<close>

section \<open>The reference repository\<close>

definition EXCLUDED_DIRS :: "string list" where
  "EXCLUDED_DIRS = [''__pycache__'', ''.pytest_cache'', ''.mypy_cache'', ''var'', ''.git'', ''node_modules'']"

definition EXCLUDED_SUFFIXES :: "string list" where
  "EXCLUDED_SUFFIXES = [''.pyc'', ''.pyo'', ''.db'', ''.log'', ''.sqlite3'']"

definition DEFERRED_TOP_LEVEL :: "string list" where
  "DEFERRED_TOP_LEVEL = [''faults.py'']"

definition DEFERRED_DIRS :: "string list" where
  "DEFERRED_DIRS = [''tests'']"

datatype source_entry = Regular string | Symlink

text \<open>A directory is the relative paths below it; the world of the build is the files of the destination, the
  state of its repository and the commands \<open>git\<close> was given.\<close>

record 's git_world =
  gw_files :: "(string \<times> string) list"
  gw_git :: 's
  gw_calls :: "string list list"

record 's git_build =
  gb_source :: "(string \<times> source_entry) list option"
  gb_owner :: bool
  gb_git :: "string list \<Rightarrow> (string \<times> string) list \<Rightarrow> 's \<Rightarrow> 's \<times> (exn + string)"
  gb_no_repo :: 's
  gb_destination :: string

definition git_command :: "'s git_build \<Rightarrow> string list \<Rightarrow> ('s git_world, string) eff" where
  "git_command env args w =
     (case gb_git env args (gw_files w) (gw_git w) of
        (g, r) \<Rightarrow> (w\<lparr>gw_git := g, gw_calls := gw_calls w @ [args]\<rparr>, r))"

definition included :: "string \<Rightarrow> bool" where
  "included path \<longleftrightarrow>
     list_all (\<lambda>part. part \<notin> set EXCLUDED_DIRS) (butlast (path_parts path))
     \<and> \<not> list_ex (\<lambda>suf. ends_with suf (last (path_parts path))) EXCLUDED_SUFFIXES"

definition is_deferred :: "string \<Rightarrow> bool" where
  "is_deferred path \<longleftrightarrow>
     (let parts = path_parts path in
      hd parts \<in> set DEFERRED_DIRS \<or> length parts = 1 \<and> hd parts \<in> set DEFERRED_TOP_LEVEL)"

definition clear_destination :: "'s git_build \<Rightarrow> ('s git_world, unit) eff" where
  "clear_destination env w = (w\<lparr>gw_files := [], gw_git := gb_no_repo env\<rparr>, Inr ())"

fun regular_files :: "(string \<times> source_entry) list \<Rightarrow> (string \<times> string) list" where
  "regular_files [] = []"
| "regular_files ((path, Regular body) # rest) =
     (if included path then (path, body) # regular_files rest else regular_files rest)"
| "regular_files ((path, Symlink) # rest) = regular_files rest"

definition copy_source :: "(string \<times> source_entry) list \<Rightarrow> ('s git_world, string list) eff" where
  "copy_source source w =
     (let files = regular_files (sort_key (\<lambda>e. path_parts (fst e)) source) in
      (w\<lparr>gw_files := gw_files w @ files\<rparr>, Inr (map fst files)))"

definition commit_files :: "'s git_build \<Rightarrow> string list \<Rightarrow> string \<Rightarrow> ('s git_world, string option) eff" where
  "commit_files env files msg =
     (if files = [] then give None
      else bind_eff (git_command env ([''add'', ''--''] @ files)) (\<lambda>_.
           bind_eff (git_command env [''commit'', ''-q'', ''-m'', msg]) (\<lambda>_.
           bind_eff (git_command env [''rev-parse'', ''HEAD'']) (\<lambda>out. give (Some (py_strip out))))))"

record reference_repo =
  rr_path :: string
  rr_base_commit_sha :: "string option"
  rr_head_commit_sha :: "string option"
  rr_files :: nat

definition setup_commands :: "string list list" where
  "setup_commands = [[''init'', ''-q'', ''-b'', ''main''],
     [''config'', ''user.email'', ''reference@incidentpilot.local''],
     [''config'', ''user.name'', ''IncidentPilot Reference''], [''config'', ''commit.gpgsign'', ''false'']]"

definition build_reference_repo :: "'s git_build \<Rightarrow> ('s git_world, reference_repo) eff" where
  "build_reference_repo env =
     (case gb_source env of
        None \<Rightarrow> fail (OtherError ''reference source directory not found'')
      | Some source \<Rightarrow>
          if \<not> gb_owner env then fail (OtherError ''git would refuse to read the repository built there'')
          else
            bind_eff (clear_destination env) (\<lambda>_.
            bind_eff (copy_source source) (\<lambda>copied.
            bind_eff (ensure (copied \<noteq> []) (OtherError ''no reference files found'')) (\<lambda>_.
            bind_eff (map_eff (git_command env) setup_commands) (\<lambda>_.
            bind_eff (commit_files env (filter (\<lambda>p. \<not> is_deferred p) copied) ''orders-api service'') (\<lambda>base.
            bind_eff (commit_files env (filter is_deferred copied) ''fault injection and regression tests'') (\<lambda>second.
            bind_eff (git_command env [''status'', ''--porcelain'']) (\<lambda>status.
            bind_eff (ensure (py_strip status = [])
              (OtherError ''the built repository does not match the reference source'')) (\<lambda>_.
            give \<lparr>rr_path = gb_destination env, rr_base_commit_sha = base,
              rr_head_commit_sha = str_or second base, rr_files = length copied\<rparr>)))))))))"







lemma refused_build_untouched:
  "gb_source env = None \<or> \<not> gb_owner env \<Longrightarrow> fst (build_reference_repo env w) = w"
  by (auto simp: build_reference_repo_def fail_def split: option.splits)




section \<open>The schema of the control plane\<close>

record db_error =
  de_sqlstate :: "string option"
  de_pgcode :: "string option"
  de_programming :: bool
  de_text :: string

definition missing_table :: "db_error \<Rightarrow> bool" where
  "missing_table e = (case str_or (de_sqlstate e) (de_pgcode e) of
     Some state \<Rightarrow> state = ''42P01''
   | None \<Rightarrow> de_programming e \<and> contains ''does not exist'' (de_text e))"

datatype schema_action = CreateAll | Probe

text \<open>The actions on the database and the outcome; \<open>probe\<close> is what the statement on \<open>agent_runs\<close> raises.\<close>

definition init_schema :: "string \<Rightarrow> string \<Rightarrow> db_error option \<Rightarrow> schema_action list \<times> (exn + unit)" where
  "init_schema database_url environment probe =
     (if prefix ''sqlite'' database_url then
        if environment \<notin> {''development'', ''test''}
        then ([], Inl (RuntimeError ''sqlite is not a supported control plane''))
        else ([CreateAll], Inr ())
      else ([Probe], case probe of
          None \<Rightarrow> Inr ()
        | Some e \<Rightarrow> if missing_table e then Inl (RuntimeError ''database has no IncidentPilot schema'')
                    else Inl (OtherError (de_text e))))"

lemma schema_only_bootstrapped_for_tests:
  "CreateAll \<in> set (fst (init_schema url environment probe)) \<longleftrightarrow>
     prefix ''sqlite'' url \<and> environment \<in> {''development'', ''test''}"
  by (auto simp: init_schema_def)

section \<open>Reading a child process\<close>

definition OUTPUT_LIMIT :: int where
  "OUTPUT_LIMIT = 256000"

text \<open>The chunks a pipe delivers, up to the empty one at its end.\<close>

fun drain :: "string \<Rightarrow> string list \<Rightarrow> exn + string" where
  "drain chunks [] = Inr chunks"
| "drain chunks (c # cs) =
     (if c = [] then Inr chunks
      else if OUTPUT_LIMIT < int (length chunks + length c) then Inl (ValueError ''subprocess output limit exceeded'')
      else drain (chunks @ c) cs)"

record child =
  ch_stdout :: "string list"
  ch_stderr :: "string list"
  ch_returncode :: int
  ch_in_time :: bool

text \<open>The process group is killed on every path; the second value says so.\<close>

definition run_process :: "(string \<Rightarrow> string) \<Rightarrow> child \<Rightarrow> (exn + int \<times> string \<times> string) \<times> bool" where
  "run_process decode ch =
     ((case drain [] (ch_stdout ch) of
         Inl e \<Rightarrow> Inl e
       | Inr out \<Rightarrow> (case drain [] (ch_stderr ch) of
           Inl e \<Rightarrow> Inl e
         | Inr err \<Rightarrow> if ch_in_time ch then Inr (ch_returncode ch, decode out, decode err) else Inl (TimeoutError []))), True)"

lemma drain_all:
  assumes "list_all (\<lambda>c. c \<noteq> []) cs" and "int (length chunks) \<le> OUTPUT_LIMIT"
  shows "drain chunks cs = (if int (length (chunks @ concat cs)) \<le> OUTPUT_LIMIT then Inr (chunks @ concat cs)
    else Inl (ValueError ''subprocess output limit exceeded''))"
  using assms
proof (induction cs arbitrary: chunks)
  case (Cons c cs)
  show ?case
  proof (cases "OUTPUT_LIMIT < int (length chunks + length c)")
    case True
    then show ?thesis using Cons.prems(1) by simp
  next
    case False
    then show ?thesis using Cons.prems(1) Cons.IH [of "chunks @ c"] by simp
  qed
qed simp

end
