(* ===== verification/Spec2Isabelle.thy ===== *)
theory Spec2Isabelle
  imports GitHubProps GraphProps GraphBudget SandboxProps WorkerProps ApiProps Provider OpsProps EvalProps IncidentWindow RefGit
begin

text \<open>
  A verification development for IncidentPilot, a service that takes incident reports, lets an agent
  investigate them with read-only tools, tests a patch in a sandbox, asks a human for approval and then
  opens one pull request. Paths below are relative to \<open>src/incidentpilot/\<close> unless they start otherwise.

  \<^bold>\<open>How the parts interact.\<close> The API (\<open>api/\<close>) stores an incident and a run in the database. Workers
  (\<open>worker.py\<close>) claim runs from the queue (\<open>persistence/jobs.py\<close>) under a lease and drive the executor
  (\<open>agent/executor.py\<close>), which runs the agent graph (\<open>agent/graph.py\<close>). The graph asks a decision model
  (\<open>agent/decision.py\<close>, \<open>llm/provider.py\<close>) for the next step, calls tools through the gateway
  (\<open>tools/gateway.py\<close>), collects evidence (\<open>agent/evidence.py\<close>), applies and tests a patch in the sandbox
  (\<open>sandbox/manager.py\<close>) and stops with a request for approval (\<open>services/incidents.py\<close>,
  \<open>services/artifacts.py\<close>). After the approval a worker claims the run again and resumes it
  (\<open>agent/approval_resume.py\<close>), which calls GitHub (\<open>github/integration.py\<close>). Every write of a worker
  passes the ownership fence (\<open>persistence/ownership.py\<close>).

  \<^bold>\<open>Conventions.\<close> A row is a record and the database a record of tables (lists of rows in the order of
  insertion); a transaction is a function of the database that returns the new database and an error or
  a value. Exceptions are the datatype \<open>exn\<close>; a fallible function returns \<open>exn + 'a\<close>. Python integers
  are \<open>int\<close> or \<open>nat\<close>, JSON values the datatype \<open>json\<close>, dictionaries association lists where the order
  counts. Time is a parameter: every transaction and every event reads its own instant. Strings are lists
  of characters; a character of HOL stands for one code point below 256.

  \<^bold>\<open>Theories, in dependency order.\<close>
  \<^item> \<open>Prelude\<close>: exceptions, time, SQL-like list operations, string helpers and their lemmas.
    \<open>PyJson\<close>: JSON values and \<open>json.dumps\<close>; \<open>Loads\<close>, \<open>LoadsProps\<close>: \<open>json.loads\<close> and the round trip.
  \<^item> \<open>Enums\<close> (\<open>models/enums.py\<close>), \<open>Models\<close> (\<open>models/db.py\<close>, \<open>persistence/repo.py\<close>): statuses, the
    machine \<open>RUN_TRANSITIONS\<close>, rows and tables.
  \<^item> \<open>Jobs\<close>, \<open>JobFacts\<close>, \<open>JobProps\<close> (\<open>persistence/jobs.py\<close>), \<open>Ownership\<close>, \<open>RunService\<close>: queue, leases,
    retries, the fence and \<open>mark_status\<close>. \<open>LeaseProtocol\<close>, \<open>LeaseProps\<close>: all transactions of all
    parties as one step relation; mutual exclusion, bounded claims and the refinement of
    \<open>RUN_TRANSITIONS\<close> hold in every reachable state.
  \<^item> \<open>Artifacts\<close>, \<open>Approvals\<close>, \<open>ApprovalProps\<close>: artifacts, test runs, the decision of a human.
    \<open>GitHubMock\<close>, \<open>ApprovalResume\<close>, \<open>ResumeProps\<close>: the resume of an approved run and its side effect;
    the locale \<open>pr_provider\<close> is what it asks of a GitHub client. \<open>Http\<close>: computations that thread a state
    and may raise, the calculus \<open>obeys\<close> of what they keep, decoded JSON and responses; \<open>Base64\<close>.
    \<open>GitHubReal\<close>, \<open>GitHubProps\<close> (\<open>github/integration.py\<close>): the enabled client, request by request; what it
    writes is guarded, is what was approved and is fenced (locale \<open>authorized_writer\<close>).
  \<^item> \<open>ToolData\<close> (\<open>tools/data.py\<close>), \<open>Gateway\<close>, \<open>GatewayProps\<close> (\<open>tools/gateway.py\<close>), \<open>FakeTools\<close>
    (\<open>tools/fake.py\<close>): redaction, bounded contexts, validation, budgets and retries of tool calls.
  \<^item> \<open>Evidence\<close> (\<open>agent/evidence.py\<close>, \<open>agent/reasoning.py\<close>), \<open>Decision\<close> (\<open>agent/decision.py\<close>,
    \<open>llm/schemas.py\<close>), \<open>Provider\<close> (\<open>llm/provider.py\<close>): evidence, root causes, decisions, the language model.
  \<^item> \<open>Sandbox\<close>, \<open>SandboxProps\<close> (\<open>sandbox/manager.py\<close>): patch paths, application and tests of a patch.
  \<^item> \<open>GraphStore\<close>, \<open>Graph\<close>, \<open>GraphFacts\<close>, \<open>GraphDemo\<close>, \<open>GraphProps\<close>, \<open>GraphBudget\<close> (\<open>agent/graph.py\<close>):
    every node and edge of the agent; termination, grounding of root causes, tested patches, budgets.
    \<open>GraphDemo\<close> instantiates the parameters for the witnesses.
  \<^item> \<open>Executor\<close> (\<open>agent/executor.py\<close>), \<open>Worker\<close>, \<open>WorkerProps\<close> (\<open>worker.py\<close>), \<open>Api\<close>, \<open>ApiProps\<close>
    (\<open>api/app.py\<close>, \<open>api/auth.py\<close>).
  \<^item> \<open>SqlGuard\<close> (\<open>tools/sql_guard.py\<close>), \<open>OpsServer\<close> (\<open>ops_mcp/ops_readonly/server.py\<close> of the repository's
    root), \<open>McpAdapter\<close> (\<open>tools/mcp_adapter.py\<close>), \<open>OpsProps\<close>: the read-only tools on both sides of MCP:
    which queries reach the database and under which role, complete source windows, and that neither the
    fake backend nor a stale cache answers for a live source.
  \<^item> \<open>Scoring\<close> (\<open>eval/scoring.py\<close>, \<open>benchmarks/fault_cases.py\<close>), \<open>EvalHarness\<close>, \<open>EvalProps\<close>
    (\<open>eval/harness.py\<close>): the evaluation; what a score rests on, that the ground truth stays away from
    the agent, what the numbers of a report mean.
  \<^item> \<open>OrdersApi\<close>, \<open>OrdersProps\<close> (\<open>reference/orders_api/\<close> of the root): the reference service, its injected
    faults, counters and log. \<open>IncidentWindow\<close>: the log it writes as the operations server reads it.
  \<^item> \<open>RefGit\<close> (\<open>benchmarks/reference_git_fixture.py\<close>, \<open>persistence/session.py\<close>, \<open>sandbox/process.py\<close>): the
    repository of the reference sources, the preparation of the schema, bounded output of a child process.

  \<^bold>\<open>Bounds and fuel.\<close> The driver of the graph runs with the recursion limit 50 of the code
  (\<open>RECURSION_LIMIT\<close>); \<open>graph_terminates\<close> shows that \<open>13 + 3 * max_patch_attempts\<close> visits are enough, so
  the limit is not met while \<open>max_patch_attempts\<close> is at most 12 (the default is 3; \<open>config.py\<close> does not
  bound it). The loop of tool calls runs on the remaining steps of the budget. Structured requests try three times, each with at most three posts. \<open>loads\<close> has the
  fuel \<open>2 * length + 2\<close>, which every well-formed text leaves unspent (\<open>loads_dumps\<close>). All other loops
  are structural recursions or come with a termination proof.

  \<^bold>\<open>Parameters.\<close> SHA-256, fresh identifiers, clocks, random jitter, git, the test process, the HTTP
  endpoints, schema validation of the provider and the language model are arguments of the definitions; so
  are the answers of GitHub, the trees of \<open>sqlglot\<close>, the database of the reference service, the MCP session,
  \<open>yaml\<close> and, for the harness, the execution of a run and the rows it leaves.

  \<^bold>\<open>Not modelled.\<close> Configuration defaults (\<open>config.py\<close>), engines and sessions of SQLAlchemy
  (\<open>persistence/session.py\<close> beyond the preparation of the schema), response schemas (\<open>models/schemas.py\<close>),
  telemetry (\<open>observability/\<close>), the Windows branch and the cancellation of \<open>sandbox/process.py\<close> (the sandbox
  takes a finished process as its parameter \<open>process\<close>), migrations, load and chaos experiments, scripts, an
  older copy of the fault case loader (\<open>benchmarks/\<close> of the root) and the demo page: these are input and
  output, configuration, data definition or glue.
\<close>

end
